(* ===== verification/Prelude.thy ===== *)
theory Prelude
  imports Main "HOL-Library.State_Monad" "HOL-Library.Sublist"
begin

text \<open>
  The prelude of the development: what every component theory shares.

  \<^item> Go's machine integers and times. \<open>time.Duration\<close> is a signed 64-bit number of
    nanoseconds: sums, differences and products wrap (\<open>wrap64\<close>), and the difference of two
    instants saturates (\<open>time_Sub\<close>). An instant is the integer number of nanoseconds
    since the Unix epoch.
  \<^item> Go's \<open>map[string]string\<close>, which may be \<open>nil\<close>: reading a \<open>nil\<close> map finds
    nothing, writing one panics.
  \<^item> The string functions of the standard library the operator uses (\<open>strings\<close>,
    \<open>strconv\<close>).
  \<^item> The errors the operator distinguishes, as one datatype, with the message and the
    \<open>IsNotFound\<close>/\<open>IsNoMatch\<close> tests of the API machinery.
  \<^item> The effect discipline: a stateful operation is a \<open>state\<close> computation over a world
    (everything behind the Kubernetes client) and a trace of the calls that change something;
    \<open>emits P m\<close> says that \<open>m\<close> only ever appends calls that satisfy \<open>P\<close>, and \<open>returns Q m\<close> that
    whatever it returns satisfies \<open>Q\<close>; \<open>safe P Q m\<close> is both.
\<close>

named_theorems dur_defs \<open>the definitions of the duration and time arithmetic\<close>
named_theorems returns_intros \<open>the rules that bound what a computation returns\<close>
named_theorems safe_intros \<open>the rules that bound both\<close>
named_theorems emits_intros \<open>the rules that bound what a computation appends to the trace\<close>

section \<open>Definitions\<close>

subsection \<open>Durations and instants\<close>

type_synonym time = int
type_synonym duration = int

definition min64 :: int where "min64 = - (2 ^ 63)"

definition max64 :: int where "max64 = 2 ^ 63 - 1"

definition wrap64 :: "int \<Rightarrow> int" where
  "wrap64 x = (x + 2 ^ 63) mod 2 ^ 64 - 2 ^ 63"

definition clamp64 :: "int \<Rightarrow> int" where
  "clamp64 x = (if x < min64 then min64 else if max64 < x then max64 else x)"

definition in64 :: "int \<Rightarrow> bool" where
  "in64 x \<longleftrightarrow> min64 \<le> x \<and> x \<le> max64"

definition dur_add :: "duration \<Rightarrow> duration \<Rightarrow> duration" where
  "dur_add a b = wrap64 (a + b)"

definition dur_sub :: "duration \<Rightarrow> duration \<Rightarrow> duration" where
  "dur_sub a b = wrap64 (a - b)"

definition dur_mul :: "int \<Rightarrow> duration \<Rightarrow> duration" where
  "dur_mul n d = wrap64 (n * d)"

text \<open>\<open>time.Time.Add\<close>, \<open>Sub\<close>, \<open>After\<close>, \<open>Before\<close>.\<close>

definition time_Add :: "time \<Rightarrow> duration \<Rightarrow> time" where
  "time_Add t d = t + d"

definition time_Sub :: "time \<Rightarrow> time \<Rightarrow> duration" where
  "time_Sub t u = clamp64 (t - u)"

definition time_After :: "time \<Rightarrow> time \<Rightarrow> bool" where
  "time_After t u \<longleftrightarrow> u < t"

definition time_Before :: "time \<Rightarrow> time \<Rightarrow> bool" where
  "time_Before t u \<longleftrightarrow> t < u"

definition second :: duration where "second = 1000000000"

definition minute :: duration where "minute = 60 * 1000000000"

definition hour :: duration where "hour = 60 * 60 * 1000000000"

subsection \<open>Maps from strings to strings\<close>

type_synonym gomap = "(string \<rightharpoonup> string) option"

text \<open>\<open>v, ok := m[k]\<close> and \<open>v := m[k]\<close>; a \<open>nil\<close> map has no keys.\<close>

definition lookup2 :: "gomap \<Rightarrow> string \<Rightarrow> string option" where
  "lookup2 m k = (case m of None \<Rightarrow> None | Some f \<Rightarrow> f k)"

definition lookup1 :: "gomap \<Rightarrow> string \<Rightarrow> string" where
  "lookup1 m k = (case lookup2 m k of None \<Rightarrow> '''' | Some v \<Rightarrow> v)"

subsection \<open>Lists\<close>

text \<open>A loop over a slice that changes, or drops, the first match and breaks; and the index of the first match.\<close>

fun update_first :: "('a \<Rightarrow> bool) \<Rightarrow> ('a \<Rightarrow> 'a) \<Rightarrow> 'a list \<Rightarrow> 'a list" where
  "update_first P f [] = []"
| "update_first P f (x # xs) = (if P x then f x # xs else x # update_first P f xs)"

fun remove_first :: "('a \<Rightarrow> bool) \<Rightarrow> 'a list \<Rightarrow> 'a list" where
  "remove_first P [] = []"
| "remove_first P (x # xs) = (if P x then xs else x # remove_first P xs)"

fun find_pos :: "('a \<Rightarrow> bool) \<Rightarrow> 'a list \<Rightarrow> nat option" where
  "find_pos P [] = None"
| "find_pos P (x # xs) = (if P x then Some 0 else map_option Suc (find_pos P xs))"

subsection \<open>Strings\<close>

definition HasSuffix :: "string \<Rightarrow> string \<Rightarrow> bool" where
  "HasSuffix s suf \<longleftrightarrow> suffix suf s"

definition TrimSuffix :: "string \<Rightarrow> string \<Rightarrow> string" where
  "TrimSuffix s suf = (if suffix suf s then take (length s - length suf) s else s)"

definition Contains :: "string \<Rightarrow> string \<Rightarrow> bool" where
  "Contains s t \<longleftrightarrow> sublist t s"

definition to_lower :: "char \<Rightarrow> char" where
  "to_lower c = (let n = of_char c :: nat in if 65 \<le> n \<and> n \<le> 90 then char_of (n + 32) else c)"

text \<open>\<open>strings.EqualFold\<close> on the ASCII strings Kubernetes allows as kinds.\<close>

definition EqualFold :: "string \<Rightarrow> string \<Rightarrow> bool" where
  "EqualFold s t \<longleftrightarrow> map to_lower s = map to_lower t"

text \<open>\<open>strings.Split(s, "/")\<close>: always at least one part.\<close>

fun split_slash :: "string \<Rightarrow> string list" where
  "split_slash [] = [[]]"
| "split_slash (c # cs) =
     (if c = CHR ''/'' then [] # split_slash cs
      else (case split_slash cs of [] \<Rightarrow> [[c]] | p # ps \<Rightarrow> (c # p) # ps))"

text \<open>\<open>strings.Join(parts, ",")\<close>.\<close>

fun join_comma :: "string list \<Rightarrow> string" where
  "join_comma [] = []"
| "join_comma [s] = s"
| "join_comma (s # t # ts) = s @ '','' @ join_comma (t # ts)"

definition is_digit :: "char \<Rightarrow> bool" where
  "is_digit c \<longleftrightarrow> (let n = of_char c :: nat in 48 \<le> n \<and> n \<le> 57)"

definition digit_val :: "char \<Rightarrow> int" where
  "digit_val c = int (of_char c) - 48"

definition digits_val :: "string \<Rightarrow> int" where
  "digits_val s = foldl (\<lambda>acc c. 10 * acc + digit_val c) 0 s"

text \<open>\<open>strconv.Atoi\<close>: an optional sign, at least one digit, and a value that fits an \<open>int\<close>.\<close>

definition atoi_digits :: "string \<Rightarrow> int option" where
  "atoi_digits s = (if s \<noteq> [] \<and> list_all is_digit s then Some (digits_val s) else None)"

definition Atoi :: "string \<Rightarrow> int option" where
  "Atoi s =
     (let v = (case s of
                 [] \<Rightarrow> None
               | c # cs \<Rightarrow>
                   if c = CHR ''-'' then map_option uminus (atoi_digits cs)
                   else if c = CHR ''+'' then atoi_digits cs
                   else atoi_digits (c # cs))
      in case v of None \<Rightarrow> None | Some n \<Rightarrow> if in64 n then Some n else None)"

text \<open>\<open>strconv.Itoa\<close>, and the rendering of an ASCII string with \<open>%q\<close>.\<close>

fun show_nat :: "nat \<Rightarrow> string" where
  "show_nat n = (if n < 10 then [char_of (48 + n)] else show_nat (n div 10) @ [char_of (48 + n mod 10)])"

definition Itoa :: "int \<Rightarrow> string" where
  "Itoa n = (if n < 0 then CHR ''-'' # show_nat (nat (- n)) else show_nat (nat n))"

definition hex_digit :: "nat \<Rightarrow> char" where
  "hex_digit n = char_of (if n < 10 then 48 + n else 87 + n)"

definition quote_char :: "char \<Rightarrow> string" where
  "quote_char c =
     (let n = of_char c :: nat
      in case map_of [(34, 34), (92, 92), (7, 97), (8, 98), (12, 102), (10, 110), (13, 114), (9, 116), (11, 118)] n of
           Some k \<Rightarrow> [CHR 0x5C, char_of (k :: nat)]
         | None \<Rightarrow>
             if 32 \<le> n \<and> n \<le> 126 then [c]
             else [CHR 0x5C, CHR ''x'', hex_digit (n div 16), hex_digit (n mod 16)])"

definition quoted :: "string \<Rightarrow> string" where
  "quoted s = CHR 0x22 # concat (map quote_char s) @ [CHR 0x22]"

text \<open>The message of the error \<open>strconv.Atoi\<close> returns.\<close>

definition atoi_error :: "string \<Rightarrow> string" where
  "atoi_error s =
     ''strconv.Atoi: parsing '' @ quoted s @ '': '' @
     (let t = (case s of c # cs \<Rightarrow> if c = CHR ''-'' \<or> c = CHR ''+'' then cs else s | [] \<Rightarrow> s)
      in if atoi_digits t = None then ''invalid syntax'' else ''value out of range'')"

subsection \<open>Errors\<close>

text \<open>
  The errors the operator tells apart. \<open>NotFound\<close>, \<open>NoMatch\<close>, \<open>AlreadyExists\<close> and
  \<open>ApiError\<close> come from the API machinery; \<open>Wrapped\<close> is \<open>errors.Wrapf\<close>; \<open>Panic\<close> is
  a run-time panic, which unwinds the handler it happens in.
\<close>

datatype error =
    NotFound string
  | NoMatch string
  | AlreadyExists string
  | ApiError string
  | AlreadyHeldError string
  | LeaseOverDueError string
  | RemediationCRNotOwned string
  | BrokenTemplateError string
  | NoTemplateLeftError string
  | Errorf string
  | Wrapped string error
  | Aggregate "error list"
  | Panic string

text \<open>\<open>apierrors.IsNotFound\<close>, \<open>meta.IsNoMatchError\<close> and \<open>apierrors.IsAlreadyExists\<close> look through wrapped errors.\<close>

fun IsNotFound :: "error \<Rightarrow> bool" where
  "IsNotFound (NotFound m) = True"
| "IsNotFound (Wrapped m e) = IsNotFound e"
| "IsNotFound e = False"

fun IsNoMatchError :: "error \<Rightarrow> bool" where
  "IsNoMatchError (NoMatch m) = True"
| "IsNoMatchError (Wrapped m e) = IsNoMatchError e"
| "IsNoMatchError e = False"

fun IsAlreadyExists :: "error \<Rightarrow> bool" where
  "IsAlreadyExists (AlreadyExists m) = True"
| "IsAlreadyExists (Wrapped m e) = IsAlreadyExists e"
| "IsAlreadyExists e = False"

fun is_panic :: "error \<Rightarrow> bool" where
  "is_panic (Panic m) = True"
| "is_panic e = False"

text \<open>\<open>errors.Wrapf\<close> on the error of a call: a panic is no error value and passes through.\<close>

definition wrapE :: "string \<Rightarrow> error \<Rightarrow> error" where
  "wrapE msg e = (if is_panic e then e else Wrapped msg e)"

text \<open>The aggregate's message joins the distinct messages of its members.\<close>

fun join_msgs :: "string list \<Rightarrow> string" where
  "join_msgs [] = []"
| "join_msgs [s] = s"
| "join_msgs (s # t # ts) = s @ '', '' @ join_msgs (t # ts)"

fun distinct_msgs :: "string list \<Rightarrow> string list \<Rightarrow> string list" where
  "distinct_msgs seen [] = []"
| "distinct_msgs seen (m # ms) =
     (if m \<in> set seen then distinct_msgs seen ms else m # distinct_msgs (m # seen) ms)"

definition aggregate_msg :: "string list \<Rightarrow> string" where
  "aggregate_msg ms =
     (let ds = distinct_msgs [] ms
      in if length ds = 1 then hd ds else ''['' @ join_msgs ds @ '']'')"

fun error_msg :: "error \<Rightarrow> string" where
  "error_msg (NotFound m) = m"
| "error_msg (NoMatch m) = m"
| "error_msg (AlreadyExists m) = m"
| "error_msg (ApiError m) = m"
| "error_msg (AlreadyHeldError m) =
     ''can't update or invalidate the lease because it is held by different owner: '' @ m"
| "error_msg (LeaseOverDueError m) = m"
| "error_msg (RemediationCRNotOwned m) = m"
| "error_msg (BrokenTemplateError m) = m"
| "error_msg (NoTemplateLeftError m) = m"
| "error_msg (Errorf m) = m"
| "error_msg (Wrapped m e) = m @ '': '' @ error_msg e"
| "error_msg (Aggregate es) = aggregate_msg (map error_msg es)"
| "error_msg (Panic m) = m"

text \<open>\<open>utilerrors.NewAggregate\<close>: \<open>nil\<close> when there is no error among the members.\<close>

definition NewAggregate :: "error option list \<Rightarrow> error option" where
  "NewAggregate es =
     (let errs = List.map_filter id es in if errs = [] then None else Some (Aggregate errs))"

subsection \<open>Computations with a trace\<close>

text \<open>
  \<open>world\<close> is everything behind the client (the API server, the clock, other actors);
  \<open>trace\<close> records the calls that change something, oldest first.
\<close>

record ('w, 'e) st =
  world :: 'w
  trace :: "'e list"

type_synonym ('w, 'e, 'a) io = "(('w, 'e) st, 'a) state"

definition ask :: "('w \<Rightarrow> 'a \<times> 'w) \<Rightarrow> ('w, 'e, 'a) io" where
  "ask f = State (\<lambda>s. case f (world s) of (r, w) \<Rightarrow> (r, s\<lparr>world := w\<rparr>))"

definition emit :: "'e \<Rightarrow> ('w, 'e, unit) io" where
  "emit e = State (\<lambda>s. ((), s\<lparr>trace := trace s @ [e]\<rparr>))"

definition emits :: "('e \<Rightarrow> bool) \<Rightarrow> ('w, 'e, 'a) io \<Rightarrow> bool" where
  "emits P m \<longleftrightarrow>
     (\<forall>s. \<exists>es. trace (snd (run_state m s)) = trace s @ es \<and> list_all P es)"

text \<open>The effects of one run.\<close>

definition effects_of :: "('w, 'e, 'a) io \<Rightarrow> ('w, 'e) st \<Rightarrow> 'e list" where
  "effects_of m s = drop (length (trace s)) (trace (snd (run_state m s)))"

definition returns :: "('a \<Rightarrow> bool) \<Rightarrow> ('w, 'e, 'a) io \<Rightarrow> bool" where
  "returns Q m \<longleftrightarrow> (\<forall>s. Q (fst (run_state m s)))"

definition safe :: "('e \<Rightarrow> bool) \<Rightarrow> ('a \<Rightarrow> bool) \<Rightarrow> ('w, 'e, 'a) io \<Rightarrow> bool" where
  "safe P Q m \<longleftrightarrow> emits P m \<and> returns Q m"

text \<open>\<open>if err != nil { return err }\<close> after a call.\<close>

definition bindE :: "('w, 'e, error + 'a) io \<Rightarrow> ('a \<Rightarrow> ('w, 'e, error + 'b) io) \<Rightarrow> ('w, 'e, error + 'b) io" where
  "bindE m f = State_Monad.bind m (\<lambda>r. case r of Inl e \<Rightarrow> State_Monad.return (Inl e) | Inr a \<Rightarrow> f a)"

section \<open>Lemmas\<close>

subsection \<open>Durations and instants\<close>

lemmas [dur_defs] = dur_add_def dur_sub_def dur_mul_def time_Add_def time_Sub_def
  time_After_def time_Before_def

lemma in64_wrap64 [simp]: "in64 (wrap64 x)"
proof -
  have "0 \<le> (x + 2 ^ 63) mod (2 ^ 64 :: int)" "(x + 2 ^ 63) mod (2 ^ 64 :: int) < 2 ^ 64"
    by simp_all
  then show ?thesis by (simp add: in64_def wrap64_def min64_def max64_def)
qed

lemma wrap64_id [simp]: "in64 x \<Longrightarrow> wrap64 x = x"
  by (simp add: in64_def wrap64_def min64_def max64_def)

lemma clamp64_id [simp]: "in64 x \<Longrightarrow> clamp64 x = x"
  by (simp add: in64_def clamp64_def)

lemma in64_clamp64 [simp]: "in64 (clamp64 x)"
  by (simp add: in64_def clamp64_def min64_def max64_def)

lemma in64_time_Sub [simp]: "in64 (time_Sub t u)"
  by (simp add: time_Sub_def)

lemma time_Sub_pos: "0 < time_Sub t u \<longleftrightarrow> u < t"
  by (auto simp: time_Sub_def clamp64_def min64_def max64_def)

lemma time_Sub_nonneg: "0 \<le> time_Sub t u \<longleftrightarrow> u \<le> t"
  by (auto simp: time_Sub_def clamp64_def min64_def max64_def)

lemma clamp64_less: "in64 d \<Longrightarrow> clamp64 x < d \<longleftrightarrow> x < d \<and> min64 < d"
  by (auto simp: clamp64_def in64_def)

lemma time_units [simp]: "0 < second" "0 < minute" "0 < hour" "second < minute"
  by (simp_all add: second_def minute_def hour_def)

subsection \<open>Maps\<close>

lemma lookup2_simps [simp]:
  "lookup2 None k = None"
  "lookup2 (Some f) k = f k"
  by (simp_all add: lookup2_def)

lemma lookup1_simps [simp]:
  "lookup1 None k = ''''"
  "f k = None \<Longrightarrow> lookup1 (Some f) k = ''''"
  "f k = Some v \<Longrightarrow> lookup1 (Some f) k = v"
  by (simp_all add: lookup1_def)

subsection \<open>Lists\<close>

lemma update_first_noop [simp]: "\<forall>x\<in>set xs. \<not> P x \<Longrightarrow> update_first P f xs = xs"
  by (induction xs) auto

lemma remove_first_noop [simp]: "\<forall>x\<in>set xs. \<not> P x \<Longrightarrow> remove_first P xs = xs"
  by (induction xs) auto

lemma map_update_first [simp]: "(\<And>x. g (f x) = g x) \<Longrightarrow> map g (update_first P f xs) = map g xs"
  by (induction xs) auto

lemma find_update_first:
  assumes "\<And>x. P x \<Longrightarrow> P (f x)"
  shows "find P (update_first P f xs) = map_option f (find P xs)"
  using assms by (induction xs) auto

lemma find_update_first_other:
  assumes "\<And>x. P x \<Longrightarrow> \<not> Q x" "\<And>x. P x \<Longrightarrow> \<not> Q (f x)"
  shows "find Q (update_first P f xs) = find Q xs"
  using assms by (induction xs) auto

lemma find_remove_first_other:
  assumes "\<And>x. P x \<Longrightarrow> \<not> Q x"
  shows "find Q (remove_first P xs) = find Q xs"
  using assms by (induction xs) auto

lemma remove_first_filter:
  "distinct (map g xs) \<Longrightarrow> remove_first (\<lambda>x. g x = k) xs = filter (\<lambda>x. g x \<noteq> k) xs"
proof (induction xs)
  case (Cons x xs)
  have "g x = k \<Longrightarrow> filter (\<lambda>x. g x \<noteq> k) xs = xs"
    using Cons.prems by (intro filter_True) (metis distinct.simps(2) image_eqI list.simps(9) set_map)
  with Cons show ?case by simp
qed simp

lemma find_key:
  "distinct (map g xs) \<Longrightarrow> find (\<lambda>x. g x = k) xs = Some x \<longleftrightarrow> x \<in> set xs \<and> g x = k"
  by (induction xs) auto

lemma find_pos_Some: "find_pos P xs = Some i \<Longrightarrow> i < length xs \<and> P (xs ! i) \<and> (\<forall>j < i. \<not> P (xs ! j))"
  by (induction xs arbitrary: i) (auto split: if_splits simp: nth_Cons split: nat.splits)

lemma find_pos_None [simp]: "find_pos P xs = None \<longleftrightarrow> (\<forall>x\<in>set xs. \<not> P x)"
  by (induction xs) auto

lemma find_append: "find P (xs @ ys) = (case find P xs of Some x \<Rightarrow> Some x | None \<Rightarrow> find P ys)"
  by (induction xs) auto

subsection \<open>Strings\<close>

lemma TrimSuffix_append [simp]: "TrimSuffix (s @ t) t = s"
  by (simp add: TrimSuffix_def suffix_def)

lemma split_slash_Nil [simp]: "split_slash s \<noteq> []"
  by (induction s) (auto split: list.splits)

lemma split_slash_no_slash: "CHR ''/'' \<notin> set s \<Longrightarrow> split_slash s = [s]"
  by (induction s) auto

lemma split_slash_append:
  "CHR ''/'' \<notin> set s \<Longrightarrow> split_slash (s @ CHR ''/'' # t) = s # split_slash t"
  by (induction s) auto

declare show_nat.simps [simp del]

lemma digit_char:
  assumes "d < 10"
  shows "is_digit (char_of (48 + d))" "digit_val (char_of (48 + d)) = int d"
  using assms by (simp_all add: is_digit_def digit_val_def)

lemma show_nat_digits: "show_nat n \<noteq> [] \<and> list_all is_digit (show_nat n)"
proof (induction n rule: show_nat.induct)
  case (1 n)
  then show ?case
    by (subst (1 2) show_nat.simps) (auto simp: digit_char(1) split: if_splits)
qed

lemma digits_val_snoc: "digits_val (s @ [c]) = 10 * digits_val s + digit_val c"
  by (simp add: digits_val_def)

lemma digits_val_show_nat: "digits_val (show_nat n) = int n"
proof (induction n rule: show_nat.induct)
  case (1 n)
  show ?case
  proof (cases "n < 10")
    case True
    then show ?thesis
      by (subst show_nat.simps) (simp add: digits_val_def digit_char(2))
  next
    case False
    with "1.IH" have "digits_val (show_nat (n div 10)) = int (n div 10)" by simp
    moreover have "10 * int (n div 10) + int (n mod 10) = int n"
      by presburger
    ultimately show ?thesis using False
      by (subst show_nat.simps) (simp add: digits_val_snoc digit_char(2))
  qed
qed

lemma digit_not_sign: "is_digit c \<Longrightarrow> c \<noteq> CHR ''-'' \<and> c \<noteq> CHR ''+''"
  by (auto simp: is_digit_def)

lemma atoi_digits_show_nat: "atoi_digits (show_nat n) = Some (int n)"
  using show_nat_digits[of n] by (simp add: atoi_digits_def digits_val_show_nat)

lemma Atoi_Itoa: "in64 n \<Longrightarrow> Atoi (Itoa n) = Some n"
proof (cases "n < 0")
  case True
  assume "in64 n"
  with True show ?thesis by (simp add: Itoa_def Atoi_def atoi_digits_show_nat)
next
  case False
  assume n: "in64 n"
  obtain c cs where s: "show_nat (nat n) = c # cs"
    using show_nat_digits by (metis list.exhaust)
  then have "is_digit c" using show_nat_digits[of "nat n"] by simp
  then have "c \<noteq> CHR ''-'' \<and> c \<noteq> CHR ''+''" by (rule digit_not_sign)
  with False n s atoi_digits_show_nat[of "nat n"] show ?thesis
    by (simp add: Itoa_def Atoi_def)
qed

subsection \<open>Errors\<close>

lemma NewAggregate_None [simp]: "NewAggregate es = None \<longleftrightarrow> (\<forall>e\<in>set es. e = None)"
  by (auto simp: NewAggregate_def Let_def List.map_filter_def filter_empty_conv)

lemma NewAggregate_Some_iff: "(\<exists>e. NewAggregate es = Some e) \<longleftrightarrow> (\<exists>e\<in>set es. e \<noteq> None)"
  using NewAggregate_None[of es] by (cases "NewAggregate es") auto

subsection \<open>Computations\<close>

lemma run_ask [simp]:
  "run_state (ask f) s = (case f (world s) of (r, w) \<Rightarrow> (r, s\<lparr>world := w\<rparr>))"
  by (simp add: ask_def)

lemma run_emit [simp]: "run_state (emit e) s = ((), s\<lparr>trace := trace s @ [e]\<rparr>)"
  by (simp add: emit_def)

lemma run_bindE [simp]:
  "run_state (bindE m f) s =
     (case run_state m s of (Inl e, s') \<Rightarrow> (Inl e, s') | (Inr a, s') \<Rightarrow> run_state (f a) s')"
  by (auto simp: bindE_def split: prod.splits sum.splits)

lemma emitsD:
  assumes "emits P m" and "run_state m s = (r, s')"
  obtains es where "trace s' = trace s @ es" and "list_all P es"
  using assms unfolding emits_def by (metis snd_conv)

lemma emits_effects_of: "emits P m \<Longrightarrow> list_all P (effects_of m s)"
  unfolding emits_def effects_of_def by (metis append_eq_conv_conj)

lemma emits_return [emits_intros]: "emits P (State_Monad.return a)"
  by (simp add: emits_def)

lemma emits_ask [emits_intros]: "emits P (ask f)"
  by (simp add: emits_def split: prod.splits)

lemma emits_emit [emits_intros]: "P e \<Longrightarrow> emits P (emit e)"
  by (simp add: emits_def)

lemma emits_bind [emits_intros]:
  assumes m: "emits P m" and f: "\<And>a. emits P (f a)"
  shows "emits P (State_Monad.bind m f)"
  unfolding emits_def
proof
  fix s
  obtain a s' where run: "run_state m s = (a, s')" by fastforce
  from m run obtain es where es: "trace s' = trace s @ es" "list_all P es" by (rule emitsD)
  obtain b s'' where run': "run_state (f a) s' = (b, s'')" by fastforce
  from f run' obtain es' where es': "trace s'' = trace s' @ es'" "list_all P es'" by (rule emitsD)
  from run run' es es' show "\<exists>es. trace (snd (run_state (State_Monad.bind m f) s)) = trace s @ es \<and> list_all P es"
    by (intro exI[of _ "es @ es'"]) simp
qed

text \<open>The same, when what follows depends on what the first computation returns.\<close>

lemma effects_of_bind:
  assumes m: "emits P m" "run_state m s = (a, s1)" and f: "emits P (f a)"
  shows "list_all P (effects_of (State_Monad.bind m f) s)"
proof -
  obtain es es' where "trace s1 = trace s @ es" "list_all P es" "trace (snd (run_state (f a) s1)) = trace s1 @ es'" "list_all P es'"
    using m f unfolding emits_def by (metis snd_conv)
  with m(2) show ?thesis by (simp add: effects_of_def)
qed

lemma emits_bind_dep:
  assumes m: "emits P m" and f: "\<And>a s s'. run_state m s = (a, s') \<Longrightarrow> emits P (f a)"
  shows "emits P (State_Monad.bind m f)"
  unfolding emits_def
proof
  fix s
  obtain a s' where run: "run_state m s = (a, s')" by fastforce
  from m run obtain es where es: "trace s' = trace s @ es" "list_all P es" by (rule emitsD)
  obtain b s'' where run': "run_state (f a) s' = (b, s'')" by fastforce
  from f[OF run] run' obtain es' where es': "trace s'' = trace s' @ es'" "list_all P es'" by (rule emitsD)
  from run run' es es' show "\<exists>es. trace (snd (run_state (State_Monad.bind m f) s)) = trace s @ es \<and> list_all P es"
    by (intro exI[of _ "es @ es'"]) simp
qed

lemma emits_bindE [emits_intros]:
  "emits P m \<Longrightarrow> (\<And>a. emits P (f a)) \<Longrightarrow> emits P (bindE m f)"
  unfolding bindE_def by (intro emits_bind emits_return) (auto split: sum.splits intro: emits_return)

lemma emits_bindE_dep:
  assumes "emits P m" and "\<And>a s s'. run_state m s = (Inr a, s') \<Longrightarrow> emits P (f a)"
  shows "emits P (bindE m f)"
  unfolding bindE_def by (rule emits_bind_dep[OF assms(1)]) (auto intro: emits_return assms(2) split: sum.splits)

lemma effects_bindE_member:
  assumes "e \<in> set (effects_of (bindE m f) s)" and m: "emits (\<lambda>x. x \<noteq> e) m" and f: "\<And>a. emits (\<lambda>_. True) (f a)"
  obtains a s1 where "run_state m s = (Inr a, s1)" and "e \<in> set (effects_of (f a) s1)"
    and "effects_of (bindE m f) s = effects_of m s @ effects_of (f a) s1"
proof -
  obtain r s1 where run: "run_state m s = (r, s1)" by fastforce
  from m run obtain es where es: "trace s1 = trace s @ es" "list_all (\<lambda>x. x \<noteq> e) es" by (rule emitsD)
  have eff: "effects_of m s = es" using run es by (simp add: effects_of_def)
  have e: "e \<notin> set es" using es(2) by (auto simp: list_all_iff)
  show thesis
  proof (cases r)
    case (Inl err)
    then have "effects_of (bindE m f) s = es" using run es by (simp add: effects_of_def)
    with assms(1) e show ?thesis by simp
  next
    case (Inr a)
    obtain r' s2 where run': "run_state (f a) s1 = (r', s2)" by fastforce
    from f run' obtain es' where es': "trace s2 = trace s1 @ es'" by (rule emitsD)
    have sum: "effects_of (bindE m f) s = es @ es'" and eff': "effects_of (f a) s1 = es'"
      using run run' es(1) es' Inr by (simp_all add: effects_of_def)
    show ?thesis by (rule that[of a s1]) (use assms(1) e run Inr sum eff eff' in simp_all)
  qed
qed

lemma emits_none: "emits (\<lambda>_. False) m \<Longrightarrow> run_state m s = (r, s') \<Longrightarrow> trace s' = trace s"
  by (erule (1) emitsD) (cases "trace s' = trace s", auto simp: list_all_iff)

lemma emits_if [emits_intros]: "(b \<Longrightarrow> emits P m) \<Longrightarrow> (\<not> b \<Longrightarrow> emits P n) \<Longrightarrow> emits P (if b then m else n)"
  by simp

lemma emits_case_sum [emits_intros]:
  "(\<And>e. r = Inl e \<Longrightarrow> emits P (f e)) \<Longrightarrow> (\<And>a. r = Inr a \<Longrightarrow> emits P (g a)) \<Longrightarrow>
     emits P (case r of Inl e \<Rightarrow> f e | Inr a \<Rightarrow> g a)"
  by (cases r) auto

lemma emits_case_option [emits_intros]:
  "(r = None \<Longrightarrow> emits P m) \<Longrightarrow> (\<And>a. r = Some a \<Longrightarrow> emits P (g a)) \<Longrightarrow>
     emits P (case r of None \<Rightarrow> m | Some a \<Rightarrow> g a)"
  by (cases r) auto

lemma emits_case_bool [emits_intros]:
  "(b \<Longrightarrow> emits P m) \<Longrightarrow> (\<not> b \<Longrightarrow> emits P n) \<Longrightarrow> emits P (case b of True \<Rightarrow> m | False \<Rightarrow> n)"
  by (cases b) auto

lemma emits_case_prod [emits_intros]:
  "(\<And>a b. r = (a, b) \<Longrightarrow> emits P (f a b)) \<Longrightarrow> emits P (case r of (a, b) \<Rightarrow> f a b)"
  by (cases r) auto

lemma emits_case_prod_app [emits_intros]:
  "(\<And>a b. r = (a, b) \<Longrightarrow> emits P (f a b c)) \<Longrightarrow> emits P ((case r of (a, b) \<Rightarrow> f a b) c)"
  by (cases r) auto

lemma emits_case_list [emits_intros]:
  "(xs = [] \<Longrightarrow> emits P m) \<Longrightarrow> (\<And>y ys. xs = y # ys \<Longrightarrow> emits P (f y ys)) \<Longrightarrow>
     emits P (case xs of [] \<Rightarrow> m | y # ys \<Rightarrow> f y ys)"
  by (cases xs) auto

lemma emits_case_error [emits_intros]:
  "(\<And>m. e = NotFound m \<Longrightarrow> emits P (f1 m)) \<Longrightarrow>
   (\<And>m. e = NoMatch m \<Longrightarrow> emits P (f2 m)) \<Longrightarrow>
   (\<And>m. e = AlreadyExists m \<Longrightarrow> emits P (f3 m)) \<Longrightarrow>
   (\<And>m. e = ApiError m \<Longrightarrow> emits P (f4 m)) \<Longrightarrow>
   (\<And>m. e = AlreadyHeldError m \<Longrightarrow> emits P (f5 m)) \<Longrightarrow>
   (\<And>m. e = LeaseOverDueError m \<Longrightarrow> emits P (f6 m)) \<Longrightarrow>
   (\<And>m. e = RemediationCRNotOwned m \<Longrightarrow> emits P (f7 m)) \<Longrightarrow>
   (\<And>m. e = BrokenTemplateError m \<Longrightarrow> emits P (f8 m)) \<Longrightarrow>
   (\<And>m. e = NoTemplateLeftError m \<Longrightarrow> emits P (f9 m)) \<Longrightarrow>
   (\<And>m. e = Errorf m \<Longrightarrow> emits P (f10 m)) \<Longrightarrow>
   (\<And>m e'. e = Wrapped m e' \<Longrightarrow> emits P (f11 m e')) \<Longrightarrow>
   (\<And>es. e = Aggregate es \<Longrightarrow> emits P (f12 es)) \<Longrightarrow>
   (\<And>m. e = Panic m \<Longrightarrow> emits P (f13 m)) \<Longrightarrow>
   emits P (case e of NotFound m \<Rightarrow> f1 m | NoMatch m \<Rightarrow> f2 m | AlreadyExists m \<Rightarrow> f3 m | ApiError m \<Rightarrow> f4 m | AlreadyHeldError m \<Rightarrow> f5 m | LeaseOverDueError m \<Rightarrow> f6 m | RemediationCRNotOwned m \<Rightarrow> f7 m | BrokenTemplateError m \<Rightarrow> f8 m | NoTemplateLeftError m \<Rightarrow> f9 m | Errorf m \<Rightarrow> f10 m | Wrapped m e' \<Rightarrow> f11 m e' | Aggregate es \<Rightarrow> f12 es | Panic m \<Rightarrow> f13 m)"
  by (cases e) simp_all

lemma emits_Let [emits_intros]: "(\<And>x. x = t \<Longrightarrow> emits P (f x)) \<Longrightarrow> emits P (Let t f)"
  by (simp add: Let_def)

lemma emits_mono: "emits P m \<Longrightarrow> (\<And>e. P e \<Longrightarrow> Q e) \<Longrightarrow> emits Q m"
  unfolding emits_def by (metis list.pred_mono_strong)

text \<open>What a computation returns.\<close>

lemma returnsD: "returns Q m \<Longrightarrow> run_state m s = (a, s') \<Longrightarrow> Q a"
  unfolding returns_def by (metis fst_conv)

lemma returnsI: "(\<And>s a s'. run_state m s = (a, s') \<Longrightarrow> Q a) \<Longrightarrow> returns Q m"
  unfolding returns_def by (metis prod.collapse)

lemma returns_return [returns_intros]: "Q a \<Longrightarrow> returns Q (State_Monad.return a)"
  by (simp add: returns_def)

lemma returns_bind: "returns R m \<Longrightarrow> (\<And>a. R a \<Longrightarrow> returns Q (f a)) \<Longrightarrow> returns Q (State_Monad.bind m f)"
  by (simp add: returns_def split_beta)

lemma returns_bind_any [returns_intros]: "(\<And>a. returns Q (f a)) \<Longrightarrow> returns Q (State_Monad.bind m f)"
  by (rule returns_bind[where R = "\<lambda>_. True"]) (simp_all add: returns_def)

lemma returns_if [returns_intros]:
  "(b \<Longrightarrow> returns Q m) \<Longrightarrow> (\<not> b \<Longrightarrow> returns Q n) \<Longrightarrow> returns Q (if b then m else n)"
  by simp

lemma returns_case_sum [returns_intros]:
  "(\<And>e. r = Inl e \<Longrightarrow> returns Q (f e)) \<Longrightarrow> (\<And>a. r = Inr a \<Longrightarrow> returns Q (g a)) \<Longrightarrow>
     returns Q (case r of Inl e \<Rightarrow> f e | Inr a \<Rightarrow> g a)"
  by (cases r) auto

lemma returns_case_option [returns_intros]:
  "(r = None \<Longrightarrow> returns Q m) \<Longrightarrow> (\<And>a. r = Some a \<Longrightarrow> returns Q (g a)) \<Longrightarrow>
     returns Q (case r of None \<Rightarrow> m | Some a \<Rightarrow> g a)"
  by (cases r) auto

lemma returns_case_bool [returns_intros]:
  "(b \<Longrightarrow> returns Q m) \<Longrightarrow> (\<not> b \<Longrightarrow> returns Q n) \<Longrightarrow> returns Q (case b of True \<Rightarrow> m | False \<Rightarrow> n)"
  by (cases b) auto

lemma returns_case_prod [returns_intros]:
  "(\<And>a b. r = (a, b) \<Longrightarrow> returns Q (f a b)) \<Longrightarrow> returns Q (case r of (a, b) \<Rightarrow> f a b)"
  by (cases r) auto

lemma returns_case_prod_app [returns_intros]:
  "(\<And>a b. r = (a, b) \<Longrightarrow> returns Q (f a b c)) \<Longrightarrow> returns Q ((case r of (a, b) \<Rightarrow> f a b) c)"
  by (cases r) auto

lemma returns_Let [returns_intros]: "(\<And>x. x = t \<Longrightarrow> returns Q (f x)) \<Longrightarrow> returns Q (Let t f)"
  by (simp add: Let_def)

lemma returns_case_error [returns_intros]:
  "(\<And>m. e = NotFound m \<Longrightarrow> returns Q (f1 m)) \<Longrightarrow>
   (\<And>m. e = NoMatch m \<Longrightarrow> returns Q (f2 m)) \<Longrightarrow>
   (\<And>m. e = AlreadyExists m \<Longrightarrow> returns Q (f3 m)) \<Longrightarrow>
   (\<And>m. e = ApiError m \<Longrightarrow> returns Q (f4 m)) \<Longrightarrow>
   (\<And>m. e = AlreadyHeldError m \<Longrightarrow> returns Q (f5 m)) \<Longrightarrow>
   (\<And>m. e = LeaseOverDueError m \<Longrightarrow> returns Q (f6 m)) \<Longrightarrow>
   (\<And>m. e = RemediationCRNotOwned m \<Longrightarrow> returns Q (f7 m)) \<Longrightarrow>
   (\<And>m. e = BrokenTemplateError m \<Longrightarrow> returns Q (f8 m)) \<Longrightarrow>
   (\<And>m. e = NoTemplateLeftError m \<Longrightarrow> returns Q (f9 m)) \<Longrightarrow>
   (\<And>m. e = Errorf m \<Longrightarrow> returns Q (f10 m)) \<Longrightarrow>
   (\<And>m e'. e = Wrapped m e' \<Longrightarrow> returns Q (f11 m e')) \<Longrightarrow>
   (\<And>es. e = Aggregate es \<Longrightarrow> returns Q (f12 es)) \<Longrightarrow>
   (\<And>m. e = Panic m \<Longrightarrow> returns Q (f13 m)) \<Longrightarrow>
   returns Q (case e of NotFound m \<Rightarrow> f1 m | NoMatch m \<Rightarrow> f2 m | AlreadyExists m \<Rightarrow> f3 m | ApiError m \<Rightarrow> f4 m | AlreadyHeldError m \<Rightarrow> f5 m | LeaseOverDueError m \<Rightarrow> f6 m | RemediationCRNotOwned m \<Rightarrow> f7 m | BrokenTemplateError m \<Rightarrow> f8 m | NoTemplateLeftError m \<Rightarrow> f9 m | Errorf m \<Rightarrow> f10 m | Wrapped m e' \<Rightarrow> f11 m e' | Aggregate es \<Rightarrow> f12 es | Panic m \<Rightarrow> f13 m)"
  by (cases e) simp_all

text \<open>Both at once: what follows may rely on what was returned.\<close>

lemma safeI: "emits P m \<Longrightarrow> returns Q m \<Longrightarrow> safe P Q m"
  by (simp add: safe_def)

lemma safe_emits: "safe P Q m \<Longrightarrow> emits P m"
  by (simp add: safe_def)

lemma safe_returns: "safe P Q m \<Longrightarrow> returns Q m"
  by (simp add: safe_def)

lemma safe_mono: "safe P Q m \<Longrightarrow> (\<And>e. P e \<Longrightarrow> P' e) \<Longrightarrow> (\<And>a. Q a \<Longrightarrow> Q' a) \<Longrightarrow> safe P' Q' m"
  by (auto simp: safe_def returns_def intro: emits_mono)

lemma safe_return [safe_intros]: "Q a \<Longrightarrow> safe P Q (State_Monad.return a)"
  by (simp add: safe_def emits_return returns_return)

lemma safe_bind:
  assumes m: "safe P R m" and f: "\<And>a. R a \<Longrightarrow> safe P Q (f a)"
  shows "safe P Q (State_Monad.bind m f)"
proof (rule safeI)
  have R: "R a" if "run_state m s = (a, s')" for s a s' using safe_returns[OF m] that by (rule returnsD)
  show "emits P (State_Monad.bind m f)"
    using safe_emits[OF m] by (rule emits_bind_dep) (blast intro: safe_emits f R)
  show "returns Q (State_Monad.bind m f)"
    using safe_returns[OF m] by (rule returns_bind) (blast intro: safe_returns f)
qed

lemma safe_bind_any [safe_intros]:
  "emits P m \<Longrightarrow> (\<And>a. safe P Q (f a)) \<Longrightarrow> safe P Q (State_Monad.bind m f)"
  by (rule safe_bind[where R = "\<lambda>_. True"]) (simp_all add: safe_def returns_def)

lemma safe_if [safe_intros]: "(b \<Longrightarrow> safe P Q m) \<Longrightarrow> (\<not> b \<Longrightarrow> safe P Q n) \<Longrightarrow> safe P Q (if b then m else n)"
  by simp

lemma safe_case_sum [safe_intros]:
  "(\<And>e. r = Inl e \<Longrightarrow> safe P Q (f e)) \<Longrightarrow> (\<And>a. r = Inr a \<Longrightarrow> safe P Q (g a)) \<Longrightarrow>
     safe P Q (case r of Inl e \<Rightarrow> f e | Inr a \<Rightarrow> g a)"
  by (cases r) auto

lemma safe_case_option [safe_intros]:
  "(r = None \<Longrightarrow> safe P Q m) \<Longrightarrow> (\<And>a. r = Some a \<Longrightarrow> safe P Q (g a)) \<Longrightarrow>
     safe P Q (case r of None \<Rightarrow> m | Some a \<Rightarrow> g a)"
  by (cases r) auto

lemma safe_case_bool [safe_intros]:
  "(b \<Longrightarrow> safe P Q m) \<Longrightarrow> (\<not> b \<Longrightarrow> safe P Q n) \<Longrightarrow> safe P Q (case b of True \<Rightarrow> m | False \<Rightarrow> n)"
  by (cases b) auto

lemma safe_case_prod [safe_intros]:
  "(\<And>a b. r = (a, b) \<Longrightarrow> safe P Q (f a b)) \<Longrightarrow> safe P Q (case r of (a, b) \<Rightarrow> f a b)"
  by (cases r) auto

lemma safe_case_prod_app [safe_intros]:
  "(\<And>a b. r = (a, b) \<Longrightarrow> safe P Q (f a b c)) \<Longrightarrow> safe P Q ((case r of (a, b) \<Rightarrow> f a b) c)"
  by (cases r) auto

lemma safe_Let [safe_intros]: "(\<And>x. x = t \<Longrightarrow> safe P Q (f x)) \<Longrightarrow> safe P Q (Let t f)"
  by (simp add: Let_def)

lemma safe_ask: "(\<And>w. Q (fst (f w))) \<Longrightarrow> safe P Q (ask f)"
  unfolding safe_def returns_def by (simp add: emits_ask split: prod.splits) (metis fst_conv)

lemma safe_bindE:
  assumes "safe P R m" "\<And>e. R (Inl e) \<Longrightarrow> Q (Inl e)" "\<And>a. R (Inr a) \<Longrightarrow> safe P Q (f a)"
  shows "safe P Q (bindE m f)"
  unfolding bindE_def by (rule safe_bind[OF assms(1)]) (auto intro: safe_return assms split: sum.splits)

lemma safe_run:
  assumes "\<And>s. \<exists>a w. run_state m s = (a, s\<lparr>world := w\<rparr>) \<and> Q a"
  shows "safe P Q m"
proof -
  have "trace (snd (run_state m s)) = trace s \<and> Q (fst (run_state m s))" for s using assms[of s] by auto
  then show ?thesis by (simp add: safe_def emits_def returns_def)
qed

lemma map_sum_Inr: "map_sum f g x = Inr b \<longleftrightarrow> (\<exists>a. x = Inr a \<and> b = g a)"
  by (cases x) auto

end
