(* ===== verification/Kube_Objects.thy ===== *)
theory Kube_Objects
  imports Prelude
begin

text \<open>
  The Kubernetes objects the operator handles, as far as it looks at them: group, version and
  kind with their string forms (\<open>schema.ParseGroupVersion\<close> and its inverse), unstructured
  objects (remediation CRs and their templates) with the typed accessors of
  \<open>unstructured.Nested*\<close>, owner references, nodes, machines and label selectors.
  \<open>nil\<close> and empty slices are identified; \<open>nil\<close> maps are kept apart from empty ones,
  because writing to a \<open>nil\<close> map panics.
\<close>

section \<open>Definitions\<close>

subsection \<open>Group, version, kind\<close>

record GroupVersionKind =
  gvk_Group :: string
  gvk_Version :: string
  gvk_Kind :: string

definition ParseGroupVersion :: "string \<Rightarrow> (string \<times> string) option" where
  "ParseGroupVersion gv =
     (if gv = [] \<or> gv = ''/'' then Some ([], [])
      else case split_slash gv of
             [v] \<Rightarrow> Some ([], v)
           | [g, v] \<Rightarrow> Some (g, v)
           | _ \<Rightarrow> None)"

definition GroupVersion_String :: "string \<Rightarrow> string \<Rightarrow> string" where
  "GroupVersion_String g v = (if g \<noteq> [] then g @ ''/'' @ v else v)"

definition FromAPIVersionAndKind :: "string \<Rightarrow> string \<Rightarrow> GroupVersionKind" where
  "FromAPIVersionAndKind apiVersion kind =
     (case ParseGroupVersion apiVersion of
        Some (g, v) \<Rightarrow> \<lparr>gvk_Group = g, gvk_Version = v, gvk_Kind = kind\<rparr>
      | None \<Rightarrow> \<lparr>gvk_Group = [], gvk_Version = [], gvk_Kind = kind\<rparr>)"

definition ToAPIVersionAndKind :: "GroupVersionKind \<Rightarrow> string \<times> string" where
  "ToAPIVersionAndKind g =
     (if gvk_Group g = [] \<and> gvk_Version g = [] \<and> gvk_Kind g = [] then ([], [])
      else (GroupVersion_String (gvk_Group g) (gvk_Version g), gvk_Kind g))"

subsection \<open>References\<close>

record ObjectReference =
  or_Kind :: string
  or_Namespace :: string
  or_Name :: string
  or_UID :: string
  or_APIVersion :: string

definition or_GVK :: "ObjectReference \<Rightarrow> GroupVersionKind" where
  "or_GVK r = FromAPIVersionAndKind (or_APIVersion r) (or_Kind r)"

record OwnerReference =
  ow_APIVersion :: string
  ow_Kind :: string
  ow_Name :: string
  ow_UID :: string
  ow_Controller :: "bool option"

subsection \<open>Unstructured objects\<close>

datatype json =
    JNull
  | JBool bool
  | JNum int
  | JStr string
  | JArr "json list"
  | JObj "(string \<times> json) list"

text \<open>
  \<open>NestedFieldNoCopy\<close>: the value, nothing when a key is missing or a value on the way is
  \<open>nil\<close>, and an error when a value on the way is no map.
\<close>

fun NestedField :: "json \<Rightarrow> string list \<Rightarrow> error + json option" where
  "NestedField v [] = Inr (Some v)"
| "NestedField JNull (f # fs) = Inr None"
| "NestedField (JObj kvs) (f # fs) =
     (case map_of kvs f of None \<Rightarrow> Inr None | Some v \<Rightarrow> NestedField v fs)"
| "NestedField v (f # fs) = Inl (Errorf ''accessor error'')"

text \<open>The typed accessors: the value, and \<open>None\<close> when it is not found or of another type.\<close>

definition NestedString :: "json \<Rightarrow> string list \<Rightarrow> string option" where
  "NestedString v fs = (case NestedField v fs of Inr (Some (JStr s)) \<Rightarrow> Some s | _ \<Rightarrow> None)"

definition NestedSlice :: "json \<Rightarrow> string list \<Rightarrow> json list option" where
  "NestedSlice v fs = (case NestedField v fs of Inr (Some (JArr xs)) \<Rightarrow> Some xs | _ \<Rightarrow> None)"

definition NestedMap :: "json \<Rightarrow> string list \<Rightarrow> json option" where
  "NestedMap v fs = (case NestedField v fs of Inr (Some (JObj kvs)) \<Rightarrow> Some (JObj kvs) | _ \<Rightarrow> None)"

text \<open>
  An unstructured object: the metadata the operator reads and writes, and the \<open>spec\<close> and
  \<open>status\<close> subtrees (\<open>JNull\<close> when absent).
\<close>

record Unstructured =
  u_APIVersion :: string
  u_Kind :: string
  u_Name :: string
  u_GenerateName :: string
  u_Namespace :: string
  u_UID :: string
  u_ResourceVersion :: string
  u_Annotations :: gomap
  u_Labels :: gomap
  u_OwnerReferences :: "OwnerReference list"
  u_CreationTimestamp :: time
  u_DeletionTimestamp :: "time option"
  u_Finalizers :: "string list"
  u_Spec :: json
  u_Status :: json

text \<open>The zero value of \<open>time.Time\<close>: 1 January of year 1, UTC.\<close>

definition zero_time :: time where "zero_time = -62135596800 * 1000000000"

definition empty_unstructured :: Unstructured where
  "empty_unstructured =
     \<lparr>u_APIVersion = [], u_Kind = [], u_Name = [], u_GenerateName = [], u_Namespace = [],
      u_UID = [], u_ResourceVersion = [], u_Annotations = None, u_Labels = None,
      u_OwnerReferences = [], u_CreationTimestamp = zero_time, u_DeletionTimestamp = None,
      u_Finalizers = [], u_Spec = JNull, u_Status = JNull\<rparr>"

text \<open>The JSON tree of an unstructured object, as far as \<open>Nested*\<close> accessors look at it.\<close>

definition u_Object :: "Unstructured \<Rightarrow> json" where
  "u_Object u =
     JObj ((if u_Spec u = JNull then [] else [(''spec'', u_Spec u)]) @
           (if u_Status u = JNull then [] else [(''status'', u_Status u)]))"

definition u_GVK :: "Unstructured \<Rightarrow> GroupVersionKind" where
  "u_GVK u =
     (case ParseGroupVersion (u_APIVersion u) of
        Some (g, v) \<Rightarrow> \<lparr>gvk_Group = g, gvk_Version = v, gvk_Kind = u_Kind u\<rparr>
      | None \<Rightarrow> \<lparr>gvk_Group = [], gvk_Version = [], gvk_Kind = []\<rparr>)"

definition u_SetGVK :: "GroupVersionKind \<Rightarrow> Unstructured \<Rightarrow> Unstructured" where
  "u_SetGVK g u =
     u\<lparr>u_APIVersion := GroupVersion_String (gvk_Group g) (gvk_Version g), u_Kind := gvk_Kind g\<rparr>"

subsection \<open>Nodes, machines, selectors\<close>

record NodeCondition =
  nc_Type :: string
  nc_Status :: string
  nc_LastTransitionTime :: time

record Node =
  n_Name :: string
  n_UID :: string
  n_ResourceVersion :: string
  n_Labels :: gomap
  n_Annotations :: gomap
  n_Conditions :: "NodeCondition list"

record Machine =
  m_Name :: string
  m_Namespace :: string
  m_UID :: string
  m_APIVersion :: string
  m_Kind :: string
  m_Labels :: gomap
  m_DeletionTimestamp :: "time option"
  m_Phase :: "string option"
  m_NodeRef :: "string option"
  m_LastUpdated :: "time option"

record LabelSelectorRequirement =
  lsr_Key :: string
  lsr_Operator :: string
  lsr_Values :: "string list"

record LabelSelector =
  ls_MatchLabels :: "(string \<times> string) list"
  ls_MatchExpressions :: "LabelSelectorRequirement list"

subsection \<open>Names of the API machinery and of the common medik8s packages\<close>

definition ConditionTrue :: string where "ConditionTrue = ''True''"
definition ConditionFalse :: string where "ConditionFalse = ''False''"
definition ConditionUnknown :: string where "ConditionUnknown = ''Unknown''"
definition NodeReady :: string where "NodeReady = ''Ready''"

definition NhcTimedOut :: string where
  "NhcTimedOut = ''remediation.medik8s.io/nhc-timed-out''"
definition MultipleTemplatesSupportedAnnotation :: string where
  "MultipleTemplatesSupportedAnnotation = ''remediation.medik8s.io/multiple-templates-support''"
definition NodeNameAnnotation :: string where
  "NodeNameAnnotation = ''remediation.medik8s.io/node-name''"

definition MasterRole :: string where "MasterRole = ''node-role.kubernetes.io/master''"
definition ControlPlaneRole :: string where
  "ControlPlaneRole = ''node-role.kubernetes.io/control-plane''"
definition ExcludeFromRemediation :: string where
  "ExcludeFromRemediation = ''remediation.medik8s.io/exclude-from-remediation''"

definition SucceededType :: string where "SucceededType = ''Succeeded''"
definition PermanentNodeDeletionExpectedType :: string where
  "PermanentNodeDeletionExpectedType = ''PermanentNodeDeletionExpected''"

definition IsControlPlane :: "Node \<Rightarrow> bool" where
  "IsControlPlane node \<longleftrightarrow>
     lookup2 (n_Labels node) MasterRole \<noteq> None \<or> lookup2 (n_Labels node) ControlPlaneRole \<noteq> None"

section \<open>Lemmas\<close>

text \<open>Printing a group and version and parsing it back.\<close>

lemma ParseGroupVersion_String:
  assumes "CHR ''/'' \<notin> set g" "CHR ''/'' \<notin> set v" "v \<noteq> []"
  shows "ParseGroupVersion (GroupVersion_String g v) = Some (g, v)"
proof (cases "g = []")
  case True
  with assms show ?thesis
    by (auto simp: ParseGroupVersion_def GroupVersion_String_def split_slash_no_slash)
next
  case False
  have "split_slash (g @ ''/'' @ v) = [g, v]"
    using assms by (simp add: split_slash_append split_slash_no_slash)
  moreover have "g @ ''/'' @ v \<noteq> ''/''" using assms(3) by (cases g) auto
  ultimately show ?thesis using False
    by (simp add: ParseGroupVersion_def GroupVersion_String_def)
qed

lemma u_GVK_SetGVK:
  assumes "CHR ''/'' \<notin> set (gvk_Group g)" "CHR ''/'' \<notin> set (gvk_Version g)" "gvk_Version g \<noteq> []"
  shows "u_GVK (u_SetGVK g u) = g"
  using ParseGroupVersion_String[OF assms] by (simp add: u_GVK_def u_SetGVK_def)

text \<open>The group and version that parsing returns hold no separator.\<close>

lemma split_slash_parts: "p \<in> set (split_slash s) \<Longrightarrow> CHR ''/'' \<notin> set p"
  by (induction s arbitrary: p) (auto split: if_splits list.splits)

lemma ParseGroupVersion_parts:
  "ParseGroupVersion s = Some (g, v) \<Longrightarrow> CHR ''/'' \<notin> set g \<and> CHR ''/'' \<notin> set v"
  using split_slash_parts[of _ s]
  by (auto simp: ParseGroupVersion_def split: if_splits list.splits)

lemma or_GVK_parts: "CHR ''/'' \<notin> set (gvk_Group (or_GVK r)) \<and> CHR ''/'' \<notin> set (gvk_Version (or_GVK r))"
  using ParseGroupVersion_parts[of "or_APIVersion r"]
  by (auto simp: or_GVK_def FromAPIVersionAndKind_def split: option.splits prod.splits)

end
