(* ===== verification/NHC_Types.thy ===== *)
theory NHC_Types
  imports Kube_Objects
begin

text \<open>
  The API types of the operator (\<open>api/v1alpha1/nodehealthcheck_types.go\<close>), the
  \<open>metav1.Condition\<close> they use, and the machine API's \<open>MachineHealthCheck\<close> as far as the
  operator reads and writes it. Pointers to scalars are options. \<open>health_check\<close> is the
  \<open>client.Object\<close> that owns a remediation: either kind of health check.
\<close>

section \<open>Definitions\<close>

subsection \<open>Conditions\<close>

record Condition =
  cond_Type :: string
  cond_Status :: string
  cond_ObservedGeneration :: int
  cond_LastTransitionTime :: time
  cond_Reason :: string
  cond_Message :: string

definition ConditionTypeDisabled :: string where "ConditionTypeDisabled = ''Disabled''"
definition ConditionReasonDisabledMHC :: string where
  "ConditionReasonDisabledMHC = ''ConflictingMachineHealthCheckDetected''"
definition ConditionReasonDisabledTemplateNotFound :: string where
  "ConditionReasonDisabledTemplateNotFound = ''RemediationTemplateNotFound''"
definition ConditionReasonDisabledTemplateInvalid :: string where
  "ConditionReasonDisabledTemplateInvalid = ''RemediationTemplateInvalid''"
definition ConditionReasonEnabled :: string where "ConditionReasonEnabled = ''NodeHealthCheckEnabled''"
definition ConditionTypeStormActive :: string where "ConditionTypeStormActive = ''StormActive''"
definition ConditionReasonStormThresholdChange :: string where
  "ConditionReasonStormThresholdChange = ''HealthyNodeThresholdChange''"
definition ConditionTypeStormCooldownActive :: string where
  "ConditionTypeStormCooldownActive = ''StormCooldownActive''"

definition PhaseDisabled :: string where "PhaseDisabled = ''Disabled''"
definition PhasePaused :: string where "PhasePaused = ''Paused''"
definition PhaseRemediating :: string where "PhaseRemediating = ''Remediating''"
definition PhaseEnabled :: string where "PhaseEnabled = ''Enabled''"

subsection \<open>NodeHealthCheck\<close>

datatype IntOrString = IntVal int | StrVal string

record UnhealthyCondition =
  uc_Type :: string
  uc_Status :: string
  uc_Duration :: duration

record EscalatingRemediation =
  er_RemediationTemplate :: ObjectReference
  er_Order :: int
  er_Timeout :: duration

record NodeHealthCheckSpec =
  Selector :: LabelSelector
  UnhealthyConditions :: "UnhealthyCondition list"
  MinHealthy :: "IntOrString option"
  MaxUnhealthy :: "IntOrString option"
  StormCooldownDuration :: "duration option"
  RemediationTemplate :: "ObjectReference option"
  EscalatingRemediations :: "EscalatingRemediation list"
  PauseRequests :: "string list"
  HealthyDelay :: "duration option"

record Remediation =
  rem_Resource :: ObjectReference
  rem_Started :: time
  rem_TimedOut :: "time option"
  rem_TemplateName :: string

record UnhealthyNode =
  un_Name :: string
  un_Remediations :: "Remediation list"
  un_ConditionsHealthyTimestamp :: "time option"
  un_HealthyDelayed :: "bool option"

record NodeHealthCheckStatus =
  ObservedNodes :: "int option"
  HealthyNodes :: "int option"
  UnhealthyNodes :: "UnhealthyNode list"
  InFlightRemediations :: "(string \<times> time) list"
  Conditions :: "Condition list"
  Phase :: string
  Reason :: string
  LastUpdateTime :: "time option"

record NodeHealthCheck =
  nhc_Name :: string
  nhc_UID :: string
  nhc_APIVersion :: string
  nhc_Kind :: string
  nhc_Spec :: NodeHealthCheckSpec
  nhc_Status :: NodeHealthCheckStatus

subsection \<open>MachineHealthCheck\<close>

record MachineCondition =
  mc_Type :: string
  mc_Status :: string
  mc_Severity :: string
  mc_LastTransitionTime :: time
  mc_Reason :: string
  mc_Message :: string

record MachineHealthCheck =
  mhc_Name :: string
  mhc_Namespace :: string
  mhc_UID :: string
  mhc_APIVersion :: string
  mhc_Kind :: string
  mhc_Annotations :: gomap
  mhc_Selector :: LabelSelector
  mhc_UnhealthyConditions :: "UnhealthyCondition list"
  mhc_MaxUnhealthy :: "IntOrString option"
  mhc_NodeStartupTimeout :: "duration option"
  mhc_RemediationTemplate :: "ObjectReference option"
  mhc_ExpectedMachines :: "int option"
  mhc_CurrentHealthy :: "int option"
  mhc_RemediationsAllowed :: int
  mhc_Conditions :: "MachineCondition list"

subsection \<open>The owner of a remediation\<close>

datatype health_check = NHC NodeHealthCheck | MHC MachineHealthCheck

fun hc_Name :: "health_check \<Rightarrow> string" where
  "hc_Name (NHC nhc) = nhc_Name nhc"
| "hc_Name (MHC mhc) = mhc_Name mhc"

fun hc_UID :: "health_check \<Rightarrow> string" where
  "hc_UID (NHC nhc) = nhc_UID nhc"
| "hc_UID (MHC mhc) = mhc_UID mhc"

fun hc_GVK :: "health_check \<Rightarrow> GroupVersionKind" where
  "hc_GVK (NHC nhc) = FromAPIVersionAndKind (nhc_APIVersion nhc) (nhc_Kind nhc)"
| "hc_GVK (MHC mhc) = FromAPIVersionAndKind (mhc_APIVersion mhc) (mhc_Kind mhc)"

text \<open>Updating the spec or the status of a \<open>NodeHealthCheck\<close> in place.\<close>

definition map_status :: "(NodeHealthCheckStatus \<Rightarrow> NodeHealthCheckStatus) \<Rightarrow> NodeHealthCheck \<Rightarrow> NodeHealthCheck" where
  "map_status f nhc = nhc\<lparr>nhc_Status := f (nhc_Status nhc)\<rparr>"

definition map_spec :: "(NodeHealthCheckSpec \<Rightarrow> NodeHealthCheckSpec) \<Rightarrow> NodeHealthCheck \<Rightarrow> NodeHealthCheck" where
  "map_spec f nhc = nhc\<lparr>nhc_Spec := f (nhc_Spec nhc)\<rparr>"

definition map_unhealthy :: "(UnhealthyNode list \<Rightarrow> UnhealthyNode list) \<Rightarrow> NodeHealthCheck \<Rightarrow> NodeHealthCheck" where
  "map_unhealthy f = map_status (\<lambda>st. st\<lparr>UnhealthyNodes := f (UnhealthyNodes st)\<rparr>)"

definition map_conditions :: "(Condition list \<Rightarrow> Condition list) \<Rightarrow> NodeHealthCheck \<Rightarrow> NodeHealthCheck" where
  "map_conditions f = map_status (\<lambda>st. st\<lparr>Conditions := f (Conditions st)\<rparr>)"

section \<open>Lemmas\<close>

lemma map_status_simps [simp]:
  "nhc_Name (map_status f nhc) = nhc_Name nhc"
  "nhc_UID (map_status f nhc) = nhc_UID nhc"
  "nhc_APIVersion (map_status f nhc) = nhc_APIVersion nhc"
  "nhc_Kind (map_status f nhc) = nhc_Kind nhc"
  "nhc_Spec (map_status f nhc) = nhc_Spec nhc"
  "nhc_Status (map_status f nhc) = f (nhc_Status nhc)"
  by (simp_all add: map_status_def)

lemma map_unhealthy_simps [simp]:
  "nhc_Name (map_unhealthy g nhc) = nhc_Name nhc"
  "nhc_UID (map_unhealthy g nhc) = nhc_UID nhc"
  "nhc_APIVersion (map_unhealthy g nhc) = nhc_APIVersion nhc"
  "nhc_Kind (map_unhealthy g nhc) = nhc_Kind nhc"
  "nhc_Spec (map_unhealthy g nhc) = nhc_Spec nhc"
  "UnhealthyNodes (nhc_Status (map_unhealthy g nhc)) = g (UnhealthyNodes (nhc_Status nhc))"
  "Conditions (nhc_Status (map_unhealthy g nhc)) = Conditions (nhc_Status nhc)"
  "ObservedNodes (nhc_Status (map_unhealthy g nhc)) = ObservedNodes (nhc_Status nhc)"
  "HealthyNodes (nhc_Status (map_unhealthy g nhc)) = HealthyNodes (nhc_Status nhc)"
  by (simp_all add: map_unhealthy_def)

lemma map_conditions_simps [simp]:
  "nhc_Name (map_conditions h nhc) = nhc_Name nhc"
  "nhc_UID (map_conditions h nhc) = nhc_UID nhc"
  "nhc_APIVersion (map_conditions h nhc) = nhc_APIVersion nhc"
  "nhc_Kind (map_conditions h nhc) = nhc_Kind nhc"
  "nhc_Spec (map_conditions h nhc) = nhc_Spec nhc"
  "Conditions (nhc_Status (map_conditions h nhc)) = h (Conditions (nhc_Status nhc))"
  "UnhealthyNodes (nhc_Status (map_conditions h nhc)) = UnhealthyNodes (nhc_Status nhc)"
  "ObservedNodes (nhc_Status (map_conditions h nhc)) = ObservedNodes (nhc_Status nhc)"
  "HealthyNodes (nhc_Status (map_conditions h nhc)) = HealthyNodes (nhc_Status nhc)"
  by (simp_all add: map_conditions_def)

lemma condition_type_neqs [simp]:
  "ConditionTypeStormActive \<noteq> ConditionTypeStormCooldownActive"
  "ConditionTypeStormCooldownActive \<noteq> ConditionTypeStormActive"
  "ConditionTypeDisabled \<noteq> ConditionTypeStormActive"
  "ConditionTypeStormActive \<noteq> ConditionTypeDisabled"
  "ConditionTypeDisabled \<noteq> ConditionTypeStormCooldownActive"
  "ConditionTypeStormCooldownActive \<noteq> ConditionTypeDisabled"
  by (simp_all add: ConditionTypeStormActive_def ConditionTypeStormCooldownActive_def
      ConditionTypeDisabled_def)

lemma condition_status_neqs [simp]:
  "ConditionTrue \<noteq> ConditionFalse" "ConditionFalse \<noteq> ConditionTrue"
  by (simp_all add: ConditionTrue_def ConditionFalse_def)

end
