(* ===== verification/Client.thy ===== *)
theory Client
  imports NHC_Types
begin

text \<open>
  Everything behind \<open>client.Client\<close>, as a parameter of the model: a record of functions over an
  arbitrary world type. Each call reads and changes the world, so other actors may act between
  any two calls, and each call may fail with any error. The calls that change something, the
  events and the metrics are recorded in the trace as \<open>effect\<close>s, whether or not the server
  accepts them. \<open>time.Now\<close> is a call as well, and \<open>c_ZoneOffset\<close> is the local time zone's offset
  in seconds at an instant.

  Nothing is assumed about the client here; a property that relies on a behaviour of the API
  server states it as a hypothesis.
\<close>

section \<open>Definitions\<close>

record Lease =
  l_HolderIdentity :: "string option"
  l_LeaseDurationSeconds :: "int option"
  l_AcquireTime :: "time option"
  l_RenewTime :: "time option"
  l_LeaseTransitions :: "int option"

datatype event_type = Normal | Warning

datatype effect =
    CreateCR Unstructured
  | DeleteCR Unstructured
  | UpdateCR Unstructured
  | PatchNode Node
  | CreateLease string Lease
  | UpdateLease string Lease
  | DeleteLease string
  | CreateNamespace string
  | PatchNHCStatus NodeHealthCheck
  | PatchMHCStatus MachineHealthCheck
  | AddWatch string
  | GenericEvent
  | Event event_type string string
  | OldRemediationCRInc string string
  | OngoingRemediationSet string string string int
  | UnhealthyNodeDurationObserve string string string duration
  | MHCNodesCoveredSet string string int
  | MHCNodesCoveredDelete string string
  | MHCShortCircuitSet string string int

text \<open>What the polling loop receives next: a tick, the closing of the channel, or the end of the context.\<close>

datatype poll_tick = Tick | Closed | Cancelled

record 'w client =
  c_Env :: "string \<rightharpoonup> string"
  c_Now :: "'w \<Rightarrow> time \<times> 'w"
  c_ZoneOffset :: "time \<Rightarrow> int"
  c_Selector :: "LabelSelector \<Rightarrow> error option"
  c_Matches :: "LabelSelector \<Rightarrow> gomap \<Rightarrow> bool"
  c_GetNHC :: "string \<Rightarrow> 'w \<Rightarrow> (error + NodeHealthCheck) \<times> 'w"
  c_ListNHC :: "'w \<Rightarrow> (error + NodeHealthCheck list) \<times> 'w"
  c_MergePatchEmpty :: "NodeHealthCheck \<Rightarrow> NodeHealthCheck \<Rightarrow> error + bool"
  c_PatchNHCStatus :: "NodeHealthCheck \<Rightarrow> NodeHealthCheck \<Rightarrow> 'w \<Rightarrow> (error + NodeHealthCheck) \<times> 'w"
  c_PollTick :: "'w \<Rightarrow> poll_tick \<times> 'w"
  c_GetMHC :: "string \<Rightarrow> string \<Rightarrow> 'w \<Rightarrow> (error + MachineHealthCheck) \<times> 'w"
  c_ListMHC :: "'w \<Rightarrow> (error + MachineHealthCheck list) \<times> 'w"
  c_MergePatchEmptyMHC :: "MachineHealthCheck \<Rightarrow> MachineHealthCheck \<Rightarrow> error + bool"
  c_ToUnstructured :: "MachineHealthCheck \<Rightarrow> error + json"
  c_PatchMHCStatus :: "MachineHealthCheck \<Rightarrow> MachineHealthCheck \<Rightarrow> 'w \<Rightarrow> error option \<times> 'w"
  c_GetNode :: "string \<Rightarrow> 'w \<Rightarrow> (error + Node) \<times> 'w"
  c_ListNodes :: "LabelSelector \<Rightarrow> 'w \<Rightarrow> (error + Node list) \<times> 'w"
  c_PatchNode :: "Node \<Rightarrow> 'w \<Rightarrow> error option \<times> 'w"
  c_GetMachine :: "string \<Rightarrow> string \<Rightarrow> 'w \<Rightarrow> (error + Machine) \<times> 'w"
  c_ListMachines :: "string \<Rightarrow> LabelSelector \<Rightarrow> 'w \<Rightarrow> (error + Machine list) \<times> 'w"
  c_ListMachinesByNode :: "string \<Rightarrow> 'w \<Rightarrow> (error + Machine list) \<times> 'w"
  c_IsObjectNamespaced :: "Unstructured \<Rightarrow> 'w \<Rightarrow> (error + bool) \<times> 'w"
  c_Get :: "Unstructured \<Rightarrow> 'w \<Rightarrow> (error + Unstructured) \<times> 'w"
  c_List :: "GroupVersionKind \<Rightarrow> 'w \<Rightarrow> (error + Unstructured list) \<times> 'w"
  c_Create :: "Unstructured \<Rightarrow> 'w \<Rightarrow> (error + Unstructured) \<times> 'w"
  c_Update :: "Unstructured \<Rightarrow> 'w \<Rightarrow> error option \<times> 'w"
  c_Delete :: "Unstructured \<Rightarrow> 'w \<Rightarrow> error option \<times> 'w"
  c_GetLease :: "string \<Rightarrow> 'w \<Rightarrow> (error + Lease) \<times> 'w"
  c_CreateLease :: "string \<Rightarrow> Lease \<Rightarrow> 'w \<Rightarrow> error option \<times> 'w"
  c_UpdateLease :: "string \<Rightarrow> Lease \<Rightarrow> 'w \<Rightarrow> error option \<times> 'w"
  c_DeleteLease :: "string \<Rightarrow> 'w \<Rightarrow> error option \<times> 'w"
  c_GetNamespace :: "string \<Rightarrow> 'w \<Rightarrow> error option \<times> 'w"
  c_CreateNamespace :: "string \<Rightarrow> 'w \<Rightarrow> error option \<times> 'w"
  c_IsEtcdDisruptionAllowed :: "Node \<Rightarrow> 'w \<Rightarrow> (error + bool) \<times> 'w"
  c_ListClusterVersions :: "'w \<Rightarrow> (error + (string \<times> string) list list) \<times> 'w"
  c_Watch :: "string \<Rightarrow> 'w \<Rightarrow> error option \<times> 'w"

type_synonym ('w, 'a) m = "('w, effect, 'a) io"

text \<open>A call that changes something: recorded, then made.\<close>

definition mutate :: "effect \<Rightarrow> ('w \<Rightarrow> 'a \<times> 'w) \<Rightarrow> ('w, 'a) m" where
  "mutate e f = do { emit e; ask f }"

text \<open>\<open>commonevents.NormalEvent\<close> and \<open>WarningEvent\<close>: the message is prefixed.\<close>

definition NormalEvent :: "string \<Rightarrow> string \<Rightarrow> ('w, unit) m" where
  "NormalEvent reason message = emit (Event Normal reason (''[remediation] '' @ message))"

definition WarningEvent :: "string \<Rightarrow> string \<Rightarrow> ('w, unit) m" where
  "WarningEvent reason message = emit (Event Warning reason (''[remediation] '' @ message))"

definition EventReasonDetectedUnhealthy :: string where "EventReasonDetectedUnhealthy = ''DetectedUnhealthy''"
definition EventReasonRemediationCreated :: string where "EventReasonRemediationCreated = ''RemediationCreated''"
definition EventReasonRemediationSkipped :: string where "EventReasonRemediationSkipped = ''RemediationSkipped''"
definition EventReasonRemediationRemoved :: string where "EventReasonRemediationRemoved = ''RemediationRemoved''"
definition EventReasonInvalidNodeLabel :: string where "EventReasonInvalidNodeLabel = ''InvalidNodeLabel''"
definition EventReasonDisabled :: string where "EventReasonDisabled = ''Disabled''"
definition EventReasonEnabled :: string where "EventReasonEnabled = ''Enabled''"

text \<open>Classes of effects, for stating what an operation may do.\<close>

fun is_CreateCR :: "effect \<Rightarrow> bool" where
  "is_CreateCR (CreateCR u) = True"
| "is_CreateCR e = False"

fun is_DeleteCR :: "effect \<Rightarrow> bool" where
  "is_DeleteCR (DeleteCR u) = True"
| "is_DeleteCR e = False"

fun is_UpdateCR :: "effect \<Rightarrow> bool" where
  "is_UpdateCR (UpdateCR u) = True"
| "is_UpdateCR e = False"

fun is_lease_write :: "effect \<Rightarrow> bool" where
  "is_lease_write (CreateLease n l) = True"
| "is_lease_write (UpdateLease n l) = True"
| "is_lease_write (DeleteLease n) = True"
| "is_lease_write e = False"

fun is_note :: "effect \<Rightarrow> bool" where
  "is_note (Event t r m) = True"
| "is_note (OldRemediationCRInc n ns) = True"
| "is_note (OngoingRemediationSet n ns k v) = True"
| "is_note (UnhealthyNodeDurationObserve n ns k d) = True"
| "is_note (MHCNodesCoveredSet n ns c) = True"
| "is_note (MHCNodesCoveredDelete n ns) = True"
| "is_note (MHCShortCircuitSet n ns c) = True"
| "is_note e = False"

section \<open>Lemmas\<close>

lemma run_mutate [simp]:
  "run_state (mutate e f) s = (case f (world s) of (r, w) \<Rightarrow> (r, s\<lparr>trace := trace s @ [e], world := w\<rparr>))"
  by (simp add: mutate_def split: prod.splits)

lemma run_NormalEvent [simp]:
  "run_state (NormalEvent r m) s = ((), s\<lparr>trace := trace s @ [Event Normal r (''[remediation] '' @ m)]\<rparr>)"
  by (simp add: NormalEvent_def)

lemma run_WarningEvent [simp]:
  "run_state (WarningEvent r m) s = ((), s\<lparr>trace := trace s @ [Event Warning r (''[remediation] '' @ m)]\<rparr>)"
  by (simp add: WarningEvent_def)

lemma emits_mutate [emits_intros]: "P e \<Longrightarrow> emits P (mutate e f)"
  unfolding mutate_def by (intro emits_intros)

lemma emits_NormalEvent [emits_intros]:
  "P (Event Normal r (''[remediation] '' @ m)) \<Longrightarrow> emits P (NormalEvent r m)"
  unfolding NormalEvent_def by (intro emits_intros)

lemma emits_WarningEvent [emits_intros]:
  "P (Event Warning r (''[remediation] '' @ m)) \<Longrightarrow> emits P (WarningEvent r m)"
  unfolding WarningEvent_def by (intro emits_intros)

end
