(* ===== verification/Status.thy ===== *)
theory Status
  imports Client Utils
begin

text \<open>
  The unhealthy nodes in the status of a \<open>NodeHealthCheck\<close>
  (\<open>internal/controller/resources/status.go\<close>): a node enters the list when it is found unhealthy
  or when its remediation starts, collects the remediations tried on it, and leaves the list when
  it is healthy again.

  \<open>FindStatusRemediation\<close> returns a pointer into the status through which callers write; here it
  is the position (index of the node, index of the remediation), and \<open>setTimedOut\<close> is the
  assignment through it.

  The lemmas show that the list is a finite map from node names (\<open>statusNodes\<close>), keyed without
  duplicates, that every operation keeps that (\<open>status_wf\<close>), and how each operation acts on the map.
\<close>

section \<open>Definitions\<close>

definition RemediationHealthyDelayAnnotationKey :: string where
  "RemediationHealthyDelayAnnotationKey = ''remediation.medik8s.io/healthy-delay''"

subsection \<open>Metrics\<close>

definition ObserveNodeHealthCheckOldRemediationCR :: "string \<Rightarrow> string \<Rightarrow> ('w, unit) m" where
  "ObserveNodeHealthCheckOldRemediationCR name namespace = emit (OldRemediationCRInc name namespace)"

definition ObserveNodeHealthCheckRemediationCreated :: "string \<Rightarrow> string \<Rightarrow> string \<Rightarrow> ('w, unit) m" where
  "ObserveNodeHealthCheckRemediationCreated name namespace remediation =
     emit (OngoingRemediationSet name namespace remediation 1)"

definition ObserveNodeHealthCheckRemediationDeleted :: "string \<Rightarrow> string \<Rightarrow> string \<Rightarrow> ('w, unit) m" where
  "ObserveNodeHealthCheckRemediationDeleted name namespace remediation =
     emit (OngoingRemediationSet name namespace remediation 0)"

definition ObserveNodeHealthCheckUnhealthyNodeDuration :: "string \<Rightarrow> string \<Rightarrow> string \<Rightarrow> duration \<Rightarrow> ('w, unit) m" where
  "ObserveNodeHealthCheckUnhealthyNodeDuration name namespace remediation d =
     emit (UnhealthyNodeDurationObserve name namespace remediation d)"

subsection \<open>Updates of the status\<close>

definition remediationOfCR :: "Unstructured \<Rightarrow> Remediation" where
  "remediationOfCR cr =
     \<lparr>rem_Resource = \<lparr>or_Kind = u_Kind cr, or_Namespace = u_Namespace cr, or_Name = u_Name cr,
                      or_UID = u_UID cr, or_APIVersion = u_APIVersion cr\<rparr>,
      rem_Started = u_CreationTimestamp cr, rem_TimedOut = None,
      rem_TemplateName = GetTemplateNameFromCR cr\<rparr>"

definition addRemediation :: "Unstructured \<Rightarrow> UnhealthyNode \<Rightarrow> UnhealthyNode" where
  "addRemediation cr un =
     (if list_ex (\<lambda>rem. or_GVK (rem_Resource rem) = u_GVK cr) (un_Remediations un) then un
      else un\<lparr>un_Remediations := un_Remediations un @ [remediationOfCR cr]\<rparr>)"

definition UpdateStatusRemediationStarted :: "Node \<Rightarrow> NodeHealthCheck \<Rightarrow> Unstructured \<Rightarrow> NodeHealthCheck" where
  "UpdateStatusRemediationStarted node nhc cr =
     map_unhealthy (\<lambda>uns.
       if list_ex (\<lambda>un. un_Name un = n_Name node) uns
       then update_first (\<lambda>un. un_Name un = n_Name node) (addRemediation cr) uns
       else uns @ [\<lparr>un_Name = n_Name node, un_Remediations = [remediationOfCR cr],
                    un_ConditionsHealthyTimestamp = None, un_HealthyDelayed = None\<rparr>]) nhc"

text \<open>The metrics for every remediation of a node that got healthy.\<close>

fun observeDeleted :: "'w client \<Rightarrow> string \<Rightarrow> Remediation list \<Rightarrow> ('w, unit) m" where
  "observeDeleted c nodeName [] = State_Monad.return ()"
| "observeDeleted c nodeName (rem # rems) = do {
     now \<leftarrow> ask (c_Now c);
     ObserveNodeHealthCheckRemediationDeleted nodeName (or_Namespace (rem_Resource rem)) (or_Kind (rem_Resource rem));
     ObserveNodeHealthCheckUnhealthyNodeDuration nodeName (or_Namespace (rem_Resource rem)) (or_Kind (rem_Resource rem))
       (time_Sub now (rem_Started rem));
     observeDeleted c nodeName rems
   }"

definition UpdateStatusNodeHealthy :: "'w client \<Rightarrow> string \<Rightarrow> NodeHealthCheck \<Rightarrow> ('w, NodeHealthCheck) m" where
  "UpdateStatusNodeHealthy c nodeName nhc =
     (case find (\<lambda>un. un_Name un = nodeName) (UnhealthyNodes (nhc_Status nhc)) of
        None \<Rightarrow> State_Monad.return nhc
      | Some un \<Rightarrow> do {
          observeDeleted c nodeName (un_Remediations un);
          State_Monad.return (map_unhealthy (remove_first (\<lambda>un. un_Name un = nodeName)) nhc)
        })"

definition isNodeHealthyDelayed :: "string \<Rightarrow> Unstructured list \<Rightarrow> bool" where
  "isNodeHealthyDelayed nodeName crs =
     list_ex (\<lambda>cr. \<not> Option.is_none (u_Annotations cr) \<and>
                   0 < length (lookup1 (u_Annotations cr) RemediationHealthyDelayAnnotationKey) \<and>
                   GetNodeNameFromCR cr = nodeName) crs"

definition UpdateStatusNodeDelayedHealthy :: "string \<Rightarrow> NodeHealthCheck \<Rightarrow> Unstructured list \<Rightarrow> NodeHealthCheck" where
  "UpdateStatusNodeDelayedHealthy nodeName nhc crs =
     (if \<not> isNodeHealthyDelayed nodeName crs then nhc
      else map_unhealthy (update_first (\<lambda>un. un_Name un = nodeName) (\<lambda>un. un\<lparr>un_HealthyDelayed := Some True\<rparr>)) nhc)"

definition newUnhealthyNode :: "string \<Rightarrow> UnhealthyNode" where
  "newUnhealthyNode name =
     \<lparr>un_Name = name, un_Remediations = [], un_ConditionsHealthyTimestamp = None, un_HealthyDelayed = None\<rparr>"

definition UpdateStatusNodeUnhealthy :: "Node \<Rightarrow> NodeHealthCheck \<Rightarrow> NodeHealthCheck" where
  "UpdateStatusNodeUnhealthy node nhc =
     (if list_ex (\<lambda>un. un_Name un = n_Name node) (UnhealthyNodes (nhc_Status nhc)) then nhc
      else map_unhealthy (\<lambda>uns. uns @ [newUnhealthyNode (n_Name node)]) nhc)"

definition setConditionsHealthy :: "time \<Rightarrow> UnhealthyNode \<Rightarrow> UnhealthyNode" where
  "setConditionsHealthy now un =
     (if un_ConditionsHealthyTimestamp un = None then un\<lparr>un_ConditionsHealthyTimestamp := Some now\<rparr> else un)"

definition UpdateStatusNodeConditionsHealthy :: "string \<Rightarrow> NodeHealthCheck \<Rightarrow> time \<Rightarrow> time option \<times> NodeHealthCheck" where
  "UpdateStatusNodeConditionsHealthy nodeName nhc now =
     (case find (\<lambda>un. un_Name un = nodeName) (UnhealthyNodes (nhc_Status nhc)) of
        None \<Rightarrow> (None, nhc)
      | Some un \<Rightarrow>
          (un_ConditionsHealthyTimestamp (setConditionsHealthy now un),
           map_unhealthy (update_first (\<lambda>un. un_Name un = nodeName) (setConditionsHealthy now)) nhc))"

subsection \<open>Finding a remediation\<close>

fun findRemediation :: "string \<Rightarrow> (Remediation \<Rightarrow> bool) \<Rightarrow> UnhealthyNode list \<Rightarrow> (nat \<times> nat) option" where
  "findRemediation name P [] = None"
| "findRemediation name P (un # uns) =
     (case (if un_Name un = name then find_pos P (un_Remediations un) else None) of
        Some j \<Rightarrow> Some (0, j)
      | None \<Rightarrow> map_option (\<lambda>(i, j). (Suc i, j)) (findRemediation name P uns))"

definition FindStatusRemediation :: "Node \<Rightarrow> NodeHealthCheck \<Rightarrow> (Remediation \<Rightarrow> bool) \<Rightarrow> (nat \<times> nat) option" where
  "FindStatusRemediation node nhc P = findRemediation (n_Name node) P (UnhealthyNodes (nhc_Status nhc))"

definition remediationAt :: "NodeHealthCheck \<Rightarrow> nat \<times> nat \<Rightarrow> Remediation" where
  "remediationAt nhc p = un_Remediations (UnhealthyNodes (nhc_Status nhc) ! fst p) ! snd p"

definition setTimedOut :: "time \<Rightarrow> nat \<times> nat \<Rightarrow> NodeHealthCheck \<Rightarrow> NodeHealthCheck" where
  "setTimedOut now p =
     map_unhealthy (\<lambda>uns.
       let un = uns ! fst p
       in uns[fst p := un\<lparr>un_Remediations :=
            (un_Remediations un)[snd p := (un_Remediations un ! snd p)\<lparr>rem_TimedOut := Some now\<rparr>]\<rparr>])"

subsection \<open>What the status promises\<close>

text \<open>The status as a map from node names, and its well-formedness.\<close>

definition statusNodes :: "NodeHealthCheck \<Rightarrow> string \<rightharpoonup> UnhealthyNode" where
  "statusNodes nhc name = find (\<lambda>un. un_Name un = name) (UnhealthyNodes (nhc_Status nhc))"

definition status_wf :: "NodeHealthCheck \<Rightarrow> bool" where
  "status_wf nhc \<longleftrightarrow>
     distinct (map un_Name (UnhealthyNodes (nhc_Status nhc))) \<and>
     list_all (\<lambda>un. distinct (map (or_GVK \<circ> rem_Resource) (un_Remediations un))) (UnhealthyNodes (nhc_Status nhc))"

section \<open>Lemmas\<close>

subsection \<open>Metrics are notes\<close>

lemma emits_metrics [emits_intros]:
  "P (OldRemediationCRInc n ns) \<Longrightarrow> emits P (ObserveNodeHealthCheckOldRemediationCR n ns)"
  "P (OngoingRemediationSet n ns k 1) \<Longrightarrow> emits P (ObserveNodeHealthCheckRemediationCreated n ns k)"
  "P (OngoingRemediationSet n ns k 0) \<Longrightarrow> emits P (ObserveNodeHealthCheckRemediationDeleted n ns k)"
  "P (UnhealthyNodeDurationObserve n ns k d) \<Longrightarrow> emits P (ObserveNodeHealthCheckUnhealthyNodeDuration n ns k d)"
  unfolding ObserveNodeHealthCheckOldRemediationCR_def ObserveNodeHealthCheckRemediationCreated_def
    ObserveNodeHealthCheckRemediationDeleted_def ObserveNodeHealthCheckUnhealthyNodeDuration_def
  by (auto intro: emits_intros)

lemma emits_observeDeleted [emits_intros]:
  "(\<And>e. is_note e \<Longrightarrow> P e) \<Longrightarrow> emits P (observeDeleted c n rems)"
  by (induction rems) (auto intro!: emits_intros)

lemma emits_UpdateStatusNodeHealthy [emits_intros]:
  "(\<And>e. is_note e \<Longrightarrow> P e) \<Longrightarrow> emits P (UpdateStatusNodeHealthy c n nhc)"
  unfolding UpdateStatusNodeHealthy_def by (intro emits_intros) auto

subsection \<open>The unhealthy nodes as a map\<close>

lemma statusNodes_Some:
  "statusNodes nhc name = Some un \<Longrightarrow> un \<in> set (UnhealthyNodes (nhc_Status nhc)) \<and> un_Name un = name"
  by (auto simp: statusNodes_def find_Some_iff)

lemma statusNodes_None: "statusNodes nhc name = None \<longleftrightarrow> name \<notin> un_Name ` set (UnhealthyNodes (nhc_Status nhc))"
  by (auto simp: statusNodes_def find_None_iff)

lemma list_ex_statusNodes:
  "list_ex (\<lambda>un. un_Name un = name) (UnhealthyNodes (nhc_Status nhc)) \<longleftrightarrow> statusNodes nhc name \<noteq> None"
  by (auto simp: statusNodes_def find_None_iff list_ex_iff)

lemma un_Name_updates [simp]:
  "un_Name (addRemediation cr un) = un_Name un"
  "un_Name (setConditionsHealthy now un) = un_Name un"
  "un_Name (newUnhealthyNode n) = n"
  by (simp_all add: addRemediation_def setConditionsHealthy_def newUnhealthyNode_def)

lemma statusNodes_update_first:
  assumes "\<And>un. un_Name (f un) = un_Name un"
  shows "statusNodes (map_unhealthy (update_first (\<lambda>un. un_Name un = name) f) nhc) =
     (statusNodes nhc)(name := map_option f (statusNodes nhc name))"
proof
  fix k
  show "statusNodes (map_unhealthy (update_first (\<lambda>un. un_Name un = name) f) nhc) k =
     ((statusNodes nhc)(name := map_option f (statusNodes nhc name))) k"
    using assms by (cases "k = name")
      (auto simp: statusNodes_def find_update_first intro: find_update_first_other)
qed

lemma statusNodes_snoc:
  "statusNodes nhc (un_Name un) = None \<Longrightarrow>
     statusNodes (map_unhealthy (\<lambda>uns. uns @ [un]) nhc) = (statusNodes nhc)(un_Name un \<mapsto> un)"
  by (rule ext) (auto simp: statusNodes_def find_append split: option.splits)

lemma statusNodes_remove_first:
  "distinct (map un_Name (UnhealthyNodes (nhc_Status nhc))) \<Longrightarrow>
     statusNodes (map_unhealthy (remove_first (\<lambda>un. un_Name un = name)) nhc) = (statusNodes nhc)(name := None)"
proof (rule ext)
  fix k
  assume d: "distinct (map un_Name (UnhealthyNodes (nhc_Status nhc)))"
  show "statusNodes (map_unhealthy (remove_first (\<lambda>un. un_Name un = name)) nhc) k = ((statusNodes nhc)(name := None)) k"
  proof (cases "k = name")
    case True
    with d show ?thesis by (simp add: statusNodes_def remove_first_filter find_None_iff)
  next
    case False
    then show ?thesis by (simp add: statusNodes_def find_remove_first_other)
  qed
qed

lemma UpdateStatusRemediationStarted_map:
  "statusNodes (UpdateStatusRemediationStarted node nhc cr) =
     (statusNodes nhc)(n_Name node \<mapsto>
       addRemediation cr (case statusNodes nhc (n_Name node) of None \<Rightarrow> newUnhealthyNode (n_Name node) | Some un \<Rightarrow> un))"
proof (cases "statusNodes nhc (n_Name node)")
  case None
  let ?un = "addRemediation cr (newUnhealthyNode (n_Name node))"
  have "UpdateStatusRemediationStarted node nhc cr = map_unhealthy (\<lambda>uns. uns @ [?un]) nhc"
    using None
    by (simp add: UpdateStatusRemediationStarted_def map_unhealthy_def map_status_def addRemediation_def
        newUnhealthyNode_def list_ex_statusNodes)
  with None show ?thesis using statusNodes_snoc[of nhc ?un] by simp
next
  case (Some un)
  then have "UpdateStatusRemediationStarted node nhc cr =
     map_unhealthy (update_first (\<lambda>un. un_Name un = n_Name node) (addRemediation cr)) nhc"
    by (simp add: UpdateStatusRemediationStarted_def map_unhealthy_def map_status_def list_ex_statusNodes)
  with Some show ?thesis by (simp add: statusNodes_update_first)
qed

lemma UpdateStatusNodeUnhealthy_map:
  "statusNodes (UpdateStatusNodeUnhealthy node nhc) =
     (case statusNodes nhc (n_Name node) of
        Some un \<Rightarrow> statusNodes nhc
      | None \<Rightarrow> (statusNodes nhc)(n_Name node \<mapsto> newUnhealthyNode (n_Name node)))"
  using statusNodes_snoc[of nhc "newUnhealthyNode (n_Name node)"]
  by (auto simp: UpdateStatusNodeUnhealthy_def list_ex_statusNodes split: option.splits)

lemma UpdateStatusNodeHealthy_map:
  assumes "status_wf nhc" and "run_state (UpdateStatusNodeHealthy c name nhc) s = (nhc', s')"
  shows "statusNodes nhc' = (statusNodes nhc)(name := None)"
proof (cases "statusNodes nhc name")
  case None
  with assms show ?thesis by (auto simp: UpdateStatusNodeHealthy_def statusNodes_def)
next
  case (Some un)
  with assms(2) have "nhc' = map_unhealthy (remove_first (\<lambda>un. un_Name un = name)) nhc"
    by (auto simp: UpdateStatusNodeHealthy_def statusNodes_def split: prod.splits)
  with assms(1) show ?thesis by (simp add: statusNodes_remove_first status_wf_def)
qed

lemma UpdateStatusNodeConditionsHealthy_map:
  "statusNodes (snd (UpdateStatusNodeConditionsHealthy name nhc now)) =
     (statusNodes nhc)(name := map_option (setConditionsHealthy now) (statusNodes nhc name))"
  by (auto simp: UpdateStatusNodeConditionsHealthy_def statusNodes_update_first
      simp flip: statusNodes_def split: option.splits)

subsection \<open>Well-formedness\<close>

lemma list_all_update_first:
  "list_all P xs \<Longrightarrow> (\<And>x. P x \<Longrightarrow> P (f x)) \<Longrightarrow> list_all P (update_first Q f xs)"
  by (induction xs) auto

lemma list_all_remove_first: "list_all P xs \<Longrightarrow> list_all P (remove_first Q xs)"
  by (induction xs) auto

lemma set_remove_first: "set (remove_first Q xs) \<subseteq> set xs"
  by (induction xs) auto

lemma distinct_map_remove_first: "distinct (map g xs) \<Longrightarrow> distinct (map g (remove_first Q xs))"
proof (induction xs)
  case (Cons x xs)
  then have "g x \<notin> g ` set (remove_first Q xs)" using set_remove_first[of Q xs] by auto
  with Cons show ?case by simp
qed simp

lemma status_wf_update_first:
  assumes "status_wf nhc" "\<And>un. un_Name (f un) = un_Name un"
    and "\<And>un. distinct (map (or_GVK \<circ> rem_Resource) (un_Remediations un)) \<Longrightarrow>
      distinct (map (or_GVK \<circ> rem_Resource) (un_Remediations (f un)))"
  shows "status_wf (map_unhealthy (update_first P f) nhc)"
  using assms by (auto simp: status_wf_def intro: list_all_update_first)

lemma or_GVK_remediationOfCR:
  "ParseGroupVersion (u_APIVersion cr) \<noteq> None \<Longrightarrow> or_GVK (rem_Resource (remediationOfCR cr)) = u_GVK cr"
  by (auto simp: remediationOfCR_def or_GVK_def u_GVK_def FromAPIVersionAndKind_def split: option.splits)

lemma addRemediation_distinct:
  assumes "ParseGroupVersion (u_APIVersion cr) \<noteq> None"
    and "distinct (map (or_GVK \<circ> rem_Resource) (un_Remediations un))"
  shows "distinct (map (or_GVK \<circ> rem_Resource) (un_Remediations (addRemediation cr un)))"
  using assms or_GVK_remediationOfCR[OF assms(1)] by (auto simp: addRemediation_def list_ex_iff image_iff)

lemma UpdateStatusRemediationStarted_wf:
  assumes "status_wf nhc" "ParseGroupVersion (u_APIVersion cr) \<noteq> None"
  shows "status_wf (UpdateStatusRemediationStarted node nhc cr)"
proof (cases "list_ex (\<lambda>un. un_Name un = n_Name node) (UnhealthyNodes (nhc_Status nhc))")
  case True
  then have "UpdateStatusRemediationStarted node nhc cr =
     map_unhealthy (update_first (\<lambda>un. un_Name un = n_Name node) (addRemediation cr)) nhc"
    by (simp add: UpdateStatusRemediationStarted_def map_unhealthy_def map_status_def)
  moreover have "status_wf (map_unhealthy (update_first (\<lambda>un. un_Name un = n_Name node) (addRemediation cr)) nhc)"
    using assms by (intro status_wf_update_first addRemediation_distinct) simp_all
  ultimately show ?thesis by simp
next
  case False
  with assms show ?thesis
    by (auto simp: UpdateStatusRemediationStarted_def status_wf_def list_ex_iff)
qed

lemma UpdateStatusNodeUnhealthy_wf: "status_wf nhc \<Longrightarrow> status_wf (UpdateStatusNodeUnhealthy node nhc)"
  by (auto simp: UpdateStatusNodeUnhealthy_def status_wf_def list_ex_iff newUnhealthyNode_def)

lemma UpdateStatusNodeHealthy_wf:
  "status_wf nhc \<Longrightarrow> run_state (UpdateStatusNodeHealthy c name nhc) s = (nhc', s') \<Longrightarrow> status_wf nhc'"
  by (auto simp: UpdateStatusNodeHealthy_def status_wf_def distinct_map_remove_first list_all_remove_first
      split: option.splits prod.splits)

lemma UpdateStatusNodeDelayedHealthy_wf: "status_wf nhc \<Longrightarrow> status_wf (UpdateStatusNodeDelayedHealthy n nhc crs)"
  by (auto simp: UpdateStatusNodeDelayedHealthy_def intro: status_wf_update_first)

lemma UpdateStatusNodeConditionsHealthy_wf:
  "status_wf nhc \<Longrightarrow> status_wf (snd (UpdateStatusNodeConditionsHealthy n nhc now))"
  by (auto simp: UpdateStatusNodeConditionsHealthy_def setConditionsHealthy_def
      intro: status_wf_update_first split: option.splits)

subsection \<open>Finding a remediation\<close>

lemma findRemediation_Some:
  "findRemediation name P uns = Some (i, j) \<Longrightarrow>
     i < length uns \<and> un_Name (uns ! i) = name \<and> j < length (un_Remediations (uns ! i)) \<and>
     P (un_Remediations (uns ! i) ! j)"
  by (induction uns arbitrary: i) (auto split: option.splits if_splits dest: find_pos_Some)

lemma findRemediation_None:
  "findRemediation name P uns = None \<longleftrightarrow>
     (\<forall>un\<in>set uns. un_Name un = name \<longrightarrow> (\<forall>rem\<in>set (un_Remediations un). \<not> P rem))"
proof (induction uns)
  case (Cons un uns)
  show ?case
  proof (cases "\<exists>rem\<in>set (un_Remediations un). P rem")
    case True
    then obtain j where "find_pos P (un_Remediations un) = Some j"
      using find_pos_None[of P "un_Remediations un"] by blast
    with True Cons show ?thesis by auto
  next
    case False
    then have "find_pos P (un_Remediations un) = None" by simp
    with False Cons show ?thesis by (auto simp del: find_pos_None)
  qed
qed simp

lemma FindStatusRemediation_None:
  "status_wf nhc \<Longrightarrow> FindStatusRemediation node nhc P = None \<longleftrightarrow>
     (\<forall>un. statusNodes nhc (n_Name node) = Some un \<longrightarrow> (\<forall>rem\<in>set (un_Remediations un). \<not> P rem))"
  unfolding FindStatusRemediation_def findRemediation_None status_wf_def statusNodes_def
  by (auto simp: find_key)

lemma setTimedOut_wf:
  assumes "status_wf nhc" "FindStatusRemediation node nhc P = Some p"
  shows "status_wf (setTimedOut now p nhc)"
proof -
  let ?uns = "UnhealthyNodes (nhc_Status nhc)"
  have ij: "fst p < length ?uns" "snd p < length (un_Remediations (?uns ! fst p))"
    using assms(2) findRemediation_Some[of "n_Name node" P ?uns "fst p" "snd p"]
    by (auto simp: FindStatusRemediation_def)
  have names: "(map un_Name ?uns)[fst p := un_Name (?uns ! fst p)] = map un_Name ?uns"
    using ij(1) by (simp add: list_update_same_conv)
  have gvks: "(map (or_GVK \<circ> rem_Resource) (un_Remediations (?uns ! fst p)))
      [snd p := or_GVK (rem_Resource (un_Remediations (?uns ! fst p) ! snd p))] =
      map (or_GVK \<circ> rem_Resource) (un_Remediations (?uns ! fst p))"
    using ij(2) by (simp add: list_update_same_conv)
  from ij assms(1) show ?thesis
    by (auto simp: setTimedOut_def status_wf_def map_update list_all_iff Let_def names gvks
        dest!: subsetD[OF set_update_subset_insert])
qed

end
