(* ===== verification/Lease.thy ===== *)
theory Lease
  imports Client
begin

text \<open>
  Node leases. First the lease manager of \<open>github.com/medik8s/common/pkg/lease\<close> (vendored):
  request, renew, take over and release a lease. Then the operator's
  \<open>internal/controller/resources/lease.go\<close> on top of it: obtaining a lease before a
  remediation, managing (extending or giving up) it while the remediation runs, and
  invalidating it afterwards.

  \<open>lease_manager\<close> is the Go interface \<open>LeaseManager\<close>; the locale \<open>lease_iface\<close> states
  what the resource manager relies on, and \<open>nhcLeaseManager\<close> provides it.
\<close>

section \<open>Definitions\<close>

subsection \<open>The common lease manager\<close>

definition generateLeaseName :: "string \<Rightarrow> string" where
  "generateLeaseName nodeName = map to_lower (''Node-'' @ nodeName)"

text \<open>\<open>int32(d.Seconds())\<close>, for durations of less than 68 years.\<close>

definition dur_seconds :: "duration \<Rightarrow> int" where
  "dur_seconds d = (if 0 \<le> d then d div 1000000000 else - ((- d) div 1000000000))"

definition createLease :: "'w client \<Rightarrow> string \<Rightarrow> string \<Rightarrow> duration \<Rightarrow> ('w, error option) m" where
  "createLease c holder nodeName d = do {
     now \<leftarrow> ask (c_Now c);
     let l = \<lparr>l_HolderIdentity = Some holder, l_LeaseDurationSeconds = Some (dur_seconds d),
              l_AcquireTime = Some now, l_RenewTime = Some now, l_LeaseTransitions = Some 0\<rparr>;
     mutate (CreateLease (generateLeaseName nodeName) l) (c_CreateLease c (generateLeaseName nodeName) l)
   }"

definition leaseDueTime :: "time \<Rightarrow> int \<Rightarrow> time" where
  "leaseDueTime renew secs = time_Add renew (dur_mul secs second)"

text \<open>Whether to update a lease one holds, and whether to reset its acquire time as well.\<close>

definition needUpdateOwnedLease :: "Lease \<Rightarrow> time \<Rightarrow> duration \<Rightarrow> bool \<times> bool" where
  "needUpdateOwnedLease l now requested =
     (case (l_RenewTime l, l_LeaseDurationSeconds l) of
        (Some renew, Some secs) \<Rightarrow>
          (let due = leaseDueTime renew secs
           in if time_Before due now then (True, l_AcquireTime l = None)
              else (time_Before due (time_Add now requested), False))
      | _ \<Rightarrow> (True, True))"

definition isValidLease :: "Lease \<Rightarrow> time \<Rightarrow> bool" where
  "isValidLease l now =
     (case (l_RenewTime l, l_LeaseDurationSeconds l) of
        (Some renew, Some secs) \<Rightarrow>
          \<not> time_Before (leaseDueTime renew secs) now \<and> \<not> time_After renew now
      | _ \<Rightarrow> False)"

text \<open>The lease as \<open>requestLease\<close> writes it back.\<close>

definition renewedLease :: "string \<Rightarrow> time \<Rightarrow> duration \<Rightarrow> bool \<Rightarrow> Lease \<Rightarrow> Lease" where
  "renewedLease holder now d setAcquire l =
     (let l1 = (if setAcquire
                then l\<lparr>l_AcquireTime := Some now,
                       l_LeaseTransitions := Some (case l_LeaseTransitions l of None \<Rightarrow> 1 | Some n \<Rightarrow> n + 1)\<rparr>
                else l)
      in l1\<lparr>l_HolderIdentity := Some holder, l_LeaseDurationSeconds := Some (dur_seconds d),
            l_RenewTime := Some now\<rparr>)"

definition requestLease :: "'w client \<Rightarrow> string \<Rightarrow> string \<Rightarrow> duration \<Rightarrow> ('w, error option) m" where
  "requestLease c holder nodeName d = do {
     r \<leftarrow> ask (c_GetLease c (generateLeaseName nodeName));
     case r of
       Inl e \<Rightarrow> if IsNotFound e then createLease c holder nodeName d else State_Monad.return (Some e)
     | Inr l \<Rightarrow> do {
         now \<leftarrow> ask (c_Now c);
         if l_HolderIdentity l = Some holder then
           (case needUpdateOwnedLease l now d of (need, setAcquire) \<Rightarrow>
              if need then
                (let l' = renewedLease holder now d setAcquire l
                 in mutate (UpdateLease (generateLeaseName nodeName) l')
                      (c_UpdateLease c (generateLeaseName nodeName) l'))
              else State_Monad.return None)
         else if isValidLease l now then
           State_Monad.return (Some (AlreadyHeldError
             (case l_HolderIdentity l of None \<Rightarrow> ''unknown'' | Some i \<Rightarrow> i)))
         else
           (let l' = renewedLease holder now d True l
            in mutate (UpdateLease (generateLeaseName nodeName) l')
                 (c_UpdateLease c (generateLeaseName nodeName) l'))
       }
   }"

definition invalidateLease :: "'w client \<Rightarrow> string \<Rightarrow> string \<Rightarrow> ('w, error option) m" where
  "invalidateLease c holder nodeName = do {
     r \<leftarrow> ask (c_GetLease c (generateLeaseName nodeName));
     case r of
       Inl e \<Rightarrow> State_Monad.return (if IsNotFound e then None else Some e)
     | Inr l \<Rightarrow>
         (case l_HolderIdentity l of
            Some i \<Rightarrow>
              if i \<noteq> holder then State_Monad.return (Some (AlreadyHeldError i))
              else mutate (DeleteLease (generateLeaseName nodeName)) (c_DeleteLease c (generateLeaseName nodeName))
          | None \<Rightarrow>
              mutate (DeleteLease (generateLeaseName nodeName)) (c_DeleteLease c (generateLeaseName nodeName)))
   }"

definition defaultLeaseNs :: string where "defaultLeaseNs = ''medik8s-leases''"

definition getLeaseNsName :: "(string \<rightharpoonup> string) \<Rightarrow> string" where
  "getLeaseNsName env = (case env ''LEASE_NAMESPACE'' of None \<Rightarrow> defaultLeaseNs | Some ns \<Rightarrow> ns)"

text \<open>\<open>lease.NewManager\<close> ensures that the namespace of the leases exists.\<close>

definition setupLeaseNs :: "'w client \<Rightarrow> string \<Rightarrow> ('w, error option) m" where
  "setupLeaseNs c leaseNs = do {
     r \<leftarrow> ask (c_GetNamespace c leaseNs);
     case r of
       None \<Rightarrow> State_Monad.return None
     | Some e \<Rightarrow>
         if \<not> IsNotFound e then State_Monad.return (Some (Wrapped ''couldn't get lease namespace'' e))
         else do {
           r' \<leftarrow> mutate (CreateNamespace leaseNs) (c_CreateNamespace c leaseNs);
           State_Monad.return (map_option (Wrapped ''couldn't create lease namespace'') r')
         }
   }"

subsection \<open>The operator's lease manager\<close>

record 'w lease_manager =
  lm_ObtainNodeLease :: "string \<Rightarrow> duration \<Rightarrow> ('w, duration option \<times> error option) m"
  lm_ManageLease :: "string \<Rightarrow> duration \<Rightarrow> duration \<Rightarrow> ('w, duration \<times> error option) m"
  lm_InvalidateLease :: "string \<Rightarrow> ('w, error option) m"

definition LeaseBuffer :: duration where "LeaseBuffer = minute"

definition RequeueIfLeaseTaken :: duration where "RequeueIfLeaseTaken = minute"

definition maxTimesToExtendLease :: int where "maxTimesToExtendLease = 2"

definition ObtainNodeLease :: "'w client \<Rightarrow> string \<Rightarrow> string \<Rightarrow> duration \<Rightarrow> ('w, duration option \<times> error option) m" where
  "ObtainNodeLease c holder nodeName cur = do {
     r \<leftarrow> ask (c_GetNode c nodeName);
     case r of
       Inl e \<Rightarrow> State_Monad.return (None, Some e)
     | Inr node \<Rightarrow> do {
         r' \<leftarrow> requestLease c holder (n_Name node) (dur_add cur LeaseBuffer);
         State_Monad.return
           (case r' of
              Some (AlreadyHeldError i) \<Rightarrow> (Some RequeueIfLeaseTaken, Some (AlreadyHeldError i))
            | Some e \<Rightarrow> (None, Some e)
            | None \<Rightarrow> (Some cur, None))
       }
   }"

definition isLeaseOwner :: "string \<Rightarrow> Lease \<Rightarrow> bool" where
  "isLeaseOwner holder l = (l_HolderIdentity l = Some holder)"

definition calcLeaseExpiration :: "time \<Rightarrow> duration \<Rightarrow> duration \<Rightarrow> time" where
  "calcLeaseExpiration acquire cur prev =
     time_Add acquire (dur_add (dur_mul (maxTimesToExtendLease + 1) cur) prev)"

definition isLeaseOverdue :: "'w client \<Rightarrow> Lease \<Rightarrow> duration \<Rightarrow> duration \<Rightarrow> ('w, error + bool) m" where
  "isLeaseOverdue c l cur prev =
     (case l_AcquireTime l of
        None \<Rightarrow> State_Monad.return (Inl (Errorf ''lease Spec.AcquireTime is nil''))
      | Some acquire \<Rightarrow> do {
          now \<leftarrow> ask (c_Now c);
          State_Monad.return (Inr (time_After now (calcLeaseExpiration acquire cur prev)))
        })"

definition extendLease :: "'w client \<Rightarrow> string \<Rightarrow> string \<Rightarrow> Lease \<Rightarrow> duration \<Rightarrow> ('w, duration \<times> error option) m" where
  "extendLease c holder nodeName l cur = do {
     now \<leftarrow> ask (c_Now c);
     case (l_RenewTime l, l_LeaseDurationSeconds l) of
       (Some renew, Some secs) \<Rightarrow>
         if time_Before (time_Add renew (dur_mul secs second)) (time_Add now cur) then do {
           r \<leftarrow> requestLease c holder nodeName (dur_add cur LeaseBuffer);
           State_Monad.return (case r of Some e \<Rightarrow> (0, Some e) | None \<Rightarrow> (cur, None))
         } else State_Monad.return (cur, None)
     | _ \<Rightarrow> State_Monad.return (0, Some (Panic ''nil pointer dereference: lease spec''))
   }"

definition ManageLease :: "'w client \<Rightarrow> string \<Rightarrow> string \<Rightarrow> duration \<Rightarrow> duration \<Rightarrow> ('w, duration \<times> error option) m" where
  "ManageLease c holder nodeName cur prev = do {
     r \<leftarrow> ask (c_GetNode c nodeName);
     case r of
       Inl e \<Rightarrow> State_Monad.return (0, Some e)
     | Inr node \<Rightarrow> do {
         r' \<leftarrow> ask (c_GetLease c (generateLeaseName (n_Name node)));
         case r' of
           Inl e \<Rightarrow> State_Monad.return (0, if IsNotFound e then None else Some e)
         | Inr l \<Rightarrow>
             if \<not> isLeaseOwner holder l then State_Monad.return (0, None)
             else do {
               r'' \<leftarrow> isLeaseOverdue c l cur prev;
               case r'' of
                 Inl e \<Rightarrow> State_Monad.return (0, Some e)
               | Inr True \<Rightarrow> do {
                   r3 \<leftarrow> invalidateLease c holder (n_Name node);
                   State_Monad.return
                     (case r3 of
                        Some e \<Rightarrow> (0, Some e)
                      | None \<Rightarrow> (0, Some (LeaseOverDueError (''failed to extend lease, it is overdue. node name: '' @ nodeName))))
                 }
               | Inr False \<Rightarrow> extendLease c holder (n_Name node) l cur
             }
       }
   }"

definition InvalidateLease :: "'w client \<Rightarrow> string \<Rightarrow> string \<Rightarrow> ('w, error option) m" where
  "InvalidateLease c holder nodeName = do {
     r \<leftarrow> invalidateLease c holder nodeName;
     State_Monad.return (case r of Some (AlreadyHeldError i) \<Rightarrow> None | e \<Rightarrow> e)
   }"

definition nhcLeaseManager :: "'w client \<Rightarrow> string \<Rightarrow> 'w lease_manager" where
  "nhcLeaseManager c holder =
     \<lparr>lm_ObtainNodeLease = ObtainNodeLease c holder,
      lm_ManageLease = ManageLease c holder,
      lm_InvalidateLease = InvalidateLease c holder\<rparr>"

definition NewLeaseManager :: "'w client \<Rightarrow> string \<Rightarrow> ('w, error + 'w lease_manager) m" where
  "NewLeaseManager c holder = do {
     r \<leftarrow> setupLeaseNs c (getLeaseNsName (c_Env c));
     State_Monad.return (case r of Some e \<Rightarrow> Inl e | None \<Rightarrow> Inr (nhcLeaseManager c holder))
   }"

text \<open>A lease that the manager has written: its times are set and it names its holder.\<close>

definition complete_lease :: "string \<Rightarrow> Lease \<Rightarrow> bool" where
  "complete_lease holder l \<longleftrightarrow>
     l_HolderIdentity l = Some holder \<and> l_LeaseDurationSeconds l \<noteq> None \<and> l_RenewTime l \<noteq> None"

text \<open>What a lease operation of one holder may do.\<close>

fun own_lease_write :: "string \<Rightarrow> effect \<Rightarrow> bool" where
  "own_lease_write holder (CreateLease n l) = complete_lease holder l"
| "own_lease_write holder (UpdateLease n l) = complete_lease holder l"
| "own_lease_write holder (DeleteLease n) = True"
| "own_lease_write holder e = False"

fun is_CreateNamespace :: "effect \<Rightarrow> bool" where
  "is_CreateNamespace (CreateNamespace n) = True"
| "is_CreateNamespace e = False"

text \<open>
  Another holder has a valid lease of the node, at every reading of the clock; the API server returns
  the node that was asked for.
\<close>

definition foreign_lease :: "'w client \<Rightarrow> string \<Rightarrow> string \<Rightarrow> bool" where
  "foreign_lease c holder n \<longleftrightarrow>
     (\<forall>w node. fst (c_GetNode c n w) = Inr node \<longrightarrow> n_Name node = n) \<and>
     (\<exists>l other. (\<forall>w. fst (c_GetLease c (generateLeaseName n) w) = Inr l) \<and> l_HolderIdentity l = Some other \<and>
        other \<noteq> holder \<and> (\<forall>w. isValidLease l (fst (c_Now c w))))"

section \<open>The interface the resource manager uses\<close>

text \<open>
  Whatever a lease manager does, it only writes leases, and it obtains a lease with the delay
  after which the caller has to come back.
\<close>

locale lease_iface =
  fixes lm :: "'w lease_manager"
  assumes obtain_writes: "emits is_lease_write (lm_ObtainNodeLease lm n cur)"
    and manage_writes: "emits is_lease_write (lm_ManageLease lm n cur prev)"
    and invalidate_writes: "emits is_lease_write (lm_InvalidateLease lm n)"
    and obtain_delay: "run_state (lm_ObtainNodeLease lm n cur) s = ((d, None), s') \<Longrightarrow> d = Some cur"
    and invalidate_held: "run_state (lm_InvalidateLease lm n) s = (Some e, s') \<Longrightarrow> \<forall>i. e \<noteq> AlreadyHeldError i"
begin

lemma lease_frame:
  assumes "\<And>e. is_lease_write e \<Longrightarrow> P e"
  shows "emits P (lm_ObtainNodeLease lm n cur)" "emits P (lm_ManageLease lm n cur prev)"
    "emits P (lm_InvalidateLease lm n)"
  using assms by (blast intro: emits_mono obtain_writes manage_writes invalidate_writes)+

end

section \<open>Lemmas\<close>

subsection \<open>What the operations write\<close>

lemma own_lease_write_is_lease_write: "own_lease_write holder e \<Longrightarrow> is_lease_write e"
  by (cases e) auto

lemma complete_renewed [simp]: "complete_lease holder (renewedLease holder now d a l)"
  by (simp add: complete_lease_def renewedLease_def Let_def)

lemma emits_createLease: "emits (own_lease_write holder) (createLease c holder n d)"
  unfolding createLease_def by (intro emits_intros) (simp add: complete_lease_def)

lemma emits_requestLease: "emits (own_lease_write holder) (requestLease c holder n d)"
  unfolding requestLease_def by (intro emits_intros emits_createLease) simp_all

lemma emits_invalidateLease: "emits (own_lease_write holder) (invalidateLease c holder n)"
  unfolding invalidateLease_def by (intro emits_intros) simp_all

lemma emits_ObtainNodeLease: "emits (own_lease_write holder) (ObtainNodeLease c holder n cur)"
  unfolding ObtainNodeLease_def by (intro emits_intros emits_requestLease)

lemma emits_extendLease: "emits (own_lease_write holder) (extendLease c holder n l cur)"
  unfolding extendLease_def by (intro emits_intros emits_requestLease)

lemma emits_ManageLease: "emits (own_lease_write holder) (ManageLease c holder n cur prev)"
  unfolding ManageLease_def isLeaseOverdue_def
  by (intro emits_intros emits_invalidateLease emits_extendLease)

lemma emits_InvalidateLease: "emits (own_lease_write holder) (InvalidateLease c holder n)"
  unfolding InvalidateLease_def by (intro emits_intros emits_invalidateLease)

lemmas emits_lease_ops = emits_ObtainNodeLease emits_ManageLease emits_InvalidateLease

subsection \<open>The operator's lease manager provides the interface\<close>

lemma ObtainNodeLease_delay:
  "run_state (ObtainNodeLease c holder n cur) s = ((d, None), s') \<Longrightarrow> d = Some cur"
  by (auto simp: ObtainNodeLease_def split: prod.splits sum.splits option.splits error.splits)

lemma InvalidateLease_not_held:
  "run_state (InvalidateLease c holder n) s = (Some e, s') \<Longrightarrow> \<forall>i. e \<noteq> AlreadyHeldError i"
  by (auto simp: InvalidateLease_def split: prod.splits option.splits error.splits)

lemma nhcLeaseManager_simps [simp]:
  "lm_ObtainNodeLease (nhcLeaseManager c holder) = ObtainNodeLease c holder"
  "lm_ManageLease (nhcLeaseManager c holder) = ManageLease c holder"
  "lm_InvalidateLease (nhcLeaseManager c holder) = InvalidateLease c holder"
  by (simp_all add: nhcLeaseManager_def)

interpretation nlm: lease_iface "nhcLeaseManager c holder" for c :: "'w client" and holder
  by unfold_locales
    (auto intro: emits_mono[OF emits_ObtainNodeLease] emits_mono[OF emits_ManageLease]
      emits_mono[OF emits_InvalidateLease] own_lease_write_is_lease_write
      dest: ObtainNodeLease_delay InvalidateLease_not_held)

subsection \<open>Mutual exclusion\<close>

lemma requestLease_held:
  assumes "c_GetLease c (generateLeaseName n) (world s) = (Inr l, w1)"
    and "c_Now c w1 = (now, w2)"
    and "l_HolderIdentity l = Some other" "other \<noteq> holder" "isValidLease l now"
  shows "run_state (requestLease c holder n d) s = (Some (AlreadyHeldError other), s\<lparr>world := w2\<rparr>)"
  using assms by (simp add: requestLease_def)

lemma invalidateLease_foreign:
  assumes "c_GetLease c (generateLeaseName n) (world s) = (Inr l, w1)"
    and "l_HolderIdentity l = Some other" "other \<noteq> holder"
  shows "run_state (invalidateLease c holder n) s = (Some (AlreadyHeldError other), s\<lparr>world := w1\<rparr>)"
  using assms by (simp add: invalidateLease_def)

subsection \<open>Holding and giving up a lease\<close>

text \<open>Within the range of a duration, the expiration is three remediations and the previous ones after acquisition.\<close>

lemma calcLeaseExpiration_exact:
  assumes "0 \<le> cur" "0 \<le> prev" "3 * cur + prev \<le> max64"
  shows "calcLeaseExpiration acquire cur prev = acquire + 3 * cur + prev"
  using assms
  by (simp add: calcLeaseExpiration_def maxTimesToExtendLease_def dur_defs in64_def min64_def)

subsection \<open>Setup\<close>

lemma emits_NewLeaseManager: "emits is_CreateNamespace (NewLeaseManager c holder)"
  unfolding NewLeaseManager_def setupLeaseNs_def by (intro emits_intros) simp

lemma NewLeaseManager_Inr: "run_state (NewLeaseManager c holder) s = (Inr lm, s') \<Longrightarrow> lm = nhcLeaseManager c holder"
  by (auto simp: NewLeaseManager_def split: prod.splits option.splits)

subsection \<open>Leases of others\<close>

lemma foreign_node:
  "foreign_lease c holder n \<Longrightarrow>
     safe P (\<lambda>r. case r of Inl e \<Rightarrow> True | Inr node \<Rightarrow> n_Name node = n) (ask (c_GetNode c n))"
  unfolding foreign_lease_def by (intro safe_ask) (auto split: sum.splits)

lemma foreign_requestLease:
  assumes "foreign_lease c holder n"
  shows "safe P (\<lambda>e. \<exists>i. e = Some (AlreadyHeldError i)) (requestLease c holder n d)"
proof -
  obtain l other where l: "\<And>w. fst (c_GetLease c (generateLeaseName n) w) = Inr l" "l_HolderIdentity l = Some other"
    "other \<noteq> holder" "\<And>w. isValidLease l (fst (c_Now c w))" using assms unfolding foreign_lease_def by blast
  show ?thesis
  proof (rule safe_run)
    fix s :: "('a, effect) st"
    obtain w1 where w1: "c_GetLease c (generateLeaseName n) (world s) = (Inr l, w1)" using l(1) by (metis prod.collapse)
    obtain now w2 where w2: "c_Now c w1 = (now, w2)" by (metis surj_pair)
    with l(4)[of w1] have "isValidLease l now" by simp
    from requestLease_held[OF w1 w2 l(2,3) this]
    show "\<exists>a w. run_state (requestLease c holder n d) s = (a, s\<lparr>world := w\<rparr>) \<and> (\<exists>i. a = Some (AlreadyHeldError i))" by blast
  qed
qed

lemma foreign_ObtainNodeLease:
  assumes "foreign_lease c holder n"
  shows "safe P (\<lambda>x. snd x \<noteq> None) (ObtainNodeLease c holder n cur)"
  unfolding ObtainNodeLease_def using assms
  by (intro safe_bind[OF foreign_node[OF assms]])
    (auto intro!: safe_return safe_bind[OF foreign_requestLease] split: sum.splits)

lemma foreign_ManageLease:
  assumes "foreign_lease c holder n"
  shows "emits P (ManageLease c holder n cur prev)"
proof -
  obtain l other where l: "\<And>w. fst (c_GetLease c (generateLeaseName n) w) = Inr l" "l_HolderIdentity l = Some other"
    "other \<noteq> holder" using assms unfolding foreign_lease_def by blast
  have get: "safe P (\<lambda>r. r = Inr l) (ask (c_GetLease c (generateLeaseName m)))" if "n = m" for m
    using that l(1) by (intro safe_ask) simp
  have "safe P (\<lambda>_. True) (ManageLease c holder n cur prev)"
    unfolding ManageLease_def
    by (rule safe_bind[OF foreign_node[OF assms]])
      (use l(2,3) in \<open>auto simp: isLeaseOwner_def intro!: safe_return safe_bind[OF get] split: sum.splits\<close>)
  then show ?thesis by (rule safe_emits)
qed

end
