(* ===== verification/Templates.thy ===== *)
theory Templates
  imports Status Lease
begin

text \<open>
  Remediation templates (\<open>internal/controller/resources/templates.go\<close>): fetching and
  validating them, and the choice of the template for the next remediation attempt of a node.

  With escalating remediations the code sorts \<open>Spec.EscalatingRemediations\<close> in place, so the
  operation also returns the changed \<open>NodeHealthCheck\<close>. The webhook makes the orders distinct,
  which makes the unstable \<open>sort.Slice\<close> deterministic.

  The lemmas show that the chosen template is the first one, in the configured order, that has not
  timed out on the node, and that running out of templates means that all of them have.
\<close>

section \<open>Definitions\<close>

text \<open>
  \<open>resources.manager\<close>: the client, the value of the context key \<open>healthyDelay\<close>, the machine API
  capability and the lease manager.
\<close>

record 'w manager =
  mgr_Client :: "'w client"
  mgr_HealthyDelay :: "duration option"
  mgr_hasMachineAPI :: bool
  mgr_leaseManager :: "'w lease_manager"

definition NewManager :: "'w client \<Rightarrow> duration option \<Rightarrow> bool \<Rightarrow> 'w lease_manager \<Rightarrow> 'w manager" where
  "NewManager c healthyDelay hasMachineAPI lm =
     \<lparr>mgr_Client = c, mgr_HealthyDelay = healthyDelay, mgr_hasMachineAPI = hasMachineAPI, mgr_leaseManager = lm\<rparr>"

definition metal3RemediationTemplateKind :: string where
  "metal3RemediationTemplateKind = ''Metal3RemediationTemplate''"
definition machineAPINamespace :: string where
  "machineAPINamespace = ''openshift-machine-api''"

subsection \<open>Fetching a template\<close>

definition GenerateTemplate :: "ObjectReference \<Rightarrow> Unstructured" where
  "GenerateTemplate ref =
     (u_SetGVK (or_GVK ref) empty_unstructured)\<lparr>u_Name := or_Name ref, u_Namespace := or_Namespace ref\<rparr>"

definition validTemplate :: "Unstructured \<Rightarrow> bool" where
  "validTemplate t \<longleftrightarrow> NestedMap (u_Object t) [''spec'', ''template''] \<noteq> None"

definition fetchTemplate :: "'w manager \<Rightarrow> Unstructured \<Rightarrow> ('w, error + Unstructured) m" where
  "fetchTemplate mgr template = do {
     r \<leftarrow> ask (c_Get (mgr_Client mgr) template);
     State_Monad.return
       (case r of
          Inl e \<Rightarrow> Inl (Wrapped (''failed to get external remediation template '' @ u_Namespace template @ ''/'' @ u_Name template) e)
        | Inr t \<Rightarrow>
            if validTemplate t then Inr t
            else Inl (BrokenTemplateError (''invalid template '' @ u_Namespace t @ ''/'' @ u_Name t @ '', didn't find spec.template.spec'')))
   }"

definition getTemplateWithFallbackNamespace :: "'w manager \<Rightarrow> ObjectReference \<Rightarrow> string \<Rightarrow> ('w, error + Unstructured) m" where
  "getTemplateWithFallbackNamespace mgr templateRef crNamespace =
     (let template = GenerateTemplate templateRef
      in do {
        r \<leftarrow> ask (c_IsObjectNamespaced (mgr_Client mgr) template);
        case r of
          Inl e \<Rightarrow> State_Monad.return (Inl (Wrapped
            (''failed to check if remediation template '' @ quoted (u_Name template) @ '' is namespaced'') e))
        | Inr isNamespaced \<Rightarrow>
            if isNamespaced \<and> u_Namespace template = '''' then
              (if crNamespace = '''' then
                 State_Monad.return (Inl (Errorf (''remediation template '' @ quoted (u_Name template) @
                   '' not found, it is namespaced, but no namespace is provided'')))
               else fetchTemplate mgr (template\<lparr>u_Namespace := crNamespace\<rparr>))
            else fetchTemplate mgr template
      })"

definition getTemplate :: "'w manager \<Rightarrow> ObjectReference \<Rightarrow> ('w, error + Unstructured) m" where
  "getTemplate mgr templateRef = getTemplateWithFallbackNamespace mgr templateRef ''''"

definition GetTemplate :: "'w manager \<Rightarrow> MachineHealthCheck \<Rightarrow> ('w, error + Unstructured) m" where
  "GetTemplate mgr mhc =
     (case mhc_RemediationTemplate mhc of
        None \<Rightarrow> State_Monad.return (Inl (Errorf (''remediation template must set for MHC '' @ mhc_Name mhc)))
      | Some ref \<Rightarrow> getTemplateWithFallbackNamespace mgr ref (mhc_Namespace mhc))"

subsection \<open>The current template\<close>

text \<open>The kind of the remediation: the code slices off the length of the suffix.\<close>

definition sliceKind :: "string \<Rightarrow> string" where
  "sliceKind k = take (length k - length templateSuffix) k"

text \<open>A remediation of this template, which timed out.\<close>

definition timedOutWith :: "EscalatingRemediation \<Rightarrow> Remediation \<Rightarrow> bool" where
  "timedOutWith er r \<longleftrightarrow>
     (let g = or_GVK (er_RemediationTemplate er)
      in or_GVK (rem_Resource r) = g\<lparr>gvk_Kind := sliceKind (gvk_Kind g)\<rparr> \<and>
         rem_TimedOut r \<noteq> None \<and>
         (rem_TemplateName r = '''' \<or> rem_TemplateName r = or_Name (er_RemediationTemplate er)))"

text \<open>The filter slices the kind as soon as it is called: with a shorter kind it panics.\<close>

definition filterCalled :: "Node \<Rightarrow> NodeHealthCheck \<Rightarrow> bool" where
  "filterCalled node nhc = (FindStatusRemediation node nhc (\<lambda>r. True) \<noteq> None)"

fun chooseTemplate :: "Node \<Rightarrow> NodeHealthCheck \<Rightarrow> EscalatingRemediation list \<Rightarrow> error + EscalatingRemediation" where
  "chooseTemplate node nhc [] =
     Inl (NoTemplateLeftError (''didn't find a template to use for NHC '' @ nhc_Name nhc @ '' and node '' @ n_Name node))"
| "chooseTemplate node nhc (er # ers) =
     (if length (or_Kind (er_RemediationTemplate er)) < length templateSuffix \<and> filterCalled node nhc
      then Inl (Panic ''slice bounds out of range'')
      else case FindStatusRemediation node nhc (timedOutWith er) of
             None \<Rightarrow> Inr er
           | Some _ \<Rightarrow> chooseTemplate node nhc ers)"

definition sortEscalating :: "NodeHealthCheck \<Rightarrow> NodeHealthCheck" where
  "sortEscalating = map_spec (\<lambda>sp. sp\<lparr>EscalatingRemediations := sort_key er_Order (EscalatingRemediations sp)\<rparr>)"

definition GetCurrentTemplateWithTimeout ::
    "'w manager \<Rightarrow> Node \<Rightarrow> NodeHealthCheck \<Rightarrow> ('w, (error + Unstructured \<times> duration option) \<times> NodeHealthCheck) m" where
  "GetCurrentTemplateWithTimeout mgr node nhc =
     (case RemediationTemplate (nhc_Spec nhc) of
        Some ref \<Rightarrow> do {
          r \<leftarrow> getTemplate mgr ref;
          State_Monad.return (map_sum id (\<lambda>t. (t, None)) r, nhc)
        }
      | None \<Rightarrow>
          (let nhc' = sortEscalating nhc
           in case chooseTemplate node nhc' (EscalatingRemediations (nhc_Spec nhc')) of
                Inl e \<Rightarrow> State_Monad.return (Inl e, nhc')
              | Inr er \<Rightarrow> do {
                  r \<leftarrow> getTemplate mgr (er_RemediationTemplate er);
                  State_Monad.return (map_sum id (\<lambda>t. (t, Some (er_Timeout er))) r, nhc')
                }))"

subsection \<open>Validation\<close>

definition isTemplateNotFoundError :: "error \<Rightarrow> bool" where
  "isTemplateNotFoundError e \<longleftrightarrow>
     IsNotFound e \<or> IsNoMatchError e \<or> Contains (error_msg e) ''could not find'' \<or> Contains (error_msg e) ''not found''"

type_synonym validity = "bool \<times> string \<times> string"

definition handleTemplateError :: "error \<Rightarrow> error + validity" where
  "handleTemplateError e =
     (if isTemplateNotFoundError e then
        Inr (False, ConditionReasonDisabledTemplateNotFound, ''Remediation template not found: '' @ quoted (error_msg e))
      else case e of
        BrokenTemplateError msg \<Rightarrow>
          Inr (False, ConditionReasonDisabledTemplateInvalid, ''Remediation template is invalid: '' @ quoted (error_msg e))
      | _ \<Rightarrow> Inl e)"

definition validateTemplate :: "Unstructured \<Rightarrow> validity" where
  "validateTemplate t =
     (if u_Kind t = metal3RemediationTemplateKind \<and> u_Namespace t \<noteq> machineAPINamespace then
        (False, ConditionReasonDisabledTemplateInvalid,
         ''Metal3RemediationTemplate must be in the openshift-machine-api namespace. It is configured to be in namespace: '' @ u_Namespace t)
      else (True, '''', ''''))"

fun validateEscalating :: "'w manager \<Rightarrow> EscalatingRemediation list \<Rightarrow> ('w, error + validity) m" where
  "validateEscalating mgr [] = State_Monad.return (Inr (True, '''', ''''))"
| "validateEscalating mgr (er # ers) = do {
     r \<leftarrow> getTemplate mgr (er_RemediationTemplate er);
     case r of
       Inl e \<Rightarrow> State_Monad.return (handleTemplateError e)
     | Inr t \<Rightarrow> if fst (validateTemplate t) then validateEscalating mgr ers
                else State_Monad.return (Inr (validateTemplate t))
   }"

definition ValidateTemplates :: "'w manager \<Rightarrow> NodeHealthCheck \<Rightarrow> ('w, error + validity) m" where
  "ValidateTemplates mgr nhc =
     (case RemediationTemplate (nhc_Spec nhc) of
        Some ref \<Rightarrow> do {
          r \<leftarrow> getTemplate mgr ref;
          State_Monad.return
            (case r of Inl e \<Rightarrow> handleTemplateError e | Inr t \<Rightarrow> Inr (validateTemplate t))
        }
      | None \<Rightarrow> validateEscalating mgr (EscalatingRemediations (nhc_Spec nhc)))"

section \<open>Lemmas\<close>

lemma NewManager_simps [simp]:
  "mgr_Client (NewManager c delay hm lm) = c" "mgr_HealthyDelay (NewManager c delay hm lm) = delay"
  "mgr_hasMachineAPI (NewManager c delay hm lm) = hm" "mgr_leaseManager (NewManager c delay hm lm) = lm"
  by (simp_all add: NewManager_def)

subsection \<open>Reading templates changes nothing\<close>

lemma emits_getTemplateWithFallbackNamespace [emits_intros]:
  "emits P (getTemplateWithFallbackNamespace mgr ref ns)"
  unfolding getTemplateWithFallbackNamespace_def fetchTemplate_def by (intro emits_intros)

lemma emits_getTemplate [emits_intros]: "emits P (getTemplate mgr ref)"
  unfolding getTemplate_def by (intro emits_intros)

lemma emits_GetTemplate [emits_intros]: "emits P (GetTemplate mgr mhc)"
  unfolding GetTemplate_def by (intro emits_intros)

lemma emits_GetCurrentTemplateWithTimeout [emits_intros]: "emits P (GetCurrentTemplateWithTimeout mgr node nhc)"
  unfolding GetCurrentTemplateWithTimeout_def by (intro emits_intros)

lemma emits_validateEscalating [emits_intros]: "emits P (validateEscalating mgr ers)"
  by (induction ers) (auto intro!: emits_intros)

lemma emits_ValidateTemplates [emits_intros]: "emits P (ValidateTemplates mgr nhc)"
  unfolding ValidateTemplates_def by (intro emits_intros)

subsection \<open>A template that is returned is valid\<close>

lemma getTemplate_valid: "run_state (getTemplate mgr ref) s = (Inr t, s') \<Longrightarrow> validTemplate t"
  by (auto simp: getTemplate_def getTemplateWithFallbackNamespace_def fetchTemplate_def Let_def
      split: prod.splits sum.splits if_splits)

subsection \<open>The escalation\<close>

lemma chooseTemplate_Inr:
  assumes "chooseTemplate node nhc ers = Inr er"
  obtains pre post where "ers = pre @ er # post"
    and "\<forall>e\<in>set pre. FindStatusRemediation node nhc (timedOutWith e) \<noteq> None"
    and "FindStatusRemediation node nhc (timedOutWith er) = None"
  using assms
proof (induction ers arbitrary: thesis)
  case (Cons e ers)
  show ?case
  proof (cases "FindStatusRemediation node nhc (timedOutWith e)")
    case None
    with Cons.prems(2) have "er = e" by (simp split: if_splits)
    with None show ?thesis by (intro Cons.prems(1)[of "[]" ers]) simp_all
  next
    case (Some p)
    with Cons.prems(2) have "chooseTemplate node nhc ers = Inr er" by (simp split: if_splits)
    then show ?thesis
    proof (rule Cons.IH[rotated])
      fix pre post
      assume "ers = pre @ er # post" "\<forall>e\<in>set pre. FindStatusRemediation node nhc (timedOutWith e) \<noteq> None"
        "FindStatusRemediation node nhc (timedOutWith er) = None"
      with Some show ?thesis by (intro Cons.prems(1)[of "e # pre" post]) simp_all
    qed
  qed
qed simp

lemma chooseTemplate_NoTemplateLeft:
  "chooseTemplate node nhc ers = Inl (NoTemplateLeftError msg) \<Longrightarrow>
     \<forall>er\<in>set ers. FindStatusRemediation node nhc (timedOutWith er) \<noteq> None"
  by (induction ers) (auto split: if_splits option.splits)

lemma chooseTemplate_total:
  assumes "\<forall>er\<in>set ers. length templateSuffix \<le> length (or_Kind (er_RemediationTemplate er))"
  shows "(\<exists>er. chooseTemplate node nhc ers = Inr er) \<or> (\<exists>msg. chooseTemplate node nhc ers = Inl (NoTemplateLeftError msg))"
  using assms by (induction ers) (auto split: option.splits)

lemma sortEscalating_simps [simp]:
  "nhc_Status (sortEscalating nhc) = nhc_Status nhc"
  "nhc_Name (sortEscalating nhc) = nhc_Name nhc"
  "nhc_UID (sortEscalating nhc) = nhc_UID nhc"
  "nhc_APIVersion (sortEscalating nhc) = nhc_APIVersion nhc"
  "nhc_Kind (sortEscalating nhc) = nhc_Kind nhc"
  "EscalatingRemediations (nhc_Spec (sortEscalating nhc)) = sort_key er_Order (EscalatingRemediations (nhc_Spec nhc))"
  "RemediationTemplate (nhc_Spec (sortEscalating nhc)) = RemediationTemplate (nhc_Spec nhc)"
  "UnhealthyConditions (nhc_Spec (sortEscalating nhc)) = UnhealthyConditions (nhc_Spec nhc)"
  "StormCooldownDuration (nhc_Spec (sortEscalating nhc)) = StormCooldownDuration (nhc_Spec nhc)"
  "PauseRequests (nhc_Spec (sortEscalating nhc)) = PauseRequests (nhc_Spec nhc)"
  "MinHealthy (nhc_Spec (sortEscalating nhc)) = MinHealthy (nhc_Spec nhc)"
  "MaxUnhealthy (nhc_Spec (sortEscalating nhc)) = MaxUnhealthy (nhc_Spec nhc)"
  by (simp_all add: sortEscalating_def map_spec_def)

lemma FindStatusRemediation_sort [simp]:
  "FindStatusRemediation node (sortEscalating nhc) P = FindStatusRemediation node nhc P"
  by (simp add: FindStatusRemediation_def)

text \<open>The first template in the configured order that has not timed out on the node.\<close>

lemma chooseTemplate_sorted:
  assumes "chooseTemplate node nhc' (sort_key er_Order ers) = Inr er" and "distinct (map er_Order ers)"
  shows "er \<in> set ers \<and> FindStatusRemediation node nhc' (timedOutWith er) = None \<and>
     (\<forall>e\<in>set ers. er_Order e < er_Order er \<longrightarrow> FindStatusRemediation node nhc' (timedOutWith e) \<noteq> None)"
proof -
  from assms(1) obtain pre post where sp: "sort_key er_Order ers = pre @ er # post"
    and pre: "\<forall>e\<in>set pre. FindStatusRemediation node nhc' (timedOutWith e) \<noteq> None"
    and er: "FindStatusRemediation node nhc' (timedOutWith er) = None"
    by (rule chooseTemplate_Inr)
  have st: "set ers = set (pre @ er # post)" by (metis set_sort sp)
  have "sorted (map er_Order (pre @ er # post))" by (metis sorted_sort_key sp)
  then have "\<forall>e\<in>set post. er_Order er \<le> er_Order e" by (simp add: sorted_append)
  with st pre er show ?thesis by fastforce
qed

end
