(* ===== verification/Conditions.thy ===== *)
theory Conditions
  imports NHC_Types "HOL-Library.List_Lexorder" "HOL-Library.Char_ord"
begin

text \<open>
  Status conditions. First \<open>meta.SetStatusCondition\<close> and its lookups (vendored
  \<open>k8s.io/apimachinery/pkg/api/meta/conditions.go\<close>), then
  \<open>internal/controller/utils/conditions.go\<close>: the operator's condition tests, the shared
  health check \<open>isHealthy\<close> of node conditions against unhealthy conditions, and the machine
  API conditions of a \<open>MachineHealthCheck\<close>.

  The lemmas show that condition lists behave as finite maps keyed by type, that a transition
  time moves exactly when the status changes, and what \<open>isHealthy\<close> decides.
\<close>

section \<open>Definitions\<close>

subsection \<open>metav1 conditions\<close>

fun FindStatusCondition :: "Condition list \<Rightarrow> string \<Rightarrow> Condition option" where
  "FindStatusCondition [] ty = None"
| "FindStatusCondition (c # cs) ty = (if cond_Type c = ty then Some c else FindStatusCondition cs ty)"

text \<open>
  What \<open>SetStatusCondition\<close> does to the existing condition of the type. \<open>now\<close> is the value
  of \<open>time.Now()\<close>.
\<close>

definition updateCondition :: "time \<Rightarrow> Condition \<Rightarrow> Condition \<Rightarrow> Condition" where
  "updateCondition now new old =
     (let old1 = (if cond_Status old \<noteq> cond_Status new
                  then old\<lparr>cond_Status := cond_Status new,
                           cond_LastTransitionTime :=
                             (if cond_LastTransitionTime new \<noteq> zero_time
                              then cond_LastTransitionTime new else now)\<rparr>
                  else old)
      in old1\<lparr>cond_Reason := cond_Reason new, cond_Message := cond_Message new,
              cond_ObservedGeneration := cond_ObservedGeneration new\<rparr>)"

fun SetStatusCondition :: "time \<Rightarrow> Condition \<Rightarrow> Condition list \<Rightarrow> Condition list" where
  "SetStatusCondition now new [] =
     [if cond_LastTransitionTime new = zero_time then new\<lparr>cond_LastTransitionTime := now\<rparr> else new]"
| "SetStatusCondition now new (c # cs) =
     (if cond_Type c = cond_Type new then updateCondition now new c # cs
      else c # SetStatusCondition now new cs)"

definition IsStatusConditionPresentAndEqual :: "Condition list \<Rightarrow> string \<Rightarrow> string \<Rightarrow> bool" where
  "IsStatusConditionPresentAndEqual cs ty status =
     (case FindStatusCondition cs ty of None \<Rightarrow> False | Some c \<Rightarrow> cond_Status c = status)"

definition IsStatusConditionFalse :: "Condition list \<Rightarrow> string \<Rightarrow> bool" where
  "IsStatusConditionFalse cs ty = IsStatusConditionPresentAndEqual cs ty ConditionFalse"

text \<open>A condition as the operator passes it: no transition time, no observed generation.\<close>

definition mkCondition :: "string \<Rightarrow> string \<Rightarrow> string \<Rightarrow> string \<Rightarrow> Condition" where
  "mkCondition ty status reason message =
     \<lparr>cond_Type = ty, cond_Status = status, cond_ObservedGeneration = 0,
      cond_LastTransitionTime = zero_time, cond_Reason = reason, cond_Message = message\<rparr>"

subsection \<open>Condition tests\<close>

definition IsConditionTrueWithReason :: "Condition list \<Rightarrow> string \<Rightarrow> string \<Rightarrow> bool" where
  "IsConditionTrueWithReason cs ty reason =
     (case FindStatusCondition cs ty of
        None \<Rightarrow> False
      | Some c \<Rightarrow> cond_Status c = ConditionTrue \<and> cond_Reason c = reason)"

definition IsConditionFalseWithReason :: "Condition list \<Rightarrow> string \<Rightarrow> string \<Rightarrow> bool" where
  "IsConditionFalseWithReason cs ty reason =
     (case FindStatusCondition cs ty of
        None \<Rightarrow> False
      | Some c \<Rightarrow> cond_Status c = ConditionFalse \<and> cond_Reason c = reason)"

definition IsConditionTrue :: "Condition list \<Rightarrow> string \<Rightarrow> bool" where
  "IsConditionTrue cs ty =
     (case FindStatusCondition cs ty of None \<Rightarrow> False | Some c \<Rightarrow> cond_Status c = ConditionTrue)"

definition IsConditionSet :: "Condition list \<Rightarrow> string \<Rightarrow> bool" where
  "IsConditionSet cs ty = (FindStatusCondition cs ty \<noteq> None)"

subsection \<open>Node health\<close>

text \<open>\<open>nodeConditionByType\<close>: later conditions of a type overwrite earlier ones.\<close>

definition nodeConditionByType :: "NodeCondition list \<Rightarrow> string \<rightharpoonup> NodeCondition" where
  "nodeConditionByType ncs = foldl (\<lambda>m nc. m(nc_Type nc \<mapsto> nc)) Map.empty ncs"

fun isHealthy_loop :: "(string \<rightharpoonup> NodeCondition) \<Rightarrow> UnhealthyCondition list \<Rightarrow> time \<Rightarrow> bool \<times> duration option" where
  "isHealthy_loop m [] now = (True, None)"
| "isHealthy_loop m (c # cs) now =
     (case m (uc_Type c) of
        None \<Rightarrow> isHealthy_loop m cs now
      | Some n \<Rightarrow>
          if nc_Status n = uc_Status c then
            (if time_After now (time_Add (nc_LastTransitionTime n) (uc_Duration c)) then (False, None)
             else (True, Some (dur_add (time_Sub (time_Add (nc_LastTransitionTime n) (uc_Duration c)) now) second)))
          else isHealthy_loop m cs now)"

definition isHealthy :: "UnhealthyCondition list \<Rightarrow> NodeCondition list \<Rightarrow> time \<Rightarrow> bool \<times> duration option" where
  "isHealthy unhealthyConditions nodeConditions now =
     isHealthy_loop (nodeConditionByType nodeConditions) unhealthyConditions now"

text \<open>
  Both health check kinds convert their unhealthy conditions to one type before the check; the
  \<open>Timeout\<close> of a machine health check's condition is its duration.
\<close>

definition IsHealthyNHC :: "UnhealthyCondition list \<Rightarrow> NodeCondition list \<Rightarrow> time \<Rightarrow> bool \<times> duration option" where
  "IsHealthyNHC = isHealthy"

definition IsHealthyMHC :: "UnhealthyCondition list \<Rightarrow> NodeCondition list \<Rightarrow> time \<Rightarrow> bool \<times> duration option" where
  "IsHealthyMHC = isHealthy"

text \<open>A node condition that matches an unhealthy condition for longer than its duration.\<close>

definition expiredCondition :: "(string \<rightharpoonup> NodeCondition) \<Rightarrow> time \<Rightarrow> UnhealthyCondition \<Rightarrow> bool" where
  "expiredCondition m now c \<longleftrightarrow>
     (case m (uc_Type c) of
        None \<Rightarrow> False
      | Some n \<Rightarrow> nc_Status n = uc_Status c \<and>
          time_After now (time_Add (nc_LastTransitionTime n) (uc_Duration c)))"

definition pendingCondition :: "(string \<rightharpoonup> NodeCondition) \<Rightarrow> time \<Rightarrow> UnhealthyCondition \<Rightarrow> bool" where
  "pendingCondition m now c \<longleftrightarrow>
     (case m (uc_Type c) of
        None \<Rightarrow> False
      | Some n \<Rightarrow> nc_Status n = uc_Status c \<and>
          \<not> time_After now (time_Add (nc_LastTransitionTime n) (uc_Duration c)))"

subsection \<open>Machine API conditions\<close>

definition hasSameState :: "MachineCondition \<Rightarrow> MachineCondition \<Rightarrow> bool" where
  "hasSameState i j \<longleftrightarrow>
     mc_Type i = mc_Type j \<and> mc_Status i = mc_Status j \<and> mc_Reason i = mc_Reason j \<and>
     mc_Severity i = mc_Severity j \<and> mc_Message i = mc_Message j"

definition truncate_second :: "time \<Rightarrow> time" where
  "truncate_second t = t - t mod 1000000000"

fun replaceMachineCondition :: "time \<Rightarrow> MachineCondition \<Rightarrow> MachineCondition list \<Rightarrow> MachineCondition list \<times> bool" where
  "replaceMachineCondition now c [] = ([], False)"
| "replaceMachineCondition now c (x # xs) =
     (if mc_Type x = mc_Type c then
        ((if hasSameState x c then x else c\<lparr>mc_LastTransitionTime := truncate_second now\<rparr>) # xs, True)
      else (let (ys, found) = replaceMachineCondition now c xs in (x # ys, found)))"

definition SetMachineCondition :: "time \<Rightarrow> MachineHealthCheck \<Rightarrow> MachineCondition \<Rightarrow> MachineHealthCheck" where
  "SetMachineCondition now mhc c =
     (let (cs, found) = replaceMachineCondition now c (mhc_Conditions mhc);
          cs' = (if found then cs
                 else cs @ [if mc_LastTransitionTime c = zero_time
                            then c\<lparr>mc_LastTransitionTime := truncate_second now\<rparr> else c])
      in mhc\<lparr>mhc_Conditions := sort_key mc_Type cs'\<rparr>)"

section \<open>Lemmas\<close>

subsection \<open>Condition lists as maps\<close>

lemma mkCondition_simps [simp]:
  "cond_Type (mkCondition ty st re ms) = ty"
  "cond_Status (mkCondition ty st re ms) = st"
  "cond_Reason (mkCondition ty st re ms) = re"
  "cond_Message (mkCondition ty st re ms) = ms"
  "cond_LastTransitionTime (mkCondition ty st re ms) = zero_time"
  by (simp_all add: mkCondition_def)

lemma updateCondition_Type [simp]: "cond_Type (updateCondition now new old) = cond_Type old"
  by (simp add: updateCondition_def Let_def)

lemma updateCondition_Status [simp]: "cond_Status (updateCondition now new old) = cond_Status new"
  by (simp add: updateCondition_def Let_def)

lemma updateCondition_Reason [simp]: "cond_Reason (updateCondition now new old) = cond_Reason new"
  by (simp add: updateCondition_def Let_def)

lemma Find_Set_other [simp]:
  "ty \<noteq> cond_Type new \<Longrightarrow> FindStatusCondition (SetStatusCondition now new cs) ty = FindStatusCondition cs ty"
  by (induction cs) auto

lemma Find_Set_same:
  "FindStatusCondition (SetStatusCondition now new cs) (cond_Type new) =
     Some (case FindStatusCondition cs (cond_Type new) of
             None \<Rightarrow> if cond_LastTransitionTime new = zero_time then new\<lparr>cond_LastTransitionTime := now\<rparr> else new
           | Some old \<Rightarrow> updateCondition now new old)"
  by (induction cs) auto

lemma Find_Set_mk [simp]:
  "FindStatusCondition (SetStatusCondition now (mkCondition ty st re ms) cs) ty =
     Some (case FindStatusCondition cs ty of
             None \<Rightarrow> (mkCondition ty st re ms)\<lparr>cond_LastTransitionTime := now\<rparr>
           | Some old \<Rightarrow> updateCondition now (mkCondition ty st re ms) old)"
  using Find_Set_same[of now "mkCondition ty st re ms" cs] by (auto split: option.splits)

lemma IsConditionTrue_Set [simp]:
  "IsConditionTrue (SetStatusCondition now (mkCondition ty st re ms) cs) ty' =
     (if ty' = ty then st = ConditionTrue else IsConditionTrue cs ty')"
  by (auto simp: IsConditionTrue_def split: option.splits)

lemma IsConditionTrueWithReason_Set [simp]:
  "IsConditionTrueWithReason (SetStatusCondition now (mkCondition ty st re ms) cs) ty' re' =
     (if ty' = ty then st = ConditionTrue \<and> re = re' else IsConditionTrueWithReason cs ty' re')"
  by (auto simp: IsConditionTrueWithReason_def split: option.splits)

lemma FindStatusCondition_Type: "FindStatusCondition cs ty = Some c \<Longrightarrow> cond_Type c = ty"
  by (induction cs) (auto split: if_splits)

lemma types_Set: "map cond_Type (SetStatusCondition now new cs) =
   (if cond_Type new \<in> set (map cond_Type cs) then map cond_Type cs
    else map cond_Type cs @ [cond_Type new])"
  by (induction cs) auto

subsection \<open>Node health\<close>

lemma isHealthy_loop_skip:
  "\<not> expiredCondition m now c \<Longrightarrow> \<not> pendingCondition m now c \<Longrightarrow>
     isHealthy_loop m (c # cs) now = isHealthy_loop m cs now"
  by (auto simp: expiredCondition_def pendingCondition_def split: option.splits)

lemma isHealthy_loop_unhealthy_iff:
  "\<not> fst (isHealthy_loop m cs now) \<longleftrightarrow>
     (\<exists>pre c post. cs = pre @ c # post \<and> expiredCondition m now c \<and>
        (\<forall>p\<in>set pre. \<not> pendingCondition m now p))" (is "_ \<longleftrightarrow> ?first cs")
proof (induction cs)
  case (Cons c cs)
  consider (expired) "expiredCondition m now c" | (pending) "pendingCondition m now c" "\<not> expiredCondition m now c"
    | (skip) "\<not> expiredCondition m now c" "\<not> pendingCondition m now c" by blast
  then show ?case
  proof cases
    case expired
    then have "\<not> fst (isHealthy_loop m (c # cs) now)"
      by (auto simp: expiredCondition_def split: option.splits)
    with expired show ?thesis by (metis append_Nil empty_iff list.set(1))
  next
    case pending
    then have "fst (isHealthy_loop m (c # cs) now)"
      by (auto simp: pendingCondition_def split: option.splits)
    with pending show ?thesis by (auto simp: Cons_eq_append_conv)
  next
    case skip
    then have "?first (c # cs) \<longleftrightarrow> ?first cs"
      by (auto simp: Cons_eq_append_conv) (metis list.set_intros(1) set_ConsD)+
    with Cons.IH isHealthy_loop_skip[OF skip] show ?thesis by (simp only:)
  qed
qed simp

text \<open>The requeue delay of a healthy node is positive when the conditions' durations are sane.\<close>

lemma isHealthy_loop_requeue:
  "isHealthy_loop m cs now = (h, Some d) \<Longrightarrow>
     h \<and> (\<exists>c\<in>set cs. \<exists>n. m (uc_Type c) = Some n \<and> pendingCondition m now c \<and>
         d = dur_add (time_Sub (time_Add (nc_LastTransitionTime n) (uc_Duration c)) now) second)"
  by (induction cs) (auto simp: pendingCondition_def split: option.splits if_splits)

subsection \<open>Machine conditions\<close>

lemma replaceMachineCondition_types:
  "map mc_Type (fst (replaceMachineCondition now c cs)) = map mc_Type cs"
  "snd (replaceMachineCondition now c cs) = (mc_Type c \<in> mc_Type ` set cs)"
  by (induction cs) (auto split: prod.splits)

lemma SetMachineCondition_sorted:
  "sorted (map mc_Type (mhc_Conditions (SetMachineCondition now mhc c)))"
  by (simp add: SetMachineCondition_def split: prod.splits)

lemma SetMachineCondition_types:
  "set (map mc_Type (mhc_Conditions (SetMachineCondition now mhc c))) =
     insert (mc_Type c) (set (map mc_Type (mhc_Conditions mhc)))"
proof -
  obtain cs found where r: "replaceMachineCondition now c (mhc_Conditions mhc) = (cs, found)"
    by fastforce
  then have "set (map mc_Type cs) = set (map mc_Type (mhc_Conditions mhc))"
    and "found = (mc_Type c \<in> set (map mc_Type (mhc_Conditions mhc)))"
    using replaceMachineCondition_types[of now c "mhc_Conditions mhc"] by (simp_all flip: set_map)
  with r show ?thesis by (auto simp: SetMachineCondition_def)
qed

end
