(* ===== verification/Go_Time.thy ===== *)
theory Go_Time
  imports Prelude
begin

text \<open>
  \<open>Format\<close> and \<open>Parse\<close> of Go's \<open>time\<close> package for the layout \<open>time.RFC3339\<close>, which the
  operator uses to keep instants in annotations: the proleptic Gregorian calendar, zero-padded
  fields, the zone as \<open>Z\<close> or as an offset, and the leniency of Go's parser (an hour of one
  digit, a fraction of a second after a point or a comma). Also \<open>String\<close> of a duration, as messages print it.

  The main lemma is the round trip: parsing a formatted UTC instant gives the instant truncated
  to the second.
\<close>

section \<open>Definitions\<close>

subsection \<open>The calendar\<close>

definition isLeap :: "int \<Rightarrow> bool" where
  "isLeap y \<longleftrightarrow> y mod 4 = 0 \<and> (y mod 100 \<noteq> 0 \<or> y mod 400 = 0)"

definition daysIn :: "int \<Rightarrow> int \<Rightarrow> int" where
  "daysIn m y =
     (if m = 2 then (if isLeap y then 29 else 28)
      else if m = 4 \<or> m = 6 \<or> m = 9 \<or> m = 11 then 30 else 31)"

text \<open>Days since 1 March of year 0, counting years from March so that the leap day is the last.\<close>

definition daysBeforeYear :: "int \<Rightarrow> int" where
  "daysBeforeYear y = 365 * y + y div 4 - y div 100"

definition civilToDays :: "int \<Rightarrow> int \<Rightarrow> int \<Rightarrow> int" where
  "civilToDays y m d =
     (let y' = (if m \<le> 2 then y - 1 else y);
          mp = (if m \<le> 2 then m + 9 else m - 3);
          era = y' div 400
      in era * 146097 + daysBeforeYear (y' - era * 400) + (153 * mp + 2) div 5 + (d - 1) - 719468)"

definition daysToCivil :: "int \<Rightarrow> int \<times> int \<times> int" where
  "daysToCivil z =
     (let era = (z + 719468) div 146097;
          doe = (z + 719468) mod 146097;
          c = min 3 (doe div 36524); doc = doe - c * 36524;
          q = doc div 1461; doq = doc - q * 1461;
          a = min 3 (doq div 365); doy = doq - a * 365;
          yoe = 100 * c + 4 * q + a;
          mp = (5 * doy + 2) div 153;
          d = doy - (153 * mp + 2) div 5 + 1;
          m = (if mp < 10 then mp + 3 else mp - 9)
      in (era * 400 + yoe + (if m \<le> 2 then 1 else 0), m, d))"

subsection \<open>Formatting\<close>

definition pad :: "nat \<Rightarrow> int \<Rightarrow> string" where
  "pad w n =
     (let s = show_nat (nat \<bar>n\<bar>)
      in (if n < 0 then ''-'' else '''') @ replicate (w - length s) (CHR ''0'') @ s)"

definition formatZone :: "int \<Rightarrow> string" where
  "formatZone off =
     (if off = 0 then ''Z''
      else (let z = \<bar>off\<bar> div 60
            in (if off < 0 then ''-'' else ''+'') @ pad 2 (z div 60) @ '':'' @ pad 2 (z mod 60)))"

text \<open>\<open>off\<close> is the offset of the instant's location, in seconds; \<open>0\<close> for UTC.\<close>

definition formatRFC3339 :: "int \<Rightarrow> time \<Rightarrow> string" where
  "formatRFC3339 off t =
     (let secs = t div 1000000000 + off;
          sod = secs mod 86400
      in case daysToCivil (secs div 86400) of (y, m, d) \<Rightarrow>
           pad 4 y @ ''-'' @ pad 2 m @ ''-'' @ pad 2 d @ ''T'' @
           pad 2 (sod div 3600) @ '':'' @ pad 2 (sod div 60 mod 60) @ '':'' @ pad 2 (sod mod 60) @
           formatZone off)"

subsection \<open>Parsing\<close>

text \<open>A number of exactly \<open>n\<close> digits, and one of one or two digits.\<close>

definition getnum :: "nat \<Rightarrow> string \<Rightarrow> (int \<times> string) option" where
  "getnum n s =
     (if n \<le> length s \<and> list_all is_digit (take n s) then Some (digits_val (take n s), drop n s) else None)"

definition getnum12 :: "string \<Rightarrow> (int \<times> string) option" where
  "getnum12 s = (case getnum 2 s of Some r \<Rightarrow> Some r | None \<Rightarrow> getnum 1 s)"

fun skipChar :: "char \<Rightarrow> string \<Rightarrow> string option" where
  "skipChar c [] = None"
| "skipChar c (x # xs) = (if x = c then Some xs else None)"

text \<open>An optional fraction of a second, in nanoseconds; digits after the ninth are dropped.\<close>

definition parseFraction :: "string \<Rightarrow> int \<times> string" where
  "parseFraction s =
     (case s of
        p # x # xs \<Rightarrow>
          if (p = CHR ''.'' \<or> p = CHR '','') \<and> is_digit x then
            (let ds = takeWhile is_digit (x # xs); k = take 9 ds
             in (digits_val k * 10 ^ (9 - length k), dropWhile is_digit (x # xs)))
          else (0, s)
      | _ \<Rightarrow> (0, s))"

text \<open>The zone, as an offset in seconds, at the end of the value.\<close>

definition parseZone :: "string \<Rightarrow> int option" where
  "parseZone s =
     (if s = ''Z'' then Some 0
      else case s of
        [] \<Rightarrow> None
      | sign # rest \<Rightarrow>
          do { (h, r1) \<leftarrow> getnum 2 rest;
               r2 \<leftarrow> skipChar (CHR '':'') r1;
               (mi, r3) \<leftarrow> getnum 2 r2;
               if r3 \<noteq> [] \<or> h > 24 \<or> mi > 60 then None
               else if sign = CHR ''+'' then Some ((h * 60 + mi) * 60)
               else if sign = CHR ''-'' then Some (- ((h * 60 + mi) * 60))
               else None })"

definition parseRFC3339 :: "string \<Rightarrow> time option" where
  "parseRFC3339 s =
     do { (y, r1) \<leftarrow> getnum 4 s;
          r2 \<leftarrow> skipChar (CHR ''-'') r1;
          (m, r3) \<leftarrow> getnum 2 r2;
          r4 \<leftarrow> skipChar (CHR ''-'') r3;
          (d, r5) \<leftarrow> getnum 2 r4;
          r6 \<leftarrow> skipChar (CHR ''T'') r5;
          (h, r7) \<leftarrow> getnum12 r6;
          r8 \<leftarrow> skipChar (CHR '':'') r7;
          (mi, r9) \<leftarrow> getnum 2 r8;
          r10 \<leftarrow> skipChar (CHR '':'') r9;
          (sec, r11) \<leftarrow> getnum 2 r10;
          let (ns, r12) = parseFraction r11;
          off \<leftarrow> parseZone r12;
          if m < 1 \<or> m > 12 \<or> d < 1 \<or> d > daysIn m y \<or> h \<ge> 24 \<or> mi \<ge> 60 \<or> sec \<ge> 60 then None
          else Some ((civilToDays y m d * 86400 + h * 3600 + mi * 60 + sec - off) * 1000000000 + ns) }"

subsection \<open>Durations\<close>

text \<open>
  \<open>String\<close> of \<open>time.Duration\<close>. \<open>fmtFrac\<close> prints the last \<open>prec\<close> decimal digits as a fraction without its
  trailing zeros and returns the digits before them; the micro sign is the two bytes of its UTF-8 code.
\<close>

fun fmtFrac :: "nat \<Rightarrow> int \<Rightarrow> bool \<Rightarrow> string \<Rightarrow> string \<times> int" where
  "fmtFrac 0 v print acc = (if print then CHR ''.'' # acc else acc, v)"
| "fmtFrac (Suc prec) v print acc =
     (let digit = v mod 10;
          print' = (print \<or> digit \<noteq> 0)
      in fmtFrac prec (v div 10) print' (if print' then char_of (48 + nat digit) # acc else acc))"

definition Duration_String :: "duration \<Rightarrow> string" where
  "Duration_String d =
     (let u = \<bar>d\<bar>;
          body =
            (if u < 1000000000 then
               (if u = 0 then ''0s''
                else let (prec, unit) = (if u < 1000 then (0, ''ns'')
                           else if u < 1000000 then (3, [CHR 0xC2, CHR 0xB5, CHR ''s'']) else (6, ''ms''));
                         (frac, v) = fmtFrac prec u False []
                     in show_nat (nat v) @ frac @ unit)
             else let (frac, v) = fmtFrac 9 u False [];
                      sec = show_nat (nat (v mod 60)) @ frac @ ''s'';
                      m = v div 60
                  in if m > 0 then
                       (let min = show_nat (nat (m mod 60)) @ ''m'' @ sec;
                            h = m div 60
                        in if h > 0 then show_nat (nat h) @ ''h'' @ min else min)
                     else sec)
      in if d < 0 then CHR ''-'' # body else body)"

section \<open>Lemmas\<close>

subsection \<open>The calendar\<close>

lemma div_bounds: "(0::int) < k \<Longrightarrow> k * (x div k) \<le> x \<and> x < k * (x div k) + k"
  by (simp add: mult.commute mult_div_mod_eq[symmetric] minus_mod_eq_mult_div[symmetric]
      algebra_simps pos_mod_bound)

text \<open>The day of an era splits into centuries, four-year cycles, years and days.\<close>

lemma split_era:
  fixes doe :: int
  assumes "0 \<le> doe" "doe < 146097"
  defines "c \<equiv> min 3 (doe div 36524)"
  defines "doc \<equiv> doe - c * 36524"
  defines "q \<equiv> doc div 1461"
  defines "doq \<equiv> doc - q * 1461"
  defines "a \<equiv> min 3 (doq div 365)"
  defines "doy \<equiv> doq - a * 365"
  shows "0 \<le> c \<and> c \<le> 3" "0 \<le> q \<and> q \<le> 24" "0 \<le> a \<and> a \<le> 3" "0 \<le> doy \<and> doy \<le> 365"
    "doe = 36524 * c + 1461 * q + 365 * a + doy"
    "doy = 365 \<Longrightarrow> a = 3 \<and> (q = 24 \<longrightarrow> c = 3)"
proof -
  have c: "0 \<le> c \<and> c \<le> 3 \<and> 0 \<le> doc \<and> (c < 3 \<longrightarrow> doc < 36524) \<and> doc < 36525"
    using div_bounds[of 36524 doe] assms(1,2) unfolding c_def doc_def min_def
    by (auto simp: pos_imp_zdiv_nonneg_iff)
  have q: "0 \<le> q \<and> q \<le> 24 \<and> 0 \<le> doq \<and> doq < 1461"
    using div_bounds[of 1461 doc] c unfolding q_def doq_def
    by (simp add: pos_imp_zdiv_nonneg_iff)
  have a: "0 \<le> a \<and> a \<le> 3 \<and> 0 \<le> doy \<and> (a < 3 \<longrightarrow> doy < 365) \<and> doy \<le> 365"
    using div_bounds[of 365 doq] q unfolding a_def doy_def min_def
    by (auto simp: pos_imp_zdiv_nonneg_iff)
  show "0 \<le> c \<and> c \<le> 3" "0 \<le> q \<and> q \<le> 24" "0 \<le> a \<and> a \<le> 3" "0 \<le> doy \<and> doy \<le> 365"
    using a q c by auto
  show sum: "doe = 36524 * c + 1461 * q + 365 * a + doy"
    unfolding doy_def doq_def doc_def by simp
  show "a = 3 \<and> (q = 24 \<longrightarrow> c = 3)" if "doy = 365"
  proof -
    have "doc = 1461 * q + 365 * a + doy" unfolding doy_def doq_def by simp
    with that a c show ?thesis by auto
  qed
qed

lemma split_year:
  fixes c q a :: int
  assumes "0 \<le> q" "q \<le> 24" "0 \<le> a" "a \<le> 3"
  shows "(100 * c + 4 * q + a) div 4 = 25 * c + q" "(100 * c + 4 * q + a) div 100 = c"
proof -
  have "100 * c + 4 * q + a = a + 4 * (25 * c + q)" "100 * c + 4 * q + a = (4 * q + a) + 100 * c"
    by simp_all
  moreover have "(a + 4 * (25 * c + q)) div 4 = 25 * c + q" "((4 * q + a) + 100 * c) div 100 = c"
    using assms by (simp_all only: div_mult_self2 div_pos_pos_trivial)
  ultimately show "(100 * c + 4 * q + a) div 4 = 25 * c + q" "(100 * c + 4 * q + a) div 100 = c"
    by simp_all
qed

text \<open>The month from March and its day.\<close>

lemma split_month:
  fixes doy :: int
  assumes "0 \<le> doy" "doy \<le> 365"
  defines "mp \<equiv> (5 * doy + 2) div 153"
  defines "d \<equiv> doy - (153 * mp + 2) div 5 + 1"
  shows "0 \<le> mp \<and> mp \<le> 11" "1 \<le> d \<and> d \<le> 31"
    "mp \<in> {1, 3, 6, 8} \<Longrightarrow> d \<le> 30" "mp = 11 \<Longrightarrow> d \<le> 29 \<and> (d = 29 \<longrightarrow> doy = 365)"
proof -
  have mp: "153 * mp \<le> 5 * doy + 2 \<and> 5 * doy + 2 < 153 * mp + 153"
    unfolding mp_def by (rule div_bounds) simp
  show bounds: "0 \<le> mp \<and> mp \<le> 11" using mp assms(1,2) by linarith
  have e: "5 * ((153 * mp + 2) div 5) \<le> 153 * mp + 2 \<and> 153 * mp + 2 < 5 * ((153 * mp + 2) div 5) + 5"
    by (rule div_bounds) simp
  have "mp \<in> {0, 1, 2, 3, 4, 5, 6, 7, 8, 9, 10, 11}"
    using bounds unfolding insert_iff empty_iff by presburger
  then show "1 \<le> d \<and> d \<le> 31" "mp \<in> {1, 3, 6, 8} \<Longrightarrow> d \<le> 30"
      "mp = 11 \<Longrightarrow> d \<le> 29 \<and> (d = 29 \<longrightarrow> doy = 365)"
    using mp assms(1,2) unfolding d_def by auto
qed

text \<open>The parts of a date: era, year of the era, day of that year from March, and its month.\<close>

lemma daysToCivil_split:
  assumes "daysToCivil z = (y, m, d)"
  obtains era c q a yoe doy mp where "z + 719468 = 146097 * era + (daysBeforeYear yoe + doy)"
    "0 \<le> daysBeforeYear yoe + doy" "daysBeforeYear yoe + doy < 146097"
    "yoe = 100 * c + 4 * q + a" "0 \<le> q \<and> q \<le> 24" "0 \<le> yoe \<and> yoe \<le> 399"
    "0 \<le> doy" "doy \<le> 365" "doy = 365 \<longrightarrow> a = 3 \<and> (q = 24 \<longrightarrow> c = 3)"
    "mp = (5 * doy + 2) div 153" "0 \<le> mp \<and> mp \<le> 11" "d = doy - (153 * mp + 2) div 5 + 1"
    "m = (if mp < 10 then mp + 3 else mp - 9)" "y = era * 400 + yoe + (if m \<le> 2 then 1 else 0)"
proof -
  define era doe where "era = (z + 719468) div 146097" and "doe = (z + 719468) mod 146097"
  have doe: "0 \<le> doe" "doe < 146097" and z: "z + 719468 = 146097 * era + doe"
    unfolding doe_def era_def by simp_all
  define c where "c = min 3 (doe div 36524)"
  define q where "q = (doe - c * 36524) div 1461"
  define a where "a = min 3 ((doe - c * 36524 - q * 1461) div 365)"
  define doy where "doy = doe - c * 36524 - q * 1461 - a * 365"
  note sp = split_era[OF doe, folded c_def, folded q_def, folded a_def, folded doy_def]
  define yoe where "yoe = 100 * c + 4 * q + a"
  have yoe: "0 \<le> yoe \<and> yoe \<le> 399" "yoe div 4 = 25 * c + q" "yoe div 100 = c"
    using sp(1-3) split_year[of q a c] unfolding yoe_def by auto
  have before: "doe = daysBeforeYear yoe + doy"
    unfolding daysBeforeYear_def yoe(2,3) unfolding yoe_def using sp(5) by (simp add: algebra_simps)
  define mp where "mp = (5 * doy + 2) div 153"
  have "daysToCivil z =
      (era * 400 + yoe + (if (if mp < 10 then mp + 3 else mp - 9) \<le> 2 then 1 else 0),
       if mp < 10 then mp + 3 else mp - 9, doy - (153 * mp + 2) div 5 + 1)"
    unfolding daysToCivil_def Let_def mp_def yoe_def doy_def a_def q_def c_def doe_def era_def by (rule refl)
  with assms have civil: "d = doy - (153 * mp + 2) div 5 + 1" "m = (if mp < 10 then mp + 3 else mp - 9)"
    "y = era * 400 + yoe + (if m \<le> 2 then 1 else 0)"
    by auto
  have mp: "0 \<le> mp \<and> mp \<le> 11" unfolding mp_def by (rule split_month(1)) (use sp(4) in auto)
  show thesis
    by (rule that[OF _ _ _ yoe_def sp(2) yoe(1) _ _ _ mp_def mp civil]) (use z doe sp(4,6) in \<open>auto simp: before[symmetric]\<close>)
qed

lemma isLeap_cycle:
  fixes q c era :: int
  assumes "y = era * 400 + (100 * c + 4 * q + 4)" and "0 \<le> q \<and> q \<le> 24" and "q = 24 \<longrightarrow> c = 3"
  shows "isLeap y"
proof -
  have y: "y = 4 * (100 * era + 25 * c + q + 1)" "y = 100 * (4 * era + c) + 4 * (q + 1)"
    using assms(1) by simp_all
  have "y mod 4 = 0" using y(1) by simp
  moreover have "y mod 400 = 0" if "q = 24" using y(2) that assms(3) by simp
  moreover have "y mod 100 \<noteq> 0" if "q \<noteq> 24"
  proof -
    have "y mod 100 = (4 * (q + 1)) mod 100" unfolding y(2) by (rule mod_mult_self4)
    also have "\<dots> = 4 * (q + 1)" using assms(2) that by simp
    finally show ?thesis using assms(2) by simp
  qed
  ultimately show ?thesis unfolding isLeap_def by metis
qed

lemma daysToCivil_inverse:
  assumes "daysToCivil z = (y, m, d)"
  shows "civilToDays y m d = z" "1 \<le> m \<and> m \<le> 12"
proof -
  from assms obtain era c q a yoe doy mp where z: "z + 719468 = 146097 * era + (daysBeforeYear yoe + doy)"
    and yoe: "0 \<le> yoe \<and> yoe \<le> 399" and mp: "0 \<le> mp \<and> mp \<le> 11" and d: "d = doy - (153 * mp + 2) div 5 + 1"
    and m: "m = (if mp < 10 then mp + 3 else mp - 9)" and y: "y = era * 400 + yoe + (if m \<le> 2 then 1 else 0)"
    by (rule daysToCivil_split) blast
  have y': "(if m \<le> 2 then y - 1 else y) = era * 400 + yoe" using y by simp
  have mp': "(if m \<le> 2 then m + 9 else m - 3) = mp" using m mp by auto
  have era': "(era * 400 + yoe) div 400 = era" using yoe by simp
  show "civilToDays y m d = z" unfolding civilToDays_def Let_def y' mp' era' using z d by simp
  show "1 \<le> m \<and> m \<le> 12" using m mp by auto
qed

lemma daysToCivil_year:
  assumes "daysToCivil z = (y, m, d)" and "0 \<le> z" "z < 2932897"
  shows "0 \<le> y \<and> y \<le> 9999"
proof -
  from assms(1) obtain era c q a yoe doy mp where z: "z + 719468 = 146097 * era + (daysBeforeYear yoe + doy)"
    and doe: "0 \<le> daysBeforeYear yoe + doy" "daysBeforeYear yoe + doy < 146097"
    and yoe: "0 \<le> yoe \<and> yoe \<le> 399" and mp_def: "mp = (5 * doy + 2) div 153" and mp: "0 \<le> mp \<and> mp \<le> 11"
    and m: "m = (if mp < 10 then mp + 3 else mp - 9)" and y: "y = era * 400 + yoe + (if m \<le> 2 then 1 else 0)"
    by (rule daysToCivil_split) blast
  have era: "0 \<le> era \<and> era \<le> 24" using assms(2,3) z doe by linarith
  have "y \<noteq> 10000"
  proof
    assume "y = 10000"
    then have "m \<le> 2" "400 * era + yoe = 9999" using y era yoe by (auto split: if_splits)
    then have last: "era = 24" "yoe = 399" using era yoe by linarith+
    with \<open>m \<le> 2\<close> m mp have "10 \<le> mp" by (auto split: if_splits)
    then have "306 \<le> doy" unfolding mp_def using div_bounds[of 153 "5 * doy + 2"] by linarith
    moreover have "daysBeforeYear yoe = 145731" unfolding daysBeforeYear_def by (simp add: last)
    ultimately show False using assms(2,3) z last by linarith
  qed
  with era yoe y show ?thesis by (auto split: if_splits)
qed

lemma daysToCivil_day:
  assumes "daysToCivil z = (y, m, d)"
  shows "1 \<le> d \<and> d \<le> daysIn m y"
proof -
  from assms obtain era c q a yoe doy mp where yoe: "yoe = 100 * c + 4 * q + a" and q: "0 \<le> q \<and> q \<le> 24"
    and doy: "0 \<le> doy" "doy \<le> 365" "doy = 365 \<longrightarrow> a = 3 \<and> (q = 24 \<longrightarrow> c = 3)"
    and mp_def: "mp = (5 * doy + 2) div 153" and mp: "0 \<le> mp \<and> mp \<le> 11" and d: "d = doy - (153 * mp + 2) div 5 + 1"
    and m: "m = (if mp < 10 then mp + 3 else mp - 9)" and y: "y = era * 400 + yoe + (if m \<le> 2 then 1 else 0)"
    by (rule daysToCivil_split) blast
  note sm = split_month[OF doy(1,2), folded mp_def, folded d]
  show ?thesis
  proof (cases "m = 2")
    case True
    then have "mp = 11" using m mp by (auto split: if_splits)
    then have d: "1 \<le> d \<and> d \<le> 29" "d = 29 \<longrightarrow> doy = 365" using sm by auto
    have "isLeap y" if "d = 29"
      by (rule isLeap_cycle[of _ era c q]) (use that d doy(3) y yoe True q in auto)
    moreover have "d = 29 \<or> d \<le> 28" using d by linarith
    ultimately show ?thesis using d True unfolding daysIn_def by auto
  next
    case False
    have "d \<le> 30" if "m = 4 \<or> m = 6 \<or> m = 9 \<or> m = 11"
      using sm(3) that m mp by (auto split: if_splits)
    with sm(2) False show ?thesis unfolding daysIn_def by auto
  qed
qed

lemmas daysToCivil_props = daysToCivil_inverse daysToCivil_day daysToCivil_year

subsection \<open>Digits\<close>

lemma length_show_nat_le: "n < 10 ^ w \<Longrightarrow> 0 < w \<Longrightarrow> length (show_nat n) \<le> w"
proof (induction n arbitrary: w rule: show_nat.induct)
  case (1 n)
  show ?case
  proof (cases "n < 10")
    case True
    then show ?thesis using "1.prems" by (subst show_nat.simps) simp
  next
    case False
    then have w: "1 < w" using "1.prems" by (cases "w = 1") auto
    then have "n div 10 < 10 ^ (w - 1)"
      using "1.prems"(1) by (simp add: less_mult_imp_div_less power_eq_if split: if_splits)
    with "1.IH"[OF False, of "w - 1"] w False show ?thesis by (subst show_nat.simps) simp
  qed
qed

lemma digits_val_zeros: "digits_val (replicate k (CHR ''0'') @ s) = digits_val s"
  by (induction k) (simp_all add: digits_val_def digit_val_def)

lemma is_digit_0: "is_digit (CHR ''0'')"
  by (simp add: is_digit_def)

lemma pad_props:
  assumes "0 \<le> n" "n < 10 ^ w" "0 < w"
  shows "length (pad w n) = w" "list_all is_digit (pad w n)" "digits_val (pad w n) = n"
proof -
  have "nat n < 10 ^ w" using assms by (simp add: nat_less_iff)
  then have "length (show_nat (nat n)) \<le> w" using assms(3) by (rule length_show_nat_le)
  then show "length (pad w n) = w" using assms(1) by (simp add: pad_def Let_def)
  show "list_all is_digit (pad w n)"
    using assms(1) show_nat_digits[of "nat n"] is_digit_0
    by (auto simp: pad_def Let_def list_all_iff simp del: replicate_0)
  show "digits_val (pad w n) = n"
    using assms(1) by (simp add: pad_def Let_def digits_val_zeros digits_val_show_nat)
qed

lemma getnum_pad:
  "0 \<le> n \<Longrightarrow> n < 10 ^ w \<Longrightarrow> 0 < w \<Longrightarrow> getnum w (pad w n @ s) = Some (n, s)"
  by (simp add: getnum_def pad_props)

lemma getnum12_pad: "0 \<le> n \<Longrightarrow> n < 100 \<Longrightarrow> getnum12 (pad 2 n @ s) = Some (n, s)"
  by (simp add: getnum12_def getnum_pad)

lemma split_day: "sod div 3600 * 3600 + sod div 60 mod 60 * 60 + sod mod 60 = (sod :: int)"
proof -
  obtain a b e f where d: "a = sod div 60 div 60" "b = sod div 60 mod 60" "e = sod div 60" "f = sod mod 60"
    by simp
  have "sod div 3600 = a" unfolding d by (simp add: zdiv_zmult2_eq[symmetric])
  moreover have "60 * a + b = e" "60 * e + f = sod" unfolding d by simp_all
  then have "a * 3600 + b * 60 + f = sod" by linarith
  ultimately show ?thesis unfolding d by simp
qed

text \<open>Parsing a formatted UTC instant, up to the end of year 9999.\<close>

lemma parse_format_RFC3339:
  assumes "0 \<le> t" "t < 253402300800 * 1000000000"
  shows "parseRFC3339 (formatRFC3339 0 t) = Some (t - t mod 1000000000)"
proof -
  define secs where "secs = t div 1000000000"
  have secs: "0 \<le> secs" "secs < 253402300800" using assms unfolding secs_def by simp_all
  define days sod where "days = secs div 86400" and "sod = secs mod 86400"
  have sod: "0 \<le> sod" "sod < 86400" and days: "0 \<le> days" "days < 2932897"
    using secs unfolding sod_def days_def by simp_all
  obtain y m d where civil: "daysToCivil days = (y, m, d)" by (metis prod_cases3)
  note cp = daysToCivil_props[OF civil]
  have y: "0 \<le> y" "y < 10 ^ 4" using cp(4) days by auto
  have md: "0 \<le> m" "m < 10 ^ 2" "0 \<le> d" "d < 10 ^ 2" using cp(2,3) by (auto simp: daysIn_def split: if_splits)
  define h mi sec where "h = sod div 3600" and "mi = sod div 60 mod 60" and "sec = sod mod 60"
  have h: "0 \<le> h" "h < 24" using sod unfolding h_def by simp_all
  have mi: "0 \<le> mi" "mi < 60" "0 \<le> sec" "sec < 60" unfolding mi_def sec_def by simp_all
  have hms: "h * 3600 + mi * 60 + sec = sod" unfolding h_def mi_def sec_def by (rule split_day)
  have frac: "parseFraction ''Z'' = (0, ''Z'')" by (simp add: parseFraction_def)
  have zone: "parseZone ''Z'' = Some 0" by (simp add: parseZone_def)
  have str: "formatRFC3339 0 t = pad 4 y @ ''-'' @ pad 2 m @ ''-'' @ pad 2 d @ ''T'' @
      pad 2 h @ '':'' @ pad 2 mi @ '':'' @ pad 2 sec @ ''Z''"
    by (simp add: formatRFC3339_def formatZone_def civil flip: secs_def sod_def days_def h_def mi_def sec_def)
  have val: "(days * 86400 + sod) * 1000000000 = t - t mod 1000000000"
    unfolding days_def sod_def secs_def by (simp add: minus_mod_eq_div_mult)
  have range: "(m < 1 \<or> m > 12 \<or> d < 1 \<or> d > daysIn m y \<or> h \<ge> 24 \<or> mi \<ge> 60 \<or> sec \<ge> 60) = False"
    using cp(2,3) h mi by auto
  have sum: "(days * 86400 + h * 3600 + mi * 60 + sec) * 1000000000 = t - t mod 1000000000"
    unfolding val[symmetric] hms[symmetric] by (simp add: add.assoc)
  have two: "h < 100" "mi < 10 ^ 2" "sec < 10 ^ 2" using h mi by simp_all
  note fields = getnum_pad[OF y] getnum_pad[OF md(1,2)] getnum_pad[OF md(3,4)]
    getnum12_pad[OF h(1) two(1)] getnum_pad[OF mi(1) two(2)] getnum_pad[OF mi(3) two(3)]
  show ?thesis unfolding str
    by (simp add: parseRFC3339_def fields frac zone cp(1) range sum[simplified])
qed

end
