(* ===== verification/Manager.thy ===== *)
theory Manager
  imports Templates Conditions Go_Time
begin

text \<open>
  The resource manager (\<open>internal/controller/resources/manager.go\<close>): generating, creating,
  listing, updating and deleting remediation CRs, and handling nodes that got healthy, including
  the delayed deletion of their CRs.

  \<open>Manager\<close> is the Go interface of the same name, which the reconcilers use; \<open>as_Manager\<close> bundles
  the methods of the struct \<open>manager\<close>. The locale \<open>manager_iface\<close> states what the reconcilers
  rely on: which operations write what, and that only CRs of the owner are deleted.
\<close>

section \<open>Definitions\<close>

definition RemediationManuallyConfirmedHealthyAnnotationKey :: string where
  "RemediationManuallyConfirmedHealthyAnnotationKey = ''remediation.medik8s.io/manually-confirmed-healthy''"

subsection \<open>Ownership\<close>

definition IsOwner :: "Unstructured \<Rightarrow> health_check \<Rightarrow> bool" where
  "IsOwner cr owner =
     (case ToAPIVersionAndKind (hc_GVK owner) of (apiVersion, kind) \<Rightarrow>
        list_ex (\<lambda>ow. ow_Kind ow = kind \<and> ow_APIVersion ow = apiVersion \<and> ow_Name ow = hc_Name owner)
          (u_OwnerReferences cr))"

definition createOwnerRef :: "GroupVersionKind \<Rightarrow> string \<Rightarrow> string \<Rightarrow> OwnerReference" where
  "createOwnerRef g name uid =
     (case ToAPIVersionAndKind g of (apiVersion, kind) \<Rightarrow>
        \<lparr>ow_APIVersion = apiVersion, ow_Kind = kind, ow_Name = name, ow_UID = uid, ow_Controller = Some False\<rparr>)"

definition hcOwnerRef :: "health_check \<Rightarrow> OwnerReference" where
  "hcOwnerRef owner = createOwnerRef (hc_GVK owner) (hc_Name owner) (hc_UID owner)"

definition machineOwnerRef :: "Machine \<Rightarrow> OwnerReference" where
  "machineOwnerRef ma = createOwnerRef (FromAPIVersionAndKind (m_APIVersion ma) (m_Kind ma)) (m_Name ma) (m_UID ma)"

subsection \<open>Generating remediation CRs\<close>

definition GenerateRemediationCRBase :: "GroupVersionKind \<Rightarrow> Unstructured" where
  "GenerateRemediationCRBase g =
     u_SetGVK \<lparr>gvk_Group = gvk_Group g, gvk_Version = gvk_Version g,
               gvk_Kind = TrimSuffix (gvk_Kind g) templateSuffix\<rparr> empty_unstructured"

definition GenerateRemediationCRBaseNamed :: "GroupVersionKind \<Rightarrow> string \<Rightarrow> string \<Rightarrow> Unstructured" where
  "GenerateRemediationCRBaseNamed g namespace name =
     (GenerateRemediationCRBase g)\<lparr>u_Name := name, u_Namespace := namespace\<rparr>"

text \<open>The annotations and the label the manager puts on a CR.\<close>

definition crAnnotations :: "string \<Rightarrow> string \<Rightarrow> gomap" where
  "crAnnotations nodeName templateName =
     Some [NodeNameAnnotation \<mapsto> nodeName, TemplateNameAnnotation \<mapsto> templateName]"

definition partOfLabels :: gomap where
  "partOfLabels = Some [''app.kubernetes.io/part-of'' \<mapsto> ''node-healthcheck-controller'']"

definition generateRemediationCR ::
    "'w manager \<Rightarrow> string \<Rightarrow> string \<Rightarrow> OwnerReference option \<Rightarrow> OwnerReference option \<Rightarrow> Unstructured \<Rightarrow> ('w, Unstructured) m" where
  "generateRemediationCR mgr name nodeName healthCheckOwnerRef machineRef template = do {
     now \<leftarrow> ask (c_Now (mgr_Client mgr));
     let cr = GenerateRemediationCRBase (u_GVK template);
     let spec = (case NestedMap (u_Object template) [''spec'', ''template'', ''spec''] of None \<Rightarrow> JNull | Some j \<Rightarrow> j);
     let isMHCRemediation = (name \<noteq> nodeName);
     let named = (if HasMultipleTemplatesAnnotation template \<and> \<not> isMHCRemediation
                  then cr\<lparr>u_GenerateName := name @ ''-''\<rparr> else cr\<lparr>u_Name := name\<rparr>);
     let owners = (case healthCheckOwnerRef of None \<Rightarrow> [] | Some ow \<Rightarrow> [ow]) @
                  (case machineRef of None \<Rightarrow> [] | Some ow \<Rightarrow> [ow]);
     State_Monad.return
       (named\<lparr>u_Spec := spec,
              u_Annotations := crAnnotations nodeName (u_Name template),
              u_Namespace := u_Namespace template,
              u_ResourceVersion := [], u_Finalizers := [], u_UID := [],
              u_CreationTimestamp := truncate_second now,
              u_Labels := (if healthCheckOwnerRef = None then u_Labels named else partOfLabels),
              u_OwnerReferences := owners\<rparr>)
   }"

definition getOwningMachineWithNamespace :: "'w manager \<Rightarrow> Node \<Rightarrow> ('w, error + (OwnerReference \<times> string) option) m" where
  "getOwningMachineWithNamespace mgr node =
     (case GetMachineNamespaceName node of
        None \<Rightarrow> State_Monad.return (Inr None)
      | Some (Inl e) \<Rightarrow> State_Monad.return (Inl e)
      | Some (Inr (ns, name)) \<Rightarrow> do {
          r \<leftarrow> ask (c_GetMachine (mgr_Client mgr) ns name);
          State_Monad.return
            (case r of
               Inl e \<Rightarrow> Inl (Wrapped (''failed to get machine. namespace '' @ ns @ '', name: '' @ name) e)
             | Inr ma \<Rightarrow> Inr (Some (machineOwnerRef ma, ns)))
        })"

definition GenerateRemediationCRForNode ::
    "'w manager \<Rightarrow> Node \<Rightarrow> health_check \<Rightarrow> Unstructured \<Rightarrow> ('w, error + Unstructured) m" where
  "GenerateRemediationCRForNode mgr node owner template =
     bindE (if mgr_hasMachineAPI mgr then getOwningMachineWithNamespace mgr node else State_Monad.return (Inr None))
       (\<lambda>owning. do {
          let machineRef = (case owning of
                              None \<Rightarrow> None
                            | Some (ref, machineNamespace) \<Rightarrow>
                                if machineNamespace \<noteq> '''' \<and> u_Namespace template = machineNamespace
                                then Some ref else None);
          cr \<leftarrow> generateRemediationCR mgr (n_Name node) (n_Name node) (Some (hcOwnerRef owner)) machineRef template;
          State_Monad.return (Inr cr)
        })"

definition GenerateRemediationCRForMachine ::
    "'w manager \<Rightarrow> Machine \<Rightarrow> health_check \<Rightarrow> Unstructured \<Rightarrow> string \<Rightarrow> ('w, Unstructured) m" where
  "GenerateRemediationCRForMachine mgr machine owner template nodeName =
     generateRemediationCR mgr (m_Name machine) nodeName (Some (hcOwnerRef owner))
       (if m_Namespace machine = u_Namespace template then Some (machineOwnerRef machine) else None) template"

subsection \<open>Listing\<close>

definition isMatchNodeTemplate :: "Unstructured \<Rightarrow> string \<Rightarrow> string \<Rightarrow> bool" where
  "isMatchNodeTemplate cr nodeName templateName =
     (if Option.is_none (u_Annotations cr) then u_Name cr = nodeName
      else if lookup2 (u_Annotations cr) TemplateNameAnnotation = None then u_Name cr = nodeName
      else lookup1 (u_Annotations cr) TemplateNameAnnotation = templateName \<and>
           lookup1 (u_Annotations cr) NodeNameAnnotation = nodeName)"

definition gvk_String :: "GroupVersionKind \<Rightarrow> string" where
  "gvk_String g = gvk_Group g @ ''/'' @ gvk_Version g @ '', Kind='' @ gvk_Kind g"

fun listAllCRs :: "'w manager \<Rightarrow> ObjectReference option list \<Rightarrow> ('w, error + Unstructured list) m" where
  "listAllCRs mgr [] = State_Monad.return (Inr [])"
| "listAllCRs mgr (None # ts) = State_Monad.return (Inl (Panic ''nil pointer dereference: remediation template''))"
| "listAllCRs mgr (Some t # ts) = do {
     let base = GenerateRemediationCRBase (or_GVK t);
     r \<leftarrow> ask (c_List (mgr_Client mgr) (u_GVK base));
     case r of
       Inl e \<Rightarrow>
         if IsNotFound e then listAllCRs mgr ts
         else State_Monad.return (Inl (Wrapped (''failed to get all remediation objects with kind '' @ gvk_String (u_GVK base) @
                '' and apiVersion '' @ u_APIVersion base) e))
     | Inr items \<Rightarrow>
         bindE (listAllCRs mgr ts)
           (\<lambda>crs. State_Monad.return
              (Inr (filter (\<lambda>cr. isMatchNodeTemplate cr (GetNodeNameFromCR cr) (or_Name t)) items @ crs)))
   }"

definition ListRemediationCRs ::
    "'w manager \<Rightarrow> ObjectReference option list \<Rightarrow> (Unstructured \<Rightarrow> bool) \<Rightarrow> ('w, error + Unstructured list) m" where
  "ListRemediationCRs mgr templates crFilter =
     bindE (listAllCRs mgr templates) (\<lambda>crs. State_Monad.return (Inr (filter crFilter crs)))"

text \<open>The CR is \<open>nil\<close> (here \<open>None\<close>) when the list fails.\<close>

definition getCRWithNodeNameAnnotation :: "'w manager \<Rightarrow> Unstructured \<Rightarrow> ('w, Unstructured option \<times> error option) m" where
  "getCRWithNodeNameAnnotation mgr cr = do {
     let nodeName = lookup1 (u_Annotations cr) NodeNameAnnotation;
     let templateName = lookup1 (u_Annotations cr) TemplateNameAnnotation;
     r \<leftarrow> ask (c_List (mgr_Client mgr) (u_GVK (GenerateRemediationCRBase (u_GVK cr))));
     State_Monad.return
       (case r of
          Inl e \<Rightarrow> (None, Some e)
        | Inr items \<Rightarrow>
            (case find (\<lambda>x. isMatchNodeTemplate x nodeName templateName) items of
               Some x \<Rightarrow> (Some x, None)
             | None \<Rightarrow> (Some cr, Some (NotFound
                  (u_Kind cr @ (if gvk_Group (u_GVK cr) = [] then [] else ''.'' @ gvk_Group (u_GVK cr)) @ '' '' @
                   quoted (u_Name cr) @ '' not found'')))))
   }"

definition GetNodes :: "'w manager \<Rightarrow> LabelSelector \<Rightarrow> ('w, error + Node list) m" where
  "GetNodes mgr sel =
     (case c_Selector (mgr_Client mgr) sel of
        Some e \<Rightarrow> State_Monad.return (Inl (Wrapped ''failed converting a selector from NHC selector'' e))
      | None \<Rightarrow> ask (c_ListNodes (mgr_Client mgr) sel))"

subsection \<open>Creating, updating and deleting\<close>

type_synonym createResult = "bool \<times> duration option \<times> Unstructured option \<times> error option"

definition findExistingCR :: "'w manager \<Rightarrow> Unstructured \<Rightarrow> ('w, Unstructured option \<times> error option) m" where
  "findExistingCR mgr cr =
     (if Option.is_none (u_Annotations cr) \<or> length (lookup1 (u_Annotations cr) NodeNameAnnotation) = 0 then do {
        r \<leftarrow> ask (c_Get (mgr_Client mgr) cr);
        State_Monad.return (case r of Inl e \<Rightarrow> (Some cr, Some e) | Inr x \<Rightarrow> (Some x, None))
      } else getCRWithNodeNameAnnotation mgr cr)"

definition createNewCR :: "'w manager \<Rightarrow> Unstructured option \<Rightarrow> duration option \<Rightarrow> ('w, createResult) m" where
  "createNewCR mgr cr requeue =
     (case cr of
        None \<Rightarrow> State_Monad.return (False, None, None, Some (Panic ''nil pointer dereference: remediation CR''))
      | Some cr \<Rightarrow> do {
          r \<leftarrow> mutate (CreateCR cr) (c_Create (mgr_Client mgr) cr);
          State_Monad.return
            (case r of
               Inl e \<Rightarrow> (False, None, Some cr, Some e)
             | Inr cr' \<Rightarrow> (True, requeue, Some cr', None))
        })"

definition CreateRemediationCR ::
    "'w manager \<Rightarrow> Unstructured \<Rightarrow> health_check \<Rightarrow> string option \<Rightarrow> duration \<Rightarrow> duration \<Rightarrow> ('w, createResult) m" where
  "CreateRemediationCR mgr cr owner nodeName cur prev = do {
     (cr', err) \<leftarrow> findExistingCR mgr cr;
     case err of
       None \<Rightarrow>
         (case cr' of
            None \<Rightarrow> State_Monad.return (False, None, None, Some (Panic ''nil pointer dereference: remediation CR''))
          | Some x \<Rightarrow>
              if \<not> IsOwner x owner then
                State_Monad.return (False, None, Some x, Some (RemediationCRNotOwned ''CR exists but isn't owned by current NHC''))
              else (case nodeName of
                      None \<Rightarrow> State_Monad.return (False, None, Some x, None)
                    | Some n \<Rightarrow> do {
                        (d, e) \<leftarrow> lm_ManageLease (mgr_leaseManager mgr) n cur prev;
                        State_Monad.return (False, Some d, Some x, e)
                      }))
     | Some e \<Rightarrow>
         if \<not> IsNotFound e then State_Monad.return (False, None, cr', Some e)
         else (case nodeName of
                 None \<Rightarrow> createNewCR mgr cr' None
               | Some n \<Rightarrow> do {
                   (requeue, e') \<leftarrow> lm_ObtainNodeLease (mgr_leaseManager mgr) n cur;
                   case e' of
                     Some le \<Rightarrow> State_Monad.return (False, requeue, cr', Some le)
                   | None \<Rightarrow> createNewCR mgr cr' requeue
                 })
   }"

definition DeleteRemediationCR :: "'w manager \<Rightarrow> Unstructured \<Rightarrow> health_check \<Rightarrow> ('w, error + bool) m" where
  "DeleteRemediationCR mgr cr owner = do {
     r \<leftarrow> ask (c_Get (mgr_Client mgr) cr);
     case r of
       Inl e \<Rightarrow>
         State_Monad.return (if \<not> IsNotFound e then Inl (Wrapped ''failed to get remediation CR'' e) else Inr False)
     | Inr x \<Rightarrow>
         if u_DeletionTimestamp x \<noteq> None then State_Monad.return (Inr False)
         else if \<not> IsOwner x owner then State_Monad.return (Inr False)
         else do {
           r' \<leftarrow> mutate (DeleteCR x) (c_Delete (mgr_Client mgr) x);
           if (case r' of None \<Rightarrow> False | Some e \<Rightarrow> \<not> IsNotFound e) then State_Monad.return (Inl (the r'))
           else do {
             NormalEvent EventReasonRemediationRemoved
               (''Deleted remediation CR of kind '' @ u_Kind x @ '' with name '' @ u_Name x);
             State_Monad.return (Inr True)
           }
         }
   }"

definition UpdateRemediationCR :: "'w manager \<Rightarrow> Unstructured \<Rightarrow> ('w, error option) m" where
  "UpdateRemediationCR mgr cr = mutate (UpdateCR cr) (c_Update (mgr_Client mgr) cr)"

subsection \<open>Healthy nodes\<close>

definition isManuallyConfirmedHealthyAnnotationSet :: "'w manager \<Rightarrow> string \<Rightarrow> ('w, error + bool) m" where
  "isManuallyConfirmedHealthyAnnotationSet mgr nodeName =
     bindE (ask (c_GetNode (mgr_Client mgr) nodeName))
       (\<lambda>node. State_Monad.return
          (Inr (lookup2 (n_Annotations node) RemediationManuallyConfirmedHealthyAnnotationKey \<noteq> None)))"

definition removeConfirmedHealthyAnnotation :: "'w manager \<Rightarrow> string \<Rightarrow> ('w, error option) m" where
  "removeConfirmedHealthyAnnotation mgr nodeName = do {
     r \<leftarrow> ask (c_GetNode (mgr_Client mgr) nodeName);
     case r of
       Inl e \<Rightarrow> State_Monad.return (Some e)
     | Inr node \<Rightarrow>
         if lookup2 (n_Annotations node) RemediationManuallyConfirmedHealthyAnnotationKey = None
         then State_Monad.return None
         else (let node' = node\<lparr>n_Annotations :=
                     map_option (\<lambda>a. a(RemediationManuallyConfirmedHealthyAnnotationKey := None)) (n_Annotations node)\<rparr>
               in mutate (PatchNode node') (c_PatchNode (mgr_Client mgr) node'))
   }"

definition CleanUp :: "'w manager \<Rightarrow> string \<Rightarrow> bool \<Rightarrow> ('w, error option) m" where
  "CleanUp mgr nodeName isManuallyConfirmedHealthy = do {
     r \<leftarrow> (if isManuallyConfirmedHealthy then removeConfirmedHealthyAnnotation mgr nodeName else State_Monad.return None);
     case r of
       Some e \<Rightarrow> State_Monad.return (Some e)
     | None \<Rightarrow> lm_InvalidateLease (mgr_leaseManager mgr) nodeName
   }"

text \<open>The CR comes back as well: the annotation is set on the map that the caller shares.\<close>

definition calcCrDeletionDelay :: "'w manager \<Rightarrow> Unstructured \<Rightarrow> ('w, (error + duration) \<times> Unstructured) m" where
  "calcCrDeletionDelay mgr cr =
     (case mgr_HealthyDelay mgr of
        None \<Rightarrow> State_Monad.return (Inr 0, cr)
      | Some healthyDelay \<Rightarrow>
          if healthyDelay = 0 then State_Monad.return (Inr 0, cr)
          else if healthyDelay < 0 then State_Monad.return (Inr (- 1), cr)
          else (let ann = (case u_Annotations cr of None \<Rightarrow> Map.empty | Some a \<Rightarrow> a)
                in case ann RemediationHealthyDelayAnnotationKey of
                     Some str \<Rightarrow>
                       (case parseRFC3339 str of
                          None \<Rightarrow> State_Monad.return (Inl (Errorf (''parsing time '' @ quoted str)), cr\<lparr>u_Annotations := Some ann\<rparr>)
                        | Some delayStartTime \<Rightarrow> do {
                            now \<leftarrow> ask (c_Now (mgr_Client mgr));
                            let delayUntil = time_Add delayStartTime healthyDelay;
                            State_Monad.return
                              (Inr (if time_Before now delayUntil then time_Sub delayUntil now else 0),
                               cr\<lparr>u_Annotations := Some ann\<rparr>)
                          })
                   | None \<Rightarrow> do {
                       now \<leftarrow> ask (c_Now (mgr_Client mgr));
                       let cr' = cr\<lparr>u_Annotations := Some (ann(RemediationHealthyDelayAnnotationKey \<mapsto> formatRFC3339 0 now))\<rparr>;
                       r \<leftarrow> UpdateRemediationCR mgr cr';
                       State_Monad.return (case r of Some e \<Rightarrow> Inl e | None \<Rightarrow> Inr healthyDelay, cr')
                     }))"

text \<open>Whether to delete the CR of a healthy node now, the delay until then, and the CR.\<close>

definition deletionDecision :: "'w manager \<Rightarrow> bool \<Rightarrow> Unstructured \<Rightarrow> ('w, bool \<times> duration option \<times> Unstructured) m" where
  "deletionDecision mgr isManuallyConfirmedHealthy cr =
     (if isManuallyConfirmedHealthy then State_Monad.return (True, None, cr)
      else do {
        (r, cr') \<leftarrow> calcCrDeletionDelay mgr cr;
        State_Monad.return
          (case r of
             Inl e \<Rightarrow> (True, None, cr')
           | Inr d \<Rightarrow> if d < 0 then (False, None, cr') else if 0 < d then (False, Some d, cr') else (True, None, cr'))
      })"

fun deleteHealthyCRs ::
    "'w manager \<Rightarrow> bool \<Rightarrow> health_check \<Rightarrow> duration option \<Rightarrow> Unstructured list \<Rightarrow>
     ('w, error + duration option \<times> Unstructured list) m" where
  "deleteHealthyCRs mgr confirmed owner requeueAfter [] = State_Monad.return (Inr (requeueAfter, []))"
| "deleteHealthyCRs mgr confirmed owner requeueAfter (cr # crs) = do {
     (shouldDelete, delay, cr') \<leftarrow> deletionDecision mgr confirmed cr;
     let requeueAfter' = (case delay of
                            None \<Rightarrow> requeueAfter
                          | Some d \<Rightarrow> (case requeueAfter of
                                        None \<Rightarrow> Some d
                                      | Some old \<Rightarrow> if d < old then Some d else Some old));
     bindE (if shouldDelete then DeleteRemediationCR mgr cr' owner else State_Monad.return (Inr False))
       (\<lambda>deleted. bindE (deleteHealthyCRs mgr confirmed owner requeueAfter' crs)
          (\<lambda>(requeue, rest). State_Monad.return (Inr (requeue, cr' # rest))))
   }"

definition healthyCRFilter :: "string \<Rightarrow> string \<Rightarrow> health_check \<Rightarrow> Unstructured \<Rightarrow> bool" where
  "healthyCRFilter nodeName crName owner cr \<longleftrightarrow>
     (u_Name cr = crName \<or> GetNodeNameFromCR cr = nodeName) \<and> IsOwner cr owner"

definition delayHealthy :: "string \<Rightarrow> duration option \<Rightarrow> Unstructured list \<Rightarrow> health_check \<Rightarrow> duration option \<times> health_check" where
  "delayHealthy nodeName requeueAfter crs owner =
     (case (requeueAfter, owner) of
        (Some d, NHC nhc) \<Rightarrow> (Some (dur_add d second), NHC (UpdateStatusNodeDelayedHealthy nodeName nhc crs))
      | _ \<Rightarrow> (requeueAfter, owner))"

definition HandleHealthyNode ::
    "'w manager \<Rightarrow> string \<Rightarrow> string \<Rightarrow> health_check \<Rightarrow>
     ('w, (error + Unstructured list \<times> duration option) \<times> health_check) m" where
  "HandleHealthyNode mgr nodeName crName owner = do {
     r \<leftarrow> ListRemediationCRs mgr (GetAllRemediationTemplates owner) (healthyCRFilter nodeName crName owner);
     case r of
       Inl e \<Rightarrow> State_Monad.return (Inl e, owner)
     | Inr crs \<Rightarrow> do {
         r2 \<leftarrow> isManuallyConfirmedHealthyAnnotationSet mgr nodeName;
         case r2 of
           Inl e \<Rightarrow> State_Monad.return (Inl e, owner)
         | Inr confirmed \<Rightarrow>
             if crs = [] then do {
               r3 \<leftarrow> CleanUp mgr nodeName confirmed;
               State_Monad.return (case r3 of Some e \<Rightarrow> Inl e | None \<Rightarrow> Inr ([], None), owner)
             } else do {
               r4 \<leftarrow> deleteHealthyCRs mgr confirmed owner None crs;
               State_Monad.return
                 (case r4 of
                    Inl e \<Rightarrow> (Inl e, owner)
                  | Inr (requeueAfter, crs') \<Rightarrow>
                      (case delayHealthy nodeName requeueAfter crs' owner of
                         (requeueAfter', owner') \<Rightarrow> (Inr (crs', requeueAfter'), owner')))
             }
       }
   }"

subsection \<open>Targets of machine health checks\<close>

text \<open>
  \<open>internal/controller/resources/mhc.go\<close>. \<open>tg_Node\<close> is \<open>None\<close> when the machine has no node
  reference yet; a node that does not exist is represented by an otherwise empty node with its name.
\<close>

record Target =
  tg_Machine :: Machine
  tg_Node :: "Node option"
  tg_MHC :: MachineHealthCheck

definition namedNode :: "string \<Rightarrow> Node" where
  "namedNode name =
     \<lparr>n_Name = name, n_UID = [], n_ResourceVersion = [], n_Labels = None, n_Annotations = None, n_Conditions = []\<rparr>"

definition getMachines :: "'w manager \<Rightarrow> MachineHealthCheck \<Rightarrow> ('w, error + Machine list) m" where
  "getMachines mgr mhc =
     (case c_Selector (mgr_Client mgr) (mhc_Selector mhc) of
        Some e \<Rightarrow> State_Monad.return (Inl (Wrapped ''failed converting a selector from MHC selector'' e))
      | None \<Rightarrow> ask (c_ListMachines (mgr_Client mgr) (mhc_Namespace mhc) (mhc_Selector mhc)))"

definition getNodeFromMachine :: "'w manager \<Rightarrow> Machine \<Rightarrow> ('w, error + Node option) m" where
  "getNodeFromMachine mgr machine =
     (case m_NodeRef machine of
        None \<Rightarrow> State_Monad.return (Inr None)
      | Some name \<Rightarrow> bindE (ask (c_GetNode (mgr_Client mgr) name)) (\<lambda>node. State_Monad.return (Inr (Some node))))"

fun targetsOf :: "'w manager \<Rightarrow> MachineHealthCheck \<Rightarrow> Machine list \<Rightarrow> ('w, error + Target list) m" where
  "targetsOf mgr mhc [] = State_Monad.return (Inr [])"
| "targetsOf mgr mhc (machine # machines) = do {
     r \<leftarrow> getNodeFromMachine mgr machine;
     case (case r of
             Inr node \<Rightarrow> Inr node
           | Inl e \<Rightarrow> if IsNotFound e then Inr (map_option namedNode (m_NodeRef machine))
                      else Inl (Wrapped ''failed to get node for machine'' e)) of
       Inl e \<Rightarrow> State_Monad.return (Inl e)
     | Inr node \<Rightarrow>
         bindE (targetsOf mgr mhc machines)
           (\<lambda>ts. State_Monad.return (Inr (\<lparr>tg_Machine = machine, tg_Node = node, tg_MHC = mhc\<rparr> # ts)))
   }"

definition GetMHCTargets :: "'w manager \<Rightarrow> MachineHealthCheck \<Rightarrow> ('w, error + Target list) m" where
  "GetMHCTargets mgr mhc = do {
     r \<leftarrow> getMachines mgr mhc;
     case r of
       Inl e \<Rightarrow> State_Monad.return (Inl (Wrapped ''failed to get machines for selector'' e))
     | Inr machines \<Rightarrow> targetsOf mgr mhc machines
   }"

subsection \<open>The interface\<close>

record 'w Manager =
  rm_GetCurrentTemplateWithTimeout ::
    "Node \<Rightarrow> NodeHealthCheck \<Rightarrow> ('w, (error + Unstructured \<times> duration option) \<times> NodeHealthCheck) m"
  rm_GetTemplate :: "MachineHealthCheck \<Rightarrow> ('w, error + Unstructured) m"
  rm_ValidateTemplates :: "NodeHealthCheck \<Rightarrow> ('w, error + validity) m"
  rm_GenerateRemediationCRForNode :: "Node \<Rightarrow> health_check \<Rightarrow> Unstructured \<Rightarrow> ('w, error + Unstructured) m"
  rm_GenerateRemediationCRForMachine :: "Machine \<Rightarrow> health_check \<Rightarrow> Unstructured \<Rightarrow> string \<Rightarrow> ('w, Unstructured) m"
  rm_CreateRemediationCR ::
    "Unstructured \<Rightarrow> health_check \<Rightarrow> string option \<Rightarrow> duration \<Rightarrow> duration \<Rightarrow> ('w, createResult) m"
  rm_DeleteRemediationCR :: "Unstructured \<Rightarrow> health_check \<Rightarrow> ('w, error + bool) m"
  rm_UpdateRemediationCR :: "Unstructured \<Rightarrow> ('w, error option) m"
  rm_ListRemediationCRs :: "ObjectReference option list \<Rightarrow> (Unstructured \<Rightarrow> bool) \<Rightarrow> ('w, error + Unstructured list) m"
  rm_GetNodes :: "LabelSelector \<Rightarrow> ('w, error + Node list) m"
  rm_GetMHCTargets :: "MachineHealthCheck \<Rightarrow> ('w, error + Target list) m"
  rm_HandleHealthyNode ::
    "string \<Rightarrow> string \<Rightarrow> health_check \<Rightarrow> ('w, (error + Unstructured list \<times> duration option) \<times> health_check) m"
  rm_CleanUp :: "string \<Rightarrow> bool \<Rightarrow> ('w, error option) m"

definition as_Manager :: "'w manager \<Rightarrow> 'w Manager" where
  "as_Manager mgr =
     \<lparr>rm_GetCurrentTemplateWithTimeout = GetCurrentTemplateWithTimeout mgr,
      rm_GetTemplate = GetTemplate mgr,
      rm_ValidateTemplates = ValidateTemplates mgr,
      rm_GenerateRemediationCRForNode = GenerateRemediationCRForNode mgr,
      rm_GenerateRemediationCRForMachine = GenerateRemediationCRForMachine mgr,
      rm_CreateRemediationCR = CreateRemediationCR mgr,
      rm_DeleteRemediationCR = DeleteRemediationCR mgr,
      rm_UpdateRemediationCR = UpdateRemediationCR mgr,
      rm_ListRemediationCRs = ListRemediationCRs mgr,
      rm_GetNodes = GetNodes mgr,
      rm_GetMHCTargets = GetMHCTargets mgr,
      rm_HandleHealthyNode = HandleHealthyNode mgr,
      rm_CleanUp = CleanUp mgr\<rparr>"

subsection \<open>What the operations may write\<close>

text \<open>
  Deleting: only live CRs of the owner. Creating: CRs and the lease of the node. Handling a healthy
  node: deletions, updates of CRs, the node's annotation and the release of its lease.
\<close>

fun delete_effect :: "health_check \<Rightarrow> effect \<Rightarrow> bool" where
  "delete_effect owner (DeleteCR x) = (IsOwner x owner \<and> u_DeletionTimestamp x = None)"
| "delete_effect owner (Event t r msg) = True"
| "delete_effect owner e = False"

fun create_effect :: "Unstructured \<Rightarrow> effect \<Rightarrow> bool" where
  "create_effect cr (CreateCR x) = (x = cr)"
| "create_effect cr e = is_lease_write e"

fun cleanup_effect :: "effect \<Rightarrow> bool" where
  "cleanup_effect (PatchNode n) = True"
| "cleanup_effect e = is_lease_write e"

fun healthy_effect :: "health_check \<Rightarrow> effect \<Rightarrow> bool" where
  "healthy_effect owner (UpdateCR x) = True"
| "healthy_effect owner e = (cleanup_effect e \<or> delete_effect owner e)"

text \<open>The owner as far as ownership looks at it.\<close>

definition same_owner :: "health_check \<Rightarrow> health_check \<Rightarrow> bool" where
  "same_owner a b \<longleftrightarrow> hc_GVK a = hc_GVK b \<and> hc_Name a = hc_Name b"

section \<open>The interface the reconcilers use\<close>

locale manager_iface =
  fixes rm :: "'w Manager"
  assumes reads: "emits P (rm_GetCurrentTemplateWithTimeout rm node nhc)" "emits P (rm_GetTemplate rm mhc)"
      "emits P (rm_ValidateTemplates rm nhc)" "emits P (rm_GenerateRemediationCRForNode rm node owner t)"
      "emits P (rm_GenerateRemediationCRForMachine rm machine owner t n)"
      "emits P (rm_ListRemediationCRs rm ts f)" "emits P (rm_GetNodes rm sel)" "emits P (rm_GetMHCTargets rm mhc)"
    and create: "emits (create_effect cr) (rm_CreateRemediationCR rm cr owner optn cur prev)"
    and delete: "emits (delete_effect owner) (rm_DeleteRemediationCR rm cr owner)"
    and update: "emits is_UpdateCR (rm_UpdateRemediationCR rm cr)"
    and healthy: "emits (healthy_effect owner) (rm_HandleHealthyNode rm n crn owner)"
    and generated: "run_state (rm_GenerateRemediationCRForNode rm node owner t) s = (Inr cr, s') \<Longrightarrow>
      IsOwner cr owner \<and> GetNodeNameFromCR cr = n_Name node \<and> GetTemplateNameFromCR cr = u_Name t \<and> u_Labels cr \<noteq> None"
    and cleanup: "emits cleanup_effect (rm_CleanUp rm n b)"
    and healthy_owner: "run_state (rm_HandleHealthyNode rm n crn owner) s = ((r, owner'), s') \<Longrightarrow>
      case owner of NHC nhc \<Rightarrow> (\<exists>crs. owner' = NHC nhc \<or> owner' = NHC (UpdateStatusNodeDelayedHealthy n nhc crs)) | MHC mhc \<Rightarrow> owner' = owner"
    and current_template: "run_state (rm_GetCurrentTemplateWithTimeout rm node nhc) s = ((tr, nhc'), s') \<Longrightarrow>
      nhc' = nhc \<or> nhc' = sortEscalating nhc"
    and delayed: "run_state (rm_CreateRemediationCR rm cr owner (Some n) cur prev) s = ((True, d, cr', None), s') \<Longrightarrow>
      d = Some cur"
    and generated_machine: "run_state (rm_GenerateRemediationCRForMachine rm machine owner t n) s = (cr, s') \<Longrightarrow> IsOwner cr owner"
    and targets: "run_state (rm_GetMHCTargets rm mhc) s = (Inr tgs, s') \<Longrightarrow> tg \<in> set tgs \<Longrightarrow> tg_MHC tg = mhc"
begin

lemma writes:
  assumes "\<And>e. create_effect cr e \<Longrightarrow> P e" "\<And>e. delete_effect owner e \<Longrightarrow> P e" "\<And>e. is_UpdateCR e \<Longrightarrow> P e"
    "\<And>e. healthy_effect owner e \<Longrightarrow> P e" "\<And>e. cleanup_effect e \<Longrightarrow> P e"
  shows "emits P (rm_CreateRemediationCR rm cr owner' n cur prev)" "emits P (rm_DeleteRemediationCR rm cr' owner)"
    "emits P (rm_UpdateRemediationCR rm cr'')" "emits P (rm_HandleHealthyNode rm n' crn owner)" "emits P (rm_CleanUp rm n' b)"
  using assms by (blast intro: emits_mono create delete update healthy cleanup)+

end

section \<open>Lemmas\<close>

subsection \<open>Ownership\<close>

lemma IsOwner_hcOwnerRef: "hcOwnerRef owner \<in> set (u_OwnerReferences cr) \<Longrightarrow> IsOwner cr owner"
  by (force simp: IsOwner_def hcOwnerRef_def createOwnerRef_def list_ex_iff split: prod.splits)

lemma IsOwner_same: "same_owner a b \<Longrightarrow> IsOwner cr a = IsOwner cr b"
  by (simp add: IsOwner_def same_owner_def)

lemma delete_effect_same: "same_owner a b \<Longrightarrow> delete_effect a e = delete_effect b e"
  by (cases e) (simp_all add: IsOwner_same)

lemma healthy_effect_same: "same_owner a b \<Longrightarrow> healthy_effect a e = healthy_effect b e"
  by (cases e) (simp_all add: IsOwner_same)

lemma same_owner_status [simp]:
  "same_owner (NHC (map_status f nhc)) (NHC nhc)" "same_owner (NHC (map_unhealthy g nhc)) (NHC nhc)"
  "same_owner (NHC (map_conditions h nhc)) (NHC nhc)" "same_owner (NHC (sortEscalating nhc)) (NHC nhc)"
  "same_owner a a"
  by (simp_all add: same_owner_def)

subsection \<open>Generated CRs\<close>

text \<open>The CR of a template belongs to its owner, its node and its template, and is found again by them.\<close>

lemma generateRemediationCR_props:
  assumes "run_state (generateRemediationCR mgr name nodeName (Some (hcOwnerRef owner)) mref template) s = (cr, s')"
  shows "IsOwner cr owner" "GetNodeNameFromCR cr = nodeName" "GetTemplateNameFromCR cr = u_Name template"
    "isMatchNodeTemplate cr nodeName (u_Name template)" "u_Namespace cr = u_Namespace template"
    "u_Annotations cr = crAnnotations nodeName (u_Name template)" "u_Labels cr = partOfLabels"
    "u_GVK cr = u_GVK (GenerateRemediationCRBase (u_GVK template))"
    "u_APIVersion cr = u_APIVersion (GenerateRemediationCRBase (u_GVK template))"
    "u_Kind cr = u_Kind (GenerateRemediationCRBase (u_GVK template))"
proof -
  have neq: "NodeNameAnnotation \<noteq> TemplateNameAnnotation" "TemplateNameAnnotation \<noteq> NodeNameAnnotation"
    by (simp_all add: NodeNameAnnotation_def TemplateNameAnnotation_def)
  show "IsOwner cr owner"
    using assms by (intro IsOwner_hcOwnerRef) (auto simp: generateRemediationCR_def Let_def split: prod.splits)
  show ann: "u_Annotations cr = crAnnotations nodeName (u_Name template)"
    using assms by (auto simp: generateRemediationCR_def Let_def split: prod.splits)
  show "GetNodeNameFromCR cr = nodeName" "GetTemplateNameFromCR cr = u_Name template"
    "isMatchNodeTemplate cr nodeName (u_Name template)"
    by (simp_all add: GetNodeNameFromCR_def GetTemplateNameFromCR_def isMatchNodeTemplate_def ann crAnnotations_def neq)
  show "u_Namespace cr = u_Namespace template" "u_Labels cr = partOfLabels"
    and av: "u_APIVersion cr = u_APIVersion (GenerateRemediationCRBase (u_GVK template))"
    and kd: "u_Kind cr = u_Kind (GenerateRemediationCRBase (u_GVK template))"
    using assms by (auto simp: generateRemediationCR_def Let_def split: prod.splits)
  show "u_GVK cr = u_GVK (GenerateRemediationCRBase (u_GVK template))"
    unfolding u_GVK_def[of cr] av kd by (simp only: u_GVK_def)
qed

lemma emits_generateRemediationCR [emits_intros]: "emits P (generateRemediationCR mgr n nn ow mr t)"
  unfolding generateRemediationCR_def by (intro emits_intros)

lemma emits_getOwningMachineWithNamespace [emits_intros]: "emits P (getOwningMachineWithNamespace mgr node)"
  unfolding getOwningMachineWithNamespace_def by (intro emits_intros)

lemma emits_GenerateRemediationCRForNode [emits_intros]: "emits P (GenerateRemediationCRForNode mgr node owner t)"
  unfolding GenerateRemediationCRForNode_def by (intro emits_intros)

lemma emits_GenerateRemediationCRForMachine [emits_intros]: "emits P (GenerateRemediationCRForMachine mgr ma owner t n)"
  unfolding GenerateRemediationCRForMachine_def by (intro emits_intros)

lemma GenerateRemediationCRForNode_props:
  assumes "run_state (GenerateRemediationCRForNode mgr node owner t) s = (Inr cr, s')"
  shows "IsOwner cr owner \<and> GetNodeNameFromCR cr = n_Name node \<and> GetTemplateNameFromCR cr = u_Name t \<and> u_Labels cr \<noteq> None"
proof -
  from assms obtain mref s0 where
    "run_state (generateRemediationCR mgr (n_Name node) (n_Name node) (Some (hcOwnerRef owner)) mref t) s0 = (cr, s')"
    by (auto simp: GenerateRemediationCRForNode_def Let_def split: prod.splits sum.splits if_splits)
  from generateRemediationCR_props[OF this] show ?thesis by (simp add: partOfLabels_def)
qed

text \<open>The shape of a generated CR.\<close>

lemma generateRemediationCR_shape:
  assumes "run_state (generateRemediationCR mgr name name (Some ow) mref t) s = (cr, s')"
  shows "u_Spec cr = (case NestedMap (u_Object t) [''spec'', ''template'', ''spec''] of None \<Rightarrow> JNull | Some j \<Rightarrow> j)"
    and "u_UID cr = []" "u_ResourceVersion cr = []" "u_Finalizers cr = []"
    and "HasMultipleTemplatesAnnotation t \<Longrightarrow> u_Name cr = [] \<and> u_GenerateName cr = name @ ''-''"
    and "\<not> HasMultipleTemplatesAnnotation t \<Longrightarrow> u_Name cr = name \<and> u_GenerateName cr = []"
  using assms
  by (auto simp: generateRemediationCR_def Let_def GenerateRemediationCRBase_def u_SetGVK_def empty_unstructured_def split: prod.splits)

lemma NestedMap_object: "NestedMap j fs = Some v \<Longrightarrow> \<exists>kvs. v = JObj kvs"
  by (auto simp: NestedMap_def split: sum.splits option.splits json.splits)

lemma GenerateRemediationCRBase_GVK:
  assumes "u_APIVersion t = GroupVersion_String g v" "u_Kind t = kind @ templateSuffix"
    and "CHR ''/'' \<notin> set g" "CHR ''/'' \<notin> set v" "v \<noteq> []"
  shows "u_GVK (GenerateRemediationCRBase (u_GVK t)) = \<lparr>gvk_Group = g, gvk_Version = v, gvk_Kind = kind\<rparr>"
proof -
  have "u_GVK t = \<lparr>gvk_Group = g, gvk_Version = v, gvk_Kind = kind @ templateSuffix\<rparr>"
    using ParseGroupVersion_String[OF assms(3-5)] assms(1,2) by (simp add: u_GVK_def)
  then show ?thesis using assms(3-5) by (simp add: GenerateRemediationCRBase_def u_GVK_SetGVK)
qed

subsection \<open>Listing\<close>

lemma emits_listAllCRs [emits_intros]: "emits P (listAllCRs mgr ts)"
  by (induction ts rule: listAllCRs.induct) (auto intro!: emits_intros)

lemma emits_ListRemediationCRs [emits_intros]: "emits P (ListRemediationCRs mgr ts f)"
  unfolding ListRemediationCRs_def by (intro emits_intros)

lemma ListRemediationCRs_filter:
  "run_state (ListRemediationCRs mgr ts f) s = (Inr crs, s') \<Longrightarrow> \<forall>cr\<in>set crs. f cr"
  by (auto simp: ListRemediationCRs_def split: prod.splits sum.splits)

lemma emits_targetsOf [emits_intros]: "emits P (targetsOf mgr mhc ms)"
  by (induction ms) (auto intro!: emits_intros simp: getNodeFromMachine_def)

lemma emits_GetMHCTargets [emits_intros]: "emits P (GetMHCTargets mgr mhc)"
  unfolding GetMHCTargets_def getMachines_def by (intro emits_intros)

lemma emits_GetNodes [emits_intros]: "emits P (GetNodes mgr sel)"
  unfolding GetNodes_def by (intro emits_intros)

subsection \<open>Writing\<close>

lemma emits_findExistingCR [emits_intros]: "emits P (findExistingCR mgr cr)"
  unfolding findExistingCR_def getCRWithNodeNameAnnotation_def by (intro emits_intros)

lemma emits_createNewCR: "(\<And>x. cr = Some x \<Longrightarrow> P (CreateCR x)) \<Longrightarrow> emits P (createNewCR mgr cr d)"
  unfolding createNewCR_def by (intro emits_intros) auto

text \<open>Only a CR that is not there is created, as it was generated.\<close>

lemma findExistingCR_NotFound:
  "run_state (findExistingCR mgr cr) s = ((cr', Some e), s') \<Longrightarrow> cr' = None \<or> cr' = Some cr"
  by (auto simp: findExistingCR_def getCRWithNodeNameAnnotation_def Let_def
      split: if_splits prod.splits sum.splits option.splits)

lemma is_lease_write_create: "is_lease_write e \<Longrightarrow> create_effect cr e"
  by (cases e) auto

lemma is_lease_write_cleanup: "is_lease_write e \<Longrightarrow> cleanup_effect e"
  by (cases e) auto

lemma emits_DeleteRemediationCR: "emits (delete_effect owner) (DeleteRemediationCR mgr cr owner)"
  unfolding DeleteRemediationCR_def by (intro emits_intros) auto

lemma emits_UpdateRemediationCR: "emits is_UpdateCR (UpdateRemediationCR mgr cr)"
  unfolding UpdateRemediationCR_def by (intro emits_intros) auto

lemma emits_calcCrDeletionDelay: "emits is_UpdateCR (calcCrDeletionDelay mgr cr)"
  unfolding calcCrDeletionDelay_def by (intro emits_intros emits_UpdateRemediationCR)

lemma emits_deletionDecision: "emits is_UpdateCR (deletionDecision mgr b cr)"
  unfolding deletionDecision_def by (intro emits_intros emits_calcCrDeletionDelay)

lemma healthy_effects:
  "is_UpdateCR e \<Longrightarrow> healthy_effect owner e" "delete_effect owner e \<Longrightarrow> healthy_effect owner e"
  "cleanup_effect e \<Longrightarrow> healthy_effect owner e"
  by (cases e; simp)+

lemma emits_deleteHealthyCRs: "emits (healthy_effect owner) (deleteHealthyCRs mgr b owner d crs)"
proof (induction crs arbitrary: d)
  case (Cons cr crs)
  show ?case unfolding deleteHealthyCRs.simps
    by (intro emits_intros Cons.IH emits_mono[OF emits_deletionDecision] emits_mono[OF emits_DeleteRemediationCR]
        healthy_effects)
qed (simp add: emits_return)

lemma createNewCR_created:
  "run_state (createNewCR mgr cr d) s = ((True, d', cr', e), s') \<Longrightarrow> d' = d \<and> e = None"
  by (auto simp: createNewCR_def split: prod.splits option.splits sum.splits)

text \<open>The operations that use a lease manager, for every lease manager that keeps its contract.\<close>

context lease_iface
begin

lemma emits_CreateRemediationCR:
  assumes [simp]: "mgr_leaseManager mgr = lm"
  shows "emits (create_effect cr) (CreateRemediationCR mgr cr owner n cur prev)"
  unfolding CreateRemediationCR_def assms
  apply (rule emits_bind_dep)
  subgoal by (intro emits_intros)
  subgoal for a s s'
    using findExistingCR_NotFound[of mgr cr s "fst a" _ s']
    by (intro emits_intros lease_frame[OF is_lease_write_create] emits_createNewCR) auto
  done

lemma emits_CleanUp:
  assumes "mgr_leaseManager mgr = lm"
  shows "emits cleanup_effect (CleanUp mgr n b)"
  unfolding CleanUp_def removeConfirmedHealthyAnnotation_def assms
  by (intro emits_intros lease_frame[OF is_lease_write_cleanup]) simp_all

lemma emits_HandleHealthyNode:
  "mgr_leaseManager mgr = lm \<Longrightarrow> emits (healthy_effect owner) (HandleHealthyNode mgr n crn owner)"
  unfolding HandleHealthyNode_def isManuallyConfirmedHealthyAnnotationSet_def
  by (intro emits_intros emits_deleteHealthyCRs emits_mono[OF emits_CleanUp] healthy_effects)

lemma CreateRemediationCR_created:
  assumes lm: "mgr_leaseManager mgr = lm"
    and run: "run_state (CreateRemediationCR mgr cr owner (Some n) cur prev) s = ((True, d, cr', e), s')"
  obtains s1 s2 where "run_state (lm_ObtainNodeLease lm n cur) s1 = ((d, None), s2)" and "d = Some cur" and "e = None"
proof -
  obtain cr1 err s1 where f: "run_state (findExistingCR mgr cr) s = ((cr1, err), s1)" by (metis surj_pair)
  obtain e1 where e1: "err = Some e1" "IsNotFound e1"
    using run f by (auto simp: CreateRemediationCR_def split: option.splits if_splits prod.splits)
  obtain d1 e2 s2 where o: "run_state (lm_ObtainNodeLease lm n cur) s1 = ((d1, e2), s2)" by (metis surj_pair)
  have e2: "e2 = None" and c: "run_state (createNewCR mgr cr1 d1) s2 = ((True, d, cr', e), s')"
    using run f e1 lm o by (auto simp: CreateRemediationCR_def split: option.splits)
  from createNewCR_created[OF c] o e2 obtain_delay[of n cur s1 d1 s2] that[of s1 s2] show thesis by auto
qed

end

subsection \<open>The resource manager provides the interface\<close>

lemma as_Manager_simps [simp]:
  "rm_GetCurrentTemplateWithTimeout (as_Manager mgr) = GetCurrentTemplateWithTimeout mgr"
  "rm_GetTemplate (as_Manager mgr) = GetTemplate mgr"
  "rm_ValidateTemplates (as_Manager mgr) = ValidateTemplates mgr"
  "rm_GenerateRemediationCRForNode (as_Manager mgr) = GenerateRemediationCRForNode mgr"
  "rm_GenerateRemediationCRForMachine (as_Manager mgr) = GenerateRemediationCRForMachine mgr"
  "rm_CreateRemediationCR (as_Manager mgr) = CreateRemediationCR mgr"
  "rm_DeleteRemediationCR (as_Manager mgr) = DeleteRemediationCR mgr"
  "rm_UpdateRemediationCR (as_Manager mgr) = UpdateRemediationCR mgr"
  "rm_ListRemediationCRs (as_Manager mgr) = ListRemediationCRs mgr"
  "rm_GetNodes (as_Manager mgr) = GetNodes mgr"
  "rm_GetMHCTargets (as_Manager mgr) = GetMHCTargets mgr"
  "rm_HandleHealthyNode (as_Manager mgr) = HandleHealthyNode mgr"
  "rm_CleanUp (as_Manager mgr) = CleanUp mgr"
  by (simp_all add: as_Manager_def)

lemma HandleHealthyNode_owner:
  assumes "run_state (HandleHealthyNode mgr n crn owner) s = ((r, owner'), s')"
  shows "case owner of NHC nhc \<Rightarrow> (\<exists>crs. owner' = NHC nhc \<or> owner' = NHC (UpdateStatusNodeDelayedHealthy n nhc crs)) | MHC mhc \<Rightarrow> owner' = owner"
  using assms
  by (auto simp: HandleHealthyNode_def delayHealthy_def split: health_check.splits prod.splits sum.splits option.splits if_splits)

lemma GetCurrentTemplateWithTimeout_nhc:
  "run_state (GetCurrentTemplateWithTimeout mgr node nhc) s = ((r, nhc'), s') \<Longrightarrow> nhc' = nhc \<or> nhc' = sortEscalating nhc"
  by (auto simp: GetCurrentTemplateWithTimeout_def Let_def split: prod.splits sum.splits option.splits)

lemma targetsOf_mhc: "run_state (targetsOf mgr mhc ms) s = (Inr ts, s') \<Longrightarrow> t \<in> set ts \<Longrightarrow> tg_MHC t = mhc"
proof (induction ms arbitrary: s ts s')
  case (Cons m ms)
  obtain r s1 where r: "run_state (getNodeFromMachine mgr m) s = (r, s1)" by fastforce
  obtain x s2 where x: "run_state (targetsOf mgr mhc ms) s1 = (x, s2)" by fastforce
  from Cons.prems r x show ?case by (auto split: sum.splits if_splits dest: Cons.IH)
qed simp

lemma GetMHCTargets_mhc: "run_state (GetMHCTargets mgr mhc) s = (Inr ts, s') \<Longrightarrow> t \<in> set ts \<Longrightarrow> tg_MHC t = mhc"
  by (auto simp: GetMHCTargets_def split: prod.splits sum.splits dest: targetsOf_mhc)

interpretation nhcm: manager_iface "as_Manager (NewManager c delay hm (nhcLeaseManager c holder))"
  for c :: "'w client" and delay hm holder
proof (unfold_locales, goal_cases)
  case (13 node owner t s cr s')
  then show ?case using GenerateRemediationCRForNode_props by simp
next
  case (15 n crn owner s r owner' s')
  then show ?case using HandleHealthyNode_owner by simp
next
  case (16 node nhc s tr nhc' s')
  then show ?case using GetCurrentTemplateWithTimeout_nhc by simp
next
  case (17 cr owner n cur prev s d cr' s')
  then show ?case
    using nlm.CreateRemediationCR_created[of "NewManager c delay hm (nhcLeaseManager c holder)" c holder cr owner n cur prev s d cr' None s']
    by auto
next
  case (18 machine owner t n s cr s')
  then show ?case using generateRemediationCR_props(1) by (simp add: GenerateRemediationCRForMachine_def)
next
  case (19 mhc s ts s' t)
  then show ?case using GetMHCTargets_mhc by simp
qed (simp_all add: emits_intros nlm.emits_CreateRemediationCR emits_DeleteRemediationCR emits_UpdateRemediationCR
    nlm.emits_HandleHealthyNode nlm.emits_CleanUp)

subsection \<open>Leases of others\<close>

lemma foreign_CreateRemediationCR:
  assumes "foreign_lease c holder n"
  shows "emits P (CreateRemediationCR (NewManager c delay hm (nhcLeaseManager c holder)) cr owner (Some n) cur prev)"
proof -
  have "emits P (findExistingCR (NewManager c delay hm (nhcLeaseManager c holder)) cr)"
    unfolding findExistingCR_def getCRWithNodeNameAnnotation_def by (auto simp: Let_def intro!: emits_intros)
  moreover have "safe P (\<lambda>x. snd x \<noteq> None) (ObtainNodeLease c holder n cur)" by (rule foreign_ObtainNodeLease[OF assms])
  ultimately have "safe P (\<lambda>_. True) (CreateRemediationCR (NewManager c delay hm (nhcLeaseManager c holder)) cr owner (Some n) cur prev)"
    unfolding CreateRemediationCR_def
    by (auto intro!: safe_bind_any safe_return safe_bind[OF foreign_ObtainNodeLease[OF assms]] foreign_ManageLease[OF assms]
        split: option.splits prod.splits)
  then show ?thesis by (rule safe_emits)
qed

subsection \<open>Creating again\<close>

text \<open>A CR of the same node and template that is listed is found, so no second one is created.\<close>

lemma existing_CreateRemediationCR:
  assumes node: "lookup1 (u_Annotations cr) NodeNameAnnotation \<noteq> ''''"
    and listed: "\<And>w. \<exists>items. fst (c_List (mgr_Client mgr) (u_GVK (GenerateRemediationCRBase (u_GVK cr))) w) = Inr items \<and>
      (\<exists>x\<in>set items. isMatchNodeTemplate x (lookup1 (u_Annotations cr) NodeNameAnnotation) (lookup1 (u_Annotations cr) TemplateNameAnnotation))"
    and lm: "\<And>n. emits (\<lambda>e. \<not> is_CreateCR e) (lm_ManageLease (mgr_leaseManager mgr) n cur prev)"
  shows "emits (\<lambda>e. \<not> is_CreateCR e) (CreateRemediationCR mgr cr owner nodeName cur prev)"
proof -
  let ?P = "\<lambda>x. isMatchNodeTemplate x (lookup1 (u_Annotations cr) NodeNameAnnotation) (lookup1 (u_Annotations cr) TemplateNameAnnotation)"
  have "safe (\<lambda>e. \<not> is_CreateCR e) (\<lambda>r. \<exists>items. r = Inr items \<and> find ?P items \<noteq> None)
      (ask (c_List (mgr_Client mgr) (u_GVK (GenerateRemediationCRBase (u_GVK cr)))))"
    using listed by (intro safe_ask) (fastforce simp: find_None_iff)
  then have "safe (\<lambda>e. \<not> is_CreateCR e) (\<lambda>x. snd x = None) (getCRWithNodeNameAnnotation mgr cr)"
    unfolding getCRWithNodeNameAnnotation_def Let_def by (rule safe_bind) (auto intro!: safe_return)
  moreover have "findExistingCR mgr cr = getCRWithNodeNameAnnotation mgr cr"
    using node by (cases "u_Annotations cr") (auto simp: findExistingCR_def lookup1_def)
  ultimately have ex: "safe (\<lambda>e. \<not> is_CreateCR e) (\<lambda>x. snd x = None) (findExistingCR mgr cr)" by simp
  have "safe (\<lambda>e. \<not> is_CreateCR e) (\<lambda>_. True) (CreateRemediationCR mgr cr owner nodeName cur prev)"
    unfolding CreateRemediationCR_def
    by (rule safe_bind[OF ex]) (auto intro!: safe_return safe_bind_any lm split: option.splits)
  then show ?thesis by (rule safe_emits)
qed

subsection \<open>The delay of a healthy node\<close>

text \<open>
  The first time, the delay starts now; later, the CR goes when the delay has passed since the instant
  that was recorded, to the second.
\<close>

lemma calcCrDeletionDelay_start:
  assumes "mgr_HealthyDelay mgr = Some d" "0 < d" "lookup2 (u_Annotations cr) RemediationHealthyDelayAnnotationKey = None"
    and "c_Now (mgr_Client mgr) (world s) = (now, w)" "run_state (calcCrDeletionDelay mgr cr) s = ((r, cr'), s')"
  shows "lookup2 (u_Annotations cr') RemediationHealthyDelayAnnotationKey = Some (formatRFC3339 0 now)"
  using assms by (auto simp: calcCrDeletionDelay_def lookup2_def Let_def split: option.splits prod.splits)

lemma calcCrDeletionDelay_later:
  assumes "mgr_HealthyDelay mgr = Some d" "0 < d"
    and "lookup2 (u_Annotations cr) RemediationHealthyDelayAnnotationKey = Some (formatRFC3339 0 start)"
    and "0 \<le> start" "start < 253402300800 * 1000000000" "c_Now (mgr_Client mgr) (world s) = (now, w)"
  shows "run_state (calcCrDeletionDelay mgr cr) s =
     ((Inr (let til = time_Add (start - start mod 1000000000) d in if time_Before now til then time_Sub til now else 0), cr), s\<lparr>world := w\<rparr>)"
  using assms parse_format_RFC3339[OF assms(4,5)]
  by (auto simp: calcCrDeletionDelay_def lookup2_def Let_def split: option.splits)

lemma time_Sub_until: "time_Before now til \<Longrightarrow> 0 < time_Sub til now"
  by (simp add: time_Before_def time_Sub_def clamp64_def min64_def max64_def)

lemma deletionDecision_later:
  assumes "mgr_HealthyDelay mgr = Some d" "0 < d"
    and "lookup2 (u_Annotations cr) RemediationHealthyDelayAnnotationKey = Some (formatRFC3339 0 start)"
    and "0 \<le> start" "start < 253402300800 * 1000000000" "c_Now (mgr_Client mgr) (world s) = (now, w)"
  shows "fst (run_state (deletionDecision mgr False cr) s) =
     (let til = time_Add (start - start mod 1000000000) d
      in if time_Before now til then (False, Some (time_Sub til now), cr) else (True, None, cr))"
  using calcCrDeletionDelay_later[OF assms] time_Sub_until[of now "time_Add (start - start mod 1000000000) d"]
  by (auto simp: deletionDecision_def Let_def)

end
