(* ===== verification/Collectors.thy ===== *)
theory Collectors
  imports Client
begin

text \<open>
  The Prometheus metrics (\<open>internal/metrics\<close>): the collectors of both controllers with their labels, their
  registration, and what an observation does to them. The controllers record observations as effects
  (their \<open>Observe\<close> functions stand with the code that calls them); \<open>collectNHC\<close> and \<open>collectMHC\<close> are what the
  collectors make of a recorded effect. A vector of metrics maps the values of its labels to a
  child, which comes into being with its first use. Values are integers and durations where the client
  library has floats.

  The lemmas show when a registration panics, and that a histogram reports for every bound how many
  observations did not exceed it (\<open>reported_observe\<close>).
\<close>

section \<open>Definitions\<close>

subsection \<open>Registration\<close>

datatype collector =
    NodeHealthCheckOldRemediationCR | NodeHealthCheckOngoingRemediation | NodehealtCheckRemediationDuration
  | MachineHealthCheckNodesCovered | MachineHealthCheckRemediationSuccessTotal | MachineHealthCheckShortCircuit

text \<open>\<open>MustRegister\<close> registers one collector after the other and panics at the first that is registered already.\<close>

fun MustRegister :: "collector list \<Rightarrow> collector list \<Rightarrow> error + collector list" where
  "MustRegister registry [] = Inr registry"
| "MustRegister registry (x # xs) =
     (if x \<in> set registry then Inl (Panic ''duplicate metrics collector registration attempted'')
      else MustRegister (registry @ [x]) xs)"

definition nhcCollectors :: "collector list" where
  "nhcCollectors = [NodeHealthCheckOldRemediationCR, NodeHealthCheckOngoingRemediation, NodehealtCheckRemediationDuration]"

definition mhcCollectors :: "collector list" where
  "mhcCollectors = [MachineHealthCheckNodesCovered, MachineHealthCheckRemediationSuccessTotal, MachineHealthCheckShortCircuit]"

definition InitializeNodeHealthCheckMetrics :: "collector list \<Rightarrow> error + collector list" where
  "InitializeNodeHealthCheckMetrics registry = MustRegister registry nhcCollectors"

definition InitializeMachineHealthCheckMetrics :: "collector list \<Rightarrow> error + collector list" where
  "InitializeMachineHealthCheckMetrics registry = MustRegister registry mhcCollectors"

subsection \<open>Vectors of metrics\<close>

definition gaugeSet :: "int \<Rightarrow> 'l \<Rightarrow> ('l \<rightharpoonup> int) \<Rightarrow> ('l \<rightharpoonup> int)" where
  "gaugeSet v l vec = vec(l \<mapsto> v)"

definition counterInc :: "'l \<Rightarrow> ('l \<rightharpoonup> nat) \<Rightarrow> ('l \<rightharpoonup> nat)" where
  "counterInc l vec = vec(l \<mapsto> Suc (case vec l of None \<Rightarrow> 0 | Some v \<Rightarrow> v))"

text \<open>
  A histogram counts every observation in the first bucket whose upper bound it does not exceed, and reports
  for every bound how many observations did not exceed it.
\<close>

record histogram =
  h_Buckets :: "nat list"
  h_Count :: nat
  h_Sum :: int

definition Buckets :: "int list" where
  "Buckets = [30, 60, 120, 180, 240, 300, 600, 1200, 2400, 3600]"

fun findBucket :: "int list \<Rightarrow> duration \<Rightarrow> nat" where
  "findBucket [] d = 0"
| "findBucket (bound # bounds) d = (if d \<le> bound * second then 0 else Suc (findBucket bounds d))"

definition newHistogram :: histogram where
  "newHistogram = \<lparr>h_Buckets = replicate (length Buckets) 0, h_Count = 0, h_Sum = 0\<rparr>"

definition observe :: "duration \<Rightarrow> histogram \<Rightarrow> histogram" where
  "observe d h =
     (let i = findBucket Buckets d
      in \<lparr>h_Buckets = (if i < length (h_Buckets h) then (h_Buckets h)[i := Suc (h_Buckets h ! i)] else h_Buckets h),
          h_Count = Suc (h_Count h), h_Sum = h_Sum h + d\<rparr>)"

fun cumulate :: "nat \<Rightarrow> nat list \<Rightarrow> nat list" where
  "cumulate cumCount [] = []"
| "cumulate cumCount (k # ks) = (cumCount + k) # cumulate (cumCount + k) ks"

definition histogramObserve :: "duration \<Rightarrow> 'l \<Rightarrow> ('l \<rightharpoonup> histogram) \<Rightarrow> ('l \<rightharpoonup> histogram)" where
  "histogramObserve d l vec = vec(l \<mapsto> observe d (case vec l of None \<Rightarrow> newHistogram | Some h \<Rightarrow> h))"

subsection \<open>The collectors\<close>

record nhc_metrics =
  nodeHealthCheckOldRemediationCR :: "string \<times> string \<rightharpoonup> nat"
  nodeHealthCheckOngoingRemediation :: "string \<times> string \<times> string \<rightharpoonup> int"
  nodehealtCheckRemediationDuration :: "string \<times> string \<times> string \<rightharpoonup> histogram"

record mhc_metrics =
  machineHealthCheckNodesCovered :: "string \<times> string \<rightharpoonup> int"
  machineHealthCheckRemediationSuccessTotal :: "string \<times> string \<rightharpoonup> nat"
  machineHealthCheckShortCircuit :: "string \<times> string \<rightharpoonup> int"

fun collectNHC :: "effect \<Rightarrow> nhc_metrics \<Rightarrow> nhc_metrics" where
  "collectNHC (OldRemediationCRInc name namespace) ms =
     ms\<lparr>nodeHealthCheckOldRemediationCR := counterInc (name, namespace) (nodeHealthCheckOldRemediationCR ms)\<rparr>"
| "collectNHC (OngoingRemediationSet name namespace remediation v) ms =
     ms\<lparr>nodeHealthCheckOngoingRemediation := gaugeSet v (name, namespace, remediation) (nodeHealthCheckOngoingRemediation ms)\<rparr>"
| "collectNHC (UnhealthyNodeDurationObserve name namespace remediation d) ms =
     ms\<lparr>nodehealtCheckRemediationDuration := histogramObserve d (name, namespace, remediation) (nodehealtCheckRemediationDuration ms)\<rparr>"
| "collectNHC _ ms = ms"

fun collectMHC :: "effect \<Rightarrow> mhc_metrics \<Rightarrow> mhc_metrics" where
  "collectMHC (MHCNodesCoveredSet name namespace n) ms =
     ms\<lparr>machineHealthCheckNodesCovered := gaugeSet n (name, namespace) (machineHealthCheckNodesCovered ms)\<rparr>"
| "collectMHC (MHCNodesCoveredDelete name namespace) ms =
     ms\<lparr>machineHealthCheckNodesCovered := (machineHealthCheckNodesCovered ms)((name, namespace) := None)\<rparr>"
| "collectMHC (MHCShortCircuitSet name namespace v) ms =
     ms\<lparr>machineHealthCheckShortCircuit := gaugeSet v (name, namespace) (machineHealthCheckShortCircuit ms)\<rparr>"
| "collectMHC _ ms = ms"

text \<open>Nothing calls it; it counts directly.\<close>

definition ObserveMachineHealthCheckRemediationSuccess :: "string \<Rightarrow> string \<Rightarrow> mhc_metrics \<Rightarrow> mhc_metrics" where
  "ObserveMachineHealthCheckRemediationSuccess name namespace ms =
     ms\<lparr>machineHealthCheckRemediationSuccessTotal := counterInc (name, namespace) (machineHealthCheckRemediationSuccessTotal ms)\<rparr>"

text \<open>How often a remediation was observed to end.\<close>

definition observations :: "nhc_metrics \<Rightarrow> string \<times> string \<times> string \<Rightarrow> nat" where
  "observations ms l = (case nodehealtCheckRemediationDuration ms l of None \<Rightarrow> 0 | Some h \<Rightarrow> h_Count h)"

text \<open>A histogram is well formed: one count per bound, and no more in the buckets than observed.\<close>

definition histogram_wf :: "histogram \<Rightarrow> bool" where
  "histogram_wf h \<longleftrightarrow> length (h_Buckets h) = length Buckets \<and> sum_list (h_Buckets h) \<le> h_Count h"

definition metrics_wf :: "nhc_metrics \<Rightarrow> bool" where
  "metrics_wf ms \<longleftrightarrow> (\<forall>l h. nodehealtCheckRemediationDuration ms l = Some h \<longrightarrow> histogram_wf h)"

section \<open>Lemmas\<close>

lemma MustRegister_Inr: "MustRegister registry xs = Inr registry' \<Longrightarrow> registry' = registry @ xs"
  by (induction xs arbitrary: registry) (fastforce split: if_splits)+

lemma MustRegister_Inl: "MustRegister registry xs = Inl e \<Longrightarrow> e = Panic ''duplicate metrics collector registration attempted''"
  by (induction xs arbitrary: registry) (auto split: if_splits)

lemma MustRegister_iff: "(\<exists>registry'. MustRegister registry xs = Inr registry') \<longleftrightarrow> distinct xs \<and> set xs \<inter> set registry = {}"
  by (induction xs arbitrary: registry) auto

lemma InitializeMachineHealthCheckMetrics_Inr:
  "InitializeMachineHealthCheckMetrics registry = Inr registry' \<Longrightarrow> registry' = registry @ mhcCollectors"
  unfolding InitializeMachineHealthCheckMetrics_def by (rule MustRegister_Inr)

text \<open>A second registration panics.\<close>

lemma InitializeMachineHealthCheckMetrics_twice:
  "set mhcCollectors \<subseteq> set registry \<Longrightarrow>
     InitializeMachineHealthCheckMetrics registry = Inl (Panic ''duplicate metrics collector registration attempted'')"
  by (simp add: InitializeMachineHealthCheckMetrics_def mhcCollectors_def)

lemma histogram_wf_new: "histogram_wf newHistogram"
  by (simp add: histogram_wf_def newHistogram_def)

lemma histogram_wf_observe: "histogram_wf h \<Longrightarrow> histogram_wf (observe d h)"
  by (auto simp: histogram_wf_def observe_def Let_def sum_list_update Suc_diff_le elem_le_sum_list)

text \<open>What is reported counts, for every bound, the observations that do not exceed it.\<close>

lemma cumulate_Suc: "cumulate (Suc a) ks = map Suc (cumulate a ks)"
  by (induction ks arbitrary: a) simp_all

lemma length_cumulate [simp]: "length (cumulate a ks) = length ks"
  by (induction ks arbitrary: a) simp_all

lemma map2_all: "\<forall>x\<in>set xs. f x = g \<Longrightarrow> length xs = length ys \<Longrightarrow> map2 f xs ys = map g ys"
  by (induction xs arbitrary: ys) (auto simp: Suc_length_conv)

lemma cumulate_bump:
  assumes "sorted bounds" "length ks = length bounds"
  shows "cumulate a (if findBucket bounds d < length ks then ks[findBucket bounds d := Suc (ks ! findBucket bounds d)] else ks) =
    map2 (\<lambda>bound. if d \<le> bound * second then Suc else id) bounds (cumulate a ks)"
  using assms
proof (induction bounds arbitrary: ks a)
  case (Cons b bs)
  then obtain k ks' where ks: "ks = k # ks'" "length ks' = length bs" by (cases ks) auto
  have le: "b * second \<le> x * second" if "x \<in> set bs" for x using that Cons.prems(1) by (simp add: second_def)
  show ?case
  proof (cases "d \<le> b * second")
    case True
    with le have "\<forall>x\<in>set bs. (if d \<le> x * second then Suc else id) = Suc" by (auto intro: order_trans)
    from map2_all[OF this] True ks show ?thesis by (simp add: cumulate_Suc)
  next
    case False
    with ks Cons.IH[of ks' "a + k"] Cons.prems(1) show ?thesis by (simp split: if_splits)
  qed
qed simp

lemma reported_observe:
  assumes "histogram_wf h"
  shows "cumulate 0 (h_Buckets (observe d h)) =
    map2 (\<lambda>bound. if d \<le> bound * second then Suc else id) Buckets (cumulate 0 (h_Buckets h))"
proof -
  have "sorted Buckets" by (simp add: Buckets_def)
  from cumulate_bump[OF this, of "h_Buckets h" 0 d] assms show ?thesis by (simp add: observe_def Let_def histogram_wf_def)
qed

lemma metrics_wf_collect: "metrics_wf ms \<Longrightarrow> metrics_wf (collectNHC e ms)"
  by (cases e) (auto simp: metrics_wf_def histogramObserve_def histogram_wf_new histogram_wf_observe split: option.splits)

lemma metrics_wf_fold: "metrics_wf ms \<Longrightarrow> metrics_wf (fold collectNHC es ms)"
  by (induction es arbitrary: ms) (auto intro: metrics_wf_collect)

end
