(* ===== verification/Checkers.thy ===== *)
theory Checkers
  imports Collectors
begin

text \<open>
  What the reconcilers ask about the cluster before they act:

  \<^item> what the cluster offers (\<open>internal/controller/cluster/capabilities.go\<close>);
  \<^item> whether a cluster upgrade is going on (\<open>internal/controller/cluster/upgrade_checker.go\<close>); the Go
    interface \<open>UpgradeChecker\<close> is the locale \<open>upgrade_iface\<close>, with the OpenShift and the no-op
    implementation as its interpretations;
  \<^item> whether machine health checks are in conflict (\<open>internal/controller/mhc/checker.go\<close>);
  \<^item> whether the machine API operator's health check controller is disabled by a feature gate
    (\<open>internal/controller/featuregates/accessor.go\<close>).
\<close>

section \<open>Definitions\<close>

subsection \<open>Capabilities\<close>

record Capabilities =
  IsOnOpenshift :: bool
  HasMachineAPI :: bool
  IsSupportedControlPlaneTopology :: bool

text \<open>The versions of one API group: the first that matters decides.\<close>

fun scanVersions :: "string list \<Rightarrow> Capabilities \<Rightarrow> Capabilities" where
  "scanVersions [] caps = caps"
| "scanVersions (v # vs) caps =
     (if v = ''config.openshift.io/v1'' then caps\<lparr>IsOnOpenshift := True\<rparr>
      else if v = ''machine.openshift.io/v1'' then caps\<lparr>HasMachineAPI := True\<rparr>
      else scanVersions vs caps)"

definition supportedTopologies :: "string list" where
  "supportedTopologies = [''HighlyAvailable'', ''SingleReplica'', ''HighlyAvailableArbiter'', ''External'']"

text \<open>
  The served group versions and the control plane topology of the cluster's \<open>Infrastructure\<close> are
  arguments.
\<close>

definition NewCapabilities :: "error + string list list \<Rightarrow> error + string \<Rightarrow> error + Capabilities" where
  "NewCapabilities apiGroups infra =
     (case apiGroups of
        Inl e \<Rightarrow> Inl e
      | Inr groups \<Rightarrow>
          (let caps = foldl (\<lambda>caps vs. scanVersions vs caps)
                 \<lparr>IsOnOpenshift = False, HasMachineAPI = False, IsSupportedControlPlaneTopology = False\<rparr> groups;
               caps1 = caps\<lparr>IsSupportedControlPlaneTopology := True\<rparr>
           in if IsOnOpenshift caps1 then
                (case infra of
                   Inl e \<Rightarrow> Inl e
                 | Inr topology \<Rightarrow>
                     Inr (caps1\<lparr>IsSupportedControlPlaneTopology := topology \<in> set supportedTopologies\<rparr>))
              else Inr caps1))"

subsection \<open>Cluster upgrades\<close>

definition currentMachineConfigAnnotationKey :: string where
  "currentMachineConfigAnnotationKey = ''machineconfiguration.openshift.io/currentConfig''"
definition desiredMachineConfigAnnotationKey :: string where
  "desiredMachineConfigAnnotationKey = ''machineconfiguration.openshift.io/desiredConfig''"
definition OperatorProgressing :: string where "OperatorProgressing = ''Progressing''"

definition isNodeUpgrading :: "Node list \<Rightarrow> bool" where
  "isNodeUpgrading nodes =
     list_ex (\<lambda>node. length (lookup1 (n_Annotations node) desiredMachineConfigAnnotationKey) \<noteq> 0 \<and>
        lookup1 (n_Annotations node) currentMachineConfigAnnotationKey \<noteq>
        lookup1 (n_Annotations node) desiredMachineConfigAnnotationKey) nodes"

text \<open>A cluster version is the list of its conditions, each a type and a status.\<close>

definition openshiftCheck :: "'w client \<Rightarrow> Node list \<Rightarrow> ('w, bool \<times> error option) m" where
  "openshiftCheck c nodes =
     (if isNodeUpgrading nodes then State_Monad.return (True, None)
      else do {
        r \<leftarrow> ask (c_ListClusterVersions c);
        State_Monad.return
          (case r of
             Inl e \<Rightarrow> (False, Some (Wrapped ''failed to check for Openshift cluster upgrade status'' e))
           | Inr cvs \<Rightarrow>
               (list_ex (list_ex (\<lambda>(ty, status). ty = OperatorProgressing \<and> status = ConditionTrue)) cvs, None))
      })"

definition noopCheck :: "Node list \<Rightarrow> ('w, bool \<times> error option) m" where
  "noopCheck nodes = State_Monad.return (False, None)"

definition NewClusterUpgradeStatusChecker :: "'w client \<Rightarrow> bool \<Rightarrow> Node list \<Rightarrow> ('w, bool \<times> error option) m" where
  "NewClusterUpgradeStatusChecker c isOnOpenshift = (if \<not> isOnOpenshift then noopCheck else openshiftCheck c)"

subsection \<open>Conflicting machine health checks\<close>

definition NodeConditionTerminating :: string where "NodeConditionTerminating = ''Terminating''"

datatype mhcStatus = unknown | noMHC | terminationMHCOnly | customMHC

text \<open>The two implementations of \<open>mhc.Checker\<close>, the first with its state.\<close>

datatype Checker = checker mhcStatus | DummyChecker

definition NewMHCChecker :: "bool \<Rightarrow> Checker" where
  "NewMHCChecker hasMachineAPI = (if \<not> hasMachineAPI then DummyChecker else checker unknown)"

definition nextStatus :: "MachineHealthCheck list \<Rightarrow> mhcStatus" where
  "nextStatus mhcs =
     (if length mhcs = 0 then noMHC
      else if 1 < length mhcs then customMHC
      else case mhc_UnhealthyConditions (hd mhcs) of
             [uc] \<Rightarrow> if uc_Type uc = NodeConditionTerminating then terminationMHCOnly else customMHC
           | _ \<Rightarrow> customMHC)"

fun UpdateStatus :: "'w client \<Rightarrow> Checker \<Rightarrow> ('w, error option \<times> Checker) m" where
  "UpdateStatus c DummyChecker = State_Monad.return (None, DummyChecker)"
| "UpdateStatus c (checker old) = do {
     r \<leftarrow> ask (c_ListMHC c);
     case r of
       Inl e \<Rightarrow> State_Monad.return (Some e, checker old)
     | Inr mhcs \<Rightarrow> do {
         let new = nextStatus mhcs;
         _ \<leftarrow> (if new = old then State_Monad.return () else emit GenericEvent);
         State_Monad.return (None, checker new)
       }
   }"

text \<open>The manager starts the checker, which then knows the initial status.\<close>

definition CheckerStart :: "'w client \<Rightarrow> Checker \<Rightarrow> ('w, error option \<times> Checker) m" where
  "CheckerStart c chk = UpdateStatus c chk"

fun NeedDisableNHC :: "Checker \<Rightarrow> bool" where
  "NeedDisableNHC DummyChecker = False"
| "NeedDisableNHC (checker unknown) = False"
| "NeedDisableNHC (checker noMHC) = False"
| "NeedDisableNHC (checker terminationMHCOnly) = False"
| "NeedDisableNHC (checker customMHC) = True"

fun NeedIgnoreNode :: "Checker \<Rightarrow> Node \<Rightarrow> bool" where
  "NeedIgnoreNode DummyChecker node = False"
| "NeedIgnoreNode (checker st) node =
     (if st = noMHC then False
      else list_ex (\<lambda>cond. nc_Type cond = NodeConditionTerminating) (n_Conditions node))"

subsection \<open>Feature gates\<close>

definition mhcFeatureGate :: string where
  "mhcFeatureGate = ''MachineAPIOperatorDisableMachineHealthCheckController''"

text \<open>The accessor's flag, and the global registry of metrics as the accessor's changes find it.\<close>

record accessor =
  isMaoMhcDisabled :: bool
  registry :: "collector list"

definition featureGateChanged :: "string list \<Rightarrow> accessor \<Rightarrow> ('w, error + accessor) m" where
  "featureGateChanged enabled fga =
     (if mhcFeatureGate \<in> set enabled then
        (if \<not> isMaoMhcDisabled fga then
           (case InitializeMachineHealthCheckMetrics (registry fga) of
              Inl e \<Rightarrow> State_Monad.return (Inl e)
            | Inr registered \<Rightarrow> do {
                emit GenericEvent;
                State_Monad.return (Inr (fga\<lparr>isMaoMhcDisabled := True, registry := registered\<rparr>))
              })
         else State_Monad.return (Inr fga))
      else State_Monad.return (Inr (if isMaoMhcDisabled fga then fga\<lparr>isMaoMhcDisabled := False\<rparr> else fga)))"

definition IsMachineAPIOperatorMHCDisabled :: "accessor \<Rightarrow> bool" where
  "IsMachineAPIOperatorMHCDisabled fga = isMaoMhcDisabled fga"

text \<open>The invariant of the accessor: the flag is only ever set together with the metrics.\<close>

definition accessor_wf :: "accessor \<Rightarrow> bool" where
  "accessor_wf fga \<longleftrightarrow> (isMaoMhcDisabled fga \<longrightarrow> set mhcCollectors \<subseteq> set (registry fga))"

definition minFeatureGateVersionMajor :: int where "minFeatureGateVersionMajor = 1"
definition minFeatureGateVersionMinor :: int where "minFeatureGateVersionMinor = 27"

text \<open>The server's version is an argument; only the leading digits of the minor version count.\<close>

definition isFeatureGateAccessorSupported :: "error + string \<times> string \<Rightarrow> error + bool" where
  "isFeatureGateAccessorSupported serverVersion =
     (case serverVersion of
        Inl e \<Rightarrow> Inl e
      | Inr (major, minor) \<Rightarrow>
          (case Atoi major of
             None \<Rightarrow> Inl (Errorf (atoi_error major))
           | Some majorVer \<Rightarrow>
               (case Atoi (takeWhile is_digit minor) of
                  None \<Rightarrow> Inl (Errorf (atoi_error (takeWhile is_digit minor)))
                | Some minorVer \<Rightarrow>
                    Inr (majorVer > minFeatureGateVersionMajor \<or>
                         majorVer = minFeatureGateVersionMajor \<and> minorVer \<ge> minFeatureGateVersionMinor))))"

text \<open>
  The start of the accessor. Creating the client, reading the server's version, the first
  synchronisation of the informers, and whether the feature gates are seen within a minute are calls of
  the environment. The second result tells whether changes of feature gates are handled from now on.
\<close>

record 'w fg_env =
  fg_NewForConfig :: "'w \<Rightarrow> error option \<times> 'w"
  fg_ServerVersion :: "'w \<Rightarrow> (error + string \<times> string) \<times> 'w"
  fg_WaitForCacheSync :: "'w \<Rightarrow> bool \<times> 'w"
  fg_InitialObserved :: "'w \<Rightarrow> bool \<times> 'w"

definition AccessorStart :: "'w fg_env \<Rightarrow> ('w, error option \<times> bool) m" where
  "AccessorStart env = do {
     e \<leftarrow> ask (fg_NewForConfig env);
     case e of
       Some err \<Rightarrow> State_Monad.return (Some err, False)
     | None \<Rightarrow> do {
         v \<leftarrow> ask (fg_ServerVersion env);
         case isFeatureGateAccessorSupported v of
           Inl err \<Rightarrow> State_Monad.return (Some err, False)
         | Inr supported \<Rightarrow>
             if \<not> supported then State_Monad.return (None, False)
             else do {
               synced \<leftarrow> ask (fg_WaitForCacheSync env);
               if \<not> synced then State_Monad.return (Some (Errorf ''failed to sync informers''), False)
               else do {
                 observed \<leftarrow> ask (fg_InitialObserved env);
                 State_Monad.return
                   (if observed then (None, True)
                    else (Some (Errorf ''timed out waiting for FeatureGate detection''), True))
               }
             }
       }
   }"

text \<open>A new accessor, and what a sequence of feature changes makes of it.\<close>

definition NewAccessor :: "collector list \<Rightarrow> accessor" where
  "NewAccessor registered = \<lparr>isMaoMhcDisabled = False, registry = registered\<rparr>"

fun featureGateChanges :: "string list list \<Rightarrow> accessor \<Rightarrow> ('w, error + accessor) m" where
  "featureGateChanges [] fga = State_Monad.return (Inr fga)"
| "featureGateChanges (enabled # rest) fga = bindE (featureGateChanged enabled fga) (featureGateChanges rest)"

section \<open>The interface of the upgrade checker\<close>

text \<open>A check only reads, and a failed check does not postpone remediation.\<close>

locale upgrade_iface =
  fixes check :: "Node list \<Rightarrow> ('w, bool \<times> error option) m"
  assumes check_reads: "emits P (check nodes)"
    and check_error: "run_state (check nodes) s = ((upgrading, Some e), s') \<Longrightarrow> \<not> upgrading"
begin

lemma upgrading_known: "run_state (check nodes) s = ((True, e), s') \<Longrightarrow> e = None"
  using check_error by (cases e) blast+

end

section \<open>Lemmas\<close>

subsection \<open>Capabilities\<close>

lemma scanVersions_topology [simp]:
  "IsSupportedControlPlaneTopology (scanVersions vs caps) = IsSupportedControlPlaneTopology caps"
  by (induction vs) auto

lemma NewCapabilities_topology:
  assumes "NewCapabilities groups infra = Inr caps"
  shows "IsSupportedControlPlaneTopology caps \<longleftrightarrow>
     (IsOnOpenshift caps \<longrightarrow> (\<exists>t\<in>set supportedTopologies. infra = Inr t))"
  using assms by (auto simp: NewCapabilities_def Let_def split: sum.splits if_splits)

subsection \<open>Cluster upgrades\<close>

interpretation osu: upgrade_iface "openshiftCheck c" for c :: "'w client"
  by unfold_locales
    (auto simp: openshiftCheck_def intro!: emits_intros split: if_splits prod.splits sum.splits)

interpretation noopu: upgrade_iface "noopCheck :: Node list \<Rightarrow> ('w, bool \<times> error option) m"
  by unfold_locales (auto simp: noopCheck_def intro!: emits_intros)

lemma upgrade_iface_New: "upgrade_iface (NewClusterUpgradeStatusChecker c onOpenshift)"
  by (simp add: NewClusterUpgradeStatusChecker_def osu.upgrade_iface_axioms noopu.upgrade_iface_axioms)

subsection \<open>Conflicting machine health checks\<close>

lemma nextStatus_known: "nextStatus mhcs \<noteq> unknown"
  by (auto simp: nextStatus_def split: list.splits)

lemma nextStatus_custom:
  "nextStatus mhcs = customMHC \<longleftrightarrow>
     mhcs \<noteq> [] \<and> (\<forall>mhc uc. mhcs = [mhc] \<longrightarrow> mhc_UnhealthyConditions mhc = [uc] \<longrightarrow> uc_Type uc \<noteq> NodeConditionTerminating)"
proof (cases mhcs)
  case (Cons mhc rest)
  then show ?thesis by (cases rest) (auto simp: nextStatus_def split: list.splits)
qed (simp add: nextStatus_def)

lemma NeedDisableNHC_checker: "NeedDisableNHC (checker st) \<longleftrightarrow> st = customMHC"
  by (cases st) simp_all

text \<open>A change of the status is announced exactly once.\<close>

lemma UpdateStatus_run:
  assumes "c_ListMHC c (world s) = (Inr mhcs, w)"
  shows "run_state (UpdateStatus c (checker old)) s =
     ((None, checker (nextStatus mhcs)),
      s\<lparr>world := w, trace := trace s @ (if nextStatus mhcs = old then [] else [GenericEvent])\<rparr>)"
  using assms by (simp add: Let_def)

lemma emits_UpdateStatus [emits_intros]: "P GenericEvent \<Longrightarrow> emits P (UpdateStatus c chk)"
  by (cases chk) (auto intro!: emits_intros)

subsection \<open>Feature gates\<close>

lemma featureGateChanged_wf:
  "accessor_wf fga \<Longrightarrow> run_state (featureGateChanged en fga) s = (Inr fga', s') \<Longrightarrow>
     accessor_wf fga' \<and> isMaoMhcDisabled fga' = (mhcFeatureGate \<in> set en)"
  by (auto simp: featureGateChanged_def accessor_wf_def dest: InitializeMachineHealthCheckMetrics_Inr
      split: if_splits sum.splits)

lemma featureGateChanged_registry:
  "run_state (featureGateChanged en fga) s = (Inr fga', s') \<Longrightarrow> set (registry fga) \<subseteq> set (registry fga')"
  by (auto simp: featureGateChanged_def dest: InitializeMachineHealthCheckMetrics_Inr split: if_splits sum.splits)

text \<open>The first change that enables the gate does not panic: until then only the metrics of the other controller are registered.\<close>

lemma first_enabling:
  assumes "InitializeNodeHealthCheckMetrics [] = Inr nhcRegistry" and "mhcFeatureGate \<in> set en"
  shows "\<exists>fga'. fst (run_state (featureGateChanged en (NewAccessor nhcRegistry)) s) = Inr fga' \<and> isMaoMhcDisabled fga'"
  using assms
  by (auto simp: featureGateChanged_def NewAccessor_def InitializeMachineHealthCheckMetrics_def InitializeNodeHealthCheckMetrics_def
      nhcCollectors_def mhcCollectors_def)

text \<open>
  A new accessor is well formed, and after any changes that did not panic its flag is the one of the
  last change.
\<close>

lemma featureGateChanges_flag:
  assumes "accessor_wf fga" and "run_state (featureGateChanges ens fga) s = (Inr fga', s')"
  shows "accessor_wf fga' \<and> isMaoMhcDisabled fga' = (if ens = [] then isMaoMhcDisabled fga else mhcFeatureGate \<in> set (last ens))"
  using assms
proof (induction ens arbitrary: fga s)
  case (Cons en ens)
  obtain r s1 where r: "run_state (featureGateChanged en fga) s = (r, s1)" by fastforce
  with Cons.prems obtain fga1 where fga1: "r = Inr fga1" by (cases r) auto
  from featureGateChanged_wf[OF Cons.prems(1) r[unfolded fga1]]
  have 1: "accessor_wf fga1" "isMaoMhcDisabled fga1 = (mhcFeatureGate \<in> set en)" by auto
  from Cons.prems(2) r fga1 have "run_state (featureGateChanges ens fga1) s1 = (Inr fga', s')" by simp
  from Cons.IH[OF 1(1) this] 1(2) show ?case by auto
qed simp

lemma NewAccessor_wf: "accessor_wf (NewAccessor registered)"
  by (simp add: accessor_wf_def NewAccessor_def)

text \<open>Changes are handled exactly on servers from 1.27 on whose informers synchronise.\<close>

lemma AccessorStart_handles:
  assumes "run_state (AccessorStart env) s = ((e, handles), s')"
  shows "handles \<Longrightarrow> \<exists>w v w'. fg_ServerVersion env w = (v, w') \<and> isFeatureGateAccessorSupported v = Inr True"
    and "e = None \<Longrightarrow> \<not> handles \<Longrightarrow> \<exists>w v w'. fg_ServerVersion env w = (v, w') \<and> isFeatureGateAccessorSupported v = Inr False"
  using assms by (auto simp: AccessorStart_def split: prod.splits option.splits sum.splits if_splits)

end
