(* ===== verification/NHC_Remediate.thy ===== *)
theory NHC_Remediate
  imports Manager Checkers "HOL-Library.Multiset"
begin

text \<open>
  The parts of the \<open>NodeHealthCheck\<close> reconciler that look at single nodes
  (\<open>internal/controller/nodehealthcheck_controller.go\<close>): the health check of the selected nodes,
  orphaned remediation CRs, the remediation of one unhealthy node with its timeouts and
  escalation, the control plane check, and the alert for old CRs.

  Functions that change the \<open>NodeHealthCheck\<close> in memory take it and return it, also when they fail.
  \<open>remediate\<close> is split at the source's comments into what happens after an error of the creation, and
  what happens to a CR that exists already.
\<close>

section \<open>Definitions\<close>

definition oldRemediationCRAnnotationKey :: string where
  "oldRemediationCRAnnotationKey = ''nodehealthcheck.medik8s.io/old-remediation-cr-flag''"
definition remediationCRAlertTimeout :: duration where "remediationCRAlertTimeout = 48 * hour"
definition eventReasonNoTemplateLeft :: string where "eventReasonNoTemplateLeft = ''NoTemplateLeft''"
definition RemediationControlPlaneLabelKey :: string where
  "RemediationControlPlaneLabelKey = ''remediation.medik8s.io/isControlPlaneNode''"

text \<open>
  The reconciler. The machine health check checker is shared with the other controller, so its
  state is read from the world.
\<close>

record 'w NodeHealthCheckReconciler =
  r_Client :: "'w client"
  r_UpgradeChecker :: "Node list \<Rightarrow> ('w, bool \<times> error option) m"
  r_MHCChecker :: "'w \<Rightarrow> Checker"
  r_Capabilities :: Capabilities

definition mhcChecker :: "'w NodeHealthCheckReconciler \<Rightarrow> ('w, Checker) m" where
  "mhcChecker r = ask (\<lambda>w. (r_MHCChecker r w, w))"

subsection \<open>Node health\<close>

definition isRemediating :: "UnhealthyNode list \<Rightarrow> bool" where
  "isRemediating uns = list_ex (\<lambda>un. 0 < length (un_Remediations un)) uns"

definition isRemediatingNode :: "UnhealthyNode list \<Rightarrow> string \<Rightarrow> bool" where
  "isRemediatingNode uns nodeName = list_ex (\<lambda>un. nodeName = un_Name un \<and> 0 < length (un_Remediations un)) uns"

fun matchConditions ::
    "'w client \<Rightarrow> (string \<rightharpoonup> NodeCondition) \<Rightarrow> bool \<Rightarrow> string \<Rightarrow> duration option \<Rightarrow> UnhealthyCondition list \<Rightarrow>
     ('w, bool \<times> duration option) m" where
  "matchConditions c ncs remediating nodeName expiresAfter [] = State_Monad.return (False, expiresAfter)"
| "matchConditions c ncs remediating nodeName expiresAfter (uc # ucs) =
     (case ncs (uc_Type uc) of
        None \<Rightarrow> matchConditions c ncs remediating nodeName expiresAfter ucs
      | Some n \<Rightarrow>
          if nc_Status n = uc_Status uc then do {
            now \<leftarrow> ask (c_Now c);
            let expiry = time_Add (nc_LastTransitionTime n) (uc_Duration uc);
            if time_After now expiry then do {
              _ \<leftarrow> (if \<not> remediating then
                      NormalEvent EventReasonDetectedUnhealthy
                        (''Node matches unhealthy condition. Node '' @ quoted nodeName @ '', condition type '' @
                         quoted (uc_Type uc) @ '', condition status '' @ quoted (uc_Status uc))
                    else State_Monad.return ());
              State_Monad.return (True, None)
            } else
              matchConditions c ncs remediating nodeName
                (MinRequeueDuration expiresAfter (Some (dur_add (time_Sub expiry now) second))) ucs
          } else matchConditions c ncs remediating nodeName expiresAfter ucs)"

definition matchesUnhealthyConditions :: "'w client \<Rightarrow> NodeHealthCheck \<Rightarrow> Node \<Rightarrow> ('w, bool \<times> duration option) m" where
  "matchesUnhealthyConditions c nhc node =
     matchConditions c (nodeConditionByType (n_Conditions node))
       (isRemediatingNode (UnhealthyNodes (nhc_Status nhc)) (n_Name node)) (n_Name node) None
       (UnhealthyConditions (nhc_Spec nhc))"

text \<open>Not matching, soon matching and matching nodes, and when to come back.\<close>

type_synonym nodeClasses = "Node list \<times> Node list \<times> Node list \<times> duration option"

fun classifyNodes :: "'w NodeHealthCheckReconciler \<Rightarrow> NodeHealthCheck \<Rightarrow> nodeClasses \<Rightarrow> Node list \<Rightarrow> ('w, nodeClasses) m" where
  "classifyNodes r nhc acc [] = State_Monad.return acc"
| "classifyNodes r nhc (notM, soon, mat, requeue) (node # nodes) = do {
     (matches, thisRequeue) \<leftarrow> matchesUnhealthyConditions (r_Client r) nhc node;
     if \<not> matches then
       (case thisRequeue of
          Some d \<Rightarrow>
            if 0 < d then classifyNodes r nhc (notM, soon @ [node], mat, MinRequeueDuration requeue (Some d)) nodes
            else classifyNodes r nhc (notM @ [node], soon, mat, requeue) nodes
        | None \<Rightarrow> classifyNodes r nhc (notM @ [node], soon, mat, requeue) nodes)
     else do {
       chk \<leftarrow> mhcChecker r;
       if NeedIgnoreNode chk node then classifyNodes r nhc (notM @ [node], soon, mat, requeue) nodes
       else classifyNodes r nhc (notM, soon, mat @ [node], requeue) nodes
     }
   }"

definition checkNodeConditions :: "'w NodeHealthCheckReconciler \<Rightarrow> Node list \<Rightarrow> NodeHealthCheck \<Rightarrow> ('w, nodeClasses) m" where
  "checkNodeConditions r nodes nhc = classifyNodes r nhc ([], [], [], None) nodes"

text \<open>Specification: a node with an unhealthy condition for longer than its duration.\<close>

definition unhealthyAt :: "NodeHealthCheck \<Rightarrow> time \<Rightarrow> Node \<Rightarrow> bool" where
  "unhealthyAt nhc now node \<longleftrightarrow>
     list_ex (expiredCondition (nodeConditionByType (n_Conditions node)) now) (UnhealthyConditions (nhc_Spec nhc))"

definition isClusterUpgrading :: "'w NodeHealthCheckReconciler \<Rightarrow> Node list \<Rightarrow> ('w, bool) m" where
  "isClusterUpgrading r nodes = do {
     (upgrading, err) \<leftarrow> r_UpgradeChecker r nodes;
     State_Monad.return upgrading
   }"

definition isNodeRemediationExcluded :: "Node \<Rightarrow> ('w, bool) m" where
  "isNodeRemediationExcluded node =
     (case lookup2 (n_Labels node) ExcludeFromRemediation of
        None \<Rightarrow> State_Monad.return False
      | Some val \<Rightarrow>
          if val = ''true'' then State_Monad.return True
          else if val = '''' then do {
            WarningEvent EventReasonInvalidNodeLabel
              (''Node '' @ n_Name node @ '' has exclude-from-remediation label with empty value, label will be ignored. Set value to 'true' to exclude node from remediation'');
            State_Monad.return False
          } else State_Monad.return False)"

subsection \<open>Conditions of remediation CRs\<close>

text \<open>A condition that is no object, or has no matching type, is skipped.\<close>

fun findCRCondition :: "string \<Rightarrow> json list \<Rightarrow> Condition option" where
  "findCRCondition ty [] = None"
| "findCRCondition ty (JObj kvs # cs) =
     (if NestedString (JObj kvs) [''type''] = Some ty then
        Some \<lparr>cond_Type = ty,
              cond_Status = (case NestedString (JObj kvs) [''status''] of None \<Rightarrow> '''' | Some st \<Rightarrow> st),
              cond_ObservedGeneration = 0,
              cond_LastTransitionTime =
                (case NestedString (JObj kvs) [''lastTransitionTime''] of
                   None \<Rightarrow> zero_time
                 | Some str \<Rightarrow> (case parseRFC3339 str of None \<Rightarrow> zero_time | Some t \<Rightarrow> t)),
              cond_Reason = '''', cond_Message = ''''\<rparr>
      else findCRCondition ty cs)"
| "findCRCondition ty (_ # cs) = findCRCondition ty cs"

definition getCondition :: "Unstructured \<Rightarrow> string \<Rightarrow> Condition option" where
  "getCondition cr ty =
     (case NestedSlice (u_Object cr) [''status'', ''conditions''] of
        None \<Rightarrow> None
      | Some cs \<Rightarrow> findCRCondition ty cs)"

definition conditionHasStatus :: "Unstructured \<Rightarrow> string \<Rightarrow> string \<Rightarrow> bool" where
  "conditionHasStatus cr ty status =
     (case getCondition cr ty of None \<Rightarrow> False | Some cond \<Rightarrow> cond_Status cond = status)"

definition remediationFailed :: "Unstructured \<Rightarrow> bool" where
  "remediationFailed cr = conditionHasStatus cr SucceededType ConditionFalse"

definition remediationSucceeded :: "Unstructured \<Rightarrow> bool" where
  "remediationSucceeded cr = conditionHasStatus cr SucceededType ConditionTrue"

subsection \<open>Orphaned CRs\<close>

definition isOrphanedCR :: "NodeHealthCheck \<Rightarrow> Node list \<Rightarrow> Unstructured \<Rightarrow> bool" where
  "isOrphanedCR nhc allNodes cr =
     (if u_DeletionTimestamp cr \<noteq> None then False
      else if \<not> IsOwner cr (NHC nhc) then False
      else (let permanentNodeDeletionExpected = conditionHasStatus cr PermanentNodeDeletionExpectedType ConditionTrue;
                succeeded = conditionHasStatus cr SucceededType ConditionTrue
            in if permanentNodeDeletionExpected \<and> \<not> succeeded then False
               else \<not> list_ex (\<lambda>node. n_Name node = GetNodeNameFromCR cr) allNodes))"

fun deleteOrphans ::
    "'w client \<Rightarrow> 'w Manager \<Rightarrow> NodeHealthCheck \<Rightarrow> Unstructured list \<Rightarrow> ('w, error option \<times> NodeHealthCheck) m" where
  "deleteOrphans c rm nhc [] = State_Monad.return (None, nhc)"
| "deleteOrphans c rm nhc (cr # crs) = do {
     let nodeName = GetNodeNameFromCR cr;
     r \<leftarrow> rm_CleanUp rm nodeName False;
     case r of
       Some e \<Rightarrow> State_Monad.return (Some e, nhc)
     | None \<Rightarrow> do {
         nhc' \<leftarrow> UpdateStatusNodeHealthy c nodeName nhc;
         r' \<leftarrow> rm_DeleteRemediationCR rm cr (NHC nhc');
         case r' of
           Inl e \<Rightarrow> State_Monad.return (Some e, nhc')
         | Inr deleted \<Rightarrow> deleteOrphans c rm nhc' crs
       }
   }"

definition deleteOrphanedRemediationCRs ::
    "'w client \<Rightarrow> 'w Manager \<Rightarrow> NodeHealthCheck \<Rightarrow> Node list \<Rightarrow> ('w, error option \<times> NodeHealthCheck) m" where
  "deleteOrphanedRemediationCRs c rm nhc allNodes = do {
     r \<leftarrow> rm_ListRemediationCRs rm (GetAllRemediationTemplates (NHC nhc)) (isOrphanedCR nhc allNodes);
     case r of
       Inl e \<Rightarrow> State_Monad.return (Some e, nhc)
     | Inr crs \<Rightarrow> deleteOrphans c rm nhc crs
   }"

subsection \<open>Remediating one node\<close>

definition isControlPlaneCR :: "Unstructured \<Rightarrow> bool" where
  "isControlPlaneCR cr = (lookup2 (u_Labels cr) RemediationControlPlaneLabelKey \<noteq> None)"

definition isControlPlaneRemediationAllowed ::
    "'w NodeHealthCheckReconciler \<Rightarrow> 'w Manager \<Rightarrow> Node \<Rightarrow> NodeHealthCheck \<Rightarrow> ('w, error + bool) m" where
  "isControlPlaneRemediationAllowed r rm node nhc =
     (if \<not> IsControlPlane node then
        State_Monad.return (Inl (Errorf (n_Name node @ '' isn't a control plane node'')))
      else bindE (rm_ListRemediationCRs rm (GetAllRemediationTemplates (NHC nhc)) isControlPlaneCR)
        (\<lambda>crs.
          if list_ex (\<lambda>cr. GetNodeNameFromCR cr = n_Name node) crs then State_Monad.return (Inr True)
          else if crs \<noteq> [] then State_Monad.return (Inr False)
          else if \<not> IsOnOpenshift (r_Capabilities r) then State_Monad.return (Inr True)
          else ask (c_IsEtcdDisruptionAllowed (r_Client r) node)))"

definition addTimeOutAnnotation :: "'w client \<Rightarrow> 'w Manager \<Rightarrow> Unstructured \<Rightarrow> time \<Rightarrow> ('w, error option) m" where
  "addTimeOutAnnotation c rm cr now = do {
     let ann = (case u_Annotations cr of None \<Rightarrow> Map.empty | Some a \<Rightarrow> a);
     let cr' = cr\<lparr>u_Annotations := Some (ann(NhcTimedOut \<mapsto> formatRFC3339 (c_ZoneOffset c now) now))\<rparr>;
     r \<leftarrow> rm_UpdateRemediationCR rm cr';
     State_Monad.return (map_option (wrapE ''failed to update remediation CR with timeout annotation'') r)
   }"

text \<open>The timeout annotation is skipped for remediations that succeeded.\<close>

definition annotateUnlessSucceeded :: "'w client \<Rightarrow> 'w Manager \<Rightarrow> Unstructured \<Rightarrow> time \<Rightarrow> ('w, error option) m" where
  "annotateUnlessSucceeded c rm cr now =
     (if \<not> remediationSucceeded cr then addTimeOutAnnotation c rm cr now else State_Monad.return None)"

definition startedFilter :: "Unstructured \<Rightarrow> Unstructured \<Rightarrow> Remediation \<Rightarrow> bool" where
  "startedFilter cr currentTemplate rem \<longleftrightarrow>
     or_GVK (rem_Resource rem) = u_GVK cr \<and>
     (rem_TemplateName rem = '''' \<or> rem_TemplateName rem = u_Name currentTemplate)"

definition getTimeoutAt :: "Remediation \<Rightarrow> duration \<Rightarrow> time" where
  "getTimeoutAt rem configuredTimeout = time_Add (rem_Started rem) configuredTimeout"

text \<open>The lease is overdue: give up this remediation.\<close>

definition handleOverdueLease ::
    "'w client \<Rightarrow> 'w Manager \<Rightarrow> Node \<Rightarrow> NodeHealthCheck \<Rightarrow> Unstructured option \<Rightarrow> Unstructured \<Rightarrow>
     ('w, (error + duration option) \<times> NodeHealthCheck) m" where
  "handleOverdueLease c rm node nhc cr currentTemplate =
     (case cr of
        None \<Rightarrow> State_Monad.return (Inl (Panic ''nil pointer dereference: remediation CR''), nhc)
      | Some cr \<Rightarrow> do {
          now \<leftarrow> ask (c_Now c);
          r \<leftarrow> annotateUnlessSucceeded c rm cr now;
          State_Monad.return
            (case r of
               Some e \<Rightarrow> (Inl e, nhc)
             | None \<Rightarrow>
                 (case FindStatusRemediation node nhc (startedFilter cr currentTemplate) of
                    None \<Rightarrow> (Inl (Errorf ''failed to find started remediation in status for handling overdue lease''), nhc)
                  | Some p \<Rightarrow> (Inr None, setTimedOut now p nhc)))
        })"

definition handleCreateError ::
    "'w client \<Rightarrow> 'w Manager \<Rightarrow> Node \<Rightarrow> NodeHealthCheck \<Rightarrow> duration option \<Rightarrow> Unstructured option \<Rightarrow> Unstructured \<Rightarrow> error \<Rightarrow>
     ('w, (error + duration option) \<times> NodeHealthCheck) m" where
  "handleCreateError c rm node nhc leaseRequeueIn cr currentTemplate err =
     (case err of
        AlreadyHeldError i \<Rightarrow> do {
          WarningEvent EventReasonRemediationSkipped
            (''Skipped remediation of node: '' @ n_Name node @ '', because node lease is already taken'');
          State_Monad.return (Inr leaseRequeueIn, nhc)
        }
      | LeaseOverDueError i \<Rightarrow> handleOverdueLease c rm node nhc cr currentTemplate
      | RemediationCRNotOwned i \<Rightarrow> State_Monad.return (Inr None, nhc)
      | _ \<Rightarrow> State_Monad.return (Inl (wrapE ''failed to create remediation CR'' err), nhc))"

text \<open>The CR exists already: check for timeout and failure.\<close>

definition handleExistingCR ::
    "'w client \<Rightarrow> 'w Manager \<Rightarrow> Node \<Rightarrow> NodeHealthCheck \<Rightarrow> duration option \<Rightarrow> Unstructured \<Rightarrow> Unstructured \<Rightarrow> duration option \<Rightarrow>
     ('w, (error + duration option) \<times> NodeHealthCheck) m" where
  "handleExistingCR c rm node nhc leaseRequeueIn cr currentTemplate timeout =
     (case timeout of
        None \<Rightarrow> State_Monad.return (Inr leaseRequeueIn, nhc)
      | Some timeout \<Rightarrow>
          (case FindStatusRemediation node nhc (startedFilter cr currentTemplate) of
             None \<Rightarrow> State_Monad.return (Inl (Errorf ''failed to find started remediation in status for handling timeout''), nhc)
           | Some p \<Rightarrow>
               if rem_TimedOut (remediationAt nhc p) \<noteq> None then
                 State_Monad.return (Inl (Errorf ''unexpected timout found on started remediation in status''), nhc)
               else do {
                 now \<leftarrow> ask (c_Now c);
                 let timeoutAt = getTimeoutAt (remediationAt nhc p) timeout;
                 let timedOut = time_After now timeoutAt;
                 let failed = remediationFailed cr;
                 if \<not> timedOut \<and> \<not> failed then
                   State_Monad.return (Inr (MinRequeueDuration leaseRequeueIn (Some (time_Sub timeoutAt now))), nhc)
                 else do {
                   r \<leftarrow> annotateUnlessSucceeded c rm cr now;
                   State_Monad.return
                     (case r of
                        Some e \<Rightarrow> (Inl e, nhc)
                      | None \<Rightarrow> (Inr (Some second), setTimedOut now p nhc))
                 }
               }))"

definition handleCR ::
    "'w client \<Rightarrow> 'w Manager \<Rightarrow> Node \<Rightarrow> NodeHealthCheck \<Rightarrow> Unstructured \<Rightarrow> duration option \<Rightarrow> createResult \<Rightarrow>
     ('w, (error + duration option) \<times> NodeHealthCheck) m" where
  "handleCR c rm node nhc currentTemplate timeout res =
     (case res of (created, leaseRequeueIn, cr, err) \<Rightarrow>
        (case err of
           Some e \<Rightarrow> handleCreateError c rm node nhc leaseRequeueIn cr currentTemplate e
         | None \<Rightarrow>
             (case cr of
                None \<Rightarrow> State_Monad.return (Inl (Panic ''nil pointer dereference: remediation CR''), nhc)
              | Some cr \<Rightarrow> do {
                  let nhc' = UpdateStatusRemediationStarted node nhc cr;
                  ObserveNodeHealthCheckRemediationCreated (n_Name node) (u_Namespace cr) (u_Kind cr);
                  if created then do {
                    NormalEvent EventReasonRemediationCreated (''Created remediation object for node '' @ n_Name node);
                    let requeueIn = map_option (\<lambda>t. dur_add t second) timeout;
                    State_Monad.return (Inr (MinRequeueDuration leaseRequeueIn requeueIn), nhc')
                  } else handleExistingCR c rm node nhc' leaseRequeueIn cr currentTemplate timeout
                })))"

text \<open>Writing the label to a \<open>nil\<close> map would panic.\<close>

definition labelControlPlane :: "bool \<Rightarrow> Unstructured \<Rightarrow> error + Unstructured" where
  "labelControlPlane isControlPlaneNode cr =
     (if \<not> isControlPlaneNode then Inr cr
      else case u_Labels cr of
             None \<Rightarrow> Inl (Panic ''assignment to entry in nil map'')
           | Some ls \<Rightarrow> Inr (cr\<lparr>u_Labels := Some (ls(RemediationControlPlaneLabelKey \<mapsto> ''''))\<rparr>))"

text \<open>Generating and creating the CR of the current template.\<close>

definition startRemediation ::
    "'w client \<Rightarrow> 'w Manager \<Rightarrow> Node \<Rightarrow> NodeHealthCheck \<Rightarrow> Unstructured \<Rightarrow> duration option \<Rightarrow>
     ('w, (error + duration option) \<times> NodeHealthCheck) m" where
  "startRemediation c rm node nhc currentTemplate timeout = do {
     r \<leftarrow> rm_GenerateRemediationCRForNode rm node (NHC nhc) currentTemplate;
     case r of
       Inl e \<Rightarrow> State_Monad.return (Inl (wrapE ''failed to generate remediation CR'' e), nhc)
     | Inr generated \<Rightarrow>
         (case labelControlPlane (IsControlPlane node) generated of
            Inl e \<Rightarrow> State_Monad.return (Inl e, nhc)
          | Inr cr \<Rightarrow>
              (case GetRemediationDuration nhc cr of (cur, prev) \<Rightarrow> do {
                 res \<leftarrow> rm_CreateRemediationCR rm cr (NHC nhc) (Some (n_Name node)) cur prev;
                 handleCR c rm node nhc currentTemplate timeout res
               }))
   }"

definition tryCurrentTemplate ::
    "'w client \<Rightarrow> 'w Manager \<Rightarrow> Node \<Rightarrow> NodeHealthCheck \<Rightarrow> ('w, (error + duration option) \<times> NodeHealthCheck) m" where
  "tryCurrentTemplate c rm node nhc = do {
     (t, nhc') \<leftarrow> rm_GetCurrentTemplateWithTimeout rm node nhc;
     case t of
       Inl (NoTemplateLeftError msg) \<Rightarrow> do {
         WarningEvent eventReasonNoTemplateLeft (''Remediation timed out, and no template left to try. '' @ msg);
         State_Monad.return (Inr None, nhc')
       }
     | Inl e \<Rightarrow> State_Monad.return (Inl (wrapE ''failed to get current template'' e), nhc')
     | Inr (currentTemplate, timeout) \<Rightarrow> startRemediation c rm node nhc' currentTemplate timeout
   }"

definition remediate ::
    "'w NodeHealthCheckReconciler \<Rightarrow> 'w Manager \<Rightarrow> Node \<Rightarrow> NodeHealthCheck \<Rightarrow>
     ('w, (error + duration option) \<times> NodeHealthCheck) m" where
  "remediate r rm node nhc = do {
     allowed \<leftarrow> (if IsControlPlane node then isControlPlaneRemediationAllowed r rm node nhc
                 else State_Monad.return (Inr True));
     case allowed of
       Inl e \<Rightarrow> State_Monad.return (Inl (wrapE ''failed to check if control plane remediation is allowed'' e), nhc)
     | Inr False \<Rightarrow> do {
         WarningEvent EventReasonRemediationSkipped
           (''Skipping remediation of '' @ n_Name node @ '' for preventing control plane / etcd quorum loss, going to retry in a minute'');
         State_Monad.return (Inr (Some minute), nhc)
       }
     | Inr True \<Rightarrow> tryCurrentTemplate (r_Client r) rm node nhc
   }"

subsection \<open>Old CRs\<close>

definition alertOldRemediationCR :: "'w client \<Rightarrow> Unstructured \<Rightarrow> ('w, bool \<times> duration option) m" where
  "alertOldRemediationCR c cr = do {
     now \<leftarrow> ask (c_Now c);
     now2 \<leftarrow> ask (c_Now c);
     if time_After now2 (time_Add (u_CreationTimestamp cr) remediationCRAlertTimeout) then
       (let ann = (case u_Annotations cr of None \<Rightarrow> Map.empty | Some a \<Rightarrow> a)
        in if ann oldRemediationCRAnnotationKey = None then do {
             let cr' = cr\<lparr>u_Annotations := Some (ann(oldRemediationCRAnnotationKey \<mapsto> ''flagon''))\<rparr>;
             r \<leftarrow> mutate (UpdateCR cr') (c_Update c cr');
             State_Monad.return (r = None, None)
           } else State_Monad.return (False, None))
     else State_Monad.return
       (False, Some (dur_add (dur_sub remediationCRAlertTimeout (time_Sub now (u_CreationTimestamp cr))) minute))
   }"

subsection \<open>What a remediation may write\<close>

text \<open>
  Remediating a node of an NHC creates CRs of that NHC for that node, updates CRs, writes leases, and
  records events and metrics; it deletes nothing.
\<close>

fun remediate_effect :: "NodeHealthCheck \<Rightarrow> string \<Rightarrow> effect \<Rightarrow> bool" where
  "remediate_effect nhc nodeName (CreateCR x) = (IsOwner x (NHC nhc) \<and> GetNodeNameFromCR x = nodeName)"
| "remediate_effect nhc nodeName (UpdateCR x) = True"
| "remediate_effect nhc nodeName e = (is_lease_write e \<or> is_note e)"

text \<open>The templates an escalation has left for a node.\<close>

definition openTemplates :: "Node \<Rightarrow> NodeHealthCheck \<Rightarrow> EscalatingRemediation list" where
  "openTemplates node nhc =
     filter (\<lambda>er. FindStatusRemediation node nhc (timedOutWith er) = None) (EscalatingRemediations (nhc_Spec nhc))"

text \<open>
  The changes a reconcile may make to the \<open>NodeHealthCheck\<close> in memory, one at a time. \<open>other\<close> covers
  counters, phase and the like, which leave the unhealthy nodes alone.
\<close>

inductive status_step :: "NodeHealthCheck \<Rightarrow> NodeHealthCheck \<Rightarrow> bool" where
  started: "status_step nhc (UpdateStatusRemediationStarted node nhc cr)"
| unhealthy: "status_step nhc (UpdateStatusNodeUnhealthy node nhc)"
| healthy: "status_step nhc (map_unhealthy (remove_first (\<lambda>un. un_Name un = name)) nhc)"
| delayed: "status_step nhc (UpdateStatusNodeDelayedHealthy name nhc crs)"
| conditionsHealthy: "status_step nhc (snd (UpdateStatusNodeConditionsHealthy name nhc now))"
| timedOut: "FindStatusRemediation node nhc P = Some p \<Longrightarrow> status_step nhc (setTimedOut now p nhc)"
| sorted: "status_step nhc (sortEscalating nhc)"
| condition: "status_step nhc (map_conditions (SetStatusCondition now cond) nhc)"
| other: "(\<And>st. UnhealthyNodes (f st) = UnhealthyNodes st) \<Longrightarrow> (\<And>st. Conditions (f st) = Conditions st) \<Longrightarrow>
    status_step nhc (map_status f nhc)"

text \<open>Two objects that are the same \<open>NodeHealthCheck\<close>, with the same spec up to the order of its remediations.\<close>

definition same_nhc :: "NodeHealthCheck \<Rightarrow> NodeHealthCheck \<Rightarrow> bool" where
  "same_nhc a b \<longleftrightarrow>
     nhc_Name a = nhc_Name b \<and> nhc_UID a = nhc_UID b \<and> nhc_APIVersion a = nhc_APIVersion b \<and> nhc_Kind a = nhc_Kind b \<and>
     mset (EscalatingRemediations (nhc_Spec a)) = mset (EscalatingRemediations (nhc_Spec b)) \<and>
     (nhc_Spec a)\<lparr>EscalatingRemediations := []\<rparr> = (nhc_Spec b)\<lparr>EscalatingRemediations := []\<rparr>"

definition names_wf :: "NodeHealthCheck \<Rightarrow> bool" where
  "names_wf nhc \<longleftrightarrow> distinct (map un_Name (UnhealthyNodes (nhc_Status nhc)))"

section \<open>Lemmas\<close>

subsection \<open>Node health\<close>

lemma emits_matchConditions [emits_intros]:
  "(\<And>e. is_note e \<Longrightarrow> P e) \<Longrightarrow> emits P (matchConditions c ncs b n x ucs)"
  by (induction ucs arbitrary: x) (auto intro!: emits_intros)

lemma emits_checkNodeConditions [emits_intros]:
  assumes "\<And>e. is_note e \<Longrightarrow> P e"
  shows "emits P (checkNodeConditions r nodes nhc)"
proof -
  have "emits P (classifyNodes r nhc acc nodes)" for acc
    by (induction nodes arbitrary: acc)
      (auto simp: matchesUnhealthyConditions_def mhcChecker_def split_paired_all assms intro!: emits_intros)
  then show ?thesis by (simp add: checkNodeConditions_def)
qed

text \<open>With a clock that stands still, a node matches exactly when one of its conditions has expired.\<close>

lemma matchConditions_iff:
  assumes clock: "\<And>w. c_Now c w = (now, w)"
    and run: "run_state (matchConditions c ncs remediating n x ucs) s = ((matches, d), s')"
  shows "matches \<longleftrightarrow> (\<exists>uc\<in>set ucs. expiredCondition ncs now uc)"
  using run
proof (induction ucs arbitrary: x)
  case (Cons uc ucs)
  show ?case
  proof (cases "expiredCondition ncs now uc")
    case True
    with Cons.prems show ?thesis
      by (auto simp: clock expiredCondition_def Let_def split: option.splits if_splits)
  next
    case False
    with Cons.prems obtain x' where "run_state (matchConditions c ncs remediating n x' ucs) s = ((matches, d), s')"
      by (auto simp: clock expiredCondition_def Let_def split: option.splits if_splits)
    from Cons.IH[OF this] False show ?thesis by auto
  qed
qed simp

text \<open>Whatever the clock does, a match rests on a condition that had expired when it was read.\<close>

lemma matchConditions_sound:
  assumes "run_state (matchConditions c ncs remediating n x ucs) s = ((True, d), s')"
  shows "\<exists>uc\<in>set ucs. \<exists>w. expiredCondition ncs (fst (c_Now c w)) uc"
  using assms
proof (induction ucs arbitrary: x s)
  case (Cons uc ucs)
  show ?case
  proof (cases "expiredCondition ncs (fst (c_Now c (world s))) uc")
    case True
    then show ?thesis by auto
  next
    case False
    with Cons.prems obtain x' t where "run_state (matchConditions c ncs remediating n x' ucs) t = ((True, d), s')"
      by (auto simp: expiredCondition_def Let_def split: option.splits if_splits prod.splits)
    from Cons.IH[OF this] show ?thesis by auto
  qed
qed simp

text \<open>The three classes partition the nodes.\<close>

lemma classifyNodes_mset:
  assumes "run_state (classifyNodes r nhc (a, b, m, q) nodes) s = ((a', b', m', q'), s')"
  shows "mset a' + mset b' + mset m' = mset a + mset b + mset m + mset nodes"
  using assms
proof (induction nodes arbitrary: a b m q s)
  case (Cons node nodes)
  obtain matches d s1 where r1: "run_state (matchesUnhealthyConditions (r_Client r) nhc node) s = ((matches, d), s1)"
    by (metis surj_pair)
  obtain chk s2 where r2: "run_state (mhcChecker r) s1 = (chk, s2)" by fastforce
  have "\<exists>a1 b1 m1 q1 t. run_state (classifyNodes r nhc (a1, b1, m1, q1) nodes) t = ((a', b', m', q'), s') \<and>
      mset a1 + mset b1 + mset m1 = mset a + mset b + mset m + {#node#}"
    using Cons.prems r1 r2 by (fastforce split: option.splits if_splits)
  with Cons.IH show ?case by fastforce
qed simp

text \<open>When the clock and the checker stand still, the matching nodes are those with an expired condition.\<close>

lemma classifyNodes_matching:
  assumes clock: "\<And>w. c_Now (r_Client r) w = (now, w)" and chk: "\<And>w. r_MHCChecker r w = chk"
    and "run_state (classifyNodes r nhc (a, b, m, q) nodes) s = ((a', b', m', q'), s')"
  shows "m' = m @ filter (\<lambda>node. unhealthyAt nhc now node \<and> \<not> NeedIgnoreNode chk node) nodes"
  using assms(3)
proof (induction nodes arbitrary: a b m q s)
  case (Cons node nodes)
  obtain matches d s1 where r1: "run_state (matchesUnhealthyConditions (r_Client r) nhc node) s = ((matches, d), s1)"
    by (metis surj_pair)
  have matches: "matches = unhealthyAt nhc now node"
    using matchConditions_iff[OF clock r1[unfolded matchesUnhealthyConditions_def]] by (simp add: unhealthyAt_def list_ex_iff)
  have r2: "fst (run_state (mhcChecker r) s1) = chk" by (simp add: mhcChecker_def chk)
  have "\<exists>a1 b1 q1 t. run_state (classifyNodes r nhc
      (a1, b1, m @ (if matches \<and> \<not> NeedIgnoreNode chk node then [node] else []), q1) nodes) t = ((a', b', m', q'), s')"
    using Cons.prems r1 r2 by (fastforce split: option.splits if_splits prod.splits)
  with Cons.IH matches show ?case by fastforce
qed simp

subsection \<open>Conditions of CRs\<close>

lemma failed_not_succeeded: "remediationFailed cr \<Longrightarrow> \<not> remediationSucceeded cr"
  by (auto simp: remediationFailed_def remediationSucceeded_def conditionHasStatus_def split: option.splits)

subsection \<open>Effects\<close>

lemma remediate_effect_notes: "is_note e \<Longrightarrow> remediate_effect nhc n e"
  by (cases e) auto

lemma remediate_effect_update: "is_UpdateCR e \<Longrightarrow> remediate_effect nhc n e"
  by (cases e) auto

lemma remediate_effect_create:
  "create_effect cr e \<Longrightarrow> IsOwner cr (NHC nhc) \<Longrightarrow> GetNodeNameFromCR cr = n \<Longrightarrow> remediate_effect nhc n e"
  by (cases e) auto

lemma remediate_effect_same: "same_owner (NHC a) (NHC b) \<Longrightarrow> remediate_effect a n e = remediate_effect b n e"
  by (cases e) (simp_all add: IsOwner_same)

lemma labelControlPlane_props:
  assumes "labelControlPlane b cr = Inr cr'"
  shows "IsOwner cr' owner = IsOwner cr owner" "GetNodeNameFromCR cr' = GetNodeNameFromCR cr"
    "u_GVK cr' = u_GVK cr" "u_Kind cr' = u_Kind cr" "b \<Longrightarrow> isControlPlaneCR cr'"
  using assms
  by (auto simp: labelControlPlane_def IsOwner_def GetNodeNameFromCR_def u_GVK_def isControlPlaneCR_def
      split: if_splits option.splits)

lemma emits_isNodeRemediationExcluded [emits_intros]:
  "(\<And>e. is_note e \<Longrightarrow> P e) \<Longrightarrow> emits P (isNodeRemediationExcluded node)"
  unfolding isNodeRemediationExcluded_def by (intro emits_intros) auto

lemma emits_alertOldRemediationCR [emits_intros]:
  "(\<And>x. P (UpdateCR x)) \<Longrightarrow> emits P (alertOldRemediationCR c cr)"
  unfolding alertOldRemediationCR_def by (intro emits_intros) auto

text \<open>For every resource manager that keeps its contract.\<close>

context manager_iface
begin

lemma emits_annotate [emits_intros]:
  "emits (remediate_effect nhc n) (annotateUnlessSucceeded c rm cr now)"
  unfolding annotateUnlessSucceeded_def addTimeOutAnnotation_def
  by (intro emits_intros emits_mono[OF update] remediate_effect_update)

lemma emits_handleCR: "emits (remediate_effect nhc n) (handleCR c rm node nhc' t timeout res)"
  unfolding handleCR_def handleCreateError_def handleOverdueLease_def handleExistingCR_def
  by (intro emits_intros) simp_all

lemma generated_labelled:
  assumes "run_state (rm_GenerateRemediationCRForNode rm node (NHC nhc') t) s = (Inr gen, s')"
    and "labelControlPlane b gen = Inr cr" and "same_owner (NHC nhc') (NHC nhc)"
  shows "IsOwner cr (NHC nhc)" "GetNodeNameFromCR cr = n_Name node"
  using generated[OF assms(1)] labelControlPlane_props(1,2)[OF assms(2)] IsOwner_same[OF assms(3)] by simp_all

lemma emits_startRemediation:
  assumes "same_owner (NHC nhc') (NHC nhc)"
  shows "emits (remediate_effect nhc (n_Name node)) (startRemediation c rm node nhc' t timeout)"
  unfolding startRemediation_def
  apply (rule emits_bind_dep)
  subgoal by (rule reads)
  subgoal for a s s'
    by (intro emits_intros emits_handleCR emits_mono[OF create] remediate_effect_create)
      (blast intro: generated_labelled assms)+
  done

lemma emits_isControlPlaneRemediationAllowed [emits_intros]:
  "emits P (isControlPlaneRemediationAllowed r rm node nhc)"
  unfolding isControlPlaneRemediationAllowed_def by (intro emits_intros reads)

lemma emits_tryCurrentTemplate:
  "emits (remediate_effect nhc (n_Name node)) (tryCurrentTemplate c rm node nhc)"
  unfolding tryCurrentTemplate_def
  apply (rule emits_bind_dep)
  subgoal by (rule reads)
  subgoal for a s s'
    using current_template[of node nhc s "fst a" "snd a" s']
    by (intro emits_intros emits_startRemediation) auto
  done

lemma emits_remediate: "emits (remediate_effect nhc (n_Name node)) (remediate r rm node nhc)"
  unfolding remediate_def by (intro emits_intros emits_tryCurrentTemplate) simp_all

end

subsection \<open>Invariants of the status\<close>

lemma setTimedOut_names: "map un_Name (UnhealthyNodes (nhc_Status (setTimedOut now p nhc))) = map un_Name (UnhealthyNodes (nhc_Status nhc))"
  by (cases "fst p < length (UnhealthyNodes (nhc_Status nhc))")
    (auto simp: setTimedOut_def map_update Let_def list_update_same_conv list_update_beyond)

lemma status_step_names: "status_step a b \<Longrightarrow> names_wf a \<Longrightarrow> names_wf b"
proof (induction rule: status_step.induct)
  case (started nhc node cr)
  then show ?case by (auto simp: names_wf_def UpdateStatusRemediationStarted_def list_ex_iff)
next
  case (unhealthy nhc node)
  then show ?case by (auto simp: names_wf_def UpdateStatusNodeUnhealthy_def list_ex_iff)
next
  case (conditionsHealthy nhc name now)
  then show ?case by (auto simp: names_wf_def UpdateStatusNodeConditionsHealthy_def split: option.splits)
qed (simp_all add: names_wf_def distinct_map_remove_first UpdateStatusNodeDelayedHealthy_def setTimedOut_names)

lemma status_step_same: "status_step a b \<Longrightarrow> same_nhc a b"
proof (induction rule: status_step.induct)
  case (conditionsHealthy nhc name now)
  then show ?case by (auto simp: same_nhc_def UpdateStatusNodeConditionsHealthy_def split: option.splits)
qed (auto simp: same_nhc_def UpdateStatusRemediationStarted_def UpdateStatusNodeUnhealthy_def
    UpdateStatusNodeDelayedHealthy_def setTimedOut_def sortEscalating_def map_spec_def)

lemma same_nhc_trans: "same_nhc a b \<Longrightarrow> same_nhc b c \<Longrightarrow> same_nhc a c"
  by (auto simp: same_nhc_def)

lemma status_steps_names: "status_step\<^sup>*\<^sup>* a b \<Longrightarrow> names_wf a \<Longrightarrow> names_wf b"
  by (induction rule: rtranclp_induct) (auto intro: status_step_names)

lemma status_steps_same: "status_step\<^sup>*\<^sup>* a b \<Longrightarrow> same_nhc a b"
  by (induction rule: rtranclp_induct) (auto simp: same_nhc_def[of a a] intro: same_nhc_trans status_step_same)

lemma same_nhc_owner: "same_nhc a b \<Longrightarrow> same_owner (NHC a) (NHC b)"
  by (simp add: same_nhc_def same_owner_def)

subsection \<open>What the functions do to the status\<close>

lemma returns_UpdateStatusNodeHealthy: "returns (\<lambda>nhc'. status_step\<^sup>*\<^sup>* nhc nhc') (UpdateStatusNodeHealthy c n nhc)"
  unfolding UpdateStatusNodeHealthy_def
  by (intro returns_intros) (auto intro: status_step.healthy)

lemma returns_handleExistingCR:
  "returns (\<lambda>(x, nhc'). status_step\<^sup>*\<^sup>* nhc nhc') (handleExistingCR c rm node nhc d cr t timeout)"
  unfolding handleExistingCR_def
  by (intro returns_intros) (auto intro: status_step.timedOut split: option.splits)

lemma returns_handleCR: "returns (\<lambda>(x, nhc'). status_step\<^sup>*\<^sup>* nhc nhc') (handleCR c rm node nhc t timeout res)"
proof -
  have ex: "returns (\<lambda>(x, nhc'). status_step\<^sup>*\<^sup>* nhc nhc') (handleExistingCR c rm node (UpdateStatusRemediationStarted node nhc cr) d cr t timeout)"
    for d cr
    using returns_handleExistingCR[of "UpdateStatusRemediationStarted node nhc cr" c rm node d cr t timeout]
    by (auto simp: returns_def split_beta intro: converse_rtranclp_into_rtranclp status_step.started)
  show ?thesis
    unfolding handleCR_def handleCreateError_def handleOverdueLease_def
    by (intro returns_intros)
      (auto simp: ex intro: status_step.timedOut status_step.started split: option.splits)
qed

lemma returns_startRemediation:
  "returns (\<lambda>(x, nhc'). status_step\<^sup>*\<^sup>* nhc nhc') (startRemediation c rm node nhc t timeout)"
  unfolding startRemediation_def
  by (intro returns_intros returns_handleCR) auto

context manager_iface
begin

lemma returns_tryCurrentTemplate: "returns (\<lambda>(x, nhc'). status_step\<^sup>*\<^sup>* nhc nhc') (tryCurrentTemplate c rm node nhc)"
proof -
  have tmpl: "returns (\<lambda>(t, nhc'). nhc' = nhc \<or> nhc' = sortEscalating nhc) (rm_GetCurrentTemplateWithTimeout rm node nhc)"
    by (rule returnsI) (auto dest: current_template)
  have start: "returns (\<lambda>(x, nhc'). status_step\<^sup>*\<^sup>* nhc nhc') (startRemediation c rm node nhc1 t timeout)"
    if "nhc1 = nhc \<or> nhc1 = sortEscalating nhc" for nhc1 t timeout
    using that returns_startRemediation[of nhc1 c rm node t timeout]
    by (auto simp: returns_def split_beta intro: converse_rtranclp_into_rtranclp status_step.sorted)
  show ?thesis unfolding tryCurrentTemplate_def
    by (rule returns_bind[OF tmpl]; clarify; intro returns_intros start) (auto intro: status_step.sorted)
qed

lemma returns_remediate: "returns (\<lambda>(x, nhc'). status_step\<^sup>*\<^sup>* nhc nhc') (remediate r rm node nhc)"
  unfolding remediate_def by (intro returns_intros returns_tryCurrentTemplate) auto

end

subsection \<open>The control plane\<close>

lemma isControlPlaneRemediationAllowed_True:
  assumes "run_state (isControlPlaneRemediationAllowed r rm node nhc) s = (Inr True, s')"
  obtains crs s1 where "run_state (rm_ListRemediationCRs rm (GetAllRemediationTemplates (NHC nhc)) isControlPlaneCR) s = (Inr crs, s1)"
    and "(\<exists>cr\<in>set crs. GetNodeNameFromCR cr = n_Name node) \<or>
      crs = [] \<and> (\<not> IsOnOpenshift (r_Capabilities r) \<or> fst (c_IsEtcdDisruptionAllowed (r_Client r) node (world s1)) = Inr True)"
  using assms
  by (auto simp: isControlPlaneRemediationAllowed_def list_ex_iff split: if_splits prod.splits sum.splits)

subsection \<open>Timeouts and escalation\<close>

lemma handleExistingCR_timeout:
  assumes "FindStatusRemediation node nhc (startedFilter cr t) = Some p" "rem_TimedOut (remediationAt nhc p) = None"
    and "c_Now c (world s) = (now, w)"
    and "run_state (handleExistingCR c rm node nhc d cr t (Some timeout)) s = ((Inr d', nhc'), s')"
  shows "time_After now (getTimeoutAt (remediationAt nhc p) timeout) \<or> remediationFailed cr \<Longrightarrow>
      d' = Some second \<and> nhc' = setTimedOut now p nhc"
    and "\<not> time_After now (getTimeoutAt (remediationAt nhc p) timeout) \<Longrightarrow> \<not> remediationFailed cr \<Longrightarrow>
      d' = MinRequeueDuration d (Some (time_Sub (getTimeoutAt (remediationAt nhc p) timeout) now)) \<and> nhc' = nhc"
  using assms by (auto simp: handleExistingCR_def Let_def split: prod.splits option.splits if_splits)

lemma FindStatusRemediation_ex:
  "FindStatusRemediation node nhc P \<noteq> None \<longleftrightarrow>
     (\<exists>un\<in>set (UnhealthyNodes (nhc_Status nhc)). un_Name un = n_Name node \<and> (\<exists>rem\<in>set (un_Remediations un). P rem))"
  using findRemediation_None[of "n_Name node" P] by (auto simp: FindStatusRemediation_def)

text \<open>Marking a remediation as timed out keeps it and all the others for every test that does not mind.\<close>

lemma setTimedOut_find:
  assumes p: "FindStatusRemediation node nhc P = Some p" and mono: "\<And>rem. Q rem \<Longrightarrow> Q (rem\<lparr>rem_TimedOut := Some now\<rparr>)"
  shows "FindStatusRemediation n nhc Q \<noteq> None \<Longrightarrow> FindStatusRemediation n (setTimedOut now p nhc) Q \<noteq> None"
    and "Q ((remediationAt nhc p)\<lparr>rem_TimedOut := Some now\<rparr>) \<Longrightarrow> FindStatusRemediation node (setTimedOut now p nhc) Q \<noteq> None"
proof -
  let ?uns = "UnhealthyNodes (nhc_Status nhc)"
  let ?un = "?uns ! fst p"
  let ?rem = "(un_Remediations ?un ! snd p)\<lparr>rem_TimedOut := Some now\<rparr>"
  let ?un' = "?un\<lparr>un_Remediations := (un_Remediations ?un)[snd p := ?rem]\<rparr>"
  have ij: "fst p < length ?uns" "un_Name ?un = n_Name node" "snd p < length (un_Remediations ?un)"
    using p findRemediation_Some[of "n_Name node" P ?uns "fst p" "snd p"] by (auto simp: FindStatusRemediation_def)
  have uns': "UnhealthyNodes (nhc_Status (setTimedOut now p nhc)) = ?uns[fst p := ?un']"
    by (simp add: setTimedOut_def Let_def)
  show "FindStatusRemediation n (setTimedOut now p nhc) Q \<noteq> None" if "FindStatusRemediation n nhc Q \<noteq> None"
  proof -
    from that obtain k j where k: "k < length ?uns" "un_Name (?uns ! k) = n_Name n"
        "j < length (un_Remediations (?uns ! k))" "Q (un_Remediations (?uns ! k) ! j)"
      unfolding FindStatusRemediation_ex by (metis in_set_conv_nth)
    let ?x = "?uns[fst p := ?un'] ! k"
    have "un_Name ?x = n_Name n" using k ij by (cases "k = fst p") auto
    moreover have "j < length (un_Remediations ?x)" using k ij by (cases "k = fst p") auto
    moreover have "Q (un_Remediations ?x ! j)"
      using k ij mono by (cases "k = fst p"; cases "j = snd p") auto
    moreover have "?x \<in> set (?uns[fst p := ?un'])" using k(1) by simp
    ultimately show ?thesis unfolding FindStatusRemediation_ex uns' by (metis nth_mem)
  qed
  show "FindStatusRemediation node (setTimedOut now p nhc) Q \<noteq> None" if "Q ((remediationAt nhc p)\<lparr>rem_TimedOut := Some now\<rparr>)"
  proof -
    have "?un' \<in> set (?uns[fst p := ?un'])" using ij(1) by (simp add: set_update_memI)
    moreover have "?rem \<in> set (un_Remediations ?un')" using ij(3) by (simp add: set_update_memI)
    moreover have "Q ?rem" using that by (simp add: remediationAt_def)
    moreover have "un_Name ?un' = n_Name node" using ij(2) by simp
    ultimately show ?thesis unfolding FindStatusRemediation_ex uns'
      by (intro bexI[of _ ?un'] conjI bexI[of _ ?rem])
  qed
qed

lemma timedOutWith_mono: "timedOutWith er rem \<Longrightarrow> timedOutWith er (rem\<lparr>rem_TimedOut := Some now\<rparr>)"
  by (simp add: timedOutWith_def Let_def)

lemma filter_length_mono: "(\<And>x. x \<in> set xs \<Longrightarrow> Q x \<Longrightarrow> P x) \<Longrightarrow> length (filter Q xs) \<le> length (filter P xs)"
proof (induction xs)
  case (Cons x xs)
  then have "length (filter Q xs) \<le> length (filter P xs)" by simp
  with Cons.prems[of x] show ?case by auto
qed simp

lemma filter_shrinks:
  assumes "\<And>x. x \<in> set xs \<Longrightarrow> Q x \<Longrightarrow> P x" "y \<in> set xs" "P y" "\<not> Q y"
  shows "length (filter Q xs) < length (filter P xs)"
  using assms
proof (induction xs)
  case (Cons x xs)
  have le: "length (filter Q xs) \<le> length (filter P xs)"
    using Cons.prems(1) by (intro filter_length_mono) simp
  show ?case
  proof (cases "y \<in> set xs")
    case True
    with Cons have "length (filter Q xs) < length (filter P xs)" by simp
    with Cons.prems(1)[of x] show ?thesis by auto
  next
    case False
    with Cons.prems have "x = y" by simp
    with Cons.prems le show ?thesis by simp
  qed
qed simp

text \<open>Each timeout uses up one of the templates that were left.\<close>

lemma escalation_progress:
  assumes er: "er \<in> set (openTemplates node nhc)"
    and p: "FindStatusRemediation node nhc (startedFilter cr t) = Some p"
    and gvk: "u_GVK cr = (or_GVK (er_RemediationTemplate er))\<lparr>gvk_Kind := sliceKind (gvk_Kind (or_GVK (er_RemediationTemplate er)))\<rparr>"
    and name: "u_Name t = or_Name (er_RemediationTemplate er)"
  shows "length (openTemplates node (setTimedOut now p nhc)) < length (openTemplates node nhc)"
proof -
  let ?uns = "UnhealthyNodes (nhc_Status nhc)"
  have "startedFilter cr t (remediationAt nhc p)"
    using p findRemediation_Some[of "n_Name node" "startedFilter cr t" ?uns "fst p" "snd p"]
    by (auto simp: FindStatusRemediation_def remediationAt_def)
  then have "timedOutWith er ((remediationAt nhc p)\<lparr>rem_TimedOut := Some now\<rparr>)"
    using gvk name by (auto simp: startedFilter_def timedOutWith_def Let_def)
  then have used: "FindStatusRemediation node (setTimedOut now p nhc) (timedOutWith er) \<noteq> None"
    using setTimedOut_find(2)[of node nhc "startedFilter cr t" p "timedOutWith er" now, OF p timedOutWith_mono] by blast
  have spec: "nhc_Spec (setTimedOut now p nhc) = nhc_Spec nhc" by (simp add: setTimedOut_def)
  have keep: "FindStatusRemediation node (setTimedOut now p nhc) (timedOutWith e) = None \<Longrightarrow>
      FindStatusRemediation node nhc (timedOutWith e) = None" for e
    using setTimedOut_find(1)[of node nhc "startedFilter cr t" p "timedOutWith e" now node, OF p timedOutWith_mono] by blast
  from er used show ?thesis unfolding openTemplates_def spec
    by (intro filter_shrinks[where y = er]) (auto intro: keep)
qed

subsection \<open>Two templates of one kind\<close>

text \<open>
  A remediation started from a second template of the same kind is not recorded, so it is not found
  when its timeout is due.
\<close>

lemma update_first_id: "(\<And>x. find P xs = Some x \<Longrightarrow> f x = x) \<Longrightarrow> update_first P f xs = xs"
  by (induction xs) auto

lemma second_template_not_recorded:
  assumes wf: "status_wf nhc" and un: "statusNodes nhc (n_Name node) = Some un"
    and one: "\<forall>rem\<in>set (un_Remediations un). or_GVK (rem_Resource rem) = u_GVK cr \<longrightarrow>
      rem_TemplateName rem \<noteq> '''' \<and> rem_TemplateName rem \<noteq> u_Name t"
    and kind: "\<exists>rem\<in>set (un_Remediations un). or_GVK (rem_Resource rem) = u_GVK cr"
  shows "FindStatusRemediation node (UpdateStatusRemediationStarted node nhc cr) (startedFilter cr t) = None"
proof -
  let ?nhc' = "UpdateStatusRemediationStarted node nhc cr"
  have add: "addRemediation cr un = un" using kind by (auto simp: addRemediation_def list_ex_iff)
  have "update_first (\<lambda>un. un_Name un = n_Name node) (addRemediation cr) (UnhealthyNodes (nhc_Status nhc)) =
      UnhealthyNodes (nhc_Status nhc)"
    using un add by (intro update_first_id) (simp add: statusNodes_def)
  then have uns: "UnhealthyNodes (nhc_Status ?nhc') = UnhealthyNodes (nhc_Status nhc)"
    using un by (simp add: UpdateStatusRemediationStarted_def list_ex_statusNodes)
  have wf': "status_wf ?nhc'" and map: "statusNodes ?nhc' (n_Name node) = Some un"
    using wf un by (simp_all add: status_wf_def statusNodes_def uns)
  from FindStatusRemediation_None[OF wf'] map one show ?thesis by (auto simp: startedFilter_def)
qed

end
