(* ===== verification/Storm.thy ===== *)
theory Storm
  imports Status Conditions
begin

text \<open>
  Storm recovery of the \<open>NodeHealthCheck\<close> reconciler (\<open>evaluateStormRecovery\<close> and its three helpers
  in \<open>internal/controller/nodehealthcheck_controller.go\<close>): when too few nodes are healthy a storm is
  recorded in the status conditions, and remediation resumes only after the storm is over and a
  cooldown has passed.

  \<open>storm_step\<close> is the abstract machine the conditions implement: normal operation, storm, and
  cooldown since an instant. The lemmas show that the four functions refine it, and, on the abstract
  machine, that a storm ends only through an uninterrupted cooldown of the configured length.
\<close>

section \<open>Definitions\<close>

subsection \<open>The code\<close>

text \<open>\<open>meta.SetStatusCondition\<close> on the status, with the clock's time.\<close>

definition setCondition :: "'w client \<Rightarrow> Condition \<Rightarrow> NodeHealthCheck \<Rightarrow> ('w, NodeHealthCheck) m" where
  "setCondition c cond nhc = do {
     now \<leftarrow> ask (c_Now c);
     State_Monad.return (map_conditions (SetStatusCondition now cond) nhc)
   }"

definition activateStorm :: "'w client \<Rightarrow> bool \<Rightarrow> bool \<Rightarrow> NodeHealthCheck \<Rightarrow> ('w, bool \<times> NodeHealthCheck) m" where
  "activateStorm c isMinHealthyTriggered isStormActive nhc =
     (if \<not> isMinHealthyTriggered then State_Monad.return (False, nhc)
      else do {
        nhc1 \<leftarrow> setCondition c (mkCondition ConditionTypeStormCooldownActive ConditionFalse
                   ConditionReasonStormThresholdChange ''Cooldown cleared - storm threshold triggered'') nhc;
        if isStormActive then State_Monad.return (False, nhc1)
        else do {
          nhc2 \<leftarrow> setCondition c (mkCondition ConditionTypeStormActive ConditionTrue
                     ConditionReasonStormThresholdChange
                     ''Storm mode is activated - preventing any new remediation until the storm is over and cooldown duration expired'') nhc1;
          WarningEvent ''StormRecoveryStarted'' ''Storm recovery mode activated - delaying remediation until threshold is reached'';
          State_Monad.return (True, nhc2)
        }
      })"

text \<open>\<open>*nhc.Spec.StormCooldownDuration\<close>: the caller has checked that it is set.\<close>

definition cooldownDelay :: "NodeHealthCheck \<Rightarrow> duration" where
  "cooldownDelay nhc = (case StormCooldownDuration (nhc_Spec nhc) of None \<Rightarrow> 0 | Some d \<Rightarrow> d)"

definition startCooldown :: "'w client \<Rightarrow> NodeHealthCheck \<Rightarrow> ('w, (bool \<times> duration option) \<times> NodeHealthCheck) m" where
  "startCooldown c nhc =
     (if IsConditionTrue (Conditions (nhc_Status nhc)) ConditionTypeStormCooldownActive then
        (case FindStatusCondition (Conditions (nhc_Status nhc)) ConditionTypeStormCooldownActive of
           None \<Rightarrow> State_Monad.return ((False, None), nhc)
         | Some cond \<Rightarrow> do {
             now \<leftarrow> ask (c_Now c);
             let elapsed = time_Sub now (cond_LastTransitionTime cond);
             State_Monad.return
               ((False, if elapsed < cooldownDelay nhc
                        then Some (dur_add (dur_sub (cooldownDelay nhc) elapsed) second) else None), nhc)
           })
      else do {
        nhc' \<leftarrow> setCondition c (mkCondition ConditionTypeStormCooldownActive ConditionTrue
                  ConditionReasonStormThresholdChange ''Storm cooldown delay started - waiting before resuming normal remediation'') nhc;
        WarningEvent ''StormRecoveryCooldownStarted'' ''Storm recovery mode will exit after cooldown delay'';
        State_Monad.return ((True, Some (dur_add (cooldownDelay nhc) second)), nhc')
      })"

definition stopCooldown :: "'w client \<Rightarrow> NodeHealthCheck \<Rightarrow> ('w, (bool \<times> duration option) \<times> NodeHealthCheck) m" where
  "stopCooldown c nhc =
     (case FindStatusCondition (Conditions (nhc_Status nhc)) ConditionTypeStormCooldownActive of
        None \<Rightarrow> State_Monad.return ((False, None), nhc)
      | Some cond \<Rightarrow> do {
          now \<leftarrow> ask (c_Now c);
          let elapsed = time_Sub now (cond_LastTransitionTime cond);
          if elapsed < cooldownDelay nhc then
            State_Monad.return ((False, Some (dur_add (dur_sub (cooldownDelay nhc) elapsed) second)), nhc)
          else do {
            nhc1 \<leftarrow> setCondition c (mkCondition ConditionTypeStormActive ConditionFalse
                      ConditionReasonStormThresholdChange ''Storm mode is deactivated, remediation can occur normally'') nhc;
            nhc2 \<leftarrow> setCondition c (mkCondition ConditionTypeStormCooldownActive ConditionFalse
                      ConditionReasonStormThresholdChange ''Storm cooldown completed'') nhc1;
            NormalEvent ''StormRecoveryEnded'' ''Storm recovery mode deactivated - normal remediation resumed'';
            State_Monad.return ((True, None), nhc2)
          }
        })"

definition evaluateStormRecovery ::
    "'w client \<Rightarrow> NodeHealthCheck \<Rightarrow> bool \<Rightarrow> ('w, (bool \<times> duration option) \<times> NodeHealthCheck) m" where
  "evaluateStormRecovery c nhc isMinHealthyTriggered =
     (if StormCooldownDuration (nhc_Spec nhc) = None then State_Monad.return ((False, None), nhc)
      else (let isStormActive = IsConditionTrue (Conditions (nhc_Status nhc)) ConditionTypeStormActive
            in if \<not> isMinHealthyTriggered \<and> \<not> isStormActive then State_Monad.return ((False, None), nhc)
               else do {
                 (activated, nhc1) \<leftarrow> activateStorm c isMinHealthyTriggered isStormActive nhc;
                 if activated then State_Monad.return ((True, None), nhc1)
                 else if isMinHealthyTriggered then State_Monad.return ((True, None), nhc1)
                 else do {
                   ((cooldownStarted, requeue), nhc2) \<leftarrow> startCooldown c nhc1;
                   if cooldownStarted then State_Monad.return ((True, requeue), nhc2)
                   else do {
                     ((cooldownStopped, requeue'), nhc3) \<leftarrow> stopCooldown c nhc2;
                     State_Monad.return ((\<not> cooldownStopped, requeue'), nhc3)
                   }
                 }
               }))"

subsection \<open>The abstract machine\<close>

datatype storm_state = NormalOperation | StormOngoing | Cooldown time

text \<open>
  One evaluation: \<open>trig\<close> says whether too few nodes are healthy, \<open>now\<close> is the time.
\<close>

inductive storm_step :: "duration \<Rightarrow> bool \<Rightarrow> time \<Rightarrow> storm_state \<Rightarrow> storm_state \<Rightarrow> bool" for delay where
  stay_normal: "storm_step delay False now NormalOperation NormalOperation"
| storm: "storm_step delay True now s StormOngoing"
| start_cooldown: "storm_step delay False now StormOngoing (Cooldown now)"
| cool: "time_Sub now t < delay \<Longrightarrow> storm_step delay False now (Cooldown t) (Cooldown t)"
| recover: "delay \<le> time_Sub now t \<Longrightarrow> storm_step delay False now (Cooldown t) NormalOperation"

code_pred (modes: i \<Rightarrow> i \<Rightarrow> i \<Rightarrow> i \<Rightarrow> o \<Rightarrow> bool) storm_step .

text \<open>A history of evaluations, oldest first, as the inputs and the state after each.\<close>

inductive storm_run :: "duration \<Rightarrow> storm_state \<Rightarrow> (bool \<times> time \<times> storm_state) list \<Rightarrow> storm_state \<Rightarrow> bool" for delay s where
  start: "storm_run delay s [] s"
| more: "storm_run delay s h s1 \<Longrightarrow> storm_step delay trig now s1 s2 \<Longrightarrow> storm_run delay s (h @ [(trig, now, s2)]) s2"

definition storm_abs :: "NodeHealthCheck \<Rightarrow> storm_state" where
  "storm_abs nhc =
     (let cs = Conditions (nhc_Status nhc)
      in if \<not> IsConditionTrue cs ConditionTypeStormActive then NormalOperation
         else case FindStatusCondition cs ConditionTypeStormCooldownActive of
                None \<Rightarrow> StormOngoing
              | Some cond \<Rightarrow> if cond_Status cond = ConditionTrue then Cooldown (cond_LastTransitionTime cond) else StormOngoing)"

text \<open>
  The evaluations of successive reconciles, with whether too few nodes were healthy at each: the final
  object and whether the storm was active at each.
\<close>

fun stormEvaluations :: "'w client \<Rightarrow> NodeHealthCheck \<Rightarrow> bool list \<Rightarrow> ('w, NodeHealthCheck \<times> bool list) m" where
  "stormEvaluations c nhc [] = State_Monad.return (nhc, [])"
| "stormEvaluations c nhc (trig # trigs) = do {
     ((active, requeueAfter), nhc1) \<leftarrow> evaluateStormRecovery c nhc trig;
     (nhc2, actives) \<leftarrow> stormEvaluations c nhc1 trigs;
     State_Monad.return (nhc2, active # actives)
   }"

section \<open>Lemmas\<close>

inductive_cases storm_step_Normal: "storm_step delay trig now s NormalOperation"
inductive_simps storm_step_from_normal: "storm_step delay trig now NormalOperation s"
inductive_simps storm_step_from_storm: "storm_step delay trig now StormOngoing s"
inductive_simps storm_step_from_cooldown: "storm_step delay trig now (Cooldown t) s"

subsection \<open>Frame\<close>

lemma emits_setCondition [emits_intros]: "emits P (setCondition c cond nhc)"
  unfolding setCondition_def by (intro emits_intros)

lemma run_setCondition [simp]:
  "run_state (setCondition c cond nhc) s =
     (case c_Now c (world s) of (now, w) \<Rightarrow> (map_conditions (SetStatusCondition now cond) nhc, s\<lparr>world := w\<rparr>))"
  by (simp add: setCondition_def split: prod.splits)

lemma emits_evaluateStormRecovery [emits_intros]:
  "(\<And>e. is_note e \<Longrightarrow> P e) \<Longrightarrow> emits P (evaluateStormRecovery c nhc trig)"
  unfolding evaluateStormRecovery_def activateStorm_def startCooldown_def stopCooldown_def
  by (intro emits_intros) auto

lemma evaluateStormRecovery_frame:
  assumes "run_state (evaluateStormRecovery c nhc trig) s = ((r, nhc'), s')"
  obtains h where "nhc' = map_conditions h nhc"
proof -
  have comp: "map_conditions h (map_conditions g nhc) = map_conditions (h \<circ> g) nhc" for g h
    by (simp add: map_conditions_def map_status_def)
  have idn: "nhc = map_conditions id nhc" by (simp add: map_conditions_def map_status_def)
  have "\<exists>h. nhc' = map_conditions h nhc"
    using assms idn
    unfolding evaluateStormRecovery_def activateStorm_def startCooldown_def stopCooldown_def Let_def
    by (auto simp: comp split: if_splits option.splits prod.splits)
  then show thesis using that by blast
qed

subsection \<open>The functions refine the abstract machine\<close>

lemma storm_abs_True:
  "IsConditionTrue (Conditions (nhc_Status nhc)) ConditionTypeStormCooldownActive \<longleftrightarrow>
     (\<exists>cond. FindStatusCondition (Conditions (nhc_Status nhc)) ConditionTypeStormCooldownActive = Some cond \<and>
        cond_Status cond = ConditionTrue)"
  by (auto simp: IsConditionTrue_def split: option.splits)

text \<open>What setting the two conditions does to the abstract state.\<close>

lemma storm_abs_set:
  fixes nhc :: NodeHealthCheck
  defines "setC ty st re ms now \<equiv> map_conditions (SetStatusCondition now (mkCondition ty st re ms))"
  shows "storm_abs (setC ConditionTypeStormActive ConditionFalse re ms now nhc) = NormalOperation"
    "IsConditionTrue (Conditions (nhc_Status nhc)) ConditionTypeStormActive \<Longrightarrow>
       storm_abs (setC ConditionTypeStormCooldownActive ConditionFalse re ms now nhc) = StormOngoing"
    "\<not> IsConditionTrue (Conditions (nhc_Status nhc)) ConditionTypeStormActive \<Longrightarrow>
       storm_abs (setC ConditionTypeStormCooldownActive st re ms now nhc) = NormalOperation"
    "storm_abs (setC ConditionTypeStormActive ConditionTrue re ms now
        (setC ConditionTypeStormCooldownActive ConditionFalse re' ms' now' nhc)) = StormOngoing"
    "IsConditionTrue (Conditions (nhc_Status nhc)) ConditionTypeStormActive \<Longrightarrow>
     \<not> IsConditionTrue (Conditions (nhc_Status nhc)) ConditionTypeStormCooldownActive \<Longrightarrow>
       storm_abs (setC ConditionTypeStormCooldownActive ConditionTrue re ms now nhc) = Cooldown now"
  by (auto simp: setC_def storm_abs_def Let_def storm_abs_True updateCondition_def split: option.splits)

lemmas evaluate_defs = evaluateStormRecovery_def activateStorm_def startCooldown_def stopCooldown_def Let_def

text \<open>One evaluation during the cooldown: the clock is read twice, the second reading decides.\<close>

lemma evaluate_cooling:
  assumes delay: "StormCooldownDuration (nhc_Spec nhc) = Some delay"
    and run: "run_state (evaluateStormRecovery c nhc False) s = (((active, requeue), nhc'), s')"
    and storm: "IsConditionTrue (Conditions (nhc_Status nhc)) ConditionTypeStormActive"
    and cool: "IsConditionTrue (Conditions (nhc_Status nhc)) ConditionTypeStormCooldownActive"
  shows "\<exists>w. storm_step delay False (fst (c_Now c w)) (storm_abs nhc) (storm_abs nhc') \<and> (active \<longleftrightarrow> storm_abs nhc' \<noteq> NormalOperation)"
proof -
  obtain cond where cond: "FindStatusCondition (Conditions (nhc_Status nhc)) ConditionTypeStormCooldownActive = Some cond"
    "cond_Status cond = ConditionTrue" using cool by (auto simp: storm_abs_True)
  with storm cool have abs: "storm_abs nhc = Cooldown (cond_LastTransitionTime cond)"
    by (simp add: storm_abs_def Let_def)
  obtain now0 w0 where now0: "c_Now c (world s) = (now0, w0)" by fastforce
  obtain now w where now: "c_Now c w0 = (now, w)" by fastforce
  have cd: "cooldownDelay nhc = delay" using delay by (simp add: cooldownDelay_def)
  show ?thesis
  proof (cases "time_Sub now (cond_LastTransitionTime cond) < delay")
    case True
    with run delay storm cool cond now0 now cd have "active" "nhc' = nhc"
      by (auto simp: evaluate_defs split: if_splits)
    with True abs now show ?thesis by (auto intro!: storm_step.cool exI[of _ w0])
  next
    case False
    with run delay storm cool cond now0 now cd have "\<not> active \<and> storm_abs nhc' = NormalOperation"
      by (auto simp: evaluate_defs storm_abs_set split: if_splits prod.splits)
    with False abs now show ?thesis by (auto intro!: storm_step.recover exI[of _ w0])
  qed
qed

lemma evaluateStormRecovery_refines:
  assumes delay: "StormCooldownDuration (nhc_Spec nhc) = Some delay"
    and run: "run_state (evaluateStormRecovery c nhc trig) s = (((active, requeue), nhc'), s')"
  shows "(\<exists>now w. now = fst (c_Now c w) \<and> storm_step delay trig now (storm_abs nhc) (storm_abs nhc')) \<and>
    (active \<longleftrightarrow> storm_abs nhc' \<noteq> NormalOperation)"
proof -
  let ?storm = "IsConditionTrue (Conditions (nhc_Status nhc)) ConditionTypeStormActive"
  let ?cool = "IsConditionTrue (Conditions (nhc_Status nhc)) ConditionTypeStormCooldownActive"
  consider (trig) trig | (quiet) "\<not> trig" "\<not> ?storm" | (start) "\<not> trig" ?storm "\<not> ?cool"
    | (cool) "\<not> trig" ?storm ?cool by blast
  then show ?thesis
  proof cases
    case trig
    with run delay have "active \<and> storm_abs nhc' = StormOngoing"
      by (auto simp: evaluate_defs storm_abs_set split: if_splits prod.splits)
    with trig show ?thesis by (auto intro: storm_step.storm)
  next
    case quiet
    with run delay have "\<not> active" "nhc' = nhc" by (auto simp: evaluate_defs)
    moreover have "storm_abs nhc = NormalOperation" using quiet by (simp add: storm_abs_def Let_def)
    ultimately show ?thesis using quiet by (auto intro: storm_step.stay_normal)
  next
    case start
    obtain now w where now: "c_Now c (world s) = (now, w)" by fastforce
    have "storm_abs nhc = StormOngoing"
      using start by (auto simp: storm_abs_def Let_def storm_abs_True split: option.splits)
    moreover have "active \<and> storm_abs nhc' = Cooldown now"
      using run delay start now by (auto simp: evaluate_defs storm_abs_set)
    ultimately show ?thesis using start now by (auto intro!: storm_step.start_cooldown exI[of _ "world s"])
  next
    case cool
    with evaluate_cooling[OF delay, of c s active requeue nhc' s'] run show ?thesis by auto
  qed
qed

subsection \<open>The abstract machine\<close>

text \<open>A cooldown is the trace of quiet evaluations since its start.\<close>

lemma storm_run_cooldown:
  assumes "storm_run delay s0 h (Cooldown t)" and "\<forall>u. s0 \<noteq> Cooldown u"
  shows "\<exists>h1 h2. h = h1 @ (False, t, Cooldown t) # h2 \<and> (\<forall>(trig, now, st)\<in>set h2. \<not> trig \<and> st = Cooldown t)"
  using assms(1)
proof (induction h "Cooldown t" rule: storm_run.induct)
  case start
  with assms(2) show ?case by simp
next
  case (more h s1 trig now)
  from more(3) show ?case
  proof (cases rule: storm_step.cases)
    case start_cooldown
    then show ?thesis by (intro exI[of _ h] exI[of _ "[]"]) simp
  next
    case cool
    with more(2) obtain h1 h2 where "h = h1 @ (False, t, Cooldown t) # h2"
      "\<forall>(trig, now, st)\<in>set h2. \<not> trig \<and> st = Cooldown t" by blast
    with cool show ?thesis by (intro exI[of _ h1] exI[of _ "h2 @ [(trig, now, Cooldown t)]"]) auto
  qed
qed

lemma storm_ends_after_cooldown:
  assumes "storm_run delay StormOngoing h s1" and "storm_step delay trig now s1 NormalOperation" and "s1 \<noteq> NormalOperation"
  shows "\<exists>t h1 h2. s1 = Cooldown t \<and> \<not> trig \<and> delay \<le> time_Sub now t \<and>
     h = h1 @ (False, t, Cooldown t) # h2 \<and> (\<forall>(trig, now, st)\<in>set h2. \<not> trig \<and> st = Cooldown t)"
  using assms(2)
proof (cases rule: storm_step.cases)
  case stay_normal
  with assms(3) show ?thesis by simp
next
  case (recover t)
  with assms(1) have "storm_run delay StormOngoing h (Cooldown t)" by simp
  from storm_run_cooldown[OF this] recover show ?thesis by auto
qed

text \<open>Successive evaluations are a run of the abstract machine at readings of the clock.\<close>

lemma stormEvaluations_run:
  assumes "StormCooldownDuration (nhc_Spec nhc) = Some delay"
    and "run_state (stormEvaluations c nhc trigs) s = ((nhc', actives), s')"
    and "storm_run delay s0 h0 (storm_abs nhc)"
  shows "\<exists>h. storm_run delay s0 (h0 @ h) (storm_abs nhc') \<and> map fst h = trigs \<and>
     actives = map (\<lambda>x. snd (snd x) \<noteq> NormalOperation) h \<and> (\<forall>x\<in>set h. \<exists>w. fst (snd x) = fst (c_Now c w))"
  using assms
proof (induction trigs arbitrary: nhc s h0 actives)
  case Nil
  then show ?case by (intro exI[of _ "[]"]) simp
next
  case (Cons trig trigs)
  from Cons.prems(2) obtain active d nhc1 s1 actives' where
    ev: "run_state (evaluateStormRecovery c nhc trig) s = (((active, d), nhc1), s1)"
    and rest: "run_state (stormEvaluations c nhc1 trigs) s1 = ((nhc', actives'), s')" and acts: "actives = active # actives'"
    by (auto split: prod.splits)
  from evaluateStormRecovery_refines[OF Cons.prems(1) ev] obtain now w where
    step: "now = fst (c_Now c w)" "storm_step delay trig now (storm_abs nhc) (storm_abs nhc1)"
    and act: "active \<longleftrightarrow> storm_abs nhc1 \<noteq> NormalOperation" by blast
  obtain f where "nhc1 = map_conditions f nhc" using evaluateStormRecovery_frame[OF ev] by blast
  then have "StormCooldownDuration (nhc_Spec nhc1) = Some delay" using Cons.prems(1) by simp
  from Cons.IH[OF this rest storm_run.more[OF Cons.prems(3) step(2)]] obtain h where
    "storm_run delay s0 ((h0 @ [(trig, now, storm_abs nhc1)]) @ h) (storm_abs nhc')" "map fst h = trigs"
    "actives' = map (\<lambda>x. snd (snd x) \<noteq> NormalOperation) h" "\<forall>x\<in>set h. \<exists>w. fst (snd x) = fst (c_Now c w)" by blast
  with step(1) act acts show ?case by (intro exI[of _ "(trig, now, storm_abs nhc1) # h"]) auto
qed

lemma replicate_False: "\<forall>b\<in>set bs. \<not> b \<Longrightarrow> bs = replicate (length bs) False"
  by (induction bs) auto

inductive_cases storm_run_snoc: "storm_run delay s (h @ [x]) s1"

lemma storm_run_last:
  assumes "storm_run delay s0 h s1" "h \<noteq> []"
  shows "snd (snd (last h)) = s1"
  using assms by (cases rule: storm_run.cases) auto

lemma stormEvaluations_end:
  assumes delay: "StormCooldownDuration (nhc_Spec nhc) = Some delay" and storm: "storm_abs nhc = StormOngoing"
    and run: "run_state (stormEvaluations c nhc trigs) s = ((nhc', replicate n True @ [False]), s')"
  shows "\<exists>pre k t now w w'. trigs = pre @ replicate (k + 2) False \<and> t = fst (c_Now c w) \<and> now = fst (c_Now c w') \<and>
     delay \<le> time_Sub now t"
proof -
  from stormEvaluations_run[OF delay run storm_run.start] obtain h where
    h: "storm_run delay StormOngoing h (storm_abs nhc')" "map fst h = trigs"
      "replicate n True @ [False] = map (\<lambda>x. snd (snd x) \<noteq> NormalOperation) h" "\<forall>x\<in>set h. \<exists>w. fst (snd x) = fst (c_Now c w)"
    unfolding storm by auto
  from h(3) obtain h' x where hx: "h = h' @ [x]" "replicate n True = map (\<lambda>x. snd (snd x) \<noteq> NormalOperation) h'"
    "snd (snd x) = NormalOperation"
    by (cases h rule: rev_cases) auto
  obtain trig now where x: "x = (trig, now, NormalOperation)" using hx(3) by (cases x) auto
  from h(1) obtain s1 where r1: "storm_run delay StormOngoing h' s1" and st: "storm_step delay trig now s1 NormalOperation"
    unfolding hx(1) x by (rule storm_run_snoc) auto
  have "s1 \<noteq> NormalOperation"
  proof (cases "h' = []")
    case True
    with r1 show ?thesis by (cases rule: storm_run.cases) auto
  next
    case False
    have "snd (snd (last h')) \<noteq> NormalOperation"
    proof -
      have "True = (snd (snd (last h')) \<noteq> NormalOperation)"
        using arg_cong[OF hx(2), of last] arg_cong[OF hx(2), of length] False by (simp add: last_map)
      then show ?thesis by simp
    qed
    with storm_run_last[OF r1 False] show ?thesis by simp
  qed
  from storm_ends_after_cooldown[OF r1 st this] obtain t h1 h2 where e: "\<not> trig" "delay \<le> time_Sub now t"
    "h' = h1 @ (False, t, Cooldown t) # h2" "\<forall>(trig, now, st)\<in>set h2. \<not> trig \<and> st = Cooldown t" by blast
  have "trigs = map fst h1 @ False # map fst h2 @ [False]" using h(2) hx(1) x e(1,3) by auto
  moreover have "map fst h2 = replicate (length h2) False" using replicate_False[of "map fst h2"] e(4) by (force split: prod.splits)
  ultimately have "trigs = map fst h1 @ replicate (length h2 + 2) False" by (simp add: replicate_append_same)
  moreover obtain w w' where "t = fst (c_Now c w)" "now = fst (c_Now c w')" using h(4) hx(1) x e(3) by auto
  ultimately show ?thesis using e(2) by blast
qed

end
