(* ===== verification/Watches.thy ===== *)
theory Watches
  imports Manager
begin

text \<open>
  The watch manager (\<open>internal/controller/resources/watch.go\<close>): for every remediation template it
  adds a watch for the template's kind and one for the remediation's kind, once each. The set
  \<open>Watches\<close> of the struct is passed explicitly; the mutex makes each addition atomic.
\<close>

section \<open>Definitions\<close>

text \<open>
  \<open>addRemediationTemplateCRWatch\<close> and \<open>addRemediationCRWatch\<close> differ only in the handler of the watch,
  which is modelled in \<open>Routing\<close>.
\<close>

definition addWatch :: "'w client \<Rightarrow> string list \<Rightarrow> Unstructured \<Rightarrow> ('w, error option \<times> string list) m" where
  "addWatch c watches obj =
     (let key = gvk_String (u_GVK obj)
      in if key \<in> set watches then State_Monad.return (None, watches)
         else do {
           r \<leftarrow> mutate (AddWatch key) (c_Watch c key);
           State_Monad.return (case r of Some e \<Rightarrow> (Some e, watches) | None \<Rightarrow> (None, key # watches))
         })"

definition addRemediationTemplateCRWatch :: "'w client \<Rightarrow> string list \<Rightarrow> Unstructured \<Rightarrow> ('w, error option \<times> string list) m" where
  "addRemediationTemplateCRWatch = addWatch"

definition addRemediationCRWatch :: "'w client \<Rightarrow> string list \<Rightarrow> Unstructured \<Rightarrow> ('w, error option \<times> string list) m" where
  "addRemediationCRWatch = addWatch"

fun addWatches :: "'w client \<Rightarrow> string list \<Rightarrow> ObjectReference list \<Rightarrow> ('w, error option \<times> string list) m" where
  "addWatches c watches [] = State_Monad.return (None, watches)"
| "addWatches c watches (ref # refs) = do {
     let template = GenerateTemplate ref;
     (e1, watches1) \<leftarrow> addRemediationTemplateCRWatch c watches template;
     case e1 of
       Some e \<Rightarrow> State_Monad.return (Some e, watches1)
     | None \<Rightarrow> do {
         (e2, watches2) \<leftarrow> addRemediationCRWatch c watches1 (GenerateRemediationCRBase (u_GVK template));
         case e2 of
           Some e \<Rightarrow> State_Monad.return (Some e, watches2)
         | None \<Rightarrow> addWatches c watches2 refs
       }
   }"

definition AddWatchesNhc :: "'w client \<Rightarrow> string list \<Rightarrow> NodeHealthCheck \<Rightarrow> ('w, error option \<times> string list) m" where
  "AddWatchesNhc c watches nhc =
     addWatches c watches
       ((case RemediationTemplate (nhc_Spec nhc) of None \<Rightarrow> [] | Some t \<Rightarrow> [t]) @
        map er_RemediationTemplate (EscalatingRemediations (nhc_Spec nhc)))"

definition AddWatchesMhc :: "'w client \<Rightarrow> string list \<Rightarrow> MachineHealthCheck \<Rightarrow> ('w, error option \<times> string list) m" where
  "AddWatchesMhc c watches mhc =
     addWatches c watches (case mhc_RemediationTemplate mhc of None \<Rightarrow> [] | Some t \<Rightarrow> [t])"

text \<open>The two kinds a template reference needs watched.\<close>

definition watchKeys :: "ObjectReference \<Rightarrow> string set" where
  "watchKeys ref =
     {gvk_String (u_GVK (GenerateTemplate ref)),
      gvk_String (u_GVK (GenerateRemediationCRBase (u_GVK (GenerateTemplate ref))))}"

fun is_AddWatch :: "effect \<Rightarrow> bool" where
  "is_AddWatch (AddWatch k) = True"
| "is_AddWatch e = False"

section \<open>Lemmas\<close>

lemma emits_addWatch: "emits is_AddWatch (addWatch c ws obj)"
  unfolding addWatch_def by (intro emits_intros) simp

lemma emits_addWatches: "emits is_AddWatch (addWatches c ws refs)"
  by (induction refs arbitrary: ws)
    (auto simp: addRemediationTemplateCRWatch_def addRemediationCRWatch_def intro!: emits_intros emits_addWatch)

lemma emits_AddWatchesNhc [emits_intros]: "(\<And>e. is_AddWatch e \<Longrightarrow> P e) \<Longrightarrow> emits P (AddWatchesNhc c ws nhc)"
  unfolding AddWatchesNhc_def by (rule emits_mono[OF emits_addWatches])

lemma emits_AddWatchesMhc [emits_intros]: "(\<And>e. is_AddWatch e \<Longrightarrow> P e) \<Longrightarrow> emits P (AddWatchesMhc c ws mhc)"
  unfolding AddWatchesMhc_def by (rule emits_mono[OF emits_addWatches])

text \<open>One addition: a watch already there is not added again, and a successful one is recorded.\<close>

lemma addWatch_run:
  assumes "run_state (addWatch c ws obj) s = ((e, ws'), s')" and "distinct ws"
  shows "distinct ws'" and "set ws \<subseteq> set ws'"
    and "e = None \<Longrightarrow> set ws' = insert (gvk_String (u_GVK obj)) (set ws)"
    and "gvk_String (u_GVK obj) \<in> set ws \<Longrightarrow> trace s' = trace s"
  using assms by (auto simp: addWatch_def Let_def split: if_splits prod.splits option.splits)

lemma addWatches_run:
  assumes "run_state (addWatches c ws refs) s = ((e, ws'), s')" and "distinct ws"
  shows "distinct ws' \<and> set ws \<subseteq> set ws' \<and> (e = None \<longrightarrow> set ws' = set ws \<union> (\<Union>ref\<in>set refs. watchKeys ref))"
  using assms
proof (induction refs arbitrary: ws s)
  case (Cons ref refs)
  let ?t = "GenerateTemplate ref"
  obtain e1 ws1 s1 where r1: "run_state (addWatch c ws ?t) s = ((e1, ws1), s1)" by (metis surj_pair)
  note w1 = addWatch_run[OF r1 Cons.prems(2)]
  show ?case
  proof (cases e1)
    case (Some x)
    with Cons.prems(1) r1 have "e = Some x" "ws' = ws1" by (auto simp: addRemediationTemplateCRWatch_def Let_def)
    with w1 show ?thesis by simp
  next
    case None
    obtain e2 ws2 s2 where r2: "run_state (addWatch c ws1 (GenerateRemediationCRBase (u_GVK ?t))) s1 = ((e2, ws2), s2)"
      by (metis surj_pair)
    note w2 = addWatch_run[OF r2 w1(1)]
    show ?thesis
    proof (cases e2)
      case (Some x)
      with None Cons.prems(1) r1 r2 have "e = Some x" "ws' = ws2"
        by (auto simp: addRemediationTemplateCRWatch_def addRemediationCRWatch_def Let_def)
      with w1 w2 show ?thesis by auto
    next
      case None2: None
      with None Cons.prems(1) r1 r2 have "run_state (addWatches c ws2 refs) s2 = ((e, ws'), s')"
        by (auto simp: addRemediationTemplateCRWatch_def addRemediationCRWatch_def Let_def)
      from Cons.IH[OF this w2(1)] w1(2) w1(3)[OF None] w2(2) w2(3)[OF None2]
      show ?thesis by (auto simp: watchKeys_def)
    qed
  qed
qed simp

end
