(* ===== verification/Validation.thy ===== *)
theory Validation
  imports NHC_Types
begin

text \<open>
  Thresholds: \<open>IntOrString\<close> values and percentages, their validation
  (\<open>api/v1alpha1/validation.go\<close>), the number of healthy nodes a \<open>NodeHealthCheck\<close>
  requires (\<open>getMinHealthy\<close> in \<open>nodehealthcheck_controller.go\<close>) and the number of unhealthy
  machines a \<open>MachineHealthCheck\<close> tolerates (\<open>getMaxUnhealthy\<close> and its helpers in
  \<open>machinehealthcheck_controller.go\<close>).

  The source scales percentages in \<open>float64\<close>; the product of a percentage and a node count
  below 2^52 is exact there and its hundredth is rounded on the same side of every integer, so
  the model computes with exact integers.
\<close>

section \<open>Definitions\<close>

subsection \<open>Percentages\<close>

definition ceil100 :: "int \<Rightarrow> int" where "ceil100 x = - ((- x) div 100)"

definition floor100 :: "int \<Rightarrow> int" where "floor100 x = x div 100"

definition show_ios :: "IntOrString \<Rightarrow> string" where
  "show_ios v = (case v of IntVal n \<Rightarrow> Itoa n | StrVal s \<Rightarrow> s)"

text \<open>\<open>getIntOrPercentValueSafely\<close>: a string must be a percentage.\<close>

definition getIntOrPercentValueSafely :: "IntOrString \<Rightarrow> error + int \<times> bool" where
  "getIntOrPercentValueSafely v =
     (case v of
        IntVal n \<Rightarrow> Inr (n, False)
      | StrVal s \<Rightarrow>
          if HasSuffix s ''%'' then
            (case Atoi (TrimSuffix s ''%'') of
               None \<Rightarrow> Inl (Errorf (''invalid value '' @ quoted s @ '': '' @ atoi_error (TrimSuffix s ''%'')))
             | Some n \<Rightarrow> Inr (n, True))
          else Inl (Errorf ''invalid type: string is not a percentage''))"

definition GetScaledValueFromIntOrPercent :: "IntOrString \<Rightarrow> int \<Rightarrow> bool \<Rightarrow> error + int" where
  "GetScaledValueFromIntOrPercent v nTotal roundUp =
     (case getIntOrPercentValueSafely v of
        Inl e \<Rightarrow> Inl (Errorf (''invalid value for IntOrString: '' @ error_msg e))
      | Inr (value, isPercent) \<Rightarrow>
          Inr (if isPercent then (if roundUp then ceil100 (value * nTotal) else floor100 (value * nTotal))
               else value))"

subsection \<open>Validation of the thresholds\<close>

definition machineDeletionKind :: string where
  "machineDeletionKind = ''MachineDeletionRemediationTemplate''"

definition negative_int :: "IntOrString \<Rightarrow> bool" where
  "negative_int v = (case v of IntVal n \<Rightarrow> n < 0 | StrVal s \<Rightarrow> False)"

definition ValidateMinHealthyMaxUnhealthy :: "NodeHealthCheckSpec \<Rightarrow> error option" where
  "ValidateMinHealthyMaxUnhealthy spec =
     (if MinHealthy spec \<noteq> None \<and> MaxUnhealthy spec \<noteq> None then
        Some (Errorf ''minHealthy and maxUnhealthy cannot be specified at the same time'')
      else if MinHealthy spec = None \<and> MaxUnhealthy spec = None then
        Some (Errorf ''one of minHealthy and maxUnhealthy should be specified'')
      else case MinHealthy spec of
        Some v \<Rightarrow>
          if negative_int v then Some (Errorf (''minHealthy must not be negative: '' @ show_ios v)) else None
      | None \<Rightarrow>
          (case MaxUnhealthy spec of
             None \<Rightarrow> None
           | Some v \<Rightarrow>
               if negative_int v then Some (Errorf (''maxUnhealthy must not be negative: '' @ show_ios v))
               else if (case RemediationTemplate spec of
                          None \<Rightarrow> False
                        | Some t \<Rightarrow> EqualFold (or_Kind t) machineDeletionKind) then
                 Some (Errorf ''maxUnhealthy can't be used with MachineDeletionRemediationTemplate'')
               else if list_ex (\<lambda>er. EqualFold (or_Kind (er_RemediationTemplate er)) machineDeletionKind)
                         (EscalatingRemediations spec) then
                 Some (Errorf ''maxUnhealthy can't be used with MachineDeletionRemediationTemplate escalating remediation'')
               else None))"

subsection \<open>The healthy nodes a NodeHealthCheck requires\<close>

definition getMinHealthy :: "NodeHealthCheckSpec \<Rightarrow> int \<Rightarrow> error + int" where
  "getMinHealthy spec nTotal =
     (case ValidateMinHealthyMaxUnhealthy spec of
        Some e \<Rightarrow> Inl e
      | None \<Rightarrow>
          (case MinHealthy spec of
             Some v \<Rightarrow>
               (case GetScaledValueFromIntOrPercent v nTotal True of
                  Inl e \<Rightarrow> Inl e
                | Inr minHealthy \<Rightarrow>
                    if minHealthy < 0 then Inl (Errorf (''minHealthy is negative: '' @ Itoa minHealthy))
                    else Inr minHealthy)
           | None \<Rightarrow>
               (case MaxUnhealthy spec of
                  Some v \<Rightarrow>
                    (case GetScaledValueFromIntOrPercent v nTotal True of
                       Inl e \<Rightarrow> Inl e
                     | Inr maxUnhealthy \<Rightarrow>
                         if maxUnhealthy < 0 then Inl (Errorf (''maxUnhealthy is negative: '' @ Itoa maxUnhealthy))
                         else if nTotal < maxUnhealthy then
                           Inl (Errorf (''maxUnhealthy is greater than the number of selected nodes: '' @ Itoa maxUnhealthy))
                         else Inr (nTotal - maxUnhealthy))
                | None \<Rightarrow> Inl (Errorf ''one of minHealthy and maxUnhealthy should be specified''))))"

subsection \<open>The unhealthy machines a MachineHealthCheck tolerates\<close>

text \<open>\<open>getIntOrPercentValue\<close>: a string without a percent sign is a plain number.\<close>

definition getIntOrPercentValue :: "IntOrString \<Rightarrow> error + int \<times> bool" where
  "getIntOrPercentValue v =
     (case v of
        IntVal n \<Rightarrow> Inr (n, False)
      | StrVal s \<Rightarrow>
          (let isPercent = HasSuffix s ''%'';
               t = (if isPercent then TrimSuffix s ''%'' else s)
           in case Atoi t of
                None \<Rightarrow> Inl (Errorf (''invalid value '' @ quoted s @ '': '' @ atoi_error t))
              | Some n \<Rightarrow> Inr (n, isPercent)))"

definition getValueFromIntOrPercent :: "IntOrString option \<Rightarrow> int \<Rightarrow> bool \<Rightarrow> error + int" where
  "getValueFromIntOrPercent v nTotal roundUp =
     (case v of
        None \<Rightarrow> Inl (Errorf ''nil value for IntOrString'')
      | Some v \<Rightarrow>
          (case getIntOrPercentValue v of
             Inl e \<Rightarrow> Inl (Errorf (''invalid value for IntOrString: '' @ error_msg e))
           | Inr (value, isPercent) \<Rightarrow>
               Inr (if isPercent then (if roundUp then ceil100 (value * nTotal) else floor100 (value * nTotal))
                    else value)))"

definition getMaxUnhealthy :: "MachineHealthCheck \<Rightarrow> error + int" where
  "getMaxUnhealthy mhc =
     (let nTotal = (case mhc_ExpectedMachines mhc of None \<Rightarrow> 0 | Some n \<Rightarrow> n)
      in case mhc_MaxUnhealthy mhc of
           None \<Rightarrow> Inr nTotal
         | Some v \<Rightarrow>
             (case getValueFromIntOrPercent (Some v) nTotal False of
                Inl e \<Rightarrow> Inl e
              | Inr maxUnhealthy \<Rightarrow> if maxUnhealthy < 0 then Inr 0 else Inr maxUnhealthy))"

definition getNrRemediationsAllowed :: "int \<Rightarrow> int \<Rightarrow> int" where
  "getNrRemediationsAllowed unhealthy maxUnhealthy =
     (let allowed = maxUnhealthy - unhealthy in if allowed < 0 then 0 else allowed)"

definition isRemediationsAllowed :: "int \<Rightarrow> int \<Rightarrow> bool" where
  "isRemediationsAllowed unhealthy maxUnhealthy = (let allowed = maxUnhealthy - unhealthy in 0 \<le> allowed)"

section \<open>Lemmas\<close>

lemma floor100_greatest: "k \<le> floor100 x \<longleftrightarrow> 100 * k \<le> x"
proof -
  have "x = 100 * (x div 100) + x mod 100" "0 \<le> x mod 100" "x mod 100 < 100"
    by simp_all
  then show ?thesis unfolding floor100_def by linarith
qed

lemma ceil100_least: "ceil100 x \<le> k \<longleftrightarrow> x \<le> 100 * k"
  using floor100_greatest[of "- k" "- x"] by (auto simp: ceil100_def floor100_def)

lemma ceil100_nonneg: "0 \<le> x \<Longrightarrow> 0 \<le> ceil100 x"
  using ceil100_least[of x "- 1"] by linarith

lemma ceil100_percent:
  assumes "0 \<le> p" "p \<le> 100" "0 \<le> (t::int)"
  shows "0 \<le> ceil100 (p * t) \<and> ceil100 (p * t) \<le> t"
  using assms by (simp add: ceil100_nonneg ceil100_least mult_right_mono)

text \<open>A percentage as the API accepts it.\<close>

lemma percent_scaled:
  assumes "in64 p"
  shows "GetScaledValueFromIntOrPercent (StrVal (Itoa p @ ''%'')) nTotal roundUp =
     Inr (if roundUp then ceil100 (p * nTotal) else floor100 (p * nTotal))"
proof -
  have "HasSuffix (Itoa p @ ''%'') ''%''" by (simp add: HasSuffix_def suffix_def)
  moreover have "TrimSuffix (Itoa p @ ''%'') ''%'' = Itoa p" by (rule TrimSuffix_append)
  ultimately show ?thesis
    by (simp only: GetScaledValueFromIntOrPercent_def getIntOrPercentValueSafely_def
        IntOrString.case sum.case prod.case option.case if_True Atoi_Itoa[OF assms] simp_thms)
qed

lemma getMinHealthy_bounds:
  assumes "getMinHealthy spec nTotal = Inr n"
  shows "0 \<le> n" and "MinHealthy spec = None \<Longrightarrow> n \<le> nTotal"
  using assms by (auto simp: getMinHealthy_def split: option.splits sum.splits if_splits)

text \<open>
  The gate of \<open>Reconcile\<close> under \<open>maxUnhealthy\<close>: fewer healthy nodes than required means
  exactly that more nodes than allowed are not healthy.
\<close>

lemma getMinHealthy_maxUnhealthy:
  assumes "getMinHealthy spec nTotal = Inr n" and "MaxUnhealthy spec = Some v"
  obtains m where "GetScaledValueFromIntOrPercent v nTotal True = Inr m" "0 \<le> m" "m \<le> nTotal" "n = nTotal - m"
  using assms
  by (auto simp: getMinHealthy_def ValidateMinHealthyMaxUnhealthy_def split: option.splits sum.splits if_splits)

lemma getMinHealthy_minHealthy:
  assumes "getMinHealthy spec nTotal = Inr n" and "MinHealthy spec = Some v"
  shows "GetScaledValueFromIntOrPercent v nTotal True = Inr n"
  using assms by (auto simp: getMinHealthy_def split: option.splits sum.splits if_splits)

lemma getMinHealthy_exclusive:
  "getMinHealthy spec nTotal = Inr n \<Longrightarrow> (MinHealthy spec = None) \<noteq> (MaxUnhealthy spec = None)"
  by (auto simp: getMinHealthy_def ValidateMinHealthyMaxUnhealthy_def split: option.splits if_splits)

lemma getMaxUnhealthy_nonneg:
  "getMaxUnhealthy mhc = Inr n \<Longrightarrow> 0 \<le> n \<or> mhc_MaxUnhealthy mhc = None"
  by (auto simp: getMaxUnhealthy_def Let_def split: option.splits sum.splits if_splits)

lemma isRemediationsAllowed_iff [simp]: "isRemediationsAllowed u m \<longleftrightarrow> u \<le> m"
  by (simp add: isRemediationsAllowed_def)

lemma getNrRemediationsAllowed_max: "getNrRemediationsAllowed u m = max 0 (m - u)"
  by (simp add: getNrRemediationsAllowed_def)

end
