(* ===== verification/NHC_Reconciler.thy ===== *)
theory NHC_Reconciler
  imports NHC_Remediate Storm Watches Validation
begin

text \<open>
  \<open>NodeHealthCheckReconciler.Reconcile\<close> (\<open>internal/controller/nodehealthcheck_controller.go\<close>), in the
  source's order: fetch the \<open>NodeHealthCheck\<close>, disable or enable it, add watches, select and check
  nodes, postpone for upgrades and pause requests, delete orphaned CRs, handle healthy nodes, gate
  remediation by the healthy count and by storm recovery, remediate the unhealthy nodes, and
  patch the status on every way out.

  The body is split into phases (\<open>handleHealthyNodes\<close>, \<open>remediateNodes\<close>, \<open>remediateUnhealthy\<close>,
  \<open>reconcileClasses\<close>, \<open>reconcileNodes\<close>, \<open>reconcileEnabled\<close>, \<open>reconcileBody\<close>), each a suffix of the Go function from the
  point where it starts. Every phase returns the result, the error and the \<open>NodeHealthCheck\<close> as it is
  in memory, which the deferred \<open>patchStatus\<close> sees.
\<close>

section \<open>Definitions\<close>

definition clusterUpgradeRequeueAfter :: duration where "clusterUpgradeRequeueAfter = minute"
definition templateNotFoundRequeueAfter :: duration where "templateNotFoundRequeueAfter = 15 * second"
definition logWhenCRPendingDeletionDuration :: duration where "logWhenCRPendingDeletionDuration = 10 * second"
definition enabledMessage :: string where "enabledMessage = ''No issues found, NodeHealthCheck is enabled.''"

type_synonym outcome = "Result \<times> error option \<times> NodeHealthCheck"

subsection \<open>Healthy nodes\<close>

text \<open>When to come back for CRs that are still there although the node's conditions are healthy.\<close>

definition pendingRequeue :: "time \<Rightarrow> Result \<Rightarrow> Unstructured \<Rightarrow> Result" where
  "pendingRequeue logThreshold result cr =
     (case u_DeletionTimestamp cr of
        None \<Rightarrow> updateRequeueAfter result (Some (dur_add logWhenCRPendingDeletionDuration second))
      | Some del \<Rightarrow>
          if time_After del logThreshold
          then updateRequeueAfter result (Some (dur_add (time_Sub del logThreshold) second))
          else result)"

fun handleHealthyNodes ::
    "'w client \<Rightarrow> 'w Manager \<Rightarrow> Result \<Rightarrow> NodeHealthCheck \<Rightarrow> int \<Rightarrow> Node list \<Rightarrow> ('w, outcome \<times> int) m" where
  "handleHealthyNodes c rm result nhc healthyCount [] = State_Monad.return ((result, None, nhc), healthyCount)"
| "handleHealthyNodes c rm result nhc healthyCount (node # nodes) = do {
     (r, owner) \<leftarrow> rm_HandleHealthyNode rm (n_Name node) (n_Name node) (NHC nhc);
     let nhc1 = (case owner of NHC x \<Rightarrow> x | MHC _ \<Rightarrow> nhc);
     case r of
       Inl e \<Rightarrow> State_Monad.return ((result, Some e, nhc1), healthyCount)
     | Inr (crs, requeueAfter) \<Rightarrow> do {
         let result1 = updateRequeueAfter result requeueAfter;
         if crs = [] then do {
           nhc2 \<leftarrow> UpdateStatusNodeHealthy c (n_Name node) nhc1;
           handleHealthyNodes c rm result1 nhc2 (healthyCount + 1) nodes
         } else do {
           now \<leftarrow> ask (c_Now c);
           let (ts, nhc2) = UpdateStatusNodeConditionsHealthy (n_Name node) nhc1 now;
           let result2 = (case ts of
                            None \<Rightarrow> result1
                          | Some t \<Rightarrow> foldl (pendingRequeue (time_Add t (- logWhenCRPendingDeletionDuration))) result1 crs);
           handleHealthyNodes c rm result2 nhc2 healthyCount nodes
         }
       }
   }"

subsection \<open>Unhealthy nodes\<close>

fun alertOldCRs :: "'w client \<Rightarrow> string \<Rightarrow> Result \<Rightarrow> Unstructured list \<Rightarrow> ('w, Result) m" where
  "alertOldCRs c nodeName result [] = State_Monad.return result"
| "alertOldCRs c nodeName result (cr # crs) = do {
     (isAlert, requeueAfter) \<leftarrow> alertOldRemediationCR c cr;
     _ \<leftarrow> (if isAlert then ObserveNodeHealthCheckOldRemediationCR nodeName '''' else State_Monad.return ());
     alertOldCRs c nodeName (updateRequeueAfter result requeueAfter) crs
   }"

fun remediateNodes ::
    "'w NodeHealthCheckReconciler \<Rightarrow> 'w Manager \<Rightarrow> bool \<Rightarrow> Result \<Rightarrow> NodeHealthCheck \<Rightarrow> Node list \<Rightarrow> ('w, outcome) m" where
  "remediateNodes r rm skipRemediation result nhc [] = State_Monad.return (result, None, nhc)"
| "remediateNodes r rm skipRemediation result nhc (node # nodes) = do {
     let nhc1 = UpdateStatusNodeUnhealthy node nhc;
     if skipRemediation then remediateNodes r rm skipRemediation result nhc1 nodes
     else do {
       excluded \<leftarrow> isNodeRemediationExcluded node;
       if excluded then do {
         WarningEvent EventReasonRemediationSkipped
           (''Remediation skipped on node '' @ n_Name node @ '': node has Exclude from Remediation label'');
         remediateNodes r rm skipRemediation result nhc1 nodes
       } else do {
         (res, nhc2) \<leftarrow> remediate r rm node nhc1;
         case res of
           Inl e \<Rightarrow> State_Monad.return (result, Some e, nhc2)
         | Inr requeueAfter \<Rightarrow> do {
             l \<leftarrow> rm_ListRemediationCRs rm (GetAllRemediationTemplates (NHC nhc2))
                   (\<lambda>cr. GetNodeNameFromCR cr = n_Name node \<and> IsOwner cr (NHC nhc2));
             result' \<leftarrow> alertOldCRs (r_Client r) (n_Name node) (updateRequeueAfter result requeueAfter)
                   (case l of Inl e \<Rightarrow> [] | Inr crs \<Rightarrow> crs);
             remediateNodes r rm skipRemediation result' nhc2 nodes
           }
       }
     }
   }"

text \<open>The gate: enough healthy nodes, and no storm.\<close>

definition skipMessage :: "int \<Rightarrow> int \<Rightarrow> string" where
  "skipMessage healthy minHealthy =
     ''Skipped remediation because the number of healthy nodes selected by the selector is '' @ Itoa healthy @
     '' and should equal or exceed '' @ Itoa minHealthy"

definition remediateUnhealthy ::
    "'w NodeHealthCheckReconciler \<Rightarrow> 'w Manager \<Rightarrow> Result \<Rightarrow> NodeHealthCheck \<Rightarrow> int \<Rightarrow> int \<Rightarrow> Node list \<Rightarrow> ('w, outcome) m" where
  "remediateUnhealthy r rm result nhc selected healthyCount matchingNodes =
     (case getMinHealthy (nhc_Spec nhc) selected of
        Inl e \<Rightarrow> State_Monad.return (result, Some e, nhc)
      | Inr minHealthy \<Rightarrow> do {
          let tooFew = (healthyCount < minHealthy);
          _ \<leftarrow> (if tooFew then WarningEvent EventReasonRemediationSkipped (skipMessage healthyCount minHealthy)
                else State_Monad.return ());
          ((stormRecoveryActive, requeueAfter), nhc1) \<leftarrow> evaluateStormRecovery (r_Client r) nhc tooFew;
          let result1 = updateRequeueAfter result requeueAfter;
          _ \<leftarrow> (if stormRecoveryActive \<and> \<not> tooFew then
                  WarningEvent EventReasonRemediationSkipped ''Storm recovery active: skipping creation of new remediations''
                else State_Monad.return ());
          remediateNodes r rm (tooFew \<or> stormRecoveryActive) result1 nhc1 matchingNodes
        })"

subsection \<open>The selected nodes\<close>

definition setCounts :: "int \<Rightarrow> int \<Rightarrow> NodeHealthCheck \<Rightarrow> NodeHealthCheck" where
  "setCounts observed healthy = map_status (\<lambda>st. st\<lparr>ObservedNodes := Some observed, HealthyNodes := Some healthy\<rparr>)"

definition reconcileClasses ::
    "'w NodeHealthCheckReconciler \<Rightarrow> 'w Manager \<Rightarrow> NodeHealthCheck \<Rightarrow> Node list \<Rightarrow> nodeClasses \<Rightarrow> ('w, outcome) m" where
  "reconcileClasses r rm nhc selectedNodes classes = (case classes of (notMatching, soonMatching, matching, requeueAfter) \<Rightarrow> do {
     let result = updateRequeueAfter emptyResult requeueAfter;
     upgrading \<leftarrow> isClusterUpgrading r matching;
     if upgrading then do {
       NormalEvent EventReasonRemediationSkipped ''Postponing potential remediations because of ongoing cluster upgrade'';
       State_Monad.return (result\<lparr>RequeueAfter := clusterUpgradeRequeueAfter\<rparr>, None, nhc)
     } else if 0 < length (PauseRequests (nhc_Spec nhc)) then do {
       NormalEvent EventReasonRemediationSkipped ''Postponing potential remediations because of pause requests'';
       State_Monad.return (result, None, nhc)
     } else do {
       (e, nhc1) \<leftarrow> deleteOrphanedRemediationCRs (r_Client r) rm nhc (notMatching @ soonMatching @ matching);
       case e of
         Some e \<Rightarrow> State_Monad.return (result, Some e, nhc1)
       | None \<Rightarrow> do {
           ((result2, e2, nhc2), healthyCount) \<leftarrow> handleHealthyNodes (r_Client r) rm result nhc1 0 notMatching;
           case e2 of
             Some e \<Rightarrow> State_Monad.return (result2, Some e, nhc2)
           | None \<Rightarrow>
               (let nhc3 = setCounts (int (length selectedNodes)) healthyCount nhc2
                in if matching = [] then State_Monad.return (result2, None, nhc3)
                   else remediateUnhealthy r rm result2 nhc3 (int (length selectedNodes)) healthyCount matching)
         }
     }
   })"

definition reconcileNodes ::
    "'w NodeHealthCheckReconciler \<Rightarrow> 'w Manager \<Rightarrow> NodeHealthCheck \<Rightarrow> Node list \<Rightarrow> ('w, outcome) m" where
  "reconcileNodes r rm nhc selectedNodes = do {
     classes \<leftarrow> checkNodeConditions r selectedNodes nhc;
     reconcileClasses r rm nhc selectedNodes classes
   }"

subsection \<open>Enabling and disabling\<close>

definition disableMHCMessage :: string where
  "disableMHCMessage = ''Custom MachineHealthCheck(s) detected, disabling NodeHealthCheck to avoid conflicts''"

definition disable :: "'w client \<Rightarrow> string \<Rightarrow> string \<Rightarrow> string \<Rightarrow> NodeHealthCheck \<Rightarrow> ('w, NodeHealthCheck) m" where
  "disable c reason message eventMessage nhc =
     (if \<not> IsConditionTrueWithReason (Conditions (nhc_Status nhc)) ConditionTypeDisabled reason then do {
        nhc' \<leftarrow> setCondition c (mkCondition ConditionTypeDisabled ConditionTrue reason message) nhc;
        WarningEvent EventReasonDisabled eventMessage;
        State_Monad.return nhc'
      } else State_Monad.return nhc)"

definition enable :: "'w client \<Rightarrow> NodeHealthCheck \<Rightarrow> ('w, NodeHealthCheck) m" where
  "enable c nhc =
     (if \<not> IsStatusConditionFalse (Conditions (nhc_Status nhc)) ConditionTypeDisabled then do {
        nhc' \<leftarrow> setCondition c (mkCondition ConditionTypeDisabled ConditionFalse ConditionReasonEnabled enabledMessage) nhc;
        NormalEvent EventReasonEnabled enabledMessage;
        State_Monad.return nhc'
      } else State_Monad.return nhc)"

definition reconcileEnabled ::
    "'w NodeHealthCheckReconciler \<Rightarrow> 'w Manager \<Rightarrow> string list \<Rightarrow> NodeHealthCheck \<Rightarrow> ('w, outcome \<times> string list) m" where
  "reconcileEnabled r rm watches nhc = do {
     nhc1 \<leftarrow> enable (r_Client r) nhc;
     (e, watches1) \<leftarrow> AddWatchesNhc (r_Client r) watches nhc1;
     case e of
       Some e \<Rightarrow> State_Monad.return ((emptyResult, Some e, nhc1), watches1)
     | None \<Rightarrow> do {
         l \<leftarrow> rm_GetNodes rm (Selector (nhc_Spec nhc1));
         case l of
           Inl e \<Rightarrow> State_Monad.return ((emptyResult, Some e, nhc1), watches1)
         | Inr nodes \<Rightarrow> do {
             res \<leftarrow> reconcileNodes r rm nhc1 nodes;
             State_Monad.return (res, watches1)
           }
       }
   }"

text \<open>Counters to zero for a disabled NHC, and the deprecated field cleared.\<close>

definition resetStatus :: "NodeHealthCheck \<Rightarrow> NodeHealthCheck" where
  "resetStatus = map_status (\<lambda>st. st\<lparr>ObservedNodes := Some 0, HealthyNodes := Some 0, InFlightRemediations := []\<rparr>)"

definition reconcileBody ::
    "'w NodeHealthCheckReconciler \<Rightarrow> 'w Manager \<Rightarrow> string list \<Rightarrow> NodeHealthCheck \<Rightarrow> ('w, outcome \<times> string list) m" where
  "reconcileBody r rm watches nhc0 = do {
     let nhc = resetStatus nhc0;
     chk \<leftarrow> mhcChecker r;
     if NeedDisableNHC chk then do {
       nhc1 \<leftarrow> disable (r_Client r) ConditionReasonDisabledMHC disableMHCMessage disableMHCMessage nhc;
       State_Monad.return ((emptyResult, None, nhc1), watches)
     } else do {
       v \<leftarrow> rm_ValidateTemplates rm nhc;
       case v of
         Inl e \<Rightarrow> State_Monad.return ((emptyResult, Some e, nhc), watches)
       | Inr (valid, reason, message) \<Rightarrow>
           if \<not> valid then do {
             nhc1 \<leftarrow> disable (r_Client r) reason message (''Disabling NHC. Reason: '' @ reason @ '', Message: '' @ message) nhc;
             State_Monad.return
               ((if reason = ConditionReasonDisabledTemplateNotFound
                 then emptyResult\<lparr>RequeueAfter := templateNotFoundRequeueAfter\<rparr> else emptyResult, None, nhc1), watches)
           } else reconcileEnabled r rm watches nhc
     }
   }"

subsection \<open>Patching the status\<close>

text \<open>Phase and reason.\<close>

definition setPhase :: "NodeHealthCheck \<Rightarrow> NodeHealthCheck" where
  "setPhase nhc =
     (let set = (\<lambda>ph re. map_status (\<lambda>st. st\<lparr>Phase := ph, Reason := re\<rparr>) nhc)
      in case FindStatusCondition (Conditions (nhc_Status nhc)) ConditionTypeDisabled of
           Some cond \<Rightarrow>
             if cond_Status cond = ConditionTrue then
               set PhaseDisabled (''NHC is disabled: '' @ cond_Reason cond @ '': '' @ cond_Message cond)
             else if 0 < length (PauseRequests (nhc_Spec nhc)) then
               set PhasePaused (''NHC is paused: '' @ join_comma (PauseRequests (nhc_Spec nhc)))
             else if isRemediating (UnhealthyNodes (nhc_Status nhc)) then
               set PhaseRemediating (''NHC is remediating '' @ Itoa (int (length (UnhealthyNodes (nhc_Status nhc)))) @ '' nodes'')
             else set PhaseEnabled ''NHC is enabled, no ongoing remediation''
         | None \<Rightarrow>
             if 0 < length (PauseRequests (nhc_Spec nhc)) then
               set PhasePaused (''NHC is paused: '' @ join_comma (PauseRequests (nhc_Spec nhc)))
             else if isRemediating (UnhealthyNodes (nhc_Status nhc)) then
               set PhaseRemediating (''NHC is remediating '' @ Itoa (int (length (UnhealthyNodes (nhc_Status nhc)))) @ '' nodes'')
             else set PhaseEnabled ''NHC is enabled, no ongoing remediation'')"

text \<open>
  \<open>wait.PollWithContext\<close> every 200 ms for 5 s: at most 25 ticks, then the channel is closed, which
  polls a last time. \<open>statusUpToDate\<close> is the condition of the loop; the patched object always carries an
  update time, without it the comparison dereferences \<open>nil\<close>.
\<close>

definition statusUpToDate :: "NodeHealthCheck \<Rightarrow> error + NodeHealthCheck \<Rightarrow> error + bool" where
  "statusUpToDate nhc r =
     (case r of
        Inl e \<Rightarrow> Inr (IsNotFound e)
      | Inr tmp \<Rightarrow>
          (case LastUpdateTime (nhc_Status tmp) of
             None \<Rightarrow> Inr False
           | Some t \<Rightarrow>
               (case LastUpdateTime (nhc_Status nhc) of
                  None \<Rightarrow> Inl (Panic ''nil pointer dereference: LastUpdateTime'')
                | Some u \<Rightarrow> Inr (t = u \<or> time_After t u))))"

definition ErrWaitTimeout :: error where "ErrWaitTimeout = Errorf ''timed out waiting for the condition''"

text \<open>One round of the loop; \<open>continue\<close> is what follows a tick that found nothing.\<close>

definition pollOnce :: "'w client \<Rightarrow> NodeHealthCheck \<Rightarrow> ('w, error option) m \<Rightarrow> ('w, error option) m" where
  "pollOnce c nhc continue = do {
     t \<leftarrow> ask (c_PollTick c);
     if t = Cancelled then State_Monad.return (Some ErrWaitTimeout)
     else do {
       r \<leftarrow> ask (c_GetNHC c (nhc_Name nhc));
       case statusUpToDate nhc r of
         Inl e \<Rightarrow> State_Monad.return (Some e)
       | Inr ok \<Rightarrow>
           if ok then State_Monad.return None
           else if t = Closed then State_Monad.return (Some ErrWaitTimeout)
           else continue
     }
   }"

fun pollUpdated :: "'w client \<Rightarrow> NodeHealthCheck \<Rightarrow> nat \<Rightarrow> ('w, error option) m" where
  "pollUpdated c nhc 0 = pollOnce c nhc (State_Monad.return (Some ErrWaitTimeout))"
| "pollUpdated c nhc (Suc n) = pollOnce c nhc (pollUpdated c nhc n)"

text \<open>Specification: the poll number \<open>k\<close>, after ticks that found nothing, finds the update or the object gone.\<close>

fun caughtUpAfter :: "'w client \<Rightarrow> NodeHealthCheck \<Rightarrow> nat \<Rightarrow> 'w \<Rightarrow> bool" where
  "caughtUpAfter c nhc 0 w =
     (case c_PollTick c w of (t, w1) \<Rightarrow> t \<noteq> Cancelled \<and> statusUpToDate nhc (fst (c_GetNHC c (nhc_Name nhc) w1)) = Inr True)"
| "caughtUpAfter c nhc (Suc k) w =
     (case c_PollTick c w of (t, w1) \<Rightarrow> t = Tick \<and>
        (case c_GetNHC c (nhc_Name nhc) w1 of (r, w2) \<Rightarrow> statusUpToDate nhc r = Inr False \<and> caughtUpAfter c nhc k w2))"

definition patchStatus :: "'w client \<Rightarrow> NodeHealthCheck \<Rightarrow> NodeHealthCheck \<Rightarrow> ('w, error option) m" where
  "patchStatus c nhc nhcOrig =
     (let nhc1 = setPhase nhc
      in case c_MergePatchEmpty c nhcOrig nhc1 of
           Inl e \<Rightarrow> State_Monad.return (Some e)
         | Inr True \<Rightarrow> State_Monad.return None
         | Inr False \<Rightarrow> do {
             now \<leftarrow> ask (c_Now c);
             let nhc2 = map_status (\<lambda>st. st\<lparr>LastUpdateTime := Some now\<rparr>) nhc1;
             r \<leftarrow> mutate (PatchNHCStatus nhc2) (c_PatchNHCStatus c nhcOrig nhc2);
             case r of
               Inl e \<Rightarrow> State_Monad.return (Some e)
             | Inr nhc3 \<Rightarrow> do {
                 w \<leftarrow> pollUpdated c nhc3 25;
                 State_Monad.return (map_option (wrapE ''failed to wait for updated cache after status patch'') w)
               }
           })"

subsection \<open>Reconcile\<close>

definition leaseHolderIdent :: "NodeHealthCheck \<Rightarrow> string" where
  "leaseHolderIdent nhc = ''NodeHealthCheck-'' @ nhc_Name nhc"

text \<open>A panic passes the deferred patch and is not aggregated.\<close>

definition reconcileFetched ::
    "'w NodeHealthCheckReconciler \<Rightarrow> string list \<Rightarrow> NodeHealthCheck \<Rightarrow> ('w, (Result \<times> error option) \<times> string list) m" where
  "reconcileFetched r watches nhc = do {
     l \<leftarrow> NewLeaseManager (r_Client r) (leaseHolderIdent nhc);
     case l of
       Inl e \<Rightarrow> State_Monad.return ((emptyResult, Some e), watches)
     | Inr lm \<Rightarrow> do {
         let rm = as_Manager (NewManager (r_Client r) (HealthyDelay (nhc_Spec nhc)) (HasMachineAPI (r_Capabilities r)) lm);
         ((result, err, nhc'), watches') \<leftarrow> reconcileBody r rm watches nhc;
         patchErr \<leftarrow> patchStatus (r_Client r) nhc' nhc;
         State_Monad.return
           ((result, case err of
                       Some e \<Rightarrow> if is_panic e then Some e else NewAggregate [patchErr, Some e]
                     | None \<Rightarrow> NewAggregate [patchErr, None]), watches')
       }
   }"

definition Reconcile ::
    "'w NodeHealthCheckReconciler \<Rightarrow> string list \<Rightarrow> string \<Rightarrow> ('w, (Result \<times> error option) \<times> string list) m" where
  "Reconcile r watches reqName = do {
     g \<leftarrow> ask (c_GetNHC (r_Client r) reqName);
     case g of
       Inl e \<Rightarrow> State_Monad.return ((emptyResult, if IsNotFound e then None else Some e), watches)
     | Inr nhc \<Rightarrow> reconcileFetched r watches nhc
   }"

subsection \<open>The reconciler as the operator sets it up\<close>

definition newReconciler :: "'w client \<Rightarrow> ('w \<Rightarrow> Checker) \<Rightarrow> Capabilities \<Rightarrow> 'w NodeHealthCheckReconciler" where
  "newReconciler c chk caps =
     \<lparr>r_Client = c, r_UpgradeChecker = NewClusterUpgradeStatusChecker c (IsOnOpenshift caps),
      r_MHCChecker = chk, r_Capabilities = caps\<rparr>"

subsection \<open>What a reconcile may write\<close>

text \<open>The phase that belongs to a status.\<close>

definition phase_ok :: "NodeHealthCheck \<Rightarrow> bool" where
  "phase_ok nhc \<longleftrightarrow>
     Phase (nhc_Status nhc) =
       (if IsConditionTrue (Conditions (nhc_Status nhc)) ConditionTypeDisabled then PhaseDisabled
        else if PauseRequests (nhc_Spec nhc) \<noteq> [] then PhasePaused
        else if isRemediating (UnhealthyNodes (nhc_Status nhc)) then PhaseRemediating
        else PhaseEnabled)"

text \<open>
  CRs are created and deleted for their owner only, only live CRs are deleted, and the status that is
  written belongs to the \<open>NodeHealthCheck\<close> that was read, with at most one entry per node and with
  the phase that its content implies.
\<close>

fun reconcile_effect :: "NodeHealthCheck \<Rightarrow> effect \<Rightarrow> bool" where
  "reconcile_effect nhc (CreateCR x) = IsOwner x (NHC nhc)"
| "reconcile_effect nhc (DeleteCR x) = (IsOwner x (NHC nhc) \<and> u_DeletionTimestamp x = None)"
| "reconcile_effect nhc (UpdateCR x) = True"
| "reconcile_effect nhc (PatchNode x) = True"
| "reconcile_effect nhc (PatchNHCStatus x) = (same_nhc nhc x \<and> (names_wf nhc \<longrightarrow> names_wf x) \<and> phase_ok x)"
| "reconcile_effect nhc (CreateNamespace n) = True"
| "reconcile_effect nhc (AddWatch k) = True"
| "reconcile_effect nhc e = (is_lease_write e \<or> is_note e)"

text \<open>Effects that touch no remediation CR, no lease and no node.\<close>

fun quiet_effect :: "effect \<Rightarrow> bool" where
  "quiet_effect (PatchNHCStatus x) = True"
| "quiet_effect (CreateNamespace n) = True"
| "quiet_effect (AddWatch k) = True"
| "quiet_effect e = is_note e"

section \<open>The reconciler over its interfaces\<close>

text \<open>What the reconciler relies on: the resource manager and the upgrade checker.\<close>

locale nhc_env = manager_iface rm + upgrade_iface "r_UpgradeChecker r"
  for rm :: "'w Manager" and r :: "'w NodeHealthCheckReconciler"

section \<open>Lemmas\<close>

subsection \<open>Effects\<close>

lemma reconcile_effect_mono:
  "is_note e \<Longrightarrow> reconcile_effect nhc e"
  "is_AddWatch e \<Longrightarrow> reconcile_effect nhc e"
  "is_UpdateCR e \<Longrightarrow> reconcile_effect nhc e"
  "is_CreateNamespace e \<Longrightarrow> reconcile_effect nhc e"
  "cleanup_effect e \<Longrightarrow> reconcile_effect nhc e"
  by (cases e; simp)+

lemma reconcile_effect_owner:
  assumes "same_owner (NHC nhc') (NHC nhc)"
  shows "remediate_effect nhc' n e \<Longrightarrow> reconcile_effect nhc e"
    "delete_effect (NHC nhc') e \<Longrightarrow> reconcile_effect nhc e"
    "healthy_effect (NHC nhc') e \<Longrightarrow> reconcile_effect nhc e"
  using IsOwner_same[OF assms] by (cases e; simp; fail)+

lemma quiet_effects:
  "is_note e \<Longrightarrow> quiet_effect e" "is_AddWatch e \<Longrightarrow> quiet_effect e" "is_CreateNamespace e \<Longrightarrow> quiet_effect e"
  by (cases e; simp)+

lemma steps_owner: "status_step\<^sup>*\<^sup>* nhc nhc' \<Longrightarrow> same_owner (NHC nhc') (NHC nhc)"
  using same_nhc_owner[OF status_steps_same] by (auto simp: same_owner_def)

lemma steps_spec:
  "status_step\<^sup>*\<^sup>* nhc nhc' \<Longrightarrow> PauseRequests (nhc_Spec nhc') = PauseRequests (nhc_Spec nhc)"
  using status_steps_same[of nhc nhc']
  by (auto simp: same_nhc_def dest: arg_cong[where f = PauseRequests])

subsection \<open>Skipping remediation writes nothing\<close>

lemma emits_remediateNodes_skip: "emits P (remediateNodes r rm True result nhc nodes)"
  by (induction nodes arbitrary: nhc) (auto simp: Let_def intro!: emits_intros)

lemma emits_alertOldCRs:
  "(\<And>e. is_note e \<Longrightarrow> P e) \<Longrightarrow> (\<And>x. P (UpdateCR x)) \<Longrightarrow> emits P (alertOldCRs c n result crs)"
  by (induction crs arbitrary: result) (auto intro!: emits_intros)

lemma emits_disable [emits_intros]: "(\<And>e. is_note e \<Longrightarrow> P e) \<Longrightarrow> emits P (disable c re ms em nhc)"
  unfolding disable_def by (intro emits_intros) auto

lemma emits_enable [emits_intros]: "(\<And>e. is_note e \<Longrightarrow> P e) \<Longrightarrow> emits P (enable c nhc)"
  unfolding enable_def by (intro emits_intros) auto

subsection \<open>The changes to the status\<close>

lemma returns_setCondition: "returns (\<lambda>nhc'. status_step nhc nhc') (setCondition c cond nhc)"
  unfolding setCondition_def by (intro returns_intros) (auto intro: status_step.condition)

lemma returns_disable: "returns (\<lambda>nhc'. status_step\<^sup>*\<^sup>* nhc nhc') (disable c re ms em nhc)"
  unfolding disable_def
  by (intro returns_if returns_bind[OF returns_setCondition] returns_intros) auto

lemma returns_enable: "returns (\<lambda>nhc'. status_step\<^sup>*\<^sup>* nhc nhc') (enable c nhc)"
  unfolding enable_def
  by (intro returns_if returns_bind[OF returns_setCondition] returns_intros) auto

lemma status_step_reset: "status_step nhc (resetStatus nhc)"
  unfolding resetStatus_def by (rule status_step.other) auto

lemma status_step_counts: "status_step nhc (setCounts a b nhc)"
  unfolding setCounts_def by (rule status_step.other) auto

lemma returns_steps_trans:
  assumes "status_step\<^sup>*\<^sup>* a b" and "returns (\<lambda>x. status_step\<^sup>*\<^sup>* b (f x)) m"
  shows "returns (\<lambda>x. status_step\<^sup>*\<^sup>* a (f x)) m"
  using assms by (auto simp: returns_def intro: rtranclp_trans)

lemma returns_evaluateStormRecovery: "returns (\<lambda>x. status_step\<^sup>*\<^sup>* nhc (snd x)) (evaluateStormRecovery c nhc trig)"
proof -
  have set: "returns (\<lambda>nhc'. status_step\<^sup>*\<^sup>* nhc0 nhc') (setCondition c cond nhc1)"
    if "status_step\<^sup>*\<^sup>* nhc0 nhc1" for nhc0 nhc1 cond
    using that by (simp add: returns_def split_beta) (blast intro: rtranclp.rtrancl_into_rtrancl status_step.condition)
  have act: "returns (\<lambda>x. status_step\<^sup>*\<^sup>* nhc0 (snd x)) (activateStorm c b1 b2 nhc0)" for nhc0 b1 b2
    unfolding activateStorm_def
    by (intro returns_if returns_return returns_bind[OF set] returns_bind_any) auto
  have start: "returns (\<lambda>x. status_step\<^sup>*\<^sup>* nhc0 (snd x)) (startCooldown c nhc1)" if "status_step\<^sup>*\<^sup>* nhc0 nhc1" for nhc0 nhc1
    unfolding startCooldown_def using that
    by (intro returns_if returns_case_option returns_return returns_bind[OF set[OF that]] returns_bind_any returns_Let) auto
  have stop: "returns (\<lambda>x. status_step\<^sup>*\<^sup>* nhc0 (snd x)) (stopCooldown c nhc1)" if "status_step\<^sup>*\<^sup>* nhc0 nhc1" for nhc0 nhc1
  proof -
    have "returns (\<lambda>x. status_step\<^sup>*\<^sup>* nhc0 (snd x)) (do {
       a \<leftarrow> setCondition c c1 nhc1; b \<leftarrow> setCondition c c2 a; NormalEvent re ms; State_Monad.return (y, b) })" for c1 c2 re ms y
      using that by (intro returns_bind[OF set[OF that]] returns_bind[OF set] returns_bind_any returns_return) auto
    then show ?thesis unfolding stopCooldown_def using that
      by (intro returns_case_option returns_return returns_bind_any[of _ _ "ask (c_Now c)"] returns_Let returns_if) auto
  qed
  show ?thesis
    unfolding evaluateStormRecovery_def
    by (intro returns_if returns_return returns_Let returns_bind[OF act] returns_bind[OF start] returns_bind[OF stop]
        returns_case_prod returns_case_prod_app) auto
qed

text \<open>The phases, for every resource manager and upgrade checker that keep their contracts.\<close>

context nhc_env
begin

lemma safe_HandleHealthyNode:
  assumes "status_step\<^sup>*\<^sup>* nhc0 nhc"
  shows "safe (reconcile_effect nhc0) (\<lambda>x. \<exists>nhc'. snd x = NHC nhc' \<and> status_step\<^sup>*\<^sup>* nhc0 nhc') (rm_HandleHealthyNode rm n crn (NHC nhc))"
proof (rule safeI)
  show "emits (reconcile_effect nhc0) (rm_HandleHealthyNode rm n crn (NHC nhc))"
    using healthy by (rule emits_mono) (rule reconcile_effect_owner(3)[OF steps_owner[OF assms]])
  show "returns (\<lambda>x. \<exists>nhc'. snd x = NHC nhc' \<and> status_step\<^sup>*\<^sup>* nhc0 nhc') (rm_HandleHealthyNode rm n crn (NHC nhc))"
  proof (rule returnsI)
    fix s a s'
    assume "run_state (rm_HandleHealthyNode rm n crn (NHC nhc)) s = (a, s')"
    then have "\<exists>crs. snd a = NHC nhc \<or> snd a = NHC (UpdateStatusNodeDelayedHealthy n nhc crs)"
      using healthy_owner[of n crn "NHC nhc" s "fst a" "snd a" s'] by simp
    with assms show "\<exists>nhc'. snd a = NHC nhc' \<and> status_step\<^sup>*\<^sup>* nhc0 nhc'"
      by (blast intro: rtranclp.rtrancl_into_rtrancl status_step.delayed)
  qed
qed

lemma safe_UpdateStatusNodeHealthy:
  assumes "status_step\<^sup>*\<^sup>* nhc0 nhc"
  shows "safe (reconcile_effect nhc0) (\<lambda>nhc'. status_step\<^sup>*\<^sup>* nhc0 nhc') (UpdateStatusNodeHealthy c n nhc)"
  by (intro safeI emits_intros reconcile_effect_mono returns_steps_trans[OF assms returns_UpdateStatusNodeHealthy])

lemma emits_delete: "status_step\<^sup>*\<^sup>* nhc0 nhc \<Longrightarrow> emits (reconcile_effect nhc0) (rm_DeleteRemediationCR rm cr (NHC nhc))"
  by (rule emits_mono[OF delete]) (rule reconcile_effect_owner(2)[OF steps_owner])

lemma safe_deleteOrphans:
  "status_step\<^sup>*\<^sup>* nhc0 nhc \<Longrightarrow>
     safe (reconcile_effect nhc0) (\<lambda>x. status_step\<^sup>*\<^sup>* nhc0 (snd x)) (deleteOrphans c rm nhc crs)"
proof (induction crs arbitrary: nhc)
  case (Cons cr crs)
  show ?case unfolding deleteOrphans.simps
    by (intro safe_Let safe_bind_any[of _ "rm_CleanUp rm _ _"] emits_mono[OF cleanup] reconcile_effect_mono(5)
        safe_case_option safe_bind[OF safe_UpdateStatusNodeHealthy[OF Cons.prems]]
        safe_bind_any[of _ "rm_DeleteRemediationCR rm _ _"] emits_delete safe_case_sum safe_return Cons.IH)
      (simp_all add: Cons.prems)
qed (simp add: safe_return)

lemma safe_deleteOrphanedRemediationCRs:
  "safe (reconcile_effect nhc) (\<lambda>x. status_step\<^sup>*\<^sup>* nhc (snd x)) (deleteOrphanedRemediationCRs c rm nhc nodes)"
  unfolding deleteOrphanedRemediationCRs_def
  by (intro safe_intros reads safe_deleteOrphans) simp_all

lemma safe_handleHealthyNodes:
  "status_step\<^sup>*\<^sup>* nhc0 nhc \<Longrightarrow>
     safe (reconcile_effect nhc0)
       (\<lambda>x. status_step\<^sup>*\<^sup>* nhc0 (snd (snd (fst x))) \<and> k \<le> snd x \<and> snd x \<le> k + int (length nodes))
       (handleHealthyNodes c rm result nhc k nodes)"
proof (induction nodes arbitrary: nhc result k)
  case (Cons node nodes)
  let ?Q = "\<lambda>x. status_step\<^sup>*\<^sup>* nhc0 (snd (snd (fst x))) \<and> k \<le> snd x \<and> snd x \<le> k + (1 + int (length nodes))"
  have IH: "safe (reconcile_effect nhc0) ?Q (handleHealthyNodes c rm res nhc2 j nodes)"
    if "status_step\<^sup>*\<^sup>* nhc0 nhc2" "j = k \<or> j = k + 1" for res nhc2 j
    by (rule safe_mono[OF Cons.IH[OF that(1)]]) (use that(2) in auto)
  have conds: "status_step\<^sup>*\<^sup>* nhc0 b" if "status_step\<^sup>*\<^sup>* nhc0 nhc1" "(a, b) = UpdateStatusNodeConditionsHealthy n nhc1 now" for n nhc1 now a b
    using rtranclp.rtrancl_into_rtrancl[OF that(1) status_step.conditionsHealthy[of nhc1 n now]] that(2)[symmetric] by simp
  show ?case unfolding handleHealthyNodes.simps
    apply (rule safe_bind[OF safe_HandleHealthyNode[OF Cons.prems]])
    subgoal for a
      apply clarsimp
      apply (intro safe_case_sum safe_case_prod safe_Let safe_if safe_return safe_bind[OF safe_UpdateStatusNodeHealthy]
          safe_bind_any[of _ "ask _"] emits_ask IH)
      by (auto intro: conds IH)
    done
qed (simp add: safe_return)

end

context nhc_env
begin

lemma safe_remediate:
  assumes "status_step\<^sup>*\<^sup>* nhc0 nhc"
  shows "safe (reconcile_effect nhc0) (\<lambda>x. status_step\<^sup>*\<^sup>* nhc0 (snd x)) (remediate r rm node nhc)"
proof (rule safeI)
  show "emits (reconcile_effect nhc0) (remediate r rm node nhc)"
    by (rule emits_mono[OF emits_remediate]) (rule reconcile_effect_owner(1)[OF steps_owner[OF assms]])
  show "returns (\<lambda>x. status_step\<^sup>*\<^sup>* nhc0 (snd x)) (remediate r rm node nhc)"
    using returns_remediate[of nhc r node]
    by (intro returns_steps_trans[OF assms]) (simp add: returns_def split_beta)
qed

lemma safe_remediateNodes:
  "status_step\<^sup>*\<^sup>* nhc0 nhc \<Longrightarrow>
     safe (reconcile_effect nhc0) (\<lambda>x. status_step\<^sup>*\<^sup>* nhc0 (snd (snd x))) (remediateNodes r rm b result nhc nodes)"
proof (induction nodes arbitrary: nhc result)
  case (Cons node nodes)
  have un: "status_step\<^sup>*\<^sup>* nhc0 (UpdateStatusNodeUnhealthy node nhc)"
    using Cons.prems by (rule rtranclp.rtrancl_into_rtrancl) (rule status_step.unhealthy)
  show ?case unfolding remediateNodes.simps Let_def
    by (intro safe_if safe_bind_any[of _ "isNodeRemediationExcluded _"] safe_bind_any[of _ "WarningEvent _ _"]
        safe_bind[OF safe_remediate[OF un]] safe_bind_any[of _ "rm_ListRemediationCRs rm _ _"]
        safe_bind_any[of _ "alertOldCRs _ _ _ _"] safe_case_sum safe_case_prod safe_return Cons.IH
        emits_intros reads emits_alertOldCRs reconcile_effect_mono) (auto simp: un)
qed (simp add: safe_return)

lemma safe_remediateUnhealthy:
  assumes "status_step\<^sup>*\<^sup>* nhc0 nhc"
  shows "safe (reconcile_effect nhc0) (\<lambda>x. status_step\<^sup>*\<^sup>* nhc0 (snd (snd x))) (remediateUnhealthy r rm result nhc sel k nodes)"
proof -
  have storm: "safe (reconcile_effect nhc0) (\<lambda>x. status_step\<^sup>*\<^sup>* nhc0 (snd x)) (evaluateStormRecovery (r_Client r) nhc b)" for b
    by (intro safeI emits_intros reconcile_effect_mono returns_steps_trans[OF assms returns_evaluateStormRecovery])
  show ?thesis unfolding remediateUnhealthy_def
    by (intro safe_case_sum safe_return safe_Let safe_bind[OF storm] safe_bind_any[of _ "if _ then _ else _"]
        safe_case_prod safe_case_prod_app safe_remediateNodes emits_intros)
      (auto simp: assms)
qed

lemma emits_isClusterUpgrading: "emits P (isClusterUpgrading r nodes)"
  unfolding isClusterUpgrading_def by (intro emits_intros check_reads)

lemma safe_reconcileNodes:
  assumes "status_step\<^sup>*\<^sup>* nhc0 nhc"
  shows "safe (reconcile_effect nhc0) (\<lambda>x. status_step\<^sup>*\<^sup>* nhc0 (snd (snd x))) (reconcileNodes r rm nhc nodes)"
proof -
  have orphans: "safe (reconcile_effect nhc0) (\<lambda>x. status_step\<^sup>*\<^sup>* nhc0 (snd x)) (deleteOrphanedRemediationCRs c rm nhc ns)" for c ns
    unfolding deleteOrphanedRemediationCRs_def using assms by (intro safe_intros reads safe_deleteOrphans) simp_all
  have counts: "status_step\<^sup>*\<^sup>* nhc0 (setCounts a b nhc2)" if "status_step\<^sup>*\<^sup>* nhc0 nhc2" for a b nhc2
    using that by (rule rtranclp.rtrancl_into_rtrancl) (rule status_step_counts)
  show ?thesis unfolding reconcileNodes_def reconcileClasses_def
    by (intro safe_bind_any[of _ "checkNodeConditions _ _ _"] safe_bind_any[of _ "isClusterUpgrading _ _"]
        safe_bind_any[of _ "NormalEvent _ _"] safe_bind[OF orphans] safe_bind[OF safe_handleHealthyNodes]
        safe_case_prod safe_case_prod_app safe_Let safe_if safe_case_option safe_return safe_remediateUnhealthy
        emits_intros emits_isClusterUpgrading reconcile_effect_mono)
      (auto simp: assms counts)
qed

lemma safe_reconcileBody:
  "safe (reconcile_effect nhc) (\<lambda>x. status_step\<^sup>*\<^sup>* nhc (snd (snd (fst x)))) (reconcileBody r rm watches nhc)"
proof -
  have reset: "status_step\<^sup>*\<^sup>* nhc (resetStatus nhc)" using status_step_reset by blast
  have dis: "safe (reconcile_effect nhc) (\<lambda>nhc'. status_step\<^sup>*\<^sup>* nhc nhc') (disable c re ms em (resetStatus nhc))" for c re ms em
    by (intro safeI emits_intros reconcile_effect_mono returns_steps_trans[OF reset returns_disable])
  have en: "safe (reconcile_effect nhc) (\<lambda>nhc'. status_step\<^sup>*\<^sup>* nhc nhc') (enable c (resetStatus nhc))" for c
    by (intro safeI emits_intros reconcile_effect_mono returns_steps_trans[OF reset returns_enable])
  have "safe (reconcile_effect nhc) (\<lambda>x. status_step\<^sup>*\<^sup>* nhc (snd (snd (fst x)))) (reconcileEnabled r rm watches (resetStatus nhc))"
    unfolding reconcileEnabled_def
    by (intro safe_bind[OF en] safe_bind_any[of _ "AddWatchesNhc _ _ _"] safe_bind_any[of _ "rm_GetNodes rm _"]
        safe_bind[OF safe_reconcileNodes] safe_case_prod safe_case_option safe_case_sum safe_return
        emits_intros reads reconcile_effect_mono) auto
  then show ?thesis unfolding reconcileBody_def Let_def
    by (intro safe_bind_any[of _ "mhcChecker r"] safe_bind_any[of _ "rm_ValidateTemplates rm _"]
        safe_bind[OF dis] safe_if safe_case_sum safe_case_prod safe_return reads)
      (auto simp: reset mhcChecker_def emits_ask)
qed

end

subsection \<open>The status that is written\<close>

lemma emits_pollOnce: "emits P k \<Longrightarrow> emits P (pollOnce c nhc k)"
  unfolding pollOnce_def by (auto intro!: emits_intros)

lemma emits_pollUpdated [emits_intros]: "emits P (pollUpdated c nhc n)"
  by (induction n) (auto intro!: emits_intros emits_pollOnce)

text \<open>The wait succeeds exactly when one of the polls finds the update, or the object gone.\<close>

lemma pollOnce_None:
  "fst (run_state (pollOnce c nhc k) s) = None \<longleftrightarrow>
    caughtUpAfter c nhc 0 (world s) \<or>
    (\<exists>w1 r w2. c_PollTick c (world s) = (Tick, w1) \<and> c_GetNHC c (nhc_Name nhc) w1 = (r, w2) \<and> statusUpToDate nhc r = Inr False \<and>
      fst (run_state k (s\<lparr>world := w2\<rparr>)) = None)"
proof -
  obtain t w1 where tick: "c_PollTick c (world s) = (t, w1)" by fastforce
  obtain r w2 where get: "c_GetNHC c (nhc_Name nhc) w1 = (r, w2)" by fastforce
  show ?thesis
    by (cases t; cases "statusUpToDate nhc r") (use tick get in \<open>auto simp: pollOnce_def\<close>)
qed

lemma pollUpdated_iff: "fst (run_state (pollUpdated c nhc n) s) = None \<longleftrightarrow> (\<exists>k\<le>n. caughtUpAfter c nhc k (world s))"
proof (induction n arbitrary: s)
  case 0
  then show ?case by (simp add: pollOnce_None del: caughtUpAfter.simps)
next
  case (Suc n)
  have shift: "(\<exists>k\<le>Suc n. P k) \<longleftrightarrow> P 0 \<or> (\<exists>k\<le>n. P (Suc k))" for P by (metis Suc_le_mono not0_implies_Suc zero_le)
  show ?case unfolding shift by (auto simp: pollOnce_None Suc.IH)
qed

lemma setPhase_phase: "phase_ok (setPhase nhc)"
  by (auto simp: phase_ok_def setPhase_def Let_def IsConditionTrue_def split: option.splits)

lemma setPhase_same: "status_step nhc (setPhase nhc)"
proof -
  have "status_step nhc (map_status (\<lambda>st. st\<lparr>Phase := ph, Reason := re\<rparr>) nhc)" for ph re
    by (rule status_step.other) simp_all
  then show ?thesis by (auto simp: setPhase_def Let_def split: option.splits)
qed

lemma emits_patchStatus:
  assumes "status_step\<^sup>*\<^sup>* nhc0 nhc"
  shows "emits (reconcile_effect nhc0) (patchStatus c nhc orig)"
proof -
  have "reconcile_effect nhc0 (PatchNHCStatus (map_status (\<lambda>st. st\<lparr>LastUpdateTime := Some now\<rparr>) (setPhase nhc)))" for now
  proof -
    let ?x = "map_status (\<lambda>st. st\<lparr>LastUpdateTime := Some now\<rparr>) (setPhase nhc)"
    have "status_step (setPhase nhc) ?x" by (rule status_step.other) simp_all
    with assms setPhase_same have "status_step\<^sup>*\<^sup>* nhc0 ?x" by (meson rtranclp.rtrancl_into_rtrancl)
    moreover have "phase_ok ?x" using setPhase_phase[of nhc] by (simp add: phase_ok_def)
    ultimately show ?thesis using status_steps_same status_steps_names by auto
  qed
  then show ?thesis unfolding patchStatus_def by (intro emits_intros) auto
qed

subsection \<open>Reconcile\<close>

lemma newReconciler_simps [simp]:
  "r_Client (newReconciler c chk caps) = c"
  "r_UpgradeChecker (newReconciler c chk caps) = NewClusterUpgradeStatusChecker c (IsOnOpenshift caps)"
  "r_MHCChecker (newReconciler c chk caps) = chk" "r_Capabilities (newReconciler c chk caps) = caps"
  by (simp_all add: newReconciler_def)

interpretation nhce: nhc_env "as_Manager (NewManager c delay hm (nhcLeaseManager c holder))" "newReconciler c chk caps"
  for c :: "'w client" and delay hm holder chk caps
  by (intro nhc_env.intro nhcm.manager_iface_axioms) (simp add: upgrade_iface_New)

lemma safe_NewLeaseManager:
  "(\<And>e. is_CreateNamespace e \<Longrightarrow> P e) \<Longrightarrow> safe P (\<lambda>x. \<forall>lm. x = Inr lm \<longrightarrow> lm = nhcLeaseManager c h) (NewLeaseManager c h)"
  by (intro safeI returnsI emits_mono[OF emits_NewLeaseManager]) (auto dest: NewLeaseManager_Inr)

lemma emits_reconcileFetched: "emits (reconcile_effect nhc) (reconcileFetched (newReconciler c chk caps) watches nhc)"
proof (rule safe_emits[where Q = "\<lambda>_. True"])
  have body: "safe (reconcile_effect nhc) (\<lambda>_. True) (do {
      ((result, err, nhc'), watches') \<leftarrow> reconcileBody (newReconciler c chk caps)
        (as_Manager (NewManager c delay hm (nhcLeaseManager c h))) watches nhc;
      patchErr \<leftarrow> patchStatus c nhc' nhc;
      State_Monad.return (f result err patchErr watches') })" for delay hm h f
    by (intro safe_bind[OF nhce.safe_reconcileBody] safe_case_prod safe_case_prod_app safe_bind_any emits_patchStatus safe_return) auto
  show "safe (reconcile_effect nhc) (\<lambda>_. True) (reconcileFetched (newReconciler c chk caps) watches nhc)"
    unfolding reconcileFetched_def Let_def newReconciler_simps
    by (intro safe_bind[OF safe_NewLeaseManager] safe_case_sum safe_return reconcile_effect_mono) (auto intro: body)
qed

lemma run_Reconcile:
  "c_GetNHC (r_Client r) name (world s) = (Inr nhc, w) \<Longrightarrow>
     run_state (Reconcile r watches name) s = run_state (reconcileFetched r watches nhc) (s\<lparr>world := w\<rparr>)"
  by (simp add: Reconcile_def)

subsection \<open>When a reconcile leaves the cluster alone\<close>

lemma emits_patchStatus_quiet: "emits quiet_effect (patchStatus c nhc orig)"
  unfolding patchStatus_def by (intro emits_intros) simp_all

lemma emits_reconcileFetched_quiet:
  assumes "\<And>delay hm h. emits quiet_effect (reconcileBody r (as_Manager (NewManager (r_Client r) delay hm (nhcLeaseManager (r_Client r) h))) watches nhc)"
  shows "emits quiet_effect (reconcileFetched r watches nhc)"
proof (rule safe_emits[where Q = "\<lambda>_. True"])
  have body: "safe quiet_effect (\<lambda>_. True) (do {
      ((result, err, nhc'), watches') \<leftarrow> reconcileBody r (as_Manager (NewManager (r_Client r) delay hm (nhcLeaseManager (r_Client r) h))) watches nhc;
      patchErr \<leftarrow> patchStatus (r_Client r) nhc' nhc;
      State_Monad.return (f result err patchErr watches') })" for delay hm h f
    by (intro safe_intros emits_patchStatus_quiet assms) auto
  show "safe quiet_effect (\<lambda>_. True) (reconcileFetched r watches nhc)"
    unfolding reconcileFetched_def Let_def
    by (intro safe_bind[OF safe_NewLeaseManager] safe_case_sum safe_return quiet_effects) (auto intro: body)
qed

context nhc_env
begin

lemma quiet_paused_nodes:
  "PauseRequests (nhc_Spec nhc) \<noteq> [] \<Longrightarrow> emits quiet_effect (reconcileNodes r rm nhc nodes)"
  unfolding reconcileNodes_def reconcileClasses_def
  by (intro emits_intros emits_isClusterUpgrading quiet_effects) simp_all

lemma quiet_paused:
  assumes "PauseRequests (nhc_Spec nhc) \<noteq> []"
  shows "emits quiet_effect (reconcileBody r rm watches nhc)"
proof -
  let ?nhc = "resetStatus nhc"
  have paused: "PauseRequests (nhc_Spec nhc') \<noteq> []" if "status_step\<^sup>*\<^sup>* ?nhc nhc'" for nhc'
    using assms steps_spec[OF that] by (simp add: resetStatus_def)
  have "emits quiet_effect (reconcileEnabled r rm watches ?nhc)"
    unfolding reconcileEnabled_def
    apply (rule emits_bind_dep)
    subgoal by (intro emits_intros quiet_effects)
    subgoal for nhc1 s s'
      using paused[OF returnsD[OF returns_enable]]
      by (intro emits_intros reads quiet_effects quiet_paused_nodes) auto
    done
  then show ?thesis unfolding reconcileBody_def Let_def mhcChecker_def
    by (intro emits_intros reads quiet_effects)
qed

lemma quiet_disabled:
  assumes "\<And>w. NeedDisableNHC (r_MHCChecker r w)"
  shows "emits quiet_effect (reconcileBody r rm watches nhc)"
proof -
  have "safe quiet_effect (\<lambda>x. NeedDisableNHC x) (mhcChecker r)"
    unfolding mhcChecker_def by (intro safeI emits_intros) (simp add: returns_def assms)
  then have "safe quiet_effect (\<lambda>_. True) (reconcileBody r rm watches nhc)"
    unfolding reconcileBody_def Let_def
    by (rule safe_bind) (auto intro!: safe_intros emits_intros quiet_effects(1))
  then show ?thesis by (rule safe_emits)
qed

end

subsection \<open>The gate\<close>

lemma remediateUnhealthy_error:
  "getMinHealthy (nhc_Spec nhc) sel = Inl e \<Longrightarrow> emits P (remediateUnhealthy r rm result nhc sel k nodes)"
  unfolding remediateUnhealthy_def by (simp add: emits_return)

lemma remediateUnhealthy_tooFew:
  assumes "getMinHealthy (nhc_Spec nhc) sel = Inr minHealthy" and "k < minHealthy"
  shows "emits is_note (remediateUnhealthy r rm result nhc sel k nodes)"
  using assms unfolding remediateUnhealthy_def
  by (auto simp: Let_def intro!: emits_intros emits_remediateNodes_skip)

lemma remediateUnhealthy_storm:
  assumes "\<And>trig. returns (\<lambda>x. fst (fst x)) (evaluateStormRecovery (r_Client r) nhc trig)"
  shows "emits is_note (remediateUnhealthy r rm result nhc sel k nodes)"
proof -
  have ev: "safe is_note (\<lambda>x. fst (fst x)) (evaluateStormRecovery (r_Client r) nhc trig)" for trig
    by (intro safeI emits_intros assms)
  have skip: "safe is_note (\<lambda>_. True) (remediateNodes r rm True result' nhc' nodes)" for result' nhc'
    by (intro safeI emits_remediateNodes_skip) (simp add: returns_def)
  have "safe is_note (\<lambda>_. True) (remediateUnhealthy r rm result nhc sel k nodes)"
    unfolding remediateUnhealthy_def
    by (intro safe_case_sum safe_return safe_Let safe_bind[OF ev] safe_bind_any[of _ "if _ then _ else _"]
        safe_case_prod safe_case_prod_app emits_intros)
      (auto simp: skip)
  then show ?thesis by (rule safe_emits)
qed

lemma evaluateStormRecovery_active:
  assumes "StormCooldownDuration (nhc_Spec nhc) = Some delay"
    and "storm_abs nhc = StormOngoing \<or> (\<exists>t. storm_abs nhc = Cooldown t \<and> (\<forall>w. time_Sub (fst (c_Now c w)) t < delay))"
  shows "returns (\<lambda>x. fst (fst x)) (evaluateStormRecovery c nhc trig)"
proof (rule returnsI)
  fix s a s'
  assume run: "run_state (evaluateStormRecovery c nhc trig) s = (a, s')"
  obtain active d nhc' where a: "a = ((active, d), nhc')" by (metis surj_pair)
  from evaluateStormRecovery_refines[OF assms(1) run[unfolded a]] obtain now w
    where st: "now = fst (c_Now c w)" "storm_step delay trig now (storm_abs nhc) (storm_abs nhc')"
      and act: "active \<longleftrightarrow> storm_abs nhc' \<noteq> NormalOperation" by blast
  from assms(2) st have "storm_abs nhc' \<noteq> NormalOperation"
    by (auto simp: storm_step_from_storm storm_step_from_cooldown not_le[symmetric])
  with act a show "fst (fst a)" by simp
qed

text \<open>With \<open>maxUnhealthy\<close>, passing the gate bounds the nodes that are not healthy.\<close>

lemma gate_maxUnhealthy:
  assumes "getMinHealthy spec sel = Inr m" "m \<le> k" "MaxUnhealthy spec = Some v"
  shows "\<exists>mu. GetScaledValueFromIntOrPercent v sel True = Inr mu \<and> sel - k \<le> mu"
  using getMinHealthy_maxUnhealthy[OF assms(1,3)] assms(2) by (metis diff_le_eq add.commute diff_diff_eq2 diff_left_mono)

text \<open>The gate looks at the spec only, and does not mind the order of the templates.\<close>

lemma getMinHealthy_same:
  assumes "same_nhc a b"
  shows "getMinHealthy (nhc_Spec a) n = getMinHealthy (nhc_Spec b) n"
proof -
  let ?a = "nhc_Spec a" and ?b = "nhc_Spec b"
  have eq: "?a\<lparr>EscalatingRemediations := []\<rparr> = ?b\<lparr>EscalatingRemediations := []\<rparr>" using assms by (simp add: same_nhc_def)
  have "MinHealthy ?a = MinHealthy ?b" "MaxUnhealthy ?a = MaxUnhealthy ?b" "RemediationTemplate ?a = RemediationTemplate ?b"
    using arg_cong[OF eq, of MinHealthy] arg_cong[OF eq, of MaxUnhealthy] arg_cong[OF eq, of RemediationTemplate] by simp_all
  moreover have "list_ex Q (EscalatingRemediations ?a) = list_ex Q (EscalatingRemediations ?b)" for Q
    using assms unfolding list_ex_iff by (metis same_nhc_def mset_eq_setD)
  ultimately show ?thesis by (simp only: getMinHealthy_def ValidateMinHealthyMaxUnhealthy_def)
qed

context nhc_env
begin

text \<open>Nothing before the gate creates a CR, so none is created unless enough nodes were found healthy.\<close>

lemma no_create_note: "is_note e \<Longrightarrow> \<not> is_CreateCR e"
  by (cases e) auto

lemma no_create_before_gate:
  "emits (\<lambda>e. \<not> is_CreateCR e) (rm_CleanUp rm n b)"
  "emits (\<lambda>e. \<not> is_CreateCR e) (rm_DeleteRemediationCR rm cr owner)"
  "emits (\<lambda>e. \<not> is_CreateCR e) (rm_HandleHealthyNode rm n crn owner)"
proof -
  show "emits (\<lambda>e. \<not> is_CreateCR e) (rm_CleanUp rm n b)"
    by (rule emits_mono[OF cleanup]) (auto elim: is_CreateCR.elims)
  show "emits (\<lambda>e. \<not> is_CreateCR e) (rm_DeleteRemediationCR rm cr owner)"
    by (rule emits_mono[OF delete]) (auto elim: is_CreateCR.elims)
  show "emits (\<lambda>e. \<not> is_CreateCR e) (rm_HandleHealthyNode rm n crn owner)"
    by (rule emits_mono[OF healthy]) (auto elim: is_CreateCR.elims)
qed

lemma orphans_create_nothing:
  "safe (\<lambda>e. \<not> is_CreateCR e) (\<lambda>x. status_step\<^sup>*\<^sup>* nhc (snd x)) (deleteOrphanedRemediationCRs c rm nhc ns)"
proof (rule safeI[OF _ safe_returns[OF safe_deleteOrphanedRemediationCRs]])
  have "emits (\<lambda>e. \<not> is_CreateCR e) (deleteOrphans c rm nhc' crs)" for nhc' crs
    by (induction crs arbitrary: nhc') (auto simp: Let_def intro!: emits_intros no_create_before_gate no_create_note)
  then show "emits (\<lambda>e. \<not> is_CreateCR e) (deleteOrphanedRemediationCRs c rm nhc ns)"
    unfolding deleteOrphanedRemediationCRs_def by (intro emits_intros reads)
qed

lemma healthyNodes_create_nothing:
  assumes "status_step\<^sup>*\<^sup>* nhc nhc1"
  shows "safe (\<lambda>e. \<not> is_CreateCR e) (\<lambda>x. status_step\<^sup>*\<^sup>* nhc (snd (snd (fst x))) \<and> 0 \<le> snd x \<and> snd x \<le> int (length notM))
    (handleHealthyNodes c rm result nhc1 0 notM)"
proof (rule safeI)
  have "emits (\<lambda>e. \<not> is_CreateCR e) (handleHealthyNodes c rm result nhc2 k ns)" for result nhc2 k ns
    by (induction ns arbitrary: result nhc2 k)
      (auto simp: Let_def split_beta intro!: emits_intros no_create_before_gate no_create_note)
  then show "emits (\<lambda>e. \<not> is_CreateCR e) (handleHealthyNodes c rm result nhc1 0 notM)" .
  show "returns (\<lambda>x. status_step\<^sup>*\<^sup>* nhc (snd (snd (fst x))) \<and> 0 \<le> snd x \<and> snd x \<le> int (length notM))
    (handleHealthyNodes c rm result nhc1 0 notM)"
    using safe_returns[OF safe_handleHealthyNodes[OF assms, of 0 notM c result]] by simp
qed

lemma gate_creates_nothing:
  assumes few: "\<And>m. getMinHealthy (nhc_Spec nhc) tot = Inr m \<Longrightarrow> k < m" and steps: "status_step\<^sup>*\<^sup>* nhc nhc2"
  shows "emits (\<lambda>e. \<not> is_CreateCR e) (remediateUnhealthy r rm result (setCounts tot k nhc2) tot k ns)"
proof -
  have spec: "getMinHealthy (nhc_Spec (setCounts tot k nhc2)) n = getMinHealthy (nhc_Spec nhc) n" for n
    using getMinHealthy_same[OF status_steps_same[OF steps]] by (simp add: setCounts_def)
  show ?thesis
  proof (cases "getMinHealthy (nhc_Spec nhc) tot")
    case (Inl e)
    then show ?thesis by (intro remediateUnhealthy_error) (simp add: spec)
  next
    case (Inr m)
    with few show ?thesis
      by (intro emits_mono[OF remediateUnhealthy_tooFew] no_create_note) (simp_all add: spec)
  qed
qed

lemma no_create_below_minHealthy:
  assumes few: "\<And>m. getMinHealthy (nhc_Spec nhc) (int (length nodes)) = Inr m \<Longrightarrow> int (length notM) < m"
  shows "emits (\<lambda>e. \<not> is_CreateCR e) (reconcileClasses r rm nhc nodes (notM, soon, mat, q))"
proof -
  have gate: "safe (\<lambda>e. \<not> is_CreateCR e) (\<lambda>_. True)
      (remediateUnhealthy r rm result (setCounts (int (length nodes)) k nhc2) (int (length nodes)) k ns)"
    if "status_step\<^sup>*\<^sup>* nhc nhc2" "k \<le> int (length notM)" for result k nhc2 ns
    using few that by (intro safeI gate_creates_nothing[of nhc]) (force simp: returns_def)+
  have "safe (\<lambda>e. \<not> is_CreateCR e) (\<lambda>_. True) (reconcileClasses r rm nhc nodes (notM, soon, mat, q))"
    unfolding reconcileClasses_def
    by (intro safe_bind_any[of _ "isClusterUpgrading _ _"] safe_bind_any[of _ "NormalEvent _ _"] safe_bind[OF orphans_create_nothing]
        safe_bind[OF healthyNodes_create_nothing] safe_case_prod safe_case_prod_app safe_Let safe_if safe_case_option safe_return
        emits_isClusterUpgrading emits_intros)
      (auto simp: Let_def intro!: gate safe_bind[OF healthyNodes_create_nothing] safe_case_option safe_return)
  then show ?thesis by (rule safe_emits)
qed

end

context nhc_env
begin

lemma CreateCR_minHealthy:
  assumes cr: "CreateCR cr \<in> set (effects_of (reconcileNodes r rm nhc nodes) s)"
  shows "\<exists>notM soon mat q s1 m. run_state (checkNodeConditions r nodes nhc) s = ((notM, soon, mat, q), s1) \<and>
     getMinHealthy (nhc_Spec nhc) (int (length nodes)) = Inr m \<and> m \<le> int (length notM)"
proof (rule ccontr)
  assume few: "\<not> ?thesis"
  obtain notM soon mat q s1 where run: "run_state (checkNodeConditions r nodes nhc) s = ((notM, soon, mat, q), s1)"
    by (metis surj_pair)
  with few have "getMinHealthy (nhc_Spec nhc) (int (length nodes)) = Inr m \<Longrightarrow> int (length notM) < m" for m by fastforce
  then have rest: "emits (\<lambda>e. \<not> is_CreateCR e) (reconcileClasses r rm nhc nodes (notM, soon, mat, q))"
    by (rule no_create_below_minHealthy)
  have "emits (\<lambda>e. \<not> is_CreateCR e) (checkNodeConditions r nodes nhc)"
    by (rule emits_mono[OF emits_checkNodeConditions[of is_note]]) (auto elim: is_CreateCR.elims)
  from effects_of_bind[where f = "reconcileClasses r rm nhc nodes", OF this run rest] cr show False
    unfolding reconcileNodes_def by (auto simp: list_all_iff)
qed

end

lemma emits_Reconcile_effects:
  assumes "c_GetNHC c name (world s) = (Inr nhc, w)" and "emits P (reconcileFetched (newReconciler c chk caps) watches nhc)"
  shows "list_all P (effects_of (Reconcile (newReconciler c chk caps) watches name) s)"
proof -
  let ?r = "newReconciler c chk caps"
  have "run_state (Reconcile ?r watches name) s = run_state (reconcileFetched ?r watches nhc) (s\<lparr>world := w\<rparr>)"
    using assms(1) by (intro run_Reconcile) simp
  with emits_effects_of[OF assms(2), of "s\<lparr>world := w\<rparr>"] show ?thesis by (simp add: effects_of_def)
qed

end
