(* ===== verification/Progress.thy ===== *)
theory Progress
  imports NHC_Reconciler
begin

text \<open>
  Remediation makes progress: when the API server works, every unhealthy node that may be remediated
  gets its CR in one pass over the matching nodes.

  The other theories bound what a handler may do; here a handler has to do something. For that the theory
  has a calculus of weakest preconditions, in which a postcondition speaks about the result, the world and
  the effects of a run. What the server has to answer is the predicate \<open>serving\<close>: it is given in terms of
  worlds in which certain nodes are not dealt with yet, so that other actors may still change everything else.
\<close>

section \<open>Definitions\<close>

named_theorems wp_intros

definition wp :: "('w, 'e, 'a) io \<Rightarrow> ('a \<Rightarrow> 'w \<Rightarrow> 'e list \<Rightarrow> bool) \<Rightarrow> 'w \<Rightarrow> bool" where
  "wp m Q w \<longleftrightarrow>
     (\<forall>s a s'. world s = w \<longrightarrow> run_state m s = (a, s') \<longrightarrow> (\<exists>es. trace s' = trace s @ es \<and> Q a (world s') es))"

text \<open>What a call answers, and the world after it.\<close>

definition answers :: "('w \<Rightarrow> 'a \<times> 'w) \<Rightarrow> ('a \<Rightarrow> 'w \<Rightarrow> bool) \<Rightarrow> 'w \<Rightarrow> bool" where
  "answers f Q w = (case f w of (a, w') \<Rightarrow> Q a w')"

text \<open>
  A server with a valid template and the selected nodes of a health check. \<open>W ns w\<close> says that in the world
  \<open>w\<close> the nodes \<open>ns\<close> have neither lease nor CR of the template, and that the CRs of the health check belong to the other
  selected nodes. As long as this holds the server finds the template and the nodes, whose health nobody confirmed by hand, lists the CRs, accepts watches
  and updates, and creates leases and CRs, after which the remaining nodes are still without lease and CR.
  The clock shows at least \<open>t0\<close>.
\<close>

definition settled :: "NodeHealthCheck \<Rightarrow> Node list \<Rightarrow> Unstructured \<Rightarrow> string set \<Rightarrow> Unstructured \<Rightarrow> bool" where
  "settled nhc nodes t ns x \<longleftrightarrow>
     (\<forall>n\<in>ns. \<not> isMatchNodeTemplate x n (u_Name t)) \<and>
     (IsOwner x (NHC nhc) \<longrightarrow> GetNodeNameFromCR x \<in> n_Name ` set nodes - ns)"

definition unconfirmed :: "string \<Rightarrow> Node \<Rightarrow> bool" where
  "unconfirmed n node \<longleftrightarrow> n_Name node = n \<and> lookup2 (n_Annotations node) RemediationManuallyConfirmedHealthyAnnotationKey = None"

definition serving ::
    "'w client \<Rightarrow> NodeHealthCheck \<Rightarrow> Node list \<Rightarrow> ObjectReference \<Rightarrow> Unstructured \<Rightarrow> time \<Rightarrow> (string set \<Rightarrow> 'w \<Rightarrow> bool) \<Rightarrow> bool" where
  "serving c nhc nodes ref t t0 W \<longleftrightarrow> validTemplate t \<and> (\<forall>ns w. W ns w \<longrightarrow> ns \<subseteq> n_Name ` set nodes \<and>
     answers (c_Now c) (\<lambda>now w'. W ns w' \<and> t0 \<le> now) w \<and>
     answers (c_IsObjectNamespaced c (GenerateTemplate ref))
       (\<lambda>r w'. W ns w' \<and> (r = Inr False \<or> r = Inr True \<and> or_Namespace ref \<noteq> '''')) w \<and>
     answers (c_Get c (GenerateTemplate ref)) (\<lambda>r w'. W ns w' \<and> r = Inr t) w \<and>
     (\<forall>g. answers (c_List c g) (\<lambda>r w'. W ns w' \<and> (\<exists>items. r = Inr items \<and> list_all (settled nhc nodes t ns) items)) w) \<and>
     (\<forall>n\<in>ns. answers (c_GetNode c n) (\<lambda>r w'. W ns w' \<and> (\<exists>node. r = Inr node \<and> unconfirmed n node)) w) \<and>
     (\<forall>n\<in>ns. answers (c_GetLease c (generateLeaseName n)) (\<lambda>r w'. W ns w' \<and> (\<exists>msg. r = Inl (NotFound msg))) w) \<and>
     (\<forall>n\<in>ns. \<forall>l. answers (c_CreateLease c (generateLeaseName n) l) (\<lambda>r w'. W (ns - {n}) w' \<and> r = None) w) \<and>
     (\<forall>n cr. n \<in> n_Name ` set nodes \<and> u_Annotations cr = crAnnotations n (u_Name t) \<longrightarrow>
        answers (c_Create c cr) (\<lambda>r w'. W (ns - {n}) w' \<and> (\<exists>x. r = Inr x)) w) \<and>
     (\<forall>cr. settled nhc nodes t ns cr \<longrightarrow> answers (c_Update c cr) (\<lambda>_. W ns) w) \<and>
     answers (c_ListNodes c (Selector (nhc_Spec nhc))) (\<lambda>r w'. W ns w' \<and> r = Inr nodes) w \<and>
     (\<forall>key. answers (c_Watch c key) (\<lambda>r w'. W ns w' \<and> r = None) w) \<and>
     (\<forall>leaseNs. answers (c_GetNamespace c leaseNs) (\<lambda>r w'. W ns w' \<and> r = None) w))"

text \<open>A node whose remediation needs no further permission, and whose machine is of no concern.\<close>

definition plainNode :: "bool \<Rightarrow> Node \<Rightarrow> bool" where
  "plainNode hasMachineAPI node \<longleftrightarrow> n_Name node \<noteq> [] \<and> \<not> IsControlPlane node \<and> (hasMachineAPI \<longrightarrow> GetMachineNamespaceName node = None)"

definition excludedNode :: "Node \<Rightarrow> bool" where
  "excludedNode node \<longleftrightarrow> lookup2 (n_Labels node) ExcludeFromRemediation = Some ''true''"

text \<open>A CR of the health check for a node.\<close>

definition createdFor :: "NodeHealthCheck \<Rightarrow> string \<Rightarrow> effect list \<Rightarrow> bool" where
  "createdFor nhc name es \<longleftrightarrow> (\<exists>cr. CreateCR cr \<in> set es \<and> IsOwner cr (NHC nhc) \<and> GetNodeNameFromCR cr = name)"

section \<open>Lemmas\<close>

subsection \<open>Weakest preconditions\<close>

lemma wpD:
  assumes "wp m Q (world s)" and "run_state m s = (a, s')"
  obtains es where "trace s' = trace s @ es" and "Q a (world s') es"
  using assms unfolding wp_def by blast

lemma wp_effects:
  assumes "wp m Q (world s)"
  shows "Q (fst (run_state m s)) (world (snd (run_state m s))) (effects_of m s)"
  by (rule wpD[OF assms, of "fst (run_state m s)" "snd (run_state m s)"]) (simp_all add: effects_of_def)

lemma wp_mono: "wp m Q w \<Longrightarrow> (\<And>a w' es. Q a w' es \<Longrightarrow> R a w' es) \<Longrightarrow> wp m R w"
  unfolding wp_def by blast

text \<open>What is known of every run may be added.\<close>

lemma wp_run:
  assumes "wp m Q w" and "\<And>s a s'. run_state m s = (a, s') \<Longrightarrow> P a"
  shows "wp m (\<lambda>a w' es. Q a w' es \<and> P a) w"
  using assms unfolding wp_def by blast

lemma wp_return [wp_intros]: "Q a w [] \<Longrightarrow> wp (State_Monad.return a) Q w"
  by (simp add: wp_def)

lemma wp_ask [wp_intros]: "answers f (\<lambda>a w'. Q a w' []) w \<Longrightarrow> wp (ask f) Q w"
  by (simp add: wp_def answers_def split: prod.splits)

lemma wp_emit [wp_intros]: "Q () w [e] \<Longrightarrow> wp (emit e) Q w"
  by (simp add: wp_def)

lemma wp_bind [wp_intros]:
  assumes "wp m (\<lambda>a w' es. wp (f a) (\<lambda>b w'' es'. Q b w'' (es @ es')) w') w"
  shows "wp (State_Monad.bind m f) Q w"
  unfolding wp_def
proof (intro allI impI)
  fix s b s2
  assume w: "world s = w" and run: "run_state (State_Monad.bind m f) s = (b, s2)"
  then obtain a s1 where run1: "run_state m s = (a, s1)" and run2: "run_state (f a) s1 = (b, s2)"
    by (simp split: prod.splits)
  obtain es where es: "trace s1 = trace s @ es" "wp (f a) (\<lambda>b w'' es'. Q b w'' (es @ es')) (world s1)"
    by (rule wpD[OF assms[folded w] run1])
  from es(2) run2 obtain es' where "trace s2 = trace s1 @ es'" "Q b (world s2) (es @ es')" by (rule wpD)
  with es(1) show "\<exists>es. trace s2 = trace s @ es \<and> Q b (world s2) es" by simp
qed

lemma wp_emits: "emits P m \<Longrightarrow> wp m (\<lambda>_ _ es. list_all P es) w"
  unfolding wp_def by (metis emitsD)

lemma wp_mutate [wp_intros]: "answers f (\<lambda>a w'. Q a w' [e]) w \<Longrightarrow> wp (mutate e f) Q w"
  unfolding mutate_def by (intro wp_intros) simp

lemma wp_NormalEvent [wp_intros]: "(\<And>e. is_note e \<Longrightarrow> Q () w [e]) \<Longrightarrow> wp (NormalEvent r m) Q w"
  unfolding NormalEvent_def by (intro wp_intros) simp

lemma wp_WarningEvent [wp_intros]: "(\<And>e. is_note e \<Longrightarrow> Q () w [e]) \<Longrightarrow> wp (WarningEvent r m) Q w"
  unfolding WarningEvent_def by (intro wp_intros) simp

lemma answers_mono: "answers f Q w \<Longrightarrow> (\<And>a w'. Q a w' \<Longrightarrow> R a w') \<Longrightarrow> answers f R w"
  by (auto simp: answers_def)

text \<open>A computation that keeps a property of the world, whatever it returns.\<close>

lemma wp_ask_keep:
  assumes "answers f (\<lambda>_. I) w" and "\<And>a w'. I w' \<Longrightarrow> Q a w' []"
  shows "wp (ask f) Q w"
  by (rule wp_ask, rule answers_mono[OF assms(1)]) (rule assms(2))

lemma wp_ask_mono: "answers f P w \<Longrightarrow> (\<And>a w'. P a w' \<Longrightarrow> Q a w' []) \<Longrightarrow> wp (ask f) Q w"
  by (rule wp_ask) (rule answers_mono)

lemma wp_mutate_mono: "answers f P w \<Longrightarrow> (\<And>a w'. P a w' \<Longrightarrow> Q a w' [e]) \<Longrightarrow> wp (mutate e f) Q w"
  by (rule wp_mutate) (rule answers_mono)

subsection \<open>What the server answers\<close>

lemma serving_valid: "serving c nhc nodes ref t t0 W \<Longrightarrow> validTemplate t"
  by (simp add: serving_def)

lemma serving_subset: "serving c nhc nodes ref t t0 W \<Longrightarrow> W ns w \<Longrightarrow> n \<in> ns \<Longrightarrow> n \<in> n_Name ` set nodes"
  unfolding serving_def by blast

lemma serving_answers:
  assumes "serving c nhc nodes ref t t0 W" and "W ns w"
  shows "answers (c_Now c) (\<lambda>now w'. W ns w' \<and> t0 \<le> now) w"
    and "answers (c_IsObjectNamespaced c (GenerateTemplate ref))
      (\<lambda>r w'. W ns w' \<and> (r = Inr False \<or> r = Inr True \<and> or_Namespace ref \<noteq> '''')) w"
    and "answers (c_Get c (GenerateTemplate ref)) (\<lambda>r w'. W ns w' \<and> r = Inr t) w"
    and "answers (c_List c g) (\<lambda>r w'. W ns w' \<and> (\<exists>items. r = Inr items \<and> list_all (settled nhc nodes t ns) items)) w"
    and "n \<in> ns \<Longrightarrow> answers (c_GetNode c n) (\<lambda>r w'. W ns w' \<and> (\<exists>node. r = Inr node \<and> unconfirmed n node)) w"
    and "n \<in> ns \<Longrightarrow> answers (c_GetLease c (generateLeaseName n)) (\<lambda>r w'. W ns w' \<and> (\<exists>msg. r = Inl (NotFound msg))) w"
    and "n \<in> ns \<Longrightarrow> answers (c_CreateLease c (generateLeaseName n) l) (\<lambda>r w'. W (ns - {n}) w' \<and> r = None) w"
    and "n \<in> n_Name ` set nodes \<Longrightarrow> u_Annotations cr = crAnnotations n (u_Name t) \<Longrightarrow>
      answers (c_Create c cr) (\<lambda>r w'. W (ns - {n}) w' \<and> (\<exists>x. r = Inr x)) w"
    and "settled nhc nodes t ns cr \<Longrightarrow> answers (c_Update c cr) (\<lambda>_. W ns) w"
    and "answers (c_ListNodes c (Selector (nhc_Spec nhc))) (\<lambda>r w'. W ns w' \<and> r = Inr nodes) w"
    and "answers (c_Watch c key) (\<lambda>r w'. W ns w' \<and> r = None) w"
    and "answers (c_GetNamespace c leaseNs) (\<lambda>r w'. W ns w' \<and> r = None) w"
  using assms unfolding serving_def by auto

lemmas wp_Now = wp_ask_mono[OF serving_answers(1)]
lemmas wp_IsObjectNamespaced = wp_ask_mono[OF serving_answers(2)]
lemmas wp_Get = wp_ask_mono[OF serving_answers(3)]
lemmas wp_List = wp_ask_mono[OF serving_answers(4)]
lemmas wp_GetNode = wp_ask_mono[OF serving_answers(5)]
lemmas wp_GetLease = wp_ask_mono[OF serving_answers(6)]
lemmas wp_CreateLease = wp_mutate_mono[OF serving_answers(7)]
lemmas wp_Create = wp_mutate_mono[OF serving_answers(8)]
lemmas wp_Update = wp_mutate_mono[OF serving_answers(9)]
lemmas wp_ListNodes = wp_ask_mono[OF serving_answers(10)]
lemmas wp_Watch = wp_mutate_mono[OF serving_answers(11)]
lemmas wp_GetNamespace = wp_ask_mono[OF serving_answers(12)]

lemma wp_getTemplate:
  assumes srv: "serving c nhc0 sel ref t t0 W" and W: "W ns w" and mgr: "mgr_Client mgr = c"
    and Q: "\<And>w'. W ns w' \<Longrightarrow> Q (Inr t) w' []"
  shows "wp (getTemplate mgr ref) Q w"
proof -
  have fetch: "wp (fetchTemplate mgr (GenerateTemplate ref)) (\<lambda>a w' es. a = Inr t \<and> W ns w' \<and> es = []) w'" if "W ns w'" for w'
    unfolding fetchTemplate_def mgr
    by (intro wp_bind, rule wp_Get[OF srv that]) (auto simp: serving_valid[OF srv] intro!: wp_return)
  have ns: "u_Namespace (GenerateTemplate ref) = or_Namespace ref" by (simp add: GenerateTemplate_def)
  show ?thesis
    unfolding getTemplate_def getTemplateWithFallbackNamespace_def Let_def mgr
    by (intro wp_bind, rule wp_IsObjectNamespaced[OF srv W]) (auto simp: ns intro!: wp_mono[OF fetch] Q)
qed

lemma wp_ObtainNodeLease:
  assumes srv: "serving c nhc0 sel ref t t0 W" and W: "W ns w" and n: "n \<in> ns"
    and Q: "\<And>w' e. W (ns - {n}) w' \<Longrightarrow> Q (Some cur, None) w' [e]"
  shows "wp (ObtainNodeLease c holder n cur) Q w"
proof -
  let ?got = "\<lambda>r w' es. r = None \<and> W (ns - {n}) w' \<and> (\<exists>e. es = [e])"
  have create: "wp (createLease c holder n d) ?got w'" if "W ns w'" for d w'
    unfolding createLease_def Let_def
    by (intro wp_bind, rule wp_Now[OF srv that], rule wp_CreateLease[OF srv]) (use n in auto)
  have request: "wp (requestLease c holder n d) ?got w'" if "W ns w'" for d w'
    unfolding requestLease_def by (intro wp_bind, rule wp_GetLease[OF srv that n]) (auto intro: create)
  then have request': "wp (requestLease c holder (n_Name node) d) ?got w'" if "n_Name node = n" "W ns w'" for node d w'
    using that by simp
  show ?thesis
    unfolding ObtainNodeLease_def
    by (intro wp_bind, rule wp_GetNode[OF srv W n]) (auto simp: unconfirmed_def intro!: wp_bind wp_mono[OF request'] wp_return Q)
qed

subsection \<open>Creating the CR\<close>

lemma wp_generateRemediationCR:
  assumes srv: "serving c nhc0 sel ref t t0 W" and W: "W ns w" and mgr: "mgr_Client mgr = c"
    and Q: "\<And>cr w'. W ns w' \<Longrightarrow> IsOwner cr owner \<Longrightarrow> GetNodeNameFromCR cr = n \<Longrightarrow> u_Annotations cr = crAnnotations n (u_Name t) \<Longrightarrow>
      Q cr w' []"
  shows "wp (generateRemediationCR mgr name n (Some (hcOwnerRef owner)) mref t) Q w"
proof -
  let ?m = "generateRemediationCR mgr name n (Some (hcOwnerRef owner)) mref t"
  have "wp ?m (\<lambda>cr w' es. W ns w' \<and> es = []) w"
    unfolding generateRemediationCR_def Let_def mgr by (intro wp_bind, rule wp_Now[OF srv W]) (auto intro!: wp_return)
  then have "wp ?m (\<lambda>cr w' es. (W ns w' \<and> es = []) \<and> IsOwner cr owner \<and> GetNodeNameFromCR cr = n \<and>
      u_Annotations cr = crAnnotations n (u_Name t)) w"
    by (rule wp_run) (simp add: generateRemediationCR_props)
  then show ?thesis by (rule wp_mono) (auto intro: Q)
qed

lemma wp_GenerateRemediationCRForNode:
  assumes srv: "serving c nhc0 sel ref t t0 W" and W: "W ns w" and mgr: "mgr_Client mgr = c"
    and plain: "plainNode (mgr_hasMachineAPI mgr) node"
    and Q: "\<And>cr w'. W ns w' \<Longrightarrow> IsOwner cr owner \<Longrightarrow> GetNodeNameFromCR cr = n_Name node \<Longrightarrow>
      u_Annotations cr = crAnnotations (n_Name node) (u_Name t) \<Longrightarrow> Q (Inr cr) w' []"
  shows "wp (GenerateRemediationCRForNode mgr node owner t) Q w"
proof -
  have none: "(if mgr_hasMachineAPI mgr then getOwningMachineWithNamespace mgr node else State_Monad.return (Inr None)) =
      State_Monad.return (Inr None)"
    using plain by (simp add: plainNode_def getOwningMachineWithNamespace_def)
  show ?thesis
    unfolding GenerateRemediationCRForNode_def none bindE_def
    by (simp, intro wp_bind wp_generateRemediationCR[OF srv W mgr] wp_return) (simp add: Q)
qed

lemma findExistingCR_none:
  assumes srv: "serving c nhc0 sel ref t t0 W" and W: "W ns w" and mgr: "mgr_Client mgr = c" and n: "n \<in> ns" "n \<noteq> []"
    and cr: "u_Annotations cr = crAnnotations n (u_Name t)"
  shows "wp (findExistingCR mgr cr) (\<lambda>r w' es. W ns w' \<and> es = [] \<and> (\<exists>msg. r = (Some cr, Some (NotFound msg)))) w"
proof -
  have "NodeNameAnnotation \<noteq> TemplateNameAnnotation"
    by (simp add: NodeNameAnnotation_def TemplateNameAnnotation_def)
  then have ann: "lookup1 (u_Annotations cr) NodeNameAnnotation = n" "lookup1 (u_Annotations cr) TemplateNameAnnotation = u_Name t"
    "\<not> Option.is_none (u_Annotations cr)"
    by (simp_all add: cr crAnnotations_def lookup1_def)
  have miss: "find (\<lambda>x. isMatchNodeTemplate x n (u_Name t)) items = None"
    if "list_all (settled nhc0 sel t ns) items" for items
    using that n(1) by (auto simp: find_None_iff list_all_iff settled_def)
  have eq: "findExistingCR mgr cr = getCRWithNodeNameAnnotation mgr cr" using n(2) ann by (simp add: findExistingCR_def)
  show ?thesis
    unfolding eq getCRWithNodeNameAnnotation_def Let_def mgr ann
    by (rule wp_bind, rule wp_List[OF srv W]) (auto simp: miss intro!: wp_return)
qed

lemma wp_CreateRemediationCR:
  assumes srv: "serving c nhc0 sel ref t t0 W" and W: "W ns w" and mgr: "mgr = NewManager c delay hm (nhcLeaseManager c holder)"
    and n: "n \<in> ns" "n \<noteq> []" and cr: "u_Annotations cr = crAnnotations n (u_Name t)"
    and Q: "\<And>x w' e. W (ns - {n}) w' \<Longrightarrow> Q (True, Some cur, Some x, None) w' [e, CreateCR cr]"
  shows "wp (CreateRemediationCR mgr cr owner (Some n) cur prev) Q w"
proof -
  have client: "mgr_Client mgr = c" "lm_ObtainNodeLease (mgr_leaseManager mgr) = ObtainNodeLease c holder"
    by (simp_all add: mgr NewManager_def nhcLeaseManager_def)
  have new: "wp (createNewCR mgr (Some cr) (Some cur)) (\<lambda>r w' es. \<exists>x. r = (True, Some cur, Some x, None) \<and> W (ns - {n}) w' \<and> es = [CreateCR cr]) w'"
    if "W (ns - {n}) w'" for w'
    unfolding createNewCR_def client
    by (simp, intro wp_bind, rule wp_Create[OF srv that serving_subset[OF srv W n(1)] cr]) (auto intro!: wp_return)
  show ?thesis
    unfolding CreateRemediationCR_def client
    by (intro wp_bind wp_mono[OF findExistingCR_none[OF srv W client(1) n cr]])
      (auto intro!: wp_bind wp_ObtainNodeLease[OF srv _ n(1)] wp_mono[OF new] Q)
qed

subsection \<open>One node\<close>

lemma wp_handleCR_created:
  assumes Q: "\<And>d es. Q (Inr d, UpdateStatusRemediationStarted node nhc x) w es"
  shows "wp (handleCR c rm node nhc t timeout (True, d, Some x, None)) Q w"
  unfolding handleCR_def ObserveNodeHealthCheckRemediationCreated_def Let_def by (auto intro!: wp_intros Q)

lemma wp_startRemediation:
  assumes srv: "serving c nhc0 sel ref t t0 W" and W: "W ns w" and mgr: "mgr = NewManager c delay hm (nhcLeaseManager c holder)"
    and node: "n_Name node \<in> ns" "plainNode hm node"
  shows "wp (startRemediation c (as_Manager mgr) node nhc t timeout)
    (\<lambda>r w' es. W (ns - {n_Name node}) w' \<and> createdFor nhc (n_Name node) es \<and>
      (\<exists>d x. r = (Inr d, UpdateStatusRemediationStarted node nhc x))) w"
proof -
  have client: "mgr_Client mgr = c" and plain: "plainNode (mgr_hasMachineAPI mgr) node"
    and name: "n_Name node \<noteq> []" and label: "labelControlPlane (IsControlPlane node) cr = Inr cr" for cr
    using node(2) by (simp_all add: mgr NewManager_def plainNode_def labelControlPlane_def)
  have create: "wp (CreateRemediationCR mgr cr (NHC nhc) (Some (n_Name node)) cur prev \<bind> handleCR c (as_Manager mgr) node nhc t timeout)
      (\<lambda>r w' es. W (ns - {n_Name node}) w' \<and> createdFor nhc (n_Name node) es \<and>
        (\<exists>d x. r = (Inr d, UpdateStatusRemediationStarted node nhc x))) w'"
    if "W ns w'" "IsOwner cr (NHC nhc)" "GetNodeNameFromCR cr = n_Name node" "u_Annotations cr = crAnnotations (n_Name node) (u_Name t)"
    for cr cur prev w'
    by (intro wp_bind wp_CreateRemediationCR[OF srv that(1) mgr node(1) name that(4)] wp_handleCR_created)
      (use that in \<open>auto simp: createdFor_def\<close>)
  show ?thesis
    unfolding startRemediation_def as_Manager_simps
    by (intro wp_bind wp_GenerateRemediationCRForNode[OF srv W client plain]) (auto simp: label intro: create split: prod.split)
qed

lemma wp_remediate:
  assumes srv: "serving c nhc0 sel ref t t0 W" and W: "W ns w" and mgr: "mgr = NewManager c delay hm (nhcLeaseManager c holder)"
    and node: "n_Name node \<in> ns" "plainNode hm node" and ref: "RemediationTemplate (nhc_Spec nhc) = Some ref" and r: "r_Client r = c"
  shows "wp (remediate r (as_Manager mgr) node nhc)
    (\<lambda>r w' es. W (ns - {n_Name node}) w' \<and> createdFor nhc (n_Name node) es \<and>
      (\<exists>d x. r = (Inr d, UpdateStatusRemediationStarted node nhc x))) w"
proof -
  have client: "mgr_Client mgr = c" by (simp add: mgr NewManager_def)
  have current: "wp (tryCurrentTemplate c (as_Manager mgr) node nhc)
    (\<lambda>r w' es. W (ns - {n_Name node}) w' \<and> createdFor nhc (n_Name node) es \<and>
      (\<exists>d x. r = (Inr d, UpdateStatusRemediationStarted node nhc x))) w"
    unfolding tryCurrentTemplate_def as_Manager_simps GetCurrentTemplateWithTimeout_def ref
    by (simp, intro wp_bind wp_getTemplate[OF srv W client] wp_return)
      (simp add: wp_startRemediation[OF srv _ mgr node])
  have "\<not> IsControlPlane node" using node(2) by (simp add: plainNode_def)
  with current r show ?thesis by (simp add: remediate_def)
qed

subsection \<open>Old CRs\<close>

lemma wp_ListRemediationCRs:
  assumes srv: "serving c nhc0 sel ref t t0 W" and W: "W ns w" and mgr: "mgr_Client mgr = c"
  shows "wp (ListRemediationCRs mgr ts f)
    (\<lambda>r w' es. W ns w' \<and> (None \<notin> set ts \<longrightarrow> (\<exists>crs. r = Inr crs)) \<and> (\<forall>crs. r = Inr crs \<longrightarrow>
      (\<forall>cr\<in>set crs. f cr \<and> settled nhc0 sel t ns cr \<and> (\<exists>name. isMatchNodeTemplate cr (GetNodeNameFromCR cr) name)))) w"
proof -
  have all: "wp (listAllCRs mgr ts)
      (\<lambda>r w' es. W ns w' \<and> (None \<notin> set ts \<longrightarrow> (\<exists>crs. r = Inr crs)) \<and> (\<forall>crs. r = Inr crs \<longrightarrow>
        (\<forall>cr\<in>set crs. settled nhc0 sel t ns cr \<and> (\<exists>name. isMatchNodeTemplate cr (GetNodeNameFromCR cr) name)))) w"
    using W
  proof (induction ts arbitrary: w)
    case (Cons x ts)
    show ?case
    proof (cases x)
      case (Some ref')
      then show ?thesis
        by (simp add: Let_def mgr bindE_def, intro wp_bind wp_List[OF srv Cons.prems])
          (clarsimp, rule wp_bind, rule wp_mono[OF Cons.IH], auto simp: list_all_iff intro!: wp_return split: sum.split)
    qed (use Cons.prems in \<open>auto intro: wp_return\<close>)
  qed (auto intro: wp_return)
  show ?thesis
    unfolding ListRemediationCRs_def bindE_def
    by (intro wp_bind, rule wp_mono[OF all]) (auto intro!: wp_return split: sum.split)
qed

text \<open>The flag of an old CR changes neither its node nor what it matches.\<close>

lemma flagged:
  fixes cr v
  defines "cr' \<equiv> cr\<lparr>u_Annotations := Some ((case u_Annotations cr of None \<Rightarrow> Map.empty | Some a \<Rightarrow> a)(oldRemediationCRAnnotationKey \<mapsto> v))\<rparr>"
  shows "GetNodeNameFromCR cr' = GetNodeNameFromCR cr" "IsOwner cr' owner = IsOwner cr owner"
    and "isMatchNodeTemplate cr (GetNodeNameFromCR cr) name \<Longrightarrow> n \<noteq> GetNodeNameFromCR cr \<Longrightarrow> \<not> isMatchNodeTemplate cr' n name'"
proof -
  have keys: "oldRemediationCRAnnotationKey \<noteq> TemplateNameAnnotation" "oldRemediationCRAnnotationKey \<noteq> NodeNameAnnotation"
    by (simp_all add: oldRemediationCRAnnotationKey_def NodeNameAnnotation_def TemplateNameAnnotation_def)
  then show "GetNodeNameFromCR cr' = GetNodeNameFromCR cr" "IsOwner cr' owner = IsOwner cr owner"
    by (auto simp: cr'_def GetNodeNameFromCR_def IsOwner_def split: option.splits)
  show "\<not> isMatchNodeTemplate cr' n name'" if "isMatchNodeTemplate cr (GetNodeNameFromCR cr) name" "n \<noteq> GetNodeNameFromCR cr"
    using keys that by (auto simp: cr'_def isMatchNodeTemplate_def lookup1_def split: option.splits if_splits)
qed

lemma wp_alertOldCRs:
  assumes srv: "serving c nhc0 sel ref t t0 W" and W: "W ns w"
    and "\<forall>cr\<in>set crs. GetNodeNameFromCR cr \<notin> ns \<and> settled nhc0 sel t ns cr \<and> (\<exists>name. isMatchNodeTemplate cr (GetNodeNameFromCR cr) name)"
  shows "wp (alertOldCRs c nodeName result crs) (\<lambda>_ w' _. W ns w') w"
  using W assms(3)
proof (induction crs arbitrary: w result)
  case (Cons cr crs)
  let ?cr = "cr\<lparr>u_Annotations := Some ((case u_Annotations cr of None \<Rightarrow> Map.empty | Some a \<Rightarrow> a)
      (oldRemediationCRAnnotationKey \<mapsto> ''flagon''))\<rparr>"
  from Cons.prems(2) obtain name where cr: "isMatchNodeTemplate cr (GetNodeNameFromCR cr) name" "GetNodeNameFromCR cr \<notin> ns" "settled nhc0 sel t ns cr"
    by auto
  have "\<not> isMatchNodeTemplate ?cr n (u_Name t)" if "n \<in> ns" for n
    using that cr(2) by (intro flagged(3)[OF cr(1)]) auto
  with cr(3) have settled: "settled nhc0 sel t ns ?cr" by (auto simp: settled_def flagged)
  have alert: "wp (alertOldRemediationCR c cr) (\<lambda>_ w' _. W ns w') w"
    unfolding alertOldRemediationCR_def Let_def
    by (intro wp_bind, rule wp_Now[OF srv Cons.prems(1)], intro wp_bind, rule wp_Now[OF srv])
      (auto simp: settled intro!: wp_bind wp_return wp_Update[OF srv])
  show ?case
    by (simp, intro wp_bind wp_mono[OF alert])
      (use Cons in \<open>auto intro!: wp_intros simp: ObserveNodeHealthCheckOldRemediationCR_def\<close>)
qed (auto intro: wp_return)

subsection \<open>All nodes\<close>

lemma createdFor_append [simp]: "createdFor nhc n (es @ es') \<longleftrightarrow> createdFor nhc n es \<or> createdFor nhc n es'"
  by (auto simp: createdFor_def)

lemma createdFor_note [simp]: "is_note e \<Longrightarrow> createdFor nhc n (e # es) = createdFor nhc n es"
  by (auto simp: createdFor_def)

lemma createdFor_same: "same_owner (NHC a) (NHC b) \<Longrightarrow> createdFor a n es = createdFor b n es"
  by (simp add: createdFor_def IsOwner_same[of "NHC a" "NHC b"])

lemma wp_isNodeRemediationExcluded:
  "(\<And>es. Q (excludedNode node) w es) \<Longrightarrow> wp (isNodeRemediationExcluded node) Q w"
  unfolding isNodeRemediationExcluded_def excludedNode_def by (auto intro!: wp_intros split: option.split)

lemma wp_remediateNodes:
  assumes srv: "serving c nhc0 sel ref t t0 W" and W: "W ns w" and mgr: "mgr = NewManager c delay hm (nhcLeaseManager c holder)"
    and nodes: "n_Name ` set nodes \<subseteq> ns" "distinct (map n_Name nodes)" "\<forall>node\<in>set nodes. plainNode hm node"
    and nhc: "RemediationTemplate (nhc_Spec nhc) = Some ref" "same_owner (NHC nhc) (NHC nhc0)" and r: "r_Client r = c"
  shows "wp (remediateNodes r (as_Manager mgr) False result nhc nodes)
    (\<lambda>out w' es. fst (snd out) = None \<and> (\<forall>node\<in>set nodes. \<not> excludedNode node \<longrightarrow> createdFor nhc0 (n_Name node) es)) w"
  using W nodes nhc
proof (induction nodes arbitrary: w ns nhc result)
  case (Cons node nodes)
  let ?n = "n_Name node" and ?nhc1 = "UpdateStatusNodeUnhealthy node nhc"
  let ?Q = "\<lambda>out w' es. fst (snd out) = None \<and> (\<forall>node\<in>set nodes. \<not> excludedNode node \<longrightarrow> createdFor nhc0 (n_Name node) es)"
  have client: "mgr_Client mgr = c" by (simp add: mgr NewManager_def)
  have nhc1: "RemediationTemplate (nhc_Spec ?nhc1) = Some ref" "same_owner (NHC ?nhc1) (NHC nhc0)"
    using Cons.prems(5,6) by (simp_all add: UpdateStatusNodeUnhealthy_def same_owner_def)
  have started: "nhc_Spec (UpdateStatusRemediationStarted node b x) = nhc_Spec b"
      "same_owner (NHC (UpdateStatusRemediationStarted node b x)) (NHC b)" for b x
    by (simp_all add: UpdateStatusRemediationStarted_def same_owner_def)
  have rest: "wp (remediateNodes r (as_Manager mgr) False result' nhc' nodes) ?Q w'"
    if "W (ns - {?n}) w'" "nhc_Spec nhc' = nhc_Spec ?nhc1" "same_owner (NHC nhc') (NHC ?nhc1)" for result' nhc' w'
  proof (rule Cons.IH)
    show "n_Name ` set nodes \<subseteq> ns - {?n}" using Cons.prems(2,3) by (auto simp: image_iff)
  qed (use that Cons.prems nhc1 in \<open>simp_all add: same_owner_def\<close>)
  have skip: "wp (remediateNodes r (as_Manager mgr) False result' ?nhc1 nodes) ?Q w'" if "W ns w'" for result' w'
    using that Cons.prems nhc1 by (intro Cons.IH[of ns]) auto
  have plain: "?n \<in> ns" "plainNode hm node" using Cons.prems(2,4) by auto
  have after: "wp (do {
        l \<leftarrow> ListRemediationCRs mgr (GetAllRemediationTemplates (NHC nhc')) (\<lambda>cr. GetNodeNameFromCR cr = ?n \<and> IsOwner cr (NHC nhc'));
        result' \<leftarrow> alertOldCRs c ?n result1 (case l of Inl e \<Rightarrow> [] | Inr crs \<Rightarrow> crs);
        remediateNodes r (as_Manager mgr) False result' nhc' nodes
      }) ?Q w'"
    if "W (ns - {?n}) w'" "nhc_Spec nhc' = nhc_Spec ?nhc1" "same_owner (NHC nhc') (NHC ?nhc1)" for result1 nhc' w'
    by (intro wp_bind, rule wp_mono[OF wp_ListRemediationCRs[OF srv that(1) client]], intro wp_bind,
        rule wp_mono[OF wp_alertOldCRs[OF srv]]) (use that in \<open>auto intro: wp_mono[OF rest] split: sum.split\<close>)
  have turn: "wp (remediate r (as_Manager mgr) node ?nhc1 \<bind> (\<lambda>(res, nhc2). case res of
        Inl e \<Rightarrow> State_Monad.return (result, Some e, nhc2)
      | Inr requeueAfter \<Rightarrow> do {
          l \<leftarrow> rm_ListRemediationCRs (as_Manager mgr) (GetAllRemediationTemplates (NHC nhc2)) (\<lambda>cr. GetNodeNameFromCR cr = ?n \<and> IsOwner cr (NHC nhc2));
          result' \<leftarrow> alertOldCRs (r_Client r) ?n (updateRequeueAfter result requeueAfter) (case l of Inl e \<Rightarrow> [] | Inr crs \<Rightarrow> crs);
          remediateNodes r (as_Manager mgr) False result' nhc2 nodes
        })) (\<lambda>out w' es. createdFor nhc0 ?n es \<and> ?Q out w' es) w"
    by (intro wp_bind wp_mono[OF wp_remediate[OF srv Cons.prems(1) mgr plain nhc1(1) r]])
      (auto simp: r createdFor_same[OF nhc1(2)] started simp del: GetAllRemediationTemplates.simps intro!: wp_mono[OF after])
  show ?case
    by (simp add: Let_def, intro wp_bind wp_isNodeRemediationExcluded, cases "excludedNode node")
      (auto intro!: wp_bind wp_WarningEvent wp_mono[OF skip[OF Cons.prems(1)]] wp_mono[OF turn])
qed (auto intro: wp_return)

lemma wp_remediateUnhealthy:
  assumes srv: "serving c nhc0 sel ref t t0 W" and W: "W ns w" and mgr: "mgr = NewManager c delay hm (nhcLeaseManager c holder)"
    and nodes: "n_Name ` set nodes \<subseteq> ns" "distinct (map n_Name nodes)" "\<forall>node\<in>set nodes. plainNode hm node"
    and nhc: "RemediationTemplate (nhc_Spec nhc) = Some ref" "same_owner (NHC nhc) (NHC nhc0)" and r: "r_Client r = c"
    and gate: "getMinHealthy (nhc_Spec nhc) selected = Inr minHealthy" "minHealthy \<le> healthyCount"
    and storm: "StormCooldownDuration (nhc_Spec nhc) = None \<or> \<not> IsConditionTrue (Conditions (nhc_Status nhc)) ConditionTypeStormActive"
  shows "wp (remediateUnhealthy r (as_Manager mgr) result nhc selected healthyCount nodes)
    (\<lambda>out w' es. fst (snd out) = None \<and> (\<forall>node\<in>set nodes. \<not> excludedNode node \<longrightarrow> createdFor nhc0 (n_Name node) es)) w"
proof -
  have calm: "evaluateStormRecovery (r_Client r) nhc False = State_Monad.return ((False, None), nhc)"
    using storm by (auto simp: evaluateStormRecovery_def Let_def)
  from gate(2) have enough: "\<not> healthyCount < minHealthy" by simp
  show ?thesis
    unfolding remediateUnhealthy_def gate(1) Let_def
    using wp_remediateNodes[OF srv W mgr nodes nhc r] by (simp add: enough calm)
qed

end
