(* ===== verification/Reconcile_Progress.thy ===== *)
theory Reconcile_Progress
  imports Progress
begin

text \<open>
  A whole reconcile makes progress: from the request to the remediation CRs. The theory follows
  \<open>Reconcile\<close> phase by phase with the weakest preconditions and the server of \<open>Progress\<close>: the templates are valid, the
  health check is enabled, watches are added, the nodes are classified, no CR is orphaned, the healthy
  nodes are counted, and the unhealthy nodes are remediated.
\<close>

section \<open>Definitions\<close>

text \<open>A node with none of the unhealthy conditions, whatever the time: it is counted as healthy.\<close>

definition quietNode :: "NodeHealthCheck \<Rightarrow> Node \<Rightarrow> bool" where
  "quietNode nhc node \<longleftrightarrow>
     list_all (\<lambda>uc. case nodeConditionByType (n_Conditions node) (uc_Type uc) of
         None \<Rightarrow> True | Some nc \<Rightarrow> nc_Status nc \<noteq> uc_Status uc)
       (UnhealthyConditions (nhc_Spec nhc))"

text \<open>The same health check in memory, up to the unhealthy nodes and counters of its status.\<close>

definition agrees :: "NodeHealthCheck \<Rightarrow> NodeHealthCheck \<Rightarrow> bool" where
  "agrees a b \<longleftrightarrow> nhc_Spec a = nhc_Spec b \<and> same_owner (NHC a) (NHC b) \<and>
     IsConditionTrue (Conditions (nhc_Status a)) ConditionTypeStormActive =
       IsConditionTrue (Conditions (nhc_Status b)) ConditionTypeStormActive"

text \<open>
  A health check that may remediate: one template, no pause request, enough nodes without unhealthy
  condition, no active storm, and nodes that need no further permission.
\<close>

definition remediable :: "bool \<Rightarrow> Node list \<Rightarrow> ObjectReference \<Rightarrow> NodeHealthCheck \<Rightarrow> bool" where
  "remediable hasMachineAPI nodes ref nhc \<longleftrightarrow>
     RemediationTemplate (nhc_Spec nhc) = Some ref \<and> PauseRequests (nhc_Spec nhc) = [] \<and> distinct (map n_Name nodes) \<and>
     (\<forall>node\<in>set nodes. \<not> quietNode nhc node \<longrightarrow> plainNode hasMachineAPI node) \<and>
     (case getMinHealthy (nhc_Spec nhc) (int (length nodes)) of
        Inl e \<Rightarrow> False | Inr minHealthy \<Rightarrow> minHealthy \<le> int (length (filter (quietNode nhc) nodes))) \<and>
     (StormCooldownDuration (nhc_Spec nhc) = None \<or> \<not> IsConditionTrue (Conditions (nhc_Status nhc)) ConditionTypeStormActive)"

text \<open>What is known of the classes of the nodes.\<close>

definition classified :: "NodeHealthCheck \<Rightarrow> time \<Rightarrow> Node list \<Rightarrow> nodeClasses \<Rightarrow> bool" where
  "classified nhc t0 nodes = (\<lambda>(notM, soon, mat, q).
     set notM \<union> set soon \<union> set mat = set nodes \<and> distinct (map n_Name mat) \<and>
     (\<forall>node\<in>set mat. \<not> quietNode nhc node) \<and> (\<forall>node\<in>set nodes. unhealthyAt nhc t0 node \<longrightarrow> node \<in> set mat) \<and>
     length (filter (quietNode nhc) nodes) \<le> length notM)"

section \<open>Lemmas\<close>

lemma agrees_refl [simp]: "agrees a a"
  by (simp add: agrees_def same_owner_def)

lemma agrees_trans: "agrees a b \<Longrightarrow> agrees b c \<Longrightarrow> agrees a c"
  by (simp add: agrees_def same_owner_def)

subsection \<open>Classifying the nodes\<close>

lemma expiredCondition_mono: "expiredCondition m t0 uc \<Longrightarrow> t0 \<le> now \<Longrightarrow> expiredCondition m now uc"
  by (auto simp: expiredCondition_def time_After_def split: option.splits)

lemma wp_matchConditions:
  assumes srv: "serving c nhc0 sel ref t t0 W" and W: "W ns w"
  shows "wp (matchConditions c ncs remediating n x ucs) (\<lambda>r w' es. W ns w' \<and>
    (list_ex (expiredCondition ncs t0) ucs \<longrightarrow> fst r) \<and>
    (list_all (\<lambda>uc. case ncs (uc_Type uc) of None \<Rightarrow> True | Some nc \<Rightarrow> nc_Status nc \<noteq> uc_Status uc) ucs \<longrightarrow> r = (False, x))) w"
  using W
proof (induction ucs arbitrary: x w remediating)
  case (Cons uc ucs)
  show ?case
  proof (cases "ncs (uc_Type uc)")
    case None
    then have "\<not> expiredCondition ncs t0 uc" by (simp add: expiredCondition_def)
    with None show ?thesis by (auto intro!: wp_mono[OF Cons.IH] Cons.prems)
  next
    case (Some nc)
    show ?thesis
    proof (cases "nc_Status nc = uc_Status uc")
      case False
      with Some have "\<not> expiredCondition ncs t0 uc" by (simp add: expiredCondition_def)
      with False Some show ?thesis by (auto intro!: wp_mono[OF Cons.IH] Cons.prems)
    next
      case True
      have late: "time_After now (time_Add (nc_LastTransitionTime nc) (uc_Duration uc))"
        if "expiredCondition ncs t0 uc" "t0 \<le> now" for now
        using expiredCondition_mono[OF that] Some by (simp add: expiredCondition_def)
      show ?thesis using Some True
        by (simp add: Let_def split del: if_split, intro wp_bind wp_Now[OF srv Cons.prems])
          (auto intro!: wp_intros wp_mono[OF Cons.IH] dest: late)
    qed
  qed
qed (auto intro: wp_return)

lemma wp_matchesUnhealthyConditions:
  assumes "serving c nhc0 sel ref t t0 W" and "W ns w"
  shows "wp (matchesUnhealthyConditions c nhc node) (\<lambda>r w' es. W ns w' \<and> (unhealthyAt nhc t0 node \<longrightarrow> fst r) \<and>
    (quietNode nhc node \<longrightarrow> r = (False, None))) w"
  unfolding matchesUnhealthyConditions_def unhealthyAt_def quietNode_def by (rule wp_matchConditions[OF assms])

lemma wp_mhcChecker: "Q (r_MHCChecker r w) w [] \<Longrightarrow> wp (mhcChecker r) Q w"
  unfolding mhcChecker_def by (intro wp_intros) (simp add: answers_def)

text \<open>Nodes that are unhealthy already match, and nodes without unhealthy condition do not.\<close>

lemma wp_classifyNodes:
  assumes srv: "serving c nhc0 sel ref t t0 W" and W: "W ns w" and r: "r_Client r = c"
    and chk: "\<And>w node. node \<in> set nodes \<Longrightarrow> \<not> NeedIgnoreNode (r_MHCChecker r w) node"
  shows "wp (classifyNodes r nhc (a, b, m, q) nodes) (\<lambda>(a', b', m', q') w' es. W ns w' \<and> set a \<subseteq> set a' \<and> set m \<subseteq> set m' \<and>
    (\<forall>node\<in>set nodes. (unhealthyAt nhc t0 node \<longrightarrow> node \<in> set m') \<and> (quietNode nhc node \<longrightarrow> node \<in> set a'))) w"
  using W chk
proof (induction nodes arbitrary: a b m q w)
  case (Cons node nodes)
  have rest: "wp (classifyNodes r nhc (a1, b1, m1, q1) nodes) (\<lambda>(a', b', m', q') w' es. W ns w' \<and> set a \<subseteq> set a' \<and> set m \<subseteq> set m' \<and>
      (\<forall>x\<in>set (node # nodes). (unhealthyAt nhc t0 x \<longrightarrow> x \<in> set m') \<and> (quietNode nhc x \<longrightarrow> x \<in> set a'))) w'"
    if "W ns w'" "set a \<subseteq> set a1" "set m \<subseteq> set m1" "unhealthyAt nhc t0 node \<longrightarrow> node \<in> set m1" "quietNode nhc node \<longrightarrow> node \<in> set a1"
    for a1 b1 m1 q1 w'
    by (rule wp_mono[OF Cons.IH]) (use that Cons.prems(2) in auto)
  show ?case
    by (simp add: r, intro wp_bind wp_mono[OF wp_matchesUnhealthyConditions[OF srv Cons.prems(1)]])
      (auto intro!: wp_bind wp_mhcChecker wp_mono[OF rest] simp: Cons.prems(2) split: option.split)
qed (auto intro: wp_return)

lemma classified_intro:
  assumes part: "mset notM + mset soon + mset mat = mset nodes" and dist: "distinct (map n_Name nodes)"
    and cl: "\<forall>node\<in>set nodes. (unhealthyAt nhc t0 node \<longrightarrow> node \<in> set mat) \<and> (quietNode nhc node \<longrightarrow> node \<in> set notM)"
  shows "classified nhc t0 nodes (notM, soon, mat, q)"
proof -
  have perm: "mset (notM @ soon @ mat) = mset nodes" using part by (simp add: add.assoc)
  then have "mset (map n_Name (notM @ soon @ mat)) = mset (map n_Name nodes)" by (metis mset_map)
  with dist have d: "distinct (map n_Name (notM @ soon @ mat))" by (metis mset_eq_imp_distinct_iff)
  have sets: "set notM \<union> set soon \<union> set mat = set nodes" using mset_eq_setD[OF perm] by auto
  have "distinct nodes" "distinct notM" using dist d by (auto simp: distinct_map)
  moreover have "set (filter (quietNode nhc) nodes) \<subseteq> set notM" using cl by auto
  ultimately have "length (filter (quietNode nhc) nodes) \<le> length notM"
    by (metis List.finite_set card_mono distinct_card distinct_filter)
  moreover have "\<not> quietNode nhc node" if "node \<in> set mat" for node
    using that d cl sets by (auto simp: disjoint_iff) blast
  ultimately show ?thesis using sets d cl by (auto simp: classified_def)
qed

lemma wp_checkNodeConditions:
  assumes srv: "serving c nhc0 sel ref t t0 W" and W: "W ns w" and r: "r_Client r = c"
    and chk: "\<And>w node. node \<in> set nodes \<Longrightarrow> \<not> NeedIgnoreNode (r_MHCChecker r w) node" and dist: "distinct (map n_Name nodes)"
  shows "wp (checkNodeConditions r nodes nhc) (\<lambda>classes w' es. W ns w' \<and> classified nhc t0 nodes classes) w"
proof -
  have "wp (checkNodeConditions r nodes nhc) (\<lambda>classes w' es. case classes of (a, b, m, q) \<Rightarrow> W ns w' \<and>
      (\<forall>node\<in>set nodes. (unhealthyAt nhc t0 node \<longrightarrow> node \<in> set m) \<and> (quietNode nhc node \<longrightarrow> node \<in> set a))) w"
    unfolding checkNodeConditions_def by (rule wp_mono[OF wp_classifyNodes[OF srv W r chk]]) auto
  moreover have "case classes of (a, b, m, q) \<Rightarrow> mset a + mset b + mset m = mset nodes"
    if "run_state (checkNodeConditions r nodes nhc) s = (classes, s')" for s classes s'
    using that classifyNodes_mset[of r nhc "[]" "[]" "[]" None nodes s] by (auto simp: checkNodeConditions_def split: prod.splits)
  ultimately have "wp (checkNodeConditions r nodes nhc) (\<lambda>classes w' es. (case classes of (a, b, m, q) \<Rightarrow> W ns w' \<and>
      (\<forall>node\<in>set nodes. (unhealthyAt nhc t0 node \<longrightarrow> node \<in> set m) \<and> (quietNode nhc node \<longrightarrow> node \<in> set a))) \<and>
      (case classes of (a, b, m, q) \<Rightarrow> mset a + mset b + mset m = mset nodes)) w"
    by (rule wp_run)
  then show ?thesis by (rule wp_mono) (auto intro: classified_intro dist)
qed

subsection \<open>Before the remediation\<close>

lemma wp_observeDeleted:
  assumes srv: "serving c nhc0 sel ref t t0 W" and W: "W ns w"
  shows "wp (observeDeleted c n rems) (\<lambda>_ w' es. W ns w') w"
  using W
proof (induction rems arbitrary: w)
  case (Cons rem rems)
  show ?case
    by (simp add: ObserveNodeHealthCheckRemediationDeleted_def ObserveNodeHealthCheckUnhealthyNodeDuration_def,
        intro wp_bind wp_Now[OF srv Cons.prems])
      (auto intro!: wp_intros wp_mono[OF Cons.IH])
qed (auto intro: wp_return)

lemma wp_UpdateStatusNodeHealthy:
  assumes srv: "serving c nhc0 sel ref t t0 W" and W: "W ns w"
  shows "wp (UpdateStatusNodeHealthy c n nhc) (\<lambda>nhc' w' es. W ns w' \<and> agrees nhc' nhc) w"
  unfolding UpdateStatusNodeHealthy_def using W
  by (auto intro!: wp_bind wp_return wp_mono[OF wp_observeDeleted[OF srv]] simp: agrees_def same_owner_def split: option.split)

lemma wp_InvalidateLease:
  assumes srv: "serving c nhc0 sel ref t t0 W" and W: "W ns w" and n: "n \<in> ns"
  shows "wp (InvalidateLease c holder n) (\<lambda>r w' es. W ns w' \<and> r = None) w"
  unfolding InvalidateLease_def invalidateLease_def
  by (intro wp_bind wp_GetLease[OF srv W n]) (auto intro!: wp_return)

lemma wp_CleanUp:
  assumes srv: "serving c nhc0 sel ref t t0 W" and W: "W ns w" and n: "n \<in> ns"
    and mgr: "mgr = NewManager c delay hm (nhcLeaseManager c holder)"
  shows "wp (CleanUp mgr n False) (\<lambda>r w' es. W ns w' \<and> r = None) w"
  unfolding CleanUp_def using W
  by (auto intro!: wp_mono[OF wp_InvalidateLease[OF srv _ n]] simp: mgr nhcLeaseManager_def)

text \<open>The CRs of a health check, as long as no selected node was dealt with: there are none.\<close>

lemma wp_no_owned_CRs:
  assumes srv: "serving c nhc0 sel ref t t0 W" and W: "W (n_Name ` set sel) w" and mgr: "mgr_Client mgr = c"
    and nhc: "agrees nhc nhc0" "RemediationTemplate (nhc_Spec nhc0) = Some ref" and f: "\<And>cr. f cr \<Longrightarrow> IsOwner cr (NHC nhc)"
  shows "wp (ListRemediationCRs mgr (GetAllRemediationTemplates (NHC nhc)) f) (\<lambda>r w' es. W (n_Name ` set sel) w' \<and> r = Inr []) w"
proof -
  have "GetAllRemediationTemplates (NHC nhc) = [Some ref]" using nhc by (simp add: agrees_def)
  moreover have "\<not> f cr" if "settled nhc0 sel t (n_Name ` set sel) cr" for cr
    using that f[of cr] nhc(1) IsOwner_same[of "NHC nhc" "NHC nhc0" cr] by (auto simp: settled_def agrees_def)
  ultimately show ?thesis
    using wp_ListRemediationCRs[OF srv W mgr, of "[Some ref]" f] by (auto elim!: wp_mono) (metis last_in_set)
qed

lemma wp_HandleHealthyNode:
  assumes srv: "serving c nhc0 sel ref t t0 W" and W: "W (n_Name ` set sel) w" and n: "n \<in> n_Name ` set sel"
    and mgr: "mgr = NewManager c delay hm (nhcLeaseManager c holder)"
    and nhc: "agrees nhc nhc0" "RemediationTemplate (nhc_Spec nhc0) = Some ref"
  shows "wp (HandleHealthyNode mgr n crName (NHC nhc)) (\<lambda>r w' es. W (n_Name ` set sel) w' \<and> r = (Inr ([], None), NHC nhc)) w"
proof -
  have client: "mgr_Client mgr = c" by (simp add: mgr)
  have confirmed: "wp (isManuallyConfirmedHealthyAnnotationSet mgr n) (\<lambda>r w' es. W (n_Name ` set sel) w' \<and> r = Inr False) w'"
    if "W (n_Name ` set sel) w'" for w'
    unfolding isManuallyConfirmedHealthyAnnotationSet_def client bindE_def
    by (intro wp_bind wp_GetNode[OF srv that n]) (auto simp: unconfirmed_def intro!: wp_return)
  show ?thesis
    unfolding HandleHealthyNode_def
    by (intro wp_bind wp_mono[OF wp_no_owned_CRs[OF srv W client nhc]])
      (auto simp: healthyCRFilter_def intro!: wp_bind wp_mono[OF confirmed] wp_mono[OF wp_CleanUp[OF srv _ n mgr]] wp_return)
qed

lemma wp_handleHealthyNodes:
  assumes srv: "serving c nhc0 sel ref t t0 W" and W: "W (n_Name ` set sel) w" and nodes: "set nodes \<subseteq> set sel"
    and mgr: "mgr = NewManager c delay hm (nhcLeaseManager c holder)"
    and nhc: "agrees nhc nhc0" "RemediationTemplate (nhc_Spec nhc0) = Some ref"
  shows "wp (handleHealthyNodes c (as_Manager mgr) result nhc k nodes)
    (\<lambda>(out, k') w' es. W (n_Name ` set sel) w' \<and> fst (snd out) = None \<and> agrees (snd (snd out)) nhc0 \<and> k' = k + int (length nodes)) w"
  using W nodes nhc(1)
proof (induction nodes arbitrary: w result nhc k)
  case (Cons node nodes)
  have n: "n_Name node \<in> n_Name ` set sel" using Cons.prems(2) by auto
  show ?case
    by (simp, intro wp_bind wp_mono[OF wp_HandleHealthyNode[OF srv Cons.prems(1) n mgr Cons.prems(3) nhc(2)]])
      (use Cons.prems in \<open>auto intro!: wp_bind wp_mono[OF wp_UpdateStatusNodeHealthy[OF srv]] wp_mono[OF Cons.IH] intro: agrees_trans\<close>)
qed (auto intro!: wp_return)

lemma wp_deleteOrphanedRemediationCRs:
  assumes srv: "serving c nhc0 sel ref t t0 W" and W: "W (n_Name ` set sel) w" and mgr: "mgr_Client mgr = c"
    and nhc: "agrees nhc nhc0" "RemediationTemplate (nhc_Spec nhc0) = Some ref"
  shows "wp (deleteOrphanedRemediationCRs c (as_Manager mgr) nhc allNodes) (\<lambda>r w' es. W (n_Name ` set sel) w' \<and> r = (None, nhc)) w"
  unfolding deleteOrphanedRemediationCRs_def as_Manager_simps
  by (intro wp_bind wp_mono[OF wp_no_owned_CRs[OF srv W mgr nhc]])
    (auto simp: isOrphanedCR_def intro!: wp_return split: if_splits)

subsection \<open>The selected nodes\<close>

lemma wp_reconcileClasses:
  assumes srv: "serving c nhc0 nodes ref t t0 W" and W: "W (n_Name ` set nodes) w"
    and mgr: "mgr = NewManager c delay hm (nhcLeaseManager c holder)" and r: "r_Client r = c" "r_UpgradeChecker r = noopCheck"
    and nhc: "agrees nhc nhc0" and ok: "remediable hm nodes ref nhc0" and cl: "classified nhc0 t0 nodes classes"
  shows "wp (reconcileClasses r (as_Manager mgr) nhc nodes classes) (\<lambda>out w' es. fst (snd out) = None \<and>
    (\<forall>node\<in>set nodes. unhealthyAt nhc0 t0 node \<and> \<not> excludedNode node \<longrightarrow> createdFor nhc0 (n_Name node) es)) w"
proof -
  obtain notM soon mat q where c_def: "classes = (notM, soon, mat, q)" by (cases classes)
  have client: "mgr_Client mgr = c" by (simp add: mgr)
  let ?all = "n_Name ` set nodes"
  let ?post = "\<lambda>out w' es. fst (snd out) = None \<and>
    (\<forall>node\<in>set nodes. unhealthyAt nhc0 t0 node \<and> \<not> excludedNode node \<longrightarrow> createdFor nhc0 (n_Name node) es)"
  have cls: "set notM \<subseteq> set nodes" "set mat \<subseteq> set nodes" "distinct (map n_Name mat)" "\<forall>node\<in>set mat. plainNode hm node"
      "\<forall>node\<in>set nodes. unhealthyAt nhc0 t0 node \<longrightarrow> node \<in> set mat" "length (filter (quietNode nhc0) nodes) \<le> length notM"
    using cl ok unfolding classified_def c_def remediable_def by auto
  from ok obtain minHealthy where gate: "getMinHealthy (nhc_Spec nhc0) (int (length nodes)) = Inr minHealthy" "minHealthy \<le> int (length notM)"
    using cls(6) by (auto simp: remediable_def split: sum.splits)
  have ref: "RemediationTemplate (nhc_Spec nhc0) = Some ref" "PauseRequests (nhc_Spec nhc) = []"
    using ok nhc by (simp_all add: remediable_def agrees_def)
  have unhealthy: "wp (remediateUnhealthy r (as_Manager mgr) result (setCounts i k nhc2) (int (length nodes)) (int (length notM)) mat) ?post w'"
    if "W ?all w'" "agrees nhc2 nhc0" for result i k nhc2 w'
    by (rule wp_mono[OF wp_remediateUnhealthy[OF srv that(1) mgr _ cls(3,4) _ _ r(1) _ gate(2)]])
      (use that(2) ok cls(2,5) gate(1) in \<open>auto simp: agrees_def remediable_def setCounts_def same_owner_def\<close>)
  have healthy: "wp (handleHealthyNodes c (as_Manager mgr) result nhc 0 notM)
      (\<lambda>(out, k') w' es. W ?all w' \<and> fst (snd out) = None \<and> agrees (snd (snd out)) nhc0 \<and> k' = int (length notM)) w'"
    if "W ?all w'" for result w'
    using wp_handleHealthyNodes[OF srv that cls(1) mgr nhc ref(1), of result 0] by simp
  show ?thesis
    unfolding reconcileClasses_def c_def isClusterUpgrading_def r noopCheck_def Let_def prod.case
    by (simp add: ref(2), intro wp_bind wp_mono[OF wp_deleteOrphanedRemediationCRs[OF srv W client nhc ref(1)]])
      (use cls(5) in \<open>auto intro!: wp_bind wp_mono[OF healthy] wp_return wp_mono[OF unhealthy]\<close>)
qed

lemma wp_reconcileNodes:
  assumes srv: "serving c nhc0 nodes ref t t0 W" and W: "W (n_Name ` set nodes) w"
    and mgr: "mgr = NewManager c delay hm (nhcLeaseManager c holder)" and r: "r_Client r = c" "r_UpgradeChecker r = noopCheck"
    and nhc: "agrees nhc nhc0" and ok: "remediable hm nodes ref nhc0"
    and chk: "\<And>w node. node \<in> set nodes \<Longrightarrow> \<not> NeedIgnoreNode (r_MHCChecker r w) node"
  shows "wp (reconcileNodes r (as_Manager mgr) nhc nodes) (\<lambda>out w' es. fst (snd out) = None \<and>
    (\<forall>node\<in>set nodes. unhealthyAt nhc0 t0 node \<and> \<not> excludedNode node \<longrightarrow> createdFor nhc0 (n_Name node) es)) w"
proof -
  have dist: "distinct (map n_Name nodes)" using ok by (simp add: remediable_def)
  have same: "classified nhc t0 nodes = classified nhc0 t0 nodes"
    using nhc by (simp add: agrees_def classified_def unhealthyAt_def[abs_def] quietNode_def[abs_def])
  show ?thesis
    unfolding reconcileNodes_def
    by (intro wp_bind wp_mono[OF wp_checkNodeConditions[OF srv W r(1) chk dist]])
      (auto simp: same intro: wp_mono[OF wp_reconcileClasses[OF srv _ mgr r nhc ok]])
qed

subsection \<open>The whole reconcile\<close>

lemma wp_ValidateTemplates:
  assumes srv: "serving c nhc0 sel ref t t0 W" and W: "W ns w" and mgr: "mgr_Client mgr = c"
    and t: "fst (validateTemplate t)" and ref: "RemediationTemplate (nhc_Spec nhc) = Some ref"
  shows "wp (ValidateTemplates mgr nhc) (\<lambda>r w' es. W ns w' \<and> (\<exists>reason message. r = Inr (True, reason, message))) w"
  unfolding ValidateTemplates_def ref using t
  by (simp, intro wp_bind wp_getTemplate[OF srv W mgr] wp_return) (cases "validateTemplate t", auto)

lemma wp_enable:
  assumes srv: "serving c nhc0 sel ref t t0 W" and W: "W ns w"
  shows "wp (enable c nhc) (\<lambda>nhc' w' es. W ns w' \<and> agrees nhc' nhc) w"
proof -
  have "agrees (map_conditions (SetStatusCondition now (mkCondition ConditionTypeDisabled s re ms)) nhc) nhc" for now s re ms
    by (simp add: agrees_def same_owner_def ConditionTypeDisabled_def ConditionTypeStormActive_def)
  then show ?thesis
    unfolding enable_def setCondition_def using W
    by (auto intro!: wp_bind wp_return wp_NormalEvent wp_Now[OF srv])
qed

lemma wp_AddWatchesNhc:
  assumes srv: "serving c nhc0 sel ref t t0 W" and W: "W ns w"
  shows "wp (AddWatchesNhc c watches nhc) (\<lambda>r w' es. W ns w' \<and> fst r = None) w"
proof -
  have add: "wp (addWatch c watches obj) (\<lambda>r w' es. W ns w' \<and> fst r = None) w'" if "W ns w'" for watches obj w'
    unfolding addWatch_def Let_def using that by (auto intro!: wp_bind wp_return wp_Watch[OF srv])
  have "wp (addWatches c watches refs) (\<lambda>r w' es. W ns w' \<and> fst r = None) w" for refs
    using W
  proof (induction refs arbitrary: watches w)
    case (Cons x refs)
    then show ?case
      by (auto simp: Let_def addRemediationTemplateCRWatch_def addRemediationCRWatch_def
        intro!: wp_bind wp_mono[OF add] wp_mono[OF Cons.IH])
  qed (auto intro: wp_return)
  then show ?thesis by (simp add: AddWatchesNhc_def)
qed

lemma wp_reconcileEnabled:
  assumes srv: "serving c nhc0 nodes ref t t0 W" and W: "W (n_Name ` set nodes) w"
    and mgr: "mgr = NewManager c delay hm (nhcLeaseManager c holder)" and r: "r_Client r = c" "r_UpgradeChecker r = noopCheck"
    and nhc: "agrees nhc nhc0" and ok: "remediable hm nodes ref nhc0" and sel: "c_Selector c (Selector (nhc_Spec nhc0)) = None"
    and chk: "\<And>w node. node \<in> set nodes \<Longrightarrow> \<not> NeedIgnoreNode (r_MHCChecker r w) node"
  shows "wp (reconcileEnabled r (as_Manager mgr) watches nhc) (\<lambda>out w' es. fst (snd (fst out)) = None \<and>
    (\<forall>node\<in>set nodes. unhealthyAt nhc0 t0 node \<and> \<not> excludedNode node \<longrightarrow> createdFor nhc0 (n_Name node) es)) w"
proof -
  let ?all = "n_Name ` set nodes"
  have get: "wp (GetNodes mgr (Selector (nhc_Spec nhc'))) (\<lambda>l w' es. W ?all w' \<and> l = Inr nodes) w'"
    if "W ?all w'" "agrees nhc' nhc0" for nhc' w'
  proof -
    have spec: "nhc_Spec nhc' = nhc_Spec nhc0" using that(2) by (simp add: agrees_def)
    show ?thesis unfolding GetNodes_def spec mgr by (simp add: sel, rule wp_ListNodes[OF srv that(1)]) simp
  qed
  have trans: "agrees nhc' nhc0" if "agrees nhc' nhc" for nhc' using that nhc by (rule agrees_trans)
  show ?thesis
    unfolding reconcileEnabled_def r(1)
    by (intro wp_bind wp_mono[OF wp_enable[OF srv W]])
      (auto intro!: wp_bind wp_mono[OF wp_AddWatchesNhc[OF srv]] wp_mono[OF get] wp_return
        wp_mono[OF wp_reconcileNodes[OF srv _ mgr r _ ok chk]] dest!: trans)
qed

lemma wp_reconcileBody:
  assumes srv: "serving c nhc nodes ref t t0 W" and W: "W (n_Name ` set nodes) w" and t: "fst (validateTemplate t)"
    and mgr: "mgr = NewManager c delay hm (nhcLeaseManager c holder)" and r: "r_Client r = c" "r_UpgradeChecker r = noopCheck"
    and ok: "remediable hm nodes ref nhc" and sel: "c_Selector c (Selector (nhc_Spec nhc)) = None"
    and chk: "\<And>w node. node \<in> set nodes \<Longrightarrow> \<not> NeedIgnoreNode (r_MHCChecker r w) node" "\<And>w. \<not> NeedDisableNHC (r_MHCChecker r w)"
  shows "wp (reconcileBody r (as_Manager mgr) watches nhc) (\<lambda>out w' es. fst (snd (fst out)) = None \<and>
    (\<forall>node\<in>set nodes. unhealthyAt nhc t0 node \<and> \<not> excludedNode node \<longrightarrow> createdFor nhc (n_Name node) es)) w"
proof -
  have reset: "agrees (resetStatus nhc) nhc" by (simp add: resetStatus_def agrees_def same_owner_def)
  have "RemediationTemplate (nhc_Spec (resetStatus nhc)) = Some ref" "mgr_Client mgr = c"
    using ok mgr by (simp_all add: remediable_def resetStatus_def)
  note validate = wp_ValidateTemplates[OF srv W this(2) t this(1)]
  show ?thesis
    unfolding reconcileBody_def Let_def as_Manager_simps
    by (intro wp_bind wp_mhcChecker, simp add: chk(2), intro wp_bind wp_mono[OF validate])
      (auto intro!: wp_mono[OF wp_reconcileEnabled[OF srv _ mgr r reset ok sel chk(1)]])
qed

lemma Reconcile_creates:
  assumes srv: "serving c nhc nodes ref t t0 W" and get: "c_GetNHC c name (world s) = (Inr nhc, w)" and W: "W (n_Name ` set nodes) w"
    and t: "fst (validateTemplate t)" and caps: "\<not> IsOnOpenshift caps" and ok: "remediable (HasMachineAPI caps) nodes ref nhc"
    and sel: "c_Selector c (Selector (nhc_Spec nhc)) = None"
    and chk: "\<And>w node. node \<in> set nodes \<Longrightarrow> \<not> NeedIgnoreNode (chk w) node" "\<And>w. \<not> NeedDisableNHC (chk w)"
    and node: "node \<in> set nodes" "unhealthyAt nhc t0 node" "\<not> excludedNode node"
  shows "createdFor nhc (n_Name node) (effects_of (Reconcile (newReconciler c chk caps) watches name) s)"
proof -
  let ?r = "newReconciler c chk caps" and ?all = "n_Name ` set nodes"
  have r: "r_Client ?r = c" "r_UpgradeChecker ?r = noopCheck" "r_MHCChecker ?r = chk" "r_Capabilities ?r = caps"
    using caps by (simp_all add: newReconciler_def NewClusterUpgradeStatusChecker_def)
  have lease: "wp (NewLeaseManager c holder) (\<lambda>l w' es. W ?all w' \<and> l = Inr (nhcLeaseManager c holder)) w" for holder
    unfolding NewLeaseManager_def setupLeaseNs_def
    by (intro wp_bind wp_GetNamespace[OF srv W]) (auto intro!: wp_return)
  have body: "wp (reconcileBody ?r (as_Manager (NewManager c delay (HasMachineAPI caps) (nhcLeaseManager c holder))) watches nhc)
      (\<lambda>out w' es. fst (snd (fst out)) = None \<and> createdFor nhc (n_Name node) es) w'" if "W ?all w'" for delay holder w'
    by (rule wp_mono[OF wp_reconcileBody[OF srv that t refl r(1,2) ok sel]]) (use node chk r(3) in auto)
  note patch = wp_emits[OF emits_patchStatus_quiet]
  have fetched: "wp (reconcileFetched ?r watches nhc) (\<lambda>_ _ es. createdFor nhc (n_Name node) es) w"
    unfolding reconcileFetched_def r Let_def
    by (intro wp_bind wp_mono[OF lease]) (auto intro!: wp_bind wp_mono[OF body] wp_mono[OF patch] wp_return)
  have "wp (Reconcile ?r watches name) (\<lambda>_ _ es. createdFor nhc (n_Name node) es) (world s)"
    unfolding Reconcile_def r by (intro wp_bind wp_ask) (simp add: answers_def get fetched)
  from wp_effects[OF this] show ?thesis .
qed

end
