(* ===== verification/Recovery.thy ===== *)
theory Recovery
  imports Progress
begin

text \<open>
  What happens to the CRs of a node that got healthy (\<open>HandleHealthyNode\<close>), when the API server works:
  without healthy delay all of them are deleted, with a negative delay none is. The server is described by the
  predicate \<open>holding\<close>, in terms of worlds in which certain CRs are still there.
\<close>

section \<open>Definitions\<close>

text \<open>
  \<open>W crs w\<close> says that of the CRs \<open>items\<close> of a kind those in \<open>crs\<close> are still there. The server lists them as
  long as none is missing, finds each of them, and deletes them one at a time.
\<close>

definition holding ::
    "'w client \<Rightarrow> GroupVersionKind \<Rightarrow> Unstructured list \<Rightarrow> string \<Rightarrow> (Unstructured set \<Rightarrow> 'w \<Rightarrow> bool) \<Rightarrow> bool" where
  "holding c g items n W \<longleftrightarrow> distinct items \<and> (\<forall>crs w. W crs w \<longrightarrow>
     answers (c_List c g) (\<lambda>r w'. W crs w' \<and> (crs = set items \<longrightarrow> r = Inr items)) w \<and>
     answers (c_GetNode c n) (\<lambda>r w'. W crs w' \<and> (\<exists>node. r = Inr node \<and> unconfirmed n node)) w \<and>
     (\<forall>x\<in>crs. answers (c_Get c x) (\<lambda>r w'. W crs w' \<and> r = Inr x) w) \<and>
     (\<forall>x\<in>crs. answers (c_Delete c x) (\<lambda>r w'. W (crs - {x}) w' \<and> r = None) w))"

text \<open>The CRs of the list that belong to a template, a node and a health check.\<close>

definition concerned :: "string \<Rightarrow> string \<Rightarrow> health_check \<Rightarrow> string \<Rightarrow> Unstructured \<Rightarrow> bool" where
  "concerned nodeName crName owner template cr \<longleftrightarrow>
     isMatchNodeTemplate cr (GetNodeNameFromCR cr) template \<and> healthyCRFilter nodeName crName owner cr"

section \<open>Lemmas\<close>

lemma holding_answers:
  assumes "holding c g items n W" and "W crs w"
  shows "answers (c_List c g) (\<lambda>r w'. W crs w' \<and> (crs = set items \<longrightarrow> r = Inr items)) w"
    and "answers (c_GetNode c n) (\<lambda>r w'. W crs w' \<and> (\<exists>node. r = Inr node \<and> unconfirmed n node)) w"
    and "x \<in> crs \<Longrightarrow> answers (c_Get c x) (\<lambda>r w'. W crs w' \<and> r = Inr x) w"
    and "x \<in> crs \<Longrightarrow> answers (c_Delete c x) (\<lambda>r w'. W (crs - {x}) w' \<and> r = None) w"
  using assms unfolding holding_def by auto

lemmas held_List = wp_ask_mono[OF holding_answers(1)]
lemmas held_GetNode = wp_ask_mono[OF holding_answers(2)]
lemmas held_Get = wp_ask_mono[OF holding_answers(3)]
lemmas held_Delete = wp_mutate_mono[OF holding_answers(4)]

lemma wp_DeleteRemediationCR:
  assumes srv: "holding c g items n W" and W: "W crs w" and x: "x \<in> crs" "IsOwner x owner" and mgr: "mgr_Client mgr = c"
  shows "wp (DeleteRemediationCR mgr x owner) (\<lambda>r w' es. \<not> isl r \<and> (\<exists>crs'. crs - {x} \<subseteq> crs' \<and> W crs' w') \<and>
    (u_DeletionTimestamp x = None \<longrightarrow> DeleteCR x \<in> set es)) w"
  unfolding DeleteRemediationCR_def mgr
  by (intro wp_bind held_Get[OF srv W x(1)])
    (auto simp: x intro!: wp_bind held_Delete[OF srv _ x(1)] wp_NormalEvent wp_return; blast)

lemma deletionDecision_at_once:
  "mgr_HealthyDelay mgr = None \<or> mgr_HealthyDelay mgr = Some 0 \<Longrightarrow> deletionDecision mgr False cr = State_Monad.return (True, None, cr)"
  by (auto simp: deletionDecision_def calcCrDeletionDelay_def)

lemma deletionDecision_never:
  "mgr_HealthyDelay mgr = Some d \<Longrightarrow> d < 0 \<Longrightarrow> deletionDecision mgr False cr = State_Monad.return (False, None, cr)"
  by (auto simp: deletionDecision_def calcCrDeletionDelay_def)

lemma wp_deleteHealthyCRs_at_once:
  assumes srv: "holding c g items n W" and W: "W crs w" and mgr: "mgr_Client mgr = c"
    and delay: "mgr_HealthyDelay mgr = None \<or> mgr_HealthyDelay mgr = Some 0"
    and xs: "set xs \<subseteq> crs" "distinct xs" "\<forall>x\<in>set xs. IsOwner x owner"
  shows "wp (deleteHealthyCRs mgr False owner requeue xs)
    (\<lambda>r w' es. r = Inr (requeue, xs) \<and> (\<forall>x\<in>set xs. u_DeletionTimestamp x = None \<longrightarrow> DeleteCR x \<in> set es)) w"
  using W xs
proof (induction xs arbitrary: crs w)
  case (Cons x xs)
  have x: "x \<in> crs" "IsOwner x owner" using Cons.prems by auto
  have rest: "wp (deleteHealthyCRs mgr False owner requeue xs)
      (\<lambda>r w' es. r = Inr (requeue, xs) \<and> (\<forall>x\<in>set xs. u_DeletionTimestamp x = None \<longrightarrow> DeleteCR x \<in> set es)) w'"
    if "\<exists>crs'. crs - {x} \<subseteq> crs' \<and> W crs' w'" for w'
  proof -
    from that obtain crs' where crs': "crs - {x} \<subseteq> crs'" "W crs' w'" by blast
    show ?thesis using crs'(1) Cons.prems by (intro Cons.IH[OF crs'(2)]) auto
  qed
  show ?case
    by (simp add: deletionDecision_at_once[OF delay] Let_def bindE_def, intro wp_bind wp_mono[OF wp_DeleteRemediationCR[OF srv Cons.prems(1) x mgr]])
      (auto intro!: wp_bind wp_return wp_mono[OF rest] split: sum.split)
qed (auto intro: wp_return)

lemma wp_deleteHealthyCRs_never:
  assumes "mgr_HealthyDelay mgr = Some d" "d < 0"
  shows "wp (deleteHealthyCRs mgr False owner requeue xs) (\<lambda>r w' es. r = Inr (requeue, xs) \<and> es = []) w"
proof (induction xs)
  case (Cons x xs)
  show ?case
    by (simp add: deletionDecision_never[OF assms] Let_def bindE_def) (auto intro!: wp_bind wp_return wp_mono[OF Cons.IH])
qed (auto intro: wp_return)

text \<open>The CRs that \<open>HandleHealthyNode\<close> looks at.\<close>

lemma wp_concerned:
  assumes srv: "holding c (u_GVK (GenerateRemediationCRBase (or_GVK ref))) items n W" and W: "W (set items) w" and mgr: "mgr_Client mgr = c"
  shows "wp (ListRemediationCRs mgr [Some ref] (healthyCRFilter n crName owner))
    (\<lambda>r w' es. W (set items) w' \<and> es = [] \<and> r = Inr (filter (concerned n crName owner (or_Name ref)) items)) w"
  unfolding ListRemediationCRs_def bindE_def
  by (simp add: Let_def mgr bindE_def, intro wp_bind held_List[OF srv W])
    (auto intro!: wp_bind wp_return simp: concerned_def[abs_def] conj_commute)

lemma wp_unconfirmed:
  assumes srv: "holding c g items n W" and W: "W crs w" and mgr: "mgr_Client mgr = c"
  shows "wp (isManuallyConfirmedHealthyAnnotationSet mgr n) (\<lambda>r w' es. W crs w' \<and> es = [] \<and> r = Inr False) w"
  unfolding isManuallyConfirmedHealthyAnnotationSet_def mgr bindE_def
  by (intro wp_bind held_GetNode[OF srv W]) (auto simp: unconfirmed_def intro!: wp_return)

lemma wp_HandleHealthyNode_CRs:
  assumes srv: "holding c (u_GVK (GenerateRemediationCRBase (or_GVK ref))) items n W" and W: "W (set items) w"
    and owner: "GetAllRemediationTemplates owner = [Some ref]" and mgr: "mgr = NewManager c delay hm (nhcLeaseManager c holder)"
    and delete: "\<And>xs w. W (set items) w \<Longrightarrow> xs = filter (concerned n crName owner (or_Name ref)) items \<Longrightarrow>
      wp (deleteHealthyCRs mgr False owner None xs) (\<lambda>r w' es. Q es) w"
    and clean: "\<And>es. filter (concerned n crName owner (or_Name ref)) items = [] \<Longrightarrow> list_all (own_lease_write holder) es \<Longrightarrow> Q es"
  shows "wp (HandleHealthyNode mgr n crName owner) (\<lambda>r w' es. Q es) w"
proof -
  have client: "mgr_Client mgr = c" by (simp add: mgr)
  have "emits (own_lease_write holder) (CleanUp mgr n False)"
    by (simp add: CleanUp_def mgr nhcLeaseManager_def emits_InvalidateLease)
  from wp_emits[OF this] have cleanUp: "wp (CleanUp mgr n False) (\<lambda>r w' es. Q es) w'"
    if "filter (concerned n crName owner (or_Name ref)) items = []" for w'
    by (rule wp_mono) (rule clean[OF that])
  show ?thesis
    unfolding HandleHealthyNode_def owner
    by (intro wp_bind wp_mono[OF wp_concerned[OF srv W client]])
      (auto intro!: wp_bind wp_mono[OF wp_unconfirmed[OF srv _ client]] wp_mono[OF cleanUp] wp_mono[OF delete] wp_return
        simp del: GetAllRemediationTemplates.simps)
qed

lemma HandleHealthyNode_at_once:
  assumes srv: "holding c (u_GVK (GenerateRemediationCRBase (or_GVK ref))) items n W" and W: "W (set items) (world s)"
    and owner: "GetAllRemediationTemplates owner = [Some ref]" and delay: "delay = None \<or> delay = Some 0"
    and cr: "cr \<in> set items" "concerned n crName owner (or_Name ref) cr" "u_DeletionTimestamp cr = None"
  shows "DeleteCR cr \<in> set (effects_of (HandleHealthyNode (NewManager c delay hm (nhcLeaseManager c holder)) n crName owner) s)"
proof -
  let ?mgr = "NewManager c delay hm (nhcLeaseManager c holder)" and ?xs = "filter (concerned n crName owner (or_Name ref)) items"
  have xs: "set ?xs \<subseteq> set items" "distinct ?xs" "\<forall>x\<in>set ?xs. IsOwner x owner" "cr \<in> set ?xs"
    using srv cr by (auto simp: holding_def concerned_def healthyCRFilter_def)
  have "wp (HandleHealthyNode ?mgr n crName owner) (\<lambda>r w' es. DeleteCR cr \<in> set es) (world s)"
  proof (rule wp_HandleHealthyNode_CRs[OF srv W owner refl])
    show "wp (deleteHealthyCRs ?mgr False owner None ys) (\<lambda>r w' es. DeleteCR cr \<in> set es) w" if "W (set items) w" "ys = ?xs" for ys w
      unfolding that(2) by (rule wp_mono[OF wp_deleteHealthyCRs_at_once[OF srv that(1) _ _ xs(1-3)]]) (use delay xs(4) cr(3) in auto)
  qed (use xs(4) in auto)
  from wp_effects[OF this] show ?thesis .
qed

lemma HandleHealthyNode_never:
  assumes srv: "holding c (u_GVK (GenerateRemediationCRBase (or_GVK ref))) items n W" and W: "W (set items) (world s)"
    and owner: "GetAllRemediationTemplates owner = [Some ref]" and delay: "d < 0"
  shows "list_all (own_lease_write holder)
    (effects_of (HandleHealthyNode (NewManager c (Some d) hm (nhcLeaseManager c holder)) n crName owner) s)"
proof -
  let ?mgr = "NewManager c (Some d) hm (nhcLeaseManager c holder)"
  have "wp (HandleHealthyNode ?mgr n crName owner) (\<lambda>r w' es. list_all (own_lease_write holder) es) (world s)"
  proof (rule wp_HandleHealthyNode_CRs[OF srv W owner refl])
    show "wp (deleteHealthyCRs ?mgr False owner None ys) (\<lambda>r w' es. list_all (own_lease_write holder) es) w" for ys w
      by (rule wp_mono[OF wp_deleteHealthyCRs_never[of _ d]]) (use delay in auto)
  qed
  from wp_effects[OF this] show ?thesis .
qed

end
