(* ===== verification/Gauges.thy ===== *)
theory Gauges
  imports Progress
begin

text \<open>
  What the metrics of the \<open>NodeHealthCheck\<close> controller say about its status: the gauge of ongoing remediations
  is 1 exactly for the remediations that the status records, and a node that got healthy contributes one
  observation of its duration for each of them.
\<close>

section \<open>Definitions\<close>

text \<open>The labels of the remediations of a node, and of all remediations in the status.\<close>

definition labelsOf :: "string \<Rightarrow> Remediation list \<Rightarrow> (string \<times> string \<times> string) list" where
  "labelsOf nodeName rems = map (\<lambda>rem. (nodeName, or_Namespace (rem_Resource rem), or_Kind (rem_Resource rem))) rems"

definition recorded :: "NodeHealthCheck \<Rightarrow> (string \<times> string \<times> string) set" where
  "recorded nhc = (\<Union>un\<in>set (UnhealthyNodes (nhc_Status nhc)). set (labelsOf (un_Name un) (un_Remediations un)))"

definition gauge_tracks :: "nhc_metrics \<Rightarrow> NodeHealthCheck \<Rightarrow> bool" where
  "gauge_tracks ms nhc \<longleftrightarrow> {l. nodeHealthCheckOngoingRemediation ms l = Some 1} = recorded nhc"

text \<open>The remediations of the node that the status records for the kind of a CR have the labels of the CR.\<close>

definition sameLabels :: "Node \<Rightarrow> NodeHealthCheck \<Rightarrow> Unstructured \<Rightarrow> bool" where
  "sameLabels node nhc cr \<longleftrightarrow>
     (\<forall>un\<in>set (UnhealthyNodes (nhc_Status nhc)). \<forall>rem\<in>set (un_Remediations un).
        un_Name un = n_Name node \<and> or_GVK (rem_Resource rem) = u_GVK cr \<longrightarrow>
          or_Namespace (rem_Resource rem) = u_Namespace cr \<and> or_Kind (rem_Resource rem) = u_Kind cr)"

section \<open>Lemmas\<close>

subsection \<open>Observations\<close>

text \<open>Only the observations of the controller move its metrics.\<close>

lemma collectNHC_writes: "list_all is_UpdateCR es \<Longrightarrow> fold collectNHC es ms = ms"
proof (induction es)
  case (Cons e es)
  then show ?case by (cases e) auto
qed simp

text \<open>The end of one remediation.\<close>

lemma collectNHC_end:
  fixes ms l n ns k d
  defines "ended \<equiv> collectNHC (UnhealthyNodeDurationObserve n ns k d) (collectNHC (OngoingRemediationSet n ns k 0) ms)"
  shows "nodeHealthCheckOngoingRemediation ended = (nodeHealthCheckOngoingRemediation ms)((n, ns, k) \<mapsto> 0)"
    and "observations ended l = observations ms l + (if l = (n, ns, k) then 1 else 0)"
  by (auto simp: ended_def gaugeSet_def histogramObserve_def observe_def Let_def observations_def newHistogram_def split: option.split)

lemma ended_observeDeleted:
  "wp (observeDeleted c n rems)
     (\<lambda>_ w' es. nodeHealthCheckOngoingRemediation (fold collectNHC es ms) =
          (\<lambda>l. if l \<in> set (labelsOf n rems) then Some 0 else nodeHealthCheckOngoingRemediation ms l) \<and>
        (\<forall>l. observations (fold collectNHC es ms) l = observations ms l + count_list (labelsOf n rems) l)) w"
proof (induction rems arbitrary: ms w)
  case (Cons rem rems)
  let ?ended = "\<lambda>d. collectNHC (UnhealthyNodeDurationObserve n (or_Namespace (rem_Resource rem)) (or_Kind (rem_Resource rem)) d)
    (collectNHC (OngoingRemediationSet n (or_Namespace (rem_Resource rem)) (or_Kind (rem_Resource rem)) 0) ms)"
  have rest: "wp (observeDeleted c n rems)
     (\<lambda>_ w' es. nodeHealthCheckOngoingRemediation (fold collectNHC es (?ended d)) =
          (\<lambda>l. if l \<in> set (labelsOf n (rem # rems)) then Some 0 else nodeHealthCheckOngoingRemediation ms l) \<and>
        (\<forall>l. observations (fold collectNHC es (?ended d)) l = observations ms l + count_list (labelsOf n (rem # rems)) l)) w'" for d w'
    by (rule wp_mono[OF Cons.IH[of "?ended d"]]) (auto simp only: collectNHC_end labelsOf_def list.map list.set count_list.simps, auto)
  show ?case
    by (simp only: observeDeleted.simps ObserveNodeHealthCheckRemediationDeleted_def ObserveNodeHealthCheckUnhealthyNodeDuration_def)
      (auto simp: answers_def intro!: wp_intros wp_mono[OF rest] simp del: collectNHC.simps split: prod.split)
qed (simp add: labelsOf_def wp_return)

subsection \<open>Status\<close>

text \<open>The remediations of a node are found in the map of the status.\<close>

lemma recorded_iff:
  assumes "names_wf nhc"
  shows "(n, l) \<in> recorded nhc \<longleftrightarrow> (\<exists>un. statusNodes nhc n = Some un \<and> (n, l) \<in> set (labelsOf n (un_Remediations un)))"
proof
  assume "(n, l) \<in> recorded nhc"
  then obtain un where un: "un \<in> set (UnhealthyNodes (nhc_Status nhc))" "un_Name un = n" "(n, l) \<in> set (labelsOf n (un_Remediations un))"
    by (auto simp: recorded_def labelsOf_def)
  then obtain un' where un': "statusNodes nhc n = Some un'" using statusNodes_None[of nhc n] by fastforce
  with un(1,2) assms have "un' = un" by (auto simp: names_wf_def distinct_map dest!: statusNodes_Some inj_onD)
  with un un' show "\<exists>un. statusNodes nhc n = Some un \<and> (n, l) \<in> set (labelsOf n (un_Remediations un))" by blast
qed (auto simp: recorded_def dest!: statusNodes_Some)

lemma labelsOf_node: "(a, l) \<in> set (labelsOf n rems) \<Longrightarrow> a = n"
  by (auto simp: labelsOf_def)

lemma recorded_map: "recorded nhc = \<Union> (set (map (\<lambda>un. set (labelsOf (un_Name un) (un_Remediations un))) (UnhealthyNodes (nhc_Status nhc))))"
  by (simp add: recorded_def)

lemma map_update_same: "g y = g (xs ! i) \<Longrightarrow> map g (xs[i := y]) = map g xs"
  by (metis list_update_id map_update)

lemma recorded_setTimedOut: "recorded (setTimedOut now p nhc) = recorded nhc"
proof -
  have "labelsOf n (rems[j := (rems ! j)\<lparr>rem_TimedOut := t\<rparr>]) = labelsOf n rems" for n rems j t
    unfolding labelsOf_def by (rule map_update_same) simp
  then show ?thesis by (simp add: recorded_map setTimedOut_def Let_def map_update_same del: set_map)
qed

lemma gauge_tracks_setTimedOut: "gauge_tracks ms (setTimedOut now p nhc) = gauge_tracks ms nhc"
  by (simp add: gauge_tracks_def recorded_setTimedOut)

lemma recorded_started:
  assumes "names_wf nhc" "sameLabels node nhc cr"
  shows "recorded (UpdateStatusRemediationStarted node nhc cr) = insert (n_Name node, u_Namespace cr, u_Kind cr) (recorded nhc)"
proof -
  let ?un = "case statusNodes nhc (n_Name node) of None \<Rightarrow> newUnhealthyNode (n_Name node) | Some un \<Rightarrow> un"
  have names: "names_wf (UpdateStatusRemediationStarted node nhc cr)"
    using status_step_names[OF status_step.started assms(1)] .
  have labels: "set (labelsOf (n_Name node) (un_Remediations (addRemediation cr ?un))) =
      insert (n_Name node, u_Namespace cr, u_Kind cr) (set (labelsOf (n_Name node) (un_Remediations ?un)))"
    using assms(2)
    by (cases "statusNodes nhc (n_Name node)")
      (auto simp: addRemediation_def newUnhealthyNode_def labelsOf_def remediationOfCR_def sameLabels_def list_ex_iff dest!: statusNodes_Some intro: rev_image_eqI)
  have "(n, l) \<in> recorded (UpdateStatusRemediationStarted node nhc cr) \<longleftrightarrow>
      (n, l) = (n_Name node, u_Namespace cr, u_Kind cr) \<or> (n, l) \<in> recorded nhc" for n l
    using labels
    by (cases "n = n_Name node") (auto simp: recorded_iff[OF names] recorded_iff[OF assms(1)] UpdateStatusRemediationStarted_map
      newUnhealthyNode_def labelsOf_def split: option.splits)
  then show ?thesis by (auto simp: set_eq_iff)
qed

lemma ended_UpdateStatusNodeHealthy:
  assumes "names_wf nhc" "gauge_tracks ms nhc"
  shows "wp (UpdateStatusNodeHealthy c n nhc)
    (\<lambda>nhc' w' es. gauge_tracks (fold collectNHC es ms) nhc' \<and>
       (\<forall>l. observations (fold collectNHC es ms) l = observations ms l +
          (case statusNodes nhc n of None \<Rightarrow> 0 | Some un \<Rightarrow> count_list (labelsOf n (un_Remediations un)) l))) w"
proof (cases "statusNodes nhc n")
  case None
  with assms show ?thesis
    by (auto simp: UpdateStatusNodeHealthy_def simp flip: statusNodes_def intro!: wp_return)
next
  case (Some un)
  let ?nhc' = "map_unhealthy (remove_first (\<lambda>un. un_Name un = n)) nhc"
  have names: "names_wf ?nhc'" using status_step_names[OF status_step.healthy assms(1)] .
  have nodes: "statusNodes ?nhc' = (statusNodes nhc)(n := None)"
    using assms(1) by (simp add: statusNodes_remove_first names_wf_def)
  have "gauge_tracks ms' ?nhc'"
    if "nodeHealthCheckOngoingRemediation ms' =
      (\<lambda>l. if l \<in> set (labelsOf n (un_Remediations un)) then Some 0 else nodeHealthCheckOngoingRemediation ms l)" for ms'
    using assms(2) Some
    by (auto simp: gauge_tracks_def that set_eq_iff recorded_iff[OF names] recorded_iff[OF assms(1)] nodes dest: labelsOf_node split: if_splits)
  with Some show ?thesis
    by (auto simp: UpdateStatusNodeHealthy_def simp flip: statusNodes_def intro!: wp_bind wp_return wp_mono[OF ended_observeDeleted])
qed

context manager_iface
begin

lemma wp_annotate: "wp (annotateUnlessSucceeded c rm cr now) (\<lambda>_ w' es. fold collectNHC es ms = ms) w"
proof (rule wp_mono[OF wp_emits collectNHC_writes])
  show "emits is_UpdateCR (annotateUnlessSucceeded c rm cr now)"
    unfolding annotateUnlessSucceeded_def addTimeOutAnnotation_def by (intro emits_intros update)
qed

text \<open>The lease of the node or the CR cannot be had, or the CR exists already: nothing is observed.\<close>

lemma wp_handleCreateError:
  assumes "gauge_tracks ms nhc"
  shows "wp (handleCreateError c rm node nhc requeue cr t e) (\<lambda>x w' es. gauge_tracks (fold collectNHC es ms) (snd x)) w"
  unfolding handleCreateError_def handleOverdueLease_def WarningEvent_def
  using assms
  by (auto intro!: wp_intros wp_mono[OF wp_annotate[where ms = ms]] simp: answers_def gauge_tracks_setTimedOut
      split: error.split option.split prod.split)

lemma wp_handleExistingCR:
  assumes "gauge_tracks ms nhc"
  shows "wp (handleExistingCR c rm node nhc requeue cr t timeout) (\<lambda>x w' es. gauge_tracks (fold collectNHC es ms) (snd x)) w"
  unfolding handleExistingCR_def Let_def
  using assms
  by (auto intro!: wp_intros wp_mono[OF wp_annotate[where ms = ms]] simp: answers_def gauge_tracks_setTimedOut
      split: option.split prod.split)

lemma wp_handleCR:
  assumes "names_wf nhc" "gauge_tracks ms nhc" "pred_option (sameLabels node nhc) cr"
  shows "wp (handleCR c rm node nhc t timeout (created, requeue, cr, err)) (\<lambda>x w' es. gauge_tracks (fold collectNHC es ms) (snd x)) w"
proof -
  have started: "gauge_tracks (collectNHC (OngoingRemediationSet (n_Name node) (u_Namespace x) (u_Kind x) 1) ms)
      (UpdateStatusRemediationStarted node nhc x)" if "cr = Some x" for x
    using assms(2,3) that recorded_started[OF assms(1), of node x] by (auto simp: gauge_tracks_def gaugeSet_def)
  show ?thesis
    unfolding handleCR_def NormalEvent_def ObserveNodeHealthCheckRemediationCreated_def Let_def prod.case
    using started
    by (cases err; cases cr)
      (auto intro!: wp_intros wp_mono[OF wp_handleCreateError[OF assms(2)]] wp_mono[OF wp_handleExistingCR[OF started]]
        simp: assms(2))
qed

end

end
