(* ===== verification/MHC_Reconciler.thy ===== *)
theory MHC_Reconciler
  imports Manager Checkers Watches Validation "HOL-Library.Multiset"
begin

text \<open>
  \<open>internal/controller/machinehealthcheck_controller.go\<close> and the status patch of
  \<open>internal/controller/shared.go\<close>: the reconcile of a \<open>MachineHealthCheck\<close>, on clusters where the
  feature gate hands these over to this operator. The reconciler's own state, the MHC checker and the
  watches, is passed and returned; the feature gate accessor is only read.
\<close>

section \<open>Definitions\<close>

definition defaultNodeStartupTimeout :: duration where "defaultNodeStartupTimeout = 10 * minute"
definition disabledNodeStartupTimeout :: duration where "disabledNodeStartupTimeout = 0"
definition PhaseFailed :: string where "PhaseFailed = ''Failed''"
definition RemediationAllowedCondition :: string where "RemediationAllowedCondition = ''RemediationAllowed''"
definition TooManyUnhealthyReason :: string where "TooManyUnhealthyReason = ''TooManyUnhealthy''"
definition ConditionSeverityWarning :: string where "ConditionSeverityWarning = ''Warning''"

subsection \<open>Metrics\<close>

definition DeleteMachineHealthCheckNodesCovered :: "string \<Rightarrow> string \<Rightarrow> ('w, unit) m" where
  "DeleteMachineHealthCheckNodesCovered name namespace = emit (MHCNodesCoveredDelete name namespace)"

definition ObserveMachineHealthCheckNodesCovered :: "string \<Rightarrow> string \<Rightarrow> int \<Rightarrow> ('w, unit) m" where
  "ObserveMachineHealthCheckNodesCovered name namespace cnt = emit (MHCNodesCoveredSet name namespace cnt)"

definition ObserveMachineHealthCheckShortCircuitDisabled :: "string \<Rightarrow> string \<Rightarrow> ('w, unit) m" where
  "ObserveMachineHealthCheckShortCircuitDisabled name namespace = emit (MHCShortCircuitSet name namespace 0)"

definition ObserveMachineHealthCheckShortCircuitEnabled :: "string \<Rightarrow> string \<Rightarrow> ('w, unit) m" where
  "ObserveMachineHealthCheckShortCircuitEnabled name namespace = emit (MHCShortCircuitSet name namespace 1)"

subsection \<open>Health of the targets\<close>

definition getNodeStartupTimeout :: "MachineHealthCheck \<Rightarrow> duration" where
  "getNodeStartupTimeout mhc = (case mhc_NodeStartupTimeout mhc of Some d \<Rightarrow> d | None \<Rightarrow> defaultNodeStartupTimeout)"

text \<open>Whether the target needs remediation, and otherwise the delay to the next check.\<close>

definition needsRemediation :: "'w client \<Rightarrow> Target \<Rightarrow> ('w, error + bool \<times> duration) m" where
  "needsRemediation c t = do {
     now \<leftarrow> ask (c_Now c);
     if (case m_Phase (tg_Machine t) of None \<Rightarrow> '''' | Some p \<Rightarrow> p) = PhaseFailed then State_Monad.return (Inr (True, 0))
     else case tg_Node t of
       None \<Rightarrow>
         (let nodeStartupTimeout = getNodeStartupTimeout (tg_MHC t)
          in if nodeStartupTimeout = disabledNodeStartupTimeout then State_Monad.return (Inr (False, 0))
             else case m_LastUpdated (tg_Machine t) of
               None \<Rightarrow> State_Monad.return (Inr (False, nodeStartupTimeout))
             | Some lastUpdated \<Rightarrow>
                 if time_Before (time_Add lastUpdated nodeStartupTimeout) now then State_Monad.return (Inr (True, 0))
                 else State_Monad.return
                   (Inr (False, dur_add (dur_sub nodeStartupTimeout (time_Sub now lastUpdated)) second)))
     | Some node \<Rightarrow>
         if n_UID node = '''' then State_Monad.return (Inr (True, 0))
         else do {
           now' \<leftarrow> ask (c_Now c);
           State_Monad.return (Inr
             (case IsHealthyMHC (mhc_UnhealthyConditions (tg_MHC t)) (n_Conditions node) now' of
                (False, _) \<Rightarrow> (True, 0)
              | (True, Some requeueIn) \<Rightarrow> (False, requeueIn)
              | (True, None) \<Rightarrow> (False, 0)))
         }
   }"

type_synonym targetClasses = "Target list \<times> Target list \<times> duration \<times> error list"

definition detectedMessage :: "Target \<Rightarrow> string" where
  "detectedMessage t =
     ''Machine '' @ m_Name (tg_Machine t) @ '' has unhealthy node '' @
     (case tg_Node t of None \<Rightarrow> ''unknown'' | Some node \<Rightarrow> n_Name node)"

fun checkHealthFrom :: "'w client \<Rightarrow> targetClasses \<Rightarrow> Target list \<Rightarrow> ('w, targetClasses) m" where
  "checkHealthFrom c acc [] = State_Monad.return acc"
| "checkHealthFrom c (healthy, need, overall, errs) (t # ts) = do {
     r \<leftarrow> needsRemediation c t;
     case r of
       Inl e \<Rightarrow> checkHealthFrom c (healthy, need, overall, errs @ [e]) ts
     | Inr (needs, requeueIn) \<Rightarrow>
         if needs then checkHealthFrom c (healthy, need @ [t], overall, errs) ts
         else if 0 < requeueIn then do {
           NormalEvent EventReasonDetectedUnhealthy (detectedMessage t);
           checkHealthFrom c (healthy, need, the (MinRequeueDuration (Some overall) (Some requeueIn)), errs) ts
         }
         else checkHealthFrom c (healthy @ [t], need, overall, errs) ts
   }"

definition checkHealth :: "'w client \<Rightarrow> Target list \<Rightarrow> ('w, targetClasses) m" where
  "checkHealth c targets = checkHealthFrom c ([], [], 0, []) targets"

subsection \<open>Remediation\<close>

text \<open>\<open>target.Node.GetName()\<close> in the last event dereferences the node, which may be \<open>nil\<close>.\<close>

definition targetNodeName :: "Target \<Rightarrow> string option" where
  "targetNodeName t =
     (case tg_Node t of None \<Rightarrow> None | Some node \<Rightarrow> if n_ResourceVersion node \<noteq> '''' then Some (n_Name node) else None)"

definition remediateTarget :: "'w Manager \<Rightarrow> Target \<Rightarrow> ('w, error option) m" where
  "remediateTarget rm t =
     (if m_DeletionTimestamp (tg_Machine t) \<noteq> None then State_Monad.return None
      else do {
        r \<leftarrow> rm_GetTemplate rm (tg_MHC t);
        case r of
          Inl e \<Rightarrow> State_Monad.return (Some (wrapE ''failed to get remediation template'' e))
        | Inr template \<Rightarrow> do {
            cr \<leftarrow> rm_GenerateRemediationCRForMachine rm (tg_Machine t) (MHC (tg_MHC t)) template
                    (case targetNodeName t of None \<Rightarrow> '''' | Some n \<Rightarrow> n);
            (created, d, cr', err) \<leftarrow> rm_CreateRemediationCR rm cr (MHC (tg_MHC t)) (targetNodeName t) DefaultRemediationDuration 0;
            case err of
              Some (RemediationCRNotOwned msg) \<Rightarrow> State_Monad.return None
            | Some e \<Rightarrow> State_Monad.return (Some (wrapE ''failed to create remediation CR'' e))
            | None \<Rightarrow>
                if created then
                  (case tg_Node t of
                     None \<Rightarrow> State_Monad.return (Some (Panic ''nil pointer dereference: target.Node''))
                   | Some node \<Rightarrow> do {
                       NormalEvent EventReasonRemediationCreated
                         (''Created remediation object for machine '' @ m_Name (tg_Machine t) @ '' with node '' @ n_Name node);
                       State_Monad.return None
                     })
                else State_Monad.return None
          }
      })"

text \<open>Errors are collected; a panic ends the loop.\<close>

fun remediateAll :: "'w Manager \<Rightarrow> Target list \<Rightarrow> ('w, error + error list) m" where
  "remediateAll rm [] = State_Monad.return (Inr [])"
| "remediateAll rm (t # ts) = do {
     r \<leftarrow> remediateTarget rm t;
     if (case r of None \<Rightarrow> False | Some e \<Rightarrow> is_panic e) then State_Monad.return (Inl (the r))
     else bindE (remediateAll rm ts)
       (\<lambda>errs. State_Monad.return (Inr ((case r of None \<Rightarrow> [] | Some e \<Rightarrow> [e]) @ errs)))
   }"

subsection \<open>The reconcile loop\<close>

type_synonym mhcOutcome = "Result \<times> error option \<times> MachineHealthCheck"

fun handleHealthyTargets ::
    "'w Manager \<Rightarrow> MachineHealthCheck \<Rightarrow> Result \<Rightarrow> int \<Rightarrow> Target list \<Rightarrow> ('w, Result \<times> error option \<times> int) m" where
  "handleHealthyTargets rm mhc result healthyCount [] = State_Monad.return (result, None, healthyCount)"
| "handleHealthyTargets rm mhc result healthyCount (t # ts) =
     (case tg_Node t of
        None \<Rightarrow> State_Monad.return (result, Some (Panic ''nil pointer dereference: healthyTarget.Node''), healthyCount)
      | Some node \<Rightarrow> do {
          (r, owner) \<leftarrow> rm_HandleHealthyNode rm (n_Name node) (m_Name (tg_Machine t)) (MHC mhc);
          case r of
            Inl e \<Rightarrow> State_Monad.return (result, Some e, healthyCount)
          | Inr (remainingCRs, requeueAfter) \<Rightarrow>
              handleHealthyTargets rm mhc (if remainingCRs \<noteq> [] then result\<lparr>Requeue := True\<rparr> else result) (healthyCount + 1) ts
        })"

definition wrap32 :: "int \<Rightarrow> int" where
  "wrap32 x = (x + 2 ^ 31) mod 2 ^ 32 - 2 ^ 31"

definition show_maxUnhealthy :: "IntOrString option \<Rightarrow> string" where
  "show_maxUnhealthy v = (case v of None \<Rightarrow> ''<nil>'' | Some v \<Rightarrow> show_ios v)"

definition tooManyMessage :: "int \<Rightarrow> int \<Rightarrow> IntOrString option \<Rightarrow> string" where
  "tooManyMessage totalTargets unhealthyCount maxUnhealthy =
     ''Skipped remediation because the number of not started or unhealthy machines selected by the selector exceeds maxUnhealthy (total: '' @
     Itoa totalTargets @ '', unhealthy: '' @ Itoa unhealthyCount @ '', maxUnhealthy: '' @ show_maxUnhealthy maxUnhealthy @ '')''"

definition remediationAllowed :: "string \<Rightarrow> string \<Rightarrow> string \<Rightarrow> string \<Rightarrow> MachineCondition" where
  "remediationAllowed status severity reason message =
     \<lparr>mc_Type = RemediationAllowedCondition, mc_Status = status, mc_Severity = severity, mc_LastTransitionTime = zero_time,
      mc_Reason = reason, mc_Message = message\<rparr>"

definition setMachineCondition :: "'w client \<Rightarrow> MachineHealthCheck \<Rightarrow> MachineCondition \<Rightarrow> ('w, MachineHealthCheck) m" where
  "setMachineCondition c mhc cond = do {
     now \<leftarrow> ask (c_Now c);
     State_Monad.return (SetMachineCondition now mhc cond)
   }"

text \<open>More unhealthy targets than \<open>maxUnhealthy\<close>.\<close>

definition shortCircuit :: "'w client \<Rightarrow> Result \<Rightarrow> MachineHealthCheck \<Rightarrow> int \<Rightarrow> int \<Rightarrow> ('w, mhcOutcome) m" where
  "shortCircuit c result mhc totalTargets unhealthyCount = do {
     let msg = tooManyMessage totalTargets unhealthyCount (mhc_MaxUnhealthy mhc);
     WarningEvent EventReasonRemediationSkipped msg;
     ObserveMachineHealthCheckShortCircuitEnabled (mhc_Name mhc) (mhc_Namespace mhc);
     mhc1 \<leftarrow> setMachineCondition c (mhc\<lparr>mhc_RemediationsAllowed := 0\<rparr>)
               (remediationAllowed ConditionFalse ConditionSeverityWarning TooManyUnhealthyReason msg);
     State_Monad.return
       (if totalTargets = 0 \<or> unhealthyCount = 0 then (emptyResult, None, mhc1)
        else (result\<lparr>Requeue := True\<rparr>, None, mhc1))
   }"

definition remediateTargets ::
    "'w client \<Rightarrow> 'w Manager \<Rightarrow> Result \<Rightarrow> MachineHealthCheck \<Rightarrow> Target list \<Rightarrow> duration \<Rightarrow> error list \<Rightarrow> ('w, mhcOutcome) m" where
  "remediateTargets c rm result mhc needRemediation requeueIn errList = do {
     ObserveMachineHealthCheckShortCircuitDisabled (mhc_Name mhc) (mhc_Namespace mhc);
     mhc1 \<leftarrow> setMachineCondition c mhc (remediationAllowed ConditionTrue '''' '''' '''');
     r \<leftarrow> remediateAll rm needRemediation;
     State_Monad.return
       (case r of
          Inl p \<Rightarrow> (result, Some p, mhc1)
        | Inr remediationErrors \<Rightarrow>
            (let errs = errList @ remediationErrors
             in if errs \<noteq> [] then (result, NewAggregate (map Some errs), mhc1)
                else if 0 < requeueIn then (if Requeue result then result else result\<lparr>RequeueAfter := requeueIn\<rparr>, None, mhc1)
                else (result, None, mhc1)))
   }"

definition reconcileClassified ::
    "'w client \<Rightarrow> 'w Manager \<Rightarrow> MachineHealthCheck \<Rightarrow> int \<Rightarrow> targetClasses \<Rightarrow> ('w, mhcOutcome) m" where
  "reconcileClassified c rm mhc totalTargets classes = (case classes of (healthy, needRemediation, requeueIn, errList) \<Rightarrow> do {
     (result, err, healthyCount) \<leftarrow> handleHealthyTargets rm mhc emptyResult 0 healthy;
     case err of
       Some e \<Rightarrow> State_Monad.return (result, Some e, mhc)
     | None \<Rightarrow>
         (let mhc1 = mhc\<lparr>mhc_CurrentHealthy := Some healthyCount, mhc_ExpectedMachines := Some totalTargets\<rparr>;
              unhealthyCount = totalTargets - healthyCount
          in case getMaxUnhealthy mhc1 of
               Inl e \<Rightarrow> State_Monad.return (result, Some e, mhc1)
             | Inr maxUnhealthy \<Rightarrow>
                 (let mhc2 = mhc1\<lparr>mhc_RemediationsAllowed := wrap32 (getNrRemediationsAllowed unhealthyCount maxUnhealthy)\<rparr>
                  in if \<not> isRemediationsAllowed unhealthyCount maxUnhealthy
                     then shortCircuit c result mhc2 totalTargets unhealthyCount
                     else remediateTargets c rm result mhc2 needRemediation requeueIn errList))
   })"

definition reconcileTargets :: "'w client \<Rightarrow> 'w Manager \<Rightarrow> MachineHealthCheck \<Rightarrow> Target list \<Rightarrow> ('w, mhcOutcome) m" where
  "reconcileTargets c rm mhc targets = do {
     classes \<leftarrow> checkHealth c targets;
     reconcileClassified c rm mhc (int (length targets)) classes
   }"

definition mhcReconcileBody ::
    "'w client \<Rightarrow> 'w Manager \<Rightarrow> string list \<Rightarrow> MachineHealthCheck \<Rightarrow> ('w, mhcOutcome \<times> string list) m" where
  "mhcReconcileBody c rm watches mhc =
     (if HasMHCPausedAnnotation mhc then State_Monad.return ((emptyResult, None, mhc), watches)
      else if mhc_RemediationTemplate mhc = None then State_Monad.return ((emptyResult, None, mhc), watches)
      else do {
        (e, watches1) \<leftarrow> AddWatchesMhc c watches mhc;
        case e of
          Some e \<Rightarrow> State_Monad.return ((emptyResult, Some e, mhc), watches1)
        | None \<Rightarrow> do {
            r \<leftarrow> rm_GetMHCTargets rm mhc;
            case r of
              Inl e \<Rightarrow> State_Monad.return ((emptyResult, Some e, mhc), watches1)
            | Inr targets \<Rightarrow> do {
                ObserveMachineHealthCheckNodesCovered (mhc_Name mhc) (mhc_Namespace mhc) (int (length targets));
                out \<leftarrow> reconcileTargets c rm mhc targets;
                State_Monad.return (out, watches1)
              }
          }
      })"

text \<open>
  \<open>patchStatus\<close> of \<open>shared.go\<close>: the merge patch and the conversion to a map are the client
  library's; the message of the accessor error leaves out the printed value.
\<close>

definition getStatusError :: "error + json \<Rightarrow> error option" where
  "getStatusError u =
     (case u of
        Inl e \<Rightarrow> Some e
      | Inr j \<Rightarrow>
          (case NestedField j [''status''] of
             Inl e \<Rightarrow> Some e
           | Inr None \<Rightarrow> None
           | Inr (Some v) \<Rightarrow>
               (case v of JObj fs \<Rightarrow> None
                | _ \<Rightarrow> Some (Errorf ''.status accessor error: unexpected type, expected map[string]interface{}''))))"

definition mhcPatchStatus :: "'w client \<Rightarrow> MachineHealthCheck \<Rightarrow> MachineHealthCheck \<Rightarrow> ('w, error option) m" where
  "mhcPatchStatus c actual orig =
     (case c_MergePatchEmptyMHC c orig actual of
        Inl e \<Rightarrow> State_Monad.return (Some e)
      | Inr True \<Rightarrow> State_Monad.return None
      | Inr False \<Rightarrow>
          (case getStatusError (c_ToUnstructured c actual) of
             Some e \<Rightarrow> State_Monad.return (Some e)
           | None \<Rightarrow> mutate (PatchMHCStatus actual) (c_PatchMHCStatus c orig actual)))"

definition mhcLeaseHolderIdent :: "MachineHealthCheck \<Rightarrow> string" where
  "mhcLeaseHolderIdent mhc = ''MachineHealthCheck-'' @ mhc_Name mhc"

definition mhcReconcileFetched ::
    "'w client \<Rightarrow> string list \<Rightarrow> MachineHealthCheck \<Rightarrow> ('w, (Result \<times> error option) \<times> string list) m" where
  "mhcReconcileFetched c watches mhc = do {
     l \<leftarrow> NewLeaseManager c (mhcLeaseHolderIdent mhc);
     case l of
       Inl e \<Rightarrow> State_Monad.return ((emptyResult, Some e), watches)
     | Inr lm \<Rightarrow> do {
         let rm = as_Manager (NewManager c None True lm);
         ((result, err, mhc'), watches') \<leftarrow> mhcReconcileBody c rm watches mhc;
         patchErr \<leftarrow> mhcPatchStatus c mhc' mhc;
         State_Monad.return
           ((result, case err of
                       Some e \<Rightarrow> if is_panic e then Some e else NewAggregate [patchErr, Some e]
                     | None \<Rightarrow> NewAggregate [patchErr, None]), watches')
       }
   }"

definition mhcReconcile ::
    "'w client \<Rightarrow> accessor \<Rightarrow> Checker \<Rightarrow> string list \<Rightarrow> string \<Rightarrow> string \<Rightarrow>
     ('w, (Result \<times> error option) \<times> Checker \<times> string list) m" where
  "mhcReconcile c fga chk watches namespace name = do {
     (e, chk1) \<leftarrow> UpdateStatus c chk;
     case e of
       Some e \<Rightarrow> State_Monad.return ((emptyResult, Some e), chk1, watches)
     | None \<Rightarrow>
         if \<not> IsMachineAPIOperatorMHCDisabled fga then State_Monad.return ((emptyResult, None), chk1, watches)
         else do {
           g \<leftarrow> ask (c_GetMHC c namespace name);
           case g of
             Inl e \<Rightarrow>
               if IsNotFound e then do {
                 DeleteMachineHealthCheckNodesCovered name namespace;
                 ObserveMachineHealthCheckShortCircuitDisabled name namespace;
                 State_Monad.return ((emptyResult, None), chk1, watches)
               } else State_Monad.return ((emptyResult, Some e), chk1, watches)
           | Inr mhc \<Rightarrow> do {
               (res, watches1) \<leftarrow> mhcReconcileFetched c watches mhc;
               State_Monad.return (res, chk1, watches1)
             }
         }
   }"

subsection \<open>What a reconcile may write\<close>

text \<open>The fields the reconciler does not own are unchanged.\<close>

definition same_mhc :: "MachineHealthCheck \<Rightarrow> MachineHealthCheck \<Rightarrow> bool" where
  "same_mhc a b \<longleftrightarrow>
     b\<lparr>mhc_ExpectedMachines := mhc_ExpectedMachines a, mhc_CurrentHealthy := mhc_CurrentHealthy a,
       mhc_RemediationsAllowed := mhc_RemediationsAllowed a, mhc_Conditions := mhc_Conditions a\<rparr> = a"

fun mhc_effect :: "MachineHealthCheck \<Rightarrow> effect \<Rightarrow> bool" where
  "mhc_effect mhc (CreateCR x) = IsOwner x (MHC mhc)"
| "mhc_effect mhc (DeleteCR x) = (IsOwner x (MHC mhc) \<and> u_DeletionTimestamp x = None)"
| "mhc_effect mhc (UpdateCR x) = True"
| "mhc_effect mhc (PatchNode x) = True"
| "mhc_effect mhc (PatchMHCStatus x) = same_mhc mhc x"
| "mhc_effect mhc (CreateNamespace n) = True"
| "mhc_effect mhc (AddWatch k) = True"
| "mhc_effect mhc e = (is_lease_write e \<or> is_note e)"

text \<open>Effects that touch no remediation CR, no lease and no node.\<close>

fun mhc_quiet_effect :: "effect \<Rightarrow> bool" where
  "mhc_quiet_effect (PatchMHCStatus x) = True"
| "mhc_quiet_effect (CreateNamespace n) = True"
| "mhc_quiet_effect e = is_note e"

text \<open>When a target needs remediation, at the two readings of the clock.\<close>

definition needs_at :: "time \<Rightarrow> time \<Rightarrow> Target \<Rightarrow> bool" where
  "needs_at now now' t \<longleftrightarrow>
     m_Phase (tg_Machine t) = Some PhaseFailed \<or>
     (case tg_Node t of
        None \<Rightarrow> getNodeStartupTimeout (tg_MHC t) \<noteq> 0 \<and>
          (\<exists>u. m_LastUpdated (tg_Machine t) = Some u \<and> time_Before (time_Add u (getNodeStartupTimeout (tg_MHC t))) now)
      | Some node \<Rightarrow> n_UID node = '''' \<or> \<not> fst (IsHealthyMHC (mhc_UnhealthyConditions (tg_MHC t)) (n_Conditions node) now'))"

section \<open>Lemmas\<close>

subsection \<open>Health of the targets\<close>

lemma needsRemediation_run:
  assumes "c_Now c (world s) = (now, w)" and "c_Now c w = (now', w')"
    and "run_state (needsRemediation c t) s = (r, s')"
  obtains d where "r = Inr (needs_at now now' t, d)"
proof -
  let ?failed = "m_Phase (tg_Machine t) = Some PhaseFailed"
  have ph: "((case m_Phase (tg_Machine t) of None \<Rightarrow> '''' | Some p \<Rightarrow> p) = PhaseFailed) = ?failed"
    by (cases "m_Phase (tg_Machine t)") (auto simp: PhaseFailed_def)
  note run = assms(3)[unfolded needsRemediation_def ph Let_def disabledNodeStartupTimeout_def]
  have "\<exists>d. r = Inr (needs_at now now' t, d)"
  proof (cases ?failed)
    case True
    with run assms(1) show ?thesis by (auto simp: needs_at_def)
  next
    case False
    show ?thesis
    proof (cases "tg_Node t")
      case None
      with False run assms(1) show ?thesis
        by (cases "m_LastUpdated (tg_Machine t)") (auto simp: needs_at_def split: if_splits)
    next
      case (Some node)
      obtain h q where "IsHealthyMHC (mhc_UnhealthyConditions (tg_MHC t)) (n_Conditions node) now' = (h, q)" by fastforce
      with False Some run assms(1,2) show ?thesis
        by (cases h; cases q) (auto simp: needs_at_def split: if_splits)
    qed
  qed
  then show thesis using that by blast
qed

lemma needsRemediation_Inr: "run_state (needsRemediation c t) s = (Inl e, s') \<Longrightarrow> False"
  by (auto simp: needsRemediation_def Let_def split: option.splits if_splits prod.splits)

lemma emits_needsRemediation [emits_intros]: "emits P (needsRemediation c t)"
  unfolding needsRemediation_def Let_def by (intro emits_intros)

lemma emits_checkHealthFrom: "emits is_note (checkHealthFrom c acc ts)"
proof (induction ts arbitrary: acc)
  case (Cons t ts)
  then show ?case by (cases acc) (auto intro!: emits_intros)
qed (auto intro!: emits_intros)

lemma emits_checkHealth: "emits is_note (checkHealth c ts)"
  unfolding checkHealth_def by (rule emits_checkHealthFrom)

text \<open>A target is in one class at most, and a check never fails.\<close>

lemma checkHealthFrom_classes:
  assumes "run_state (checkHealthFrom c (h, n, d, es) ts) s = ((h', n', d', es'), s')"
  shows "\<exists>soon. mset h' + mset n' + soon = mset h + mset n + mset ts" and "es' = es"
proof -
  have "(\<exists>soon. mset h' + mset n' + soon = mset h + mset n + mset ts) \<and> es' = es"
    using assms
  proof (induction ts arbitrary: h n d es s)
    case (Cons t ts)
    obtain r s1 where r: "run_state (needsRemediation c t) s = (r, s1)" by fastforce
    then obtain b q where [simp]: "r = Inr (b, q)" using needsRemediation_Inr[of c t s _ s1] by (cases r) auto
    consider (need) "b" | (soon) "\<not> b" "0 < q" | (healthy) "\<not> b" "\<not> 0 < q" by blast
    then show ?case
    proof cases
      case need
      with Cons.prems r have "run_state (checkHealthFrom c (h, n @ [t], d, es) ts) s1 = ((h', n', d', es'), s')" by simp
      from Cons.IH[OF this] show ?thesis by (auto simp: add.assoc)
    next
      case soon
      with Cons.prems r obtain d2 s2 where "run_state (checkHealthFrom c (h, n, d2, es) ts) s2 = ((h', n', d', es'), s')" by auto
      from Cons.IH[OF this] obtain x where "mset h' + mset n' + x = mset h + mset n + mset ts" "es' = es" by blast
      then have "mset h' + mset n' + (add_mset t x) = mset h + mset n + mset (t # ts)" by simp
      with \<open>es' = es\<close> show ?thesis by blast
    next
      case healthy
      with Cons.prems r have "run_state (checkHealthFrom c (h @ [t], n, d, es) ts) s1 = ((h', n', d', es'), s')" by simp
      from Cons.IH[OF this] show ?thesis by (auto simp: add.assoc)
    qed
  qed auto
  then show "\<exists>soon. mset h' + mset n' + soon = mset h + mset n + mset ts" "es' = es" by auto
qed

lemma checkHealth_classes:
  assumes "run_state (checkHealth c ts) s = ((h, n, d, es), s')"
  shows "\<exists>soon. mset h + mset n + soon = mset ts" and "es = []"
  using checkHealthFrom_classes[of c "[]" "[]" 0 "[]" ts] assms by (auto simp: checkHealth_def)

lemma checkHealth_subset:
  assumes "run_state (checkHealth c ts) s = ((h, n, d, es), s')"
  shows "set h \<subseteq> set ts" and "set n \<subseteq> set ts"
proof -
  obtain soon where "mset h + mset n + soon = mset ts" using checkHealth_classes[OF assms] by blast
  then have "set_mset (mset h + mset n + soon) = set ts" by simp
  then show "set h \<subseteq> set ts" "set n \<subseteq> set ts" by auto
qed

subsection \<open>Effects\<close>

lemma mhc_effect_mono:
  "is_note e \<Longrightarrow> mhc_effect mhc e" "is_AddWatch e \<Longrightarrow> mhc_effect mhc e" "is_UpdateCR e \<Longrightarrow> mhc_effect mhc e"
  "is_CreateNamespace e \<Longrightarrow> mhc_effect mhc e" "cleanup_effect e \<Longrightarrow> mhc_effect mhc e" "healthy_effect (MHC mhc) e \<Longrightarrow> mhc_effect mhc e"
  "create_effect cr e \<Longrightarrow> IsOwner cr (MHC mhc) \<Longrightarrow> mhc_effect mhc e"
  by (cases e; simp; fail)+

lemma same_mhc_refl [simp]: "same_mhc mhc mhc"
  by (simp add: same_mhc_def)

lemma same_mhc_status:
  "same_mhc a b \<Longrightarrow> same_mhc a (b\<lparr>mhc_CurrentHealthy := x, mhc_ExpectedMachines := y\<rparr>)"
  "same_mhc a b \<Longrightarrow> same_mhc a (b\<lparr>mhc_RemediationsAllowed := z\<rparr>)"
  "same_mhc a b \<Longrightarrow> same_mhc a (SetMachineCondition now b cond)"
  by (simp_all add: same_mhc_def SetMachineCondition_def Let_def split: prod.splits)

lemma emits_mhc_metrics [emits_intros]:
  "P (MHCNodesCoveredDelete n ns) \<Longrightarrow> emits P (DeleteMachineHealthCheckNodesCovered n ns)"
  "P (MHCNodesCoveredSet n ns k) \<Longrightarrow> emits P (ObserveMachineHealthCheckNodesCovered n ns k)"
  "P (MHCShortCircuitSet n ns 0) \<Longrightarrow> emits P (ObserveMachineHealthCheckShortCircuitDisabled n ns)"
  "P (MHCShortCircuitSet n ns 1) \<Longrightarrow> emits P (ObserveMachineHealthCheckShortCircuitEnabled n ns)"
  by (simp_all add: DeleteMachineHealthCheckNodesCovered_def ObserveMachineHealthCheckNodesCovered_def
      ObserveMachineHealthCheckShortCircuitDisabled_def ObserveMachineHealthCheckShortCircuitEnabled_def emits_emit)

lemma safe_setMachineCondition:
  "same_mhc a mhc \<Longrightarrow> safe P (\<lambda>mhc'. same_mhc a mhc') (setMachineCondition c mhc cond)"
  unfolding setMachineCondition_def by (intro safe_bind_any safe_return emits_ask same_mhc_status)

lemma safe_shortCircuit:
  assumes "same_mhc a mhc"
  shows "safe is_note (\<lambda>x. same_mhc a (snd (snd x))) (shortCircuit c result mhc tot unhealthy)"
  unfolding shortCircuit_def Let_def
  by (intro safe_bind_any[of _ "WarningEvent _ _"] safe_bind_any[of _ "ObserveMachineHealthCheckShortCircuitEnabled _ _"]
      safe_bind[OF safe_setMachineCondition] safe_return emits_intros same_mhc_status assms) (auto simp: assms)


subsection \<open>Over the interface of the resource manager\<close>

context manager_iface
begin

lemma emits_handleHealthyTargets: "emits (healthy_effect (MHC mhc)) (handleHealthyTargets rm mhc result k ts)"
  by (induction ts arbitrary: result k) (auto intro!: emits_intros healthy split: option.splits)

lemma handleHealthyTargets_count:
  "run_state (handleHealthyTargets rm mhc result k ts) s = ((result', None, k'), s') \<Longrightarrow> k' = k + int (length ts)"
  by (induction ts arbitrary: result k s) (fastforce split: option.splits prod.splits sum.splits)+

lemma emits_remediateTarget:
  assumes "tg_MHC t = mhc"
  shows "emits (mhc_effect mhc) (remediateTarget rm t)"
proof -
  have "safe (mhc_effect mhc) (\<lambda>cr. IsOwner cr (MHC mhc)) (rm_GenerateRemediationCRForMachine rm ma (MHC mhc) template n)" for ma template n
    by (intro safeI reads returnsI generated_machine)
  moreover have "IsOwner cr (MHC mhc) \<Longrightarrow> emits (mhc_effect mhc) (rm_CreateRemediationCR rm cr (MHC mhc) on cur prev)" for cr on cur prev
    by (rule emits_mono[OF create]) (rule mhc_effect_mono(7))
  ultimately have "safe (mhc_effect mhc) (\<lambda>_. True) (remediateTarget rm t)"
    unfolding remediateTarget_def assms
    by (auto intro!: safe_return safe_bind_any[of _ "rm_GetTemplate _ _"] safe_bind_any[of _ "rm_CreateRemediationCR _ _ _ _ _ _"]
        safe_bind_any[of _ "NormalEvent _ _"] safe_bind[of _ "\<lambda>cr. IsOwner cr (MHC mhc)"] reads emits_intros
        split: sum.splits option.splits error.splits)
  then show ?thesis by (rule safe_emits)
qed

lemma emits_remediateAll: "(\<And>t. t \<in> set ts \<Longrightarrow> tg_MHC t = mhc) \<Longrightarrow> emits (mhc_effect mhc) (remediateAll rm ts)"
  by (induction ts) (auto intro!: emits_intros emits_remediateTarget)

lemma safe_remediateTargets:
  assumes "\<And>t. t \<in> set ts \<Longrightarrow> tg_MHC t = a" and "same_mhc a mhc"
  shows "safe (mhc_effect a) (\<lambda>x. same_mhc a (snd (snd x))) (remediateTargets c rm result mhc ts d es)"
  unfolding remediateTargets_def
  by (intro safe_bind_any[of _ "ObserveMachineHealthCheckShortCircuitDisabled _ _"] safe_bind_any[of _ "remediateAll _ _"]
      safe_bind[OF safe_setMachineCondition] safe_return emits_intros emits_remediateAll assms)
    (auto simp: Let_def assms split: sum.splits)

lemma safe_reconcileTargets:
  assumes ts: "\<And>t. t \<in> set ts \<Longrightarrow> tg_MHC t = mhc"
  shows "safe (mhc_effect mhc) (\<lambda>x. same_mhc mhc (snd (snd x))) (reconcileTargets c rm mhc ts)"
proof -
  have check: "safe (mhc_effect mhc) (\<lambda>(h, n, d, es). \<forall>t\<in>set n. tg_MHC t = mhc) (checkHealth c ts)"
    using checkHealth_subset(2)[of c ts] ts
    by (intro safeI returnsI emits_mono[OF emits_checkHealth] mhc_effect_mono(1)) fastforce+
  have healthyTargets: "emits (mhc_effect mhc) (handleHealthyTargets rm mhc result k h)" for result k h
    by (rule emits_mono[OF emits_handleHealthyTargets]) (rule mhc_effect_mono(6))
  have short: "safe (mhc_effect mhc) (\<lambda>x. same_mhc mhc (snd (snd x))) (shortCircuit c result b tot u)"
    if "same_mhc mhc b" for result b tot u
    by (rule safe_mono[OF safe_shortCircuit[OF that]]) (auto intro: mhc_effect_mono(1))
  show ?thesis
    unfolding reconcileTargets_def reconcileClassified_def Let_def
    by (intro safe_bind[OF check] safe_case_prod safe_case_prod_app safe_bind_any[of _ "handleHealthyTargets _ _ _ _ _"] healthyTargets
        safe_case_option safe_case_sum safe_if safe_return short safe_remediateTargets same_mhc_status same_mhc_refl emits_intros)
      (auto intro: same_mhc_status)
qed

lemma safe_mhcReconcileBody:
  "safe (mhc_effect mhc) (\<lambda>x. same_mhc mhc (snd (snd (fst x)))) (mhcReconcileBody c rm watches mhc)"
proof -
  have "safe (mhc_effect mhc) (\<lambda>r. \<forall>ts. r = Inr ts \<longrightarrow> (\<forall>t\<in>set ts. tg_MHC t = mhc)) (rm_GetMHCTargets rm mhc)"
    by (intro safeI reads returnsI) (auto dest: targets)
  note targets_bind = safe_bind[OF this]
  have "safe (mhc_effect mhc) (\<lambda>x. same_mhc mhc (snd (snd x))) (reconcileTargets c rm mhc ts)" if "\<forall>t\<in>set ts. tg_MHC t = mhc" for ts
    using that by (intro safe_reconcileTargets) simp
  note run_targets = safe_bind[OF this]
  show ?thesis
    unfolding mhcReconcileBody_def
    by (intro safe_if safe_return safe_bind_any[of _ "AddWatchesMhc _ _ _"] targets_bind run_targets safe_case_prod safe_case_option
        safe_bind_any[of _ "ObserveMachineHealthCheckNodesCovered _ _ _"] safe_case_sum emits_AddWatchesMhc emits_intros)
      (auto intro: mhc_effect_mono(2))
qed

text \<open>Passing the gate bounds the targets that were not found healthy.\<close>

lemma no_create_above_maxUnhealthy:
  assumes many: "\<And>m. getMaxUnhealthy (mhc\<lparr>mhc_CurrentHealthy := Some (int (length h)), mhc_ExpectedMachines := Some tot\<rparr>) = Inr m \<Longrightarrow>
      m < tot - int (length h)"
  shows "emits (\<lambda>e. \<not> is_CreateCR e) (reconcileClassified c rm mhc tot (h, n, d, es))"
proof -
  let ?P = "\<lambda>e. \<not> is_CreateCR e"
  have healthy_P: "?P e" if "healthy_effect owner e" for owner e using that by (cases e) auto
  have short: "safe ?P (\<lambda>_. True) (shortCircuit c result b t u)" for result b t u
    unfolding shortCircuit_def setMachineCondition_def Let_def by (intro safeI emits_intros) (auto simp: returns_def)
  have count: "safe ?P (\<lambda>x. fst (snd x) = None \<longrightarrow> snd (snd x) = int (length h)) (handleHealthyTargets rm mhc emptyResult 0 h)"
    using handleHealthyTargets_count[of mhc emptyResult 0 h]
    by (intro safeI returnsI emits_mono[OF emits_handleHealthyTargets] healthy_P) (auto simp: split_paired_all)
  have "safe ?P (\<lambda>_. True) (reconcileClassified c rm mhc tot (h, n, d, es))"
    using many unfolding reconcileClassified_def
    by (auto simp: Let_def not_le intro!: safe_bind[OF count] safe_return short split: option.splits sum.splits)
  then show ?thesis by (rule safe_emits)
qed

lemma CreateCR_maxUnhealthy:
  assumes cr: "CreateCR cr \<in> set (effects_of (reconcileTargets c rm mhc ts) s)"
  shows "\<exists>h n d es s1 m. run_state (checkHealth c ts) s = ((h, n, d, es), s1) \<and>
     getMaxUnhealthy (mhc\<lparr>mhc_CurrentHealthy := Some (int (length h)), mhc_ExpectedMachines := Some (int (length ts))\<rparr>) = Inr m \<and>
     int (length ts) - int (length h) \<le> m"
proof (rule ccontr)
  assume many: "\<not> ?thesis"
  obtain h n d es s1 where run: "run_state (checkHealth c ts) s = ((h, n, d, es), s1)" by (metis surj_pair)
  with many have "emits (\<lambda>e. \<not> is_CreateCR e) (reconcileClassified c rm mhc (int (length ts)) (h, n, d, es))"
    by (intro no_create_above_maxUnhealthy) fastforce
  moreover have "emits (\<lambda>e. \<not> is_CreateCR e) (checkHealth c ts)"
    by (rule emits_mono[OF emits_checkHealth]) (auto elim: is_CreateCR.elims)
  ultimately have "list_all (\<lambda>e. \<not> is_CreateCR e) (effects_of (reconcileTargets c rm mhc ts) s)"
    unfolding reconcileTargets_def
    by (intro effects_of_bind[where f = "reconcileClassified c rm mhc (int (length ts))", OF _ run])
  with cr show False by (auto simp: list_all_iff)
qed

end


subsection \<open>The whole reconcile\<close>

lemma safe_NewLeaseManager_mhc:
  "(\<And>e. is_CreateNamespace e \<Longrightarrow> P e) \<Longrightarrow> safe P (\<lambda>x. \<forall>lm. x = Inr lm \<longrightarrow> lm = nhcLeaseManager c h) (NewLeaseManager c h)"
  by (intro safeI returnsI emits_mono[OF emits_NewLeaseManager]) (auto dest: NewLeaseManager_Inr)

lemma emits_mhcPatchStatus: "P (PatchMHCStatus actual) \<Longrightarrow> emits P (mhcPatchStatus c actual orig)"
  unfolding mhcPatchStatus_def by (intro emits_intros)

lemma emits_mhcReconcileFetched: "emits (mhc_effect mhc) (mhcReconcileFetched c watches mhc)"
proof -
  have body: "safe (mhc_effect mhc) (\<lambda>x. same_mhc mhc (snd (snd (fst x))))
      (mhcReconcileBody c (as_Manager (NewManager c None True (nhcLeaseManager c h))) watches mhc)" for h
    by (rule nhcm.safe_mhcReconcileBody)
  have "safe (mhc_effect mhc) (\<lambda>_. True) (mhcReconcileFetched c watches mhc)"
    unfolding mhcReconcileFetched_def Let_def
    by (intro safe_bind[OF safe_NewLeaseManager_mhc] safe_case_sum safe_return mhc_effect_mono(4))
      (auto intro!: safe_bind[OF body] safe_bind_any[of _ "mhcPatchStatus _ _ _"] safe_return emits_mhcPatchStatus)
  then show ?thesis by (rule safe_emits)
qed

lemma emits_mhcReconcileFetched_quiet:
  assumes "HasMHCPausedAnnotation mhc \<or> mhc_RemediationTemplate mhc = None"
  shows "emits mhc_quiet_effect (mhcReconcileFetched c watches mhc)"
proof -
  have "mhcReconcileBody c rm watches mhc = State_Monad.return ((emptyResult, None, mhc), watches)" for rm
    using assms by (auto simp: mhcReconcileBody_def)
  moreover have "emits mhc_quiet_effect (NewLeaseManager c h)" for h
    by (rule emits_mono[OF emits_NewLeaseManager]) (auto elim: is_CreateNamespace.elims)
  ultimately show ?thesis unfolding mhcReconcileFetched_def Let_def
    by (auto intro!: emits_intros emits_mhcPatchStatus)
qed

text \<open>Reading the lists of the checker first leaves the rest of the reconcile.\<close>

lemma effects_of_mhcReconcile:
  assumes P: "P GenericEvent" "\<And>e. is_note e \<Longrightarrow> P e"
    and fetched: "\<And>mhc w. fst (c_GetMHC c ns name w) = Inr mhc \<Longrightarrow> IsMachineAPIOperatorMHCDisabled fga \<Longrightarrow> emits P (mhcReconcileFetched c watches mhc)"
  shows "emits P (mhcReconcile c fga chk watches ns name)"
proof -
  have get: "safe P (\<lambda>g. \<forall>mhc. g = Inr mhc \<longrightarrow> (\<exists>w. fst (c_GetMHC c ns name w) = Inr mhc)) (ask (c_GetMHC c ns name))"
    by (rule safe_ask) blast
  have "safe P (\<lambda>_. True) (mhcReconcile c fga chk watches ns name)"
    unfolding mhcReconcile_def
    by (intro safe_bind_any[of _ "UpdateStatus _ _"] safe_case_prod safe_case_option safe_if safe_return safe_bind[OF get] safe_case_sum
        safe_bind_any[of _ "DeleteMachineHealthCheckNodesCovered _ _"] safe_bind_any[of _ "ObserveMachineHealthCheckShortCircuitDisabled _ _"]
        safe_bind_any[of _ "mhcReconcileFetched _ _ _"] emits_intros P)
      (auto intro: fetched)
  then show ?thesis by (rule safe_emits)
qed

subsection \<open>Machines without a node\<close>

text \<open>The CR is created, and then the reconcile panics while it builds the event's message.\<close>

lemma remediateTarget_no_node:
  assumes "tg_Node t = None" "m_DeletionTimestamp (tg_Machine t) = None"
    and "run_state (rm_GetTemplate rm (tg_MHC t)) s = (Inr template, s1)"
    and "run_state (rm_GenerateRemediationCRForMachine rm (tg_Machine t) (MHC (tg_MHC t)) template '''') s1 = (cr, s2)"
    and "run_state (rm_CreateRemediationCR rm cr (MHC (tg_MHC t)) None DefaultRemediationDuration 0) s2 = ((True, d, cr', None), s3)"
  shows "run_state (remediateTarget rm t) s = (Some (Panic ''nil pointer dereference: target.Node''), s3)"
  using assms by (simp add: remediateTarget_def targetNodeName_def)

end
