(* ===== verification/Webhook.thy ===== *)
theory Webhook
  imports Utils Validation Checkers Go_Time
begin

text \<open>
  The validating webhook (\<open>internal/webhook/v1alpha1/nodehealthcheck_webhook.go\<close>): what a
  \<open>NodeHealthCheck\<close> must satisfy to be created, updated or deleted. The lemmas characterise the accepted
  objects, and show that a running remediation keeps the selector and the templates.

  \<open>reflect.DeepEqual\<close> compares the fields of the model's records, and label maps as maps.
\<close>

section \<open>Definitions\<close>

definition OngoingRemediationError :: string where "OngoingRemediationError = ''prohibited due to running remediation''"
definition invalidSelectorError :: string where "invalidSelectorError = ''Invalid selector''"
definition missingSelectorError :: string where "missingSelectorError = ''Selector is mandatory''"
definition mandatoryRemediationError :: string where
  "mandatoryRemediationError = ''Either RemediationTemplate or at least one EscalatingRemediations must be set''"
definition mutualRemediationError :: string where
  "mutualRemediationError = ''RemediationTemplate and EscalatingRemediations usage is mutual exclusive''"
definition uniqueOrderError :: string where "uniqueOrderError = ''EscalatingRemediation Order must be unique''"
definition uniqueRemediatorError :: string where
  "uniqueRemediatorError = ''Using multiple templates of same kind is not supported for this template''"
definition minimumTimeoutError :: string where "minimumTimeoutError = ''EscalatingRemediation Timeout must be at least one minute''"
definition unsupportedCpTopologyError :: string where "unsupportedCpTopologyError = ''Unsupported control plane topology''"

record 'w customValidator =
  v_Client :: "'w client"
  v_caps :: Capabilities

definition validateControlPlaneTopology :: "'w customValidator \<Rightarrow> error option" where
  "validateControlPlaneTopology v =
     (if \<not> IsSupportedControlPlaneTopology (v_caps v) then Some (Errorf unsupportedCpTopologyError) else None)"

definition validateSelector :: "'w customValidator \<Rightarrow> NodeHealthCheck \<Rightarrow> error option" where
  "validateSelector v nhc =
     (let sel = Selector (nhc_Spec nhc)
      in if length (ls_MatchExpressions sel) = 0 \<and> length (ls_MatchLabels sel) = 0 then Some (Errorf missingSelectorError)
         else case c_Selector (v_Client v) sel of
                Some e \<Rightarrow> Some (Errorf (invalidSelectorError @ '': '' @ error_msg e))
              | None \<Rightarrow> None)"

definition validateMutualRemediations :: "NodeHealthCheck \<Rightarrow> error option" where
  "validateMutualRemediations nhc =
     (let spec = nhc_Spec nhc
      in if RemediationTemplate spec = None \<and> length (EscalatingRemediations spec) = 0
         then Some (Errorf mandatoryRemediationError)
         else if RemediationTemplate spec \<noteq> None \<and> length (EscalatingRemediations spec) > 0
         then Some (Errorf mutualRemediationError)
         else None)"

text \<open>The loops over the escalating remediations; the first argument is the set of values seen so far.\<close>

fun validateUniqueOrderFrom :: "int list \<Rightarrow> EscalatingRemediation list \<Rightarrow> error option" where
  "validateUniqueOrderFrom orders [] = None"
| "validateUniqueOrderFrom orders (rem # rems) =
     (if er_Order rem \<in> set orders then
        Some (Errorf (uniqueOrderError @ '': found duplicate order '' @ Itoa (er_Order rem)))
      else validateUniqueOrderFrom (er_Order rem # orders) rems)"

definition validateEscalatingRemediationsUniqueOrder :: "NodeHealthCheck \<Rightarrow> error option" where
  "validateEscalatingRemediationsUniqueOrder nhc = validateUniqueOrderFrom [] (EscalatingRemediations (nhc_Spec nhc))"

definition validateEscalatingRemediationsTimeout :: "NodeHealthCheck \<Rightarrow> error option" where
  "validateEscalatingRemediationsTimeout nhc =
     (case find (\<lambda>rem. er_Timeout rem < 1 * minute) (EscalatingRemediations (nhc_Spec nhc)) of
        Some rem \<Rightarrow> Some (Errorf (minimumTimeoutError @ '': found timeout '' @ Duration_String (er_Timeout rem)))
      | None \<Rightarrow> None)"

definition isMultipleTemplatesSupported :: "'w customValidator \<Rightarrow> ObjectReference \<Rightarrow> ('w, bool) m" where
  "isMultipleTemplatesSupported v nhcExpectedTemplate = do {
     let templateCRBase = u_SetGVK (or_GVK nhcExpectedTemplate) empty_unstructured;
     l \<leftarrow> ask (c_List (v_Client v) (u_GVK templateCRBase));
     State_Monad.return
       (case l of
          Inl e \<Rightarrow> False
        | Inr items \<Rightarrow> if length items = 0 then False else list_all HasMultipleTemplatesAnnotation items)
   }"

fun validateUniqueRemediatorFrom ::
    "'w customValidator \<Rightarrow> string list \<Rightarrow> EscalatingRemediation list \<Rightarrow> ('w, error option) m" where
  "validateUniqueRemediatorFrom v remediators [] = State_Monad.return None"
| "validateUniqueRemediatorFrom v remediators (rem # rems) = do {
     let kind = or_Kind (er_RemediationTemplate rem);
     supported \<leftarrow> (if kind \<in> set remediators then isMultipleTemplatesSupported v (er_RemediationTemplate rem)
                  else State_Monad.return True);
     if kind \<in> set remediators \<and> \<not> supported then
       State_Monad.return (Some (Errorf (uniqueRemediatorError @ '': duplicate template kind: '' @ kind)))
     else validateUniqueRemediatorFrom v (kind # remediators) rems
   }"

definition validateEscalatingRemediationsUniqueRemediator :: "'w customValidator \<Rightarrow> NodeHealthCheck \<Rightarrow> ('w, error option) m" where
  "validateEscalatingRemediationsUniqueRemediator v nhc =
     validateUniqueRemediatorFrom v [] (EscalatingRemediations (nhc_Spec nhc))"

definition validateEscalatingRemediations :: "'w customValidator \<Rightarrow> NodeHealthCheck \<Rightarrow> ('w, error option) m" where
  "validateEscalatingRemediations v nhc =
     (if EscalatingRemediations (nhc_Spec nhc) = [] then State_Monad.return None
      else do {
        uniqueRemediator \<leftarrow> validateEscalatingRemediationsUniqueRemediator v nhc;
        State_Monad.return
          (NewAggregate
             [validateEscalatingRemediationsUniqueOrder nhc, validateEscalatingRemediationsTimeout nhc, uniqueRemediator])
      })"

definition validate :: "'w customValidator \<Rightarrow> NodeHealthCheck \<Rightarrow> ('w, error option) m" where
  "validate v nhc = do {
     escalating \<leftarrow> validateEscalatingRemediations v nhc;
     State_Monad.return
       (NewAggregate
          [ValidateMinHealthyMaxUnhealthy (nhc_Spec nhc), validateSelector v nhc, validateMutualRemediations nhc,
           escalating, validateControlPlaneTopology v])
   }"

definition isRemediating_webhook :: "NodeHealthCheck \<Rightarrow> bool" where
  "isRemediating_webhook nhc = list_ex (\<lambda>un. length (un_Remediations un) > 0) (UnhealthyNodes (nhc_Status nhc))"

definition same_labels :: "(string \<times> string) list \<Rightarrow> (string \<times> string) list \<Rightarrow> bool" where
  "same_labels xs ys \<longleftrightarrow> list_all (\<lambda>k. map_of xs k = map_of ys k) (map fst xs @ map fst ys)"

definition isRestrictedFieldUpdated :: "NodeHealthCheck \<Rightarrow> NodeHealthCheck \<Rightarrow> bool \<times> string" where
  "isRestrictedFieldUpdated nhc old =
     (let new = nhc_Spec nhc; old = nhc_Spec old
      in if \<not> (same_labels (ls_MatchLabels (Selector new)) (ls_MatchLabels (Selector old)) \<and>
               ls_MatchExpressions (Selector new) = ls_MatchExpressions (Selector old)) then (True, ''selector'')
         else if RemediationTemplate new \<noteq> RemediationTemplate old then (True, ''remediation template'')
         else if EscalatingRemediations new \<noteq> EscalatingRemediations old then (True, ''escalating remediations'')
         else (False, ''''))"

definition ValidateCreate :: "'w customValidator \<Rightarrow> NodeHealthCheck \<Rightarrow> ('w, error option) m" where
  "ValidateCreate v nhc = validate v nhc"

definition ValidateUpdate :: "'w customValidator \<Rightarrow> NodeHealthCheck \<Rightarrow> NodeHealthCheck \<Rightarrow> ('w, error option) m" where
  "ValidateUpdate v oldNhc nhc = do {
     e \<leftarrow> validate v nhc;
     State_Monad.return
       (case e of
          Some err \<Rightarrow> Some err
        | None \<Rightarrow>
            if isRemediating_webhook nhc then
              (case isRestrictedFieldUpdated nhc oldNhc of
                 (updated, field) \<Rightarrow>
                   if updated then Some (Errorf (field @ '' update '' @ OngoingRemediationError)) else None)
            else None)
   }"

definition ValidateDelete :: "NodeHealthCheck \<Rightarrow> error option" where
  "ValidateDelete nhc = (if isRemediating_webhook nhc then Some (Errorf (''deletion '' @ OngoingRemediationError)) else None)"

subsection \<open>Specification\<close>

text \<open>What an accepted spec promises, apart from the support of several templates of one kind.\<close>

definition spec_ok :: "'w customValidator \<Rightarrow> NodeHealthCheckSpec \<Rightarrow> bool" where
  "spec_ok v spec \<longleftrightarrow>
     ValidateMinHealthyMaxUnhealthy spec = None \<and>
     (ls_MatchExpressions (Selector spec) \<noteq> [] \<or> ls_MatchLabels (Selector spec) \<noteq> []) \<and>
     c_Selector (v_Client v) (Selector spec) = None \<and>
     (RemediationTemplate spec = None \<longleftrightarrow> EscalatingRemediations spec \<noteq> []) \<and>
     distinct (map er_Order (EscalatingRemediations spec)) \<and>
     list_all (\<lambda>er. minute \<le> er_Timeout er) (EscalatingRemediations spec) \<and>
     IsSupportedControlPlaneTopology (v_caps v)"

definition templateKinds :: "NodeHealthCheckSpec \<Rightarrow> string list" where
  "templateKinds spec = map (or_Kind \<circ> er_RemediationTemplate) (EscalatingRemediations spec)"

section \<open>Lemmas\<close>

lemma same_labels_iff: "same_labels xs ys \<longleftrightarrow> map_of xs = map_of ys"
proof
  assume s: "same_labels xs ys"
  show "map_of xs = map_of ys"
  proof
    fix k
    show "map_of xs k = map_of ys k"
    proof (cases "k \<in> fst ` set xs \<union> fst ` set ys")
      case True
      with s show ?thesis by (auto simp: same_labels_def list_all_iff)
    next
      case False
      then show ?thesis by (simp add: map_of_eq_None_iff[THEN iffD2])
    qed
  qed
qed (simp add: same_labels_def list_all_iff)

lemma validateUniqueOrderFrom_None:
  "validateUniqueOrderFrom seen rems = None \<longleftrightarrow> distinct (map er_Order rems) \<and> set (map er_Order rems) \<inter> set seen = {}"
  by (induction rems arbitrary: seen) auto

lemma validateEscalatingRemediationsTimeout_None:
  "validateEscalatingRemediationsTimeout nhc = None \<longleftrightarrow> list_all (\<lambda>er. minute \<le> er_Timeout er) (EscalatingRemediations (nhc_Spec nhc))"
  by (auto simp: validateEscalatingRemediationsTimeout_def find_None_iff find_Some_iff list_all_iff not_less split: option.splits)
    (metis leD nth_mem)

lemma validateSelector_None:
  "validateSelector v nhc = None \<longleftrightarrow>
    (ls_MatchExpressions (Selector (nhc_Spec nhc)) \<noteq> [] \<or> ls_MatchLabels (Selector (nhc_Spec nhc)) \<noteq> []) \<and>
    c_Selector (v_Client v) (Selector (nhc_Spec nhc)) = None"
  by (auto simp: validateSelector_def Let_def split: option.splits)

lemma validateMutualRemediations_None:
  "validateMutualRemediations nhc = None \<longleftrightarrow>
    (RemediationTemplate (nhc_Spec nhc) = None \<longleftrightarrow> EscalatingRemediations (nhc_Spec nhc) \<noteq> [])"
  by (auto simp: validateMutualRemediations_def Let_def)

text \<open>Without a repeated kind the cluster is not asked at all.\<close>

lemma validateUniqueRemediatorFrom_distinct:
  "distinct (map (or_Kind \<circ> er_RemediationTemplate) rems) \<Longrightarrow> set (map (or_Kind \<circ> er_RemediationTemplate) rems) \<inter> set seen = {} \<Longrightarrow>
    run_state (validateUniqueRemediatorFrom v seen rems) s = (None, s)"
  by (induction rems arbitrary: seen) (auto simp: Let_def)

text \<open>When no template carries the annotation, or none can be listed, kinds must not repeat.\<close>

lemma validateUniqueRemediatorFrom_unsupported:
  assumes "\<And>g w. \<exists>r w'. c_List (v_Client v) g w = (r, w') \<and> (\<forall>items. r = Inr items \<longrightarrow> \<not> list_all HasMultipleTemplatesAnnotation items \<or> items = [])"
    and "run_state (validateUniqueRemediatorFrom v seen rems) s = (None, s')"
  shows "distinct (map (or_Kind \<circ> er_RemediationTemplate) rems) \<and> set (map (or_Kind \<circ> er_RemediationTemplate) rems) \<inter> set seen = {}"
  using assms(2)
proof (induction rems arbitrary: seen s)
  case (Cons rem rems)
  let ?k = "or_Kind (er_RemediationTemplate rem)"
  have no: "\<not> fst (run_state (isMultipleTemplatesSupported v ref) t)" for ref t
    using assms(1)[of "u_GVK (u_SetGVK (or_GVK ref) empty_unstructured)" "world t"]
    by (auto simp: isMultipleTemplatesSupported_def split: sum.splits)
  have new: "?k \<notin> set seen"
    using Cons.prems no[of "er_RemediationTemplate rem" s] by (auto simp: Let_def split: prod.splits if_splits)
  with Cons.prems have "run_state (validateUniqueRemediatorFrom v (?k # seen) rems) s = (None, s')" by (simp add: Let_def)
  from Cons.IH[OF this] new show ?case by auto
qed simp

lemma validate_None:
  assumes "run_state (validate v nhc) s = (None, s')"
  shows "spec_ok v (nhc_Spec nhc) \<and>
    (EscalatingRemediations (nhc_Spec nhc) \<noteq> [] \<longrightarrow>
      run_state (validateUniqueRemediatorFrom v [] (EscalatingRemediations (nhc_Spec nhc))) s = (None, s'))"
  using assms
  by (auto simp: validate_def validateEscalatingRemediations_def validateEscalatingRemediationsUniqueRemediator_def
      validateEscalatingRemediationsUniqueOrder_def validateUniqueOrderFrom_None validateEscalatingRemediationsTimeout_None
      validateSelector_None validateMutualRemediations_None validateControlPlaneTopology_def spec_ok_def
      split: prod.splits if_splits)

lemma validate_accepts:
  assumes "spec_ok v (nhc_Spec nhc)" and "distinct (templateKinds (nhc_Spec nhc))"
  shows "run_state (validate v nhc) s = (None, s)"
  using assms validateUniqueRemediatorFrom_distinct[of "EscalatingRemediations (nhc_Spec nhc)" "[]" v s]
  by (auto simp: validate_def validateEscalatingRemediations_def validateEscalatingRemediationsUniqueRemediator_def
      validateEscalatingRemediationsUniqueOrder_def validateUniqueOrderFrom_None validateEscalatingRemediationsTimeout_None
      validateSelector_None validateMutualRemediations_None validateControlPlaneTopology_def spec_ok_def templateKinds_def)

lemma isRestrictedFieldUpdated_iff:
  "\<not> fst (isRestrictedFieldUpdated nhc old) \<longleftrightarrow>
    map_of (ls_MatchLabels (Selector (nhc_Spec nhc))) = map_of (ls_MatchLabels (Selector (nhc_Spec old))) \<and>
    ls_MatchExpressions (Selector (nhc_Spec nhc)) = ls_MatchExpressions (Selector (nhc_Spec old)) \<and>
    RemediationTemplate (nhc_Spec nhc) = RemediationTemplate (nhc_Spec old) \<and>
    EscalatingRemediations (nhc_Spec nhc) = EscalatingRemediations (nhc_Spec old)"
  by (auto simp: isRestrictedFieldUpdated_def Let_def same_labels_iff)

lemma ValidateUpdate_None:
  assumes "run_state (ValidateUpdate v old nhc) s = (None, s')"
  shows "run_state (validate v nhc) s = (None, s')" and "isRemediating_webhook nhc \<Longrightarrow> \<not> fst (isRestrictedFieldUpdated nhc old)"
  using assms by (auto simp: ValidateUpdate_def split: prod.splits option.splits if_splits)

lemma ValidateDelete_None: "ValidateDelete nhc = None \<longleftrightarrow> (\<forall>un\<in>set (UnhealthyNodes (nhc_Status nhc)). un_Remediations un = [])"
  by (auto simp: ValidateDelete_def isRemediating_webhook_def list_ex_iff)

lemma emits_validate: "emits P (validate v nhc)"
proof -
  have "emits P (validateUniqueRemediatorFrom v seen rems)" for seen rems
    by (induction rems arbitrary: seen) (auto simp: isMultipleTemplatesSupported_def Let_def intro!: emits_intros)
  then show ?thesis
    by (auto simp: validate_def validateEscalatingRemediations_def validateEscalatingRemediationsUniqueRemediator_def
        intro!: emits_intros)
qed

end
