(* ===== verification/Initializer.thy ===== *)
theory Initializer
  imports Utils Checkers
begin

text \<open>
  What the operator sets up when it starts (\<open>internal/controller/initializer/init.go\<close>): the aggregation
  of roles (\<open>rbac/aggregation.go\<close>), the console plugin (\<open>console/plugin.go\<close>) and the service monitor
  (\<open>servicemonitor/monitor.go\<close>), with the search for the operator's deployment (\<open>utils/utils.go\<close>).

  These parts use kinds of objects that nothing else uses, so they have a client and effects of their
  own, over the same calculus. The lemmas show what a start writes, whatever the API server answers.
\<close>

section \<open>Definitions\<close>

subsection \<open>Objects\<close>

record ClusterRole =
  role_Name :: string
  role_Namespace :: string
  role_OwnerReferences :: "OwnerReference list"
  role_Rules :: "json list"
  role_AggregationRule :: "LabelSelector list option"

record RoleRef =
  rr_APIGroup :: string
  rr_Kind :: string
  rr_Name :: string

record Subject =
  sub_Kind :: string
  sub_Name :: string
  sub_Namespace :: string

record ClusterRoleBinding =
  rb_Name :: string
  rb_Namespace :: string
  rb_OwnerReferences :: "OwnerReference list"
  rb_RoleRef :: RoleRef
  rb_Subjects :: "Subject list"

record ConsolePluginService =
  cps_Name :: string
  cps_Namespace :: string
  cps_Port :: int
  cps_BasePath :: string

record ConsolePluginSpec =
  cp_DisplayName :: string
  cp_BackendType :: string
  cp_Service :: "ConsolePluginService option"

record ConsolePlugin =
  cp_Name :: string
  cp_OwnerReferences :: "OwnerReference list"
  cp_Spec :: ConsolePluginSpec

text \<open>A namespace, and a pod, replica set or deployment, as far as they are looked at.\<close>

record Namespace =
  ns_Name :: string
  ns_Labels :: gomap

record Workload =
  wl_Name :: string
  wl_UID :: string
  wl_OwnerReferences :: "OwnerReference list"

subsection \<open>Client and effects\<close>

datatype setup_effect =
    CreateRole ClusterRole
  | UpdateRole ClusterRole
  | CreateRoleBinding ClusterRoleBinding
  | UpdateRoleBinding ClusterRoleBinding
  | CreatePlugin ConsolePlugin
  | UpdatePlugin ConsolePlugin
  | PatchNamespace Namespace
  | CreateMonitor Unstructured
  | UpdateMonitor Unstructured

record 'w setup_client =
  i_Env :: "string \<rightharpoonup> string"
  i_GetRole :: "string \<Rightarrow> 'w \<Rightarrow> (error + ClusterRole) \<times> 'w"
  i_CreateRole :: "ClusterRole \<Rightarrow> 'w \<Rightarrow> error option \<times> 'w"
  i_UpdateRole :: "ClusterRole \<Rightarrow> 'w \<Rightarrow> error option \<times> 'w"
  i_GetRoleBinding :: "string \<Rightarrow> 'w \<Rightarrow> (error + ClusterRoleBinding) \<times> 'w"
  i_CreateRoleBinding :: "ClusterRoleBinding \<Rightarrow> 'w \<Rightarrow> error option \<times> 'w"
  i_UpdateRoleBinding :: "ClusterRoleBinding \<Rightarrow> 'w \<Rightarrow> error option \<times> 'w"
  i_GetPod :: "string \<Rightarrow> string \<Rightarrow> 'w \<Rightarrow> (error + Workload) \<times> 'w"
  i_GetReplicaSet :: "string \<Rightarrow> string \<Rightarrow> 'w \<Rightarrow> (error + Workload) \<times> 'w"
  i_GetDeployment :: "string \<Rightarrow> string \<Rightarrow> 'w \<Rightarrow> (error + Workload) \<times> 'w"
  i_GetPlugin :: "string \<Rightarrow> 'w \<Rightarrow> (error + ConsolePlugin) \<times> 'w"
  i_CreatePlugin :: "ConsolePlugin \<Rightarrow> 'w \<Rightarrow> error option \<times> 'w"
  i_UpdatePlugin :: "ConsolePlugin \<Rightarrow> 'w \<Rightarrow> error option \<times> 'w"
  i_GetNamespace :: "string \<Rightarrow> 'w \<Rightarrow> (error + Namespace) \<times> 'w"
  i_PatchNamespace :: "Namespace \<Rightarrow> Namespace \<Rightarrow> 'w \<Rightarrow> error option \<times> 'w"
  i_GetMonitor :: "Unstructured \<Rightarrow> 'w \<Rightarrow> (error + Unstructured) \<times> 'w"
  i_CreateMonitor :: "Unstructured \<Rightarrow> 'w \<Rightarrow> error option \<times> 'w"
  i_UpdateMonitor :: "Unstructured \<Rightarrow> 'w \<Rightarrow> error option \<times> 'w"

type_synonym ('w, 'a) start = "('w, setup_effect, 'a) io"

definition put :: "setup_effect \<Rightarrow> ('w \<Rightarrow> 'a \<times> 'w) \<Rightarrow> ('w, 'a) start" where
  "put e f = do { emit e; ask f }"

subsection \<open>Role aggregation\<close>

definition roleName :: string where "roleName = ''node-healthcheck-operator-aggregation''"
definition aggregationLabelKey :: string where "aggregationLabelKey = ''rbac.ext-remediation/aggregate-to-ext-remediation''"
definition saName :: string where "saName = ''node-healthcheck-controller-manager''"
definition deploymentName :: string where "deploymentName = ''node-healthcheck-controller-manager''"

text \<open>The receiver \<open>aggregation\<close> is the client and the namespace.\<close>

definition getOwnerRefs :: "'w setup_client \<Rightarrow> string \<Rightarrow> ('w, OwnerReference list) start" where
  "getOwnerRefs c namespace = do {
     r \<leftarrow> ask (i_GetDeployment c namespace deploymentName);
     State_Monad.return
       (case r of
          Inl e \<Rightarrow> []
        | Inr depl \<Rightarrow>
            [\<lparr>ow_APIVersion = ''apps/v1'', ow_Kind = ''Deployment'', ow_Name = wl_Name depl, ow_UID = wl_UID depl, ow_Controller = None\<rparr>])
   }"

definition getRole :: "'w setup_client \<Rightarrow> string \<Rightarrow> ('w, ClusterRole) start" where
  "getRole c namespace = do {
     refs \<leftarrow> getOwnerRefs c namespace;
     State_Monad.return
       \<lparr>role_Name = roleName, role_Namespace = namespace, role_OwnerReferences = refs, role_Rules = [],
        role_AggregationRule = Some [\<lparr>ls_MatchLabels = [(aggregationLabelKey, ''true'')], ls_MatchExpressions = []\<rparr>]\<rparr>
   }"

definition createRole :: "'w setup_client \<Rightarrow> string \<Rightarrow> ('w, error option) start" where
  "createRole c namespace = do { role \<leftarrow> getRole c namespace; put (CreateRole role) (i_CreateRole c role) }"

definition updateRole :: "'w setup_client \<Rightarrow> string \<Rightarrow> ClusterRole \<Rightarrow> ('w, error option) start" where
  "updateRole c namespace oldRole = do {
     newRole \<leftarrow> getRole c namespace;
     let role = oldRole\<lparr>role_Rules := role_Rules newRole, role_AggregationRule := role_AggregationRule newRole\<rparr>;
     put (UpdateRole role) (i_UpdateRole c role)
   }"

definition createOrUpdateRole :: "'w setup_client \<Rightarrow> string \<Rightarrow> ('w, error option) start" where
  "createOrUpdateRole c namespace = do {
     r \<leftarrow> ask (i_GetRole c roleName);
     case r of
       Inl e \<Rightarrow>
         if IsNotFound e then createRole c namespace
         else State_Monad.return (Some (Errorf (''failed to get cluster role: '' @ error_msg e)))
     | Inr role \<Rightarrow> updateRole c namespace role
   }"

definition getRoleBinding :: "'w setup_client \<Rightarrow> string \<Rightarrow> ('w, ClusterRoleBinding) start" where
  "getRoleBinding c namespace = do {
     refs \<leftarrow> getOwnerRefs c namespace;
     State_Monad.return
       \<lparr>rb_Name = roleName, rb_Namespace = namespace, rb_OwnerReferences = refs,
        rb_RoleRef = \<lparr>rr_APIGroup = ''rbac.authorization.k8s.io'', rr_Kind = ''ClusterRole'', rr_Name = roleName\<rparr>,
        rb_Subjects = [\<lparr>sub_Kind = ''ServiceAccount'', sub_Name = saName, sub_Namespace = namespace\<rparr>]\<rparr>
   }"

definition createRoleBinding :: "'w setup_client \<Rightarrow> string \<Rightarrow> ('w, error option) start" where
  "createRoleBinding c namespace = do {
     binding \<leftarrow> getRoleBinding c namespace;
     put (CreateRoleBinding binding) (i_CreateRoleBinding c binding)
   }"

definition updateRoleBinding :: "'w setup_client \<Rightarrow> string \<Rightarrow> ClusterRoleBinding \<Rightarrow> ('w, error option) start" where
  "updateRoleBinding c namespace oldBinding = do {
     newBinding \<leftarrow> getRoleBinding c namespace;
     let binding = oldBinding\<lparr>rb_RoleRef := rb_RoleRef newBinding, rb_Subjects := rb_Subjects newBinding\<rparr>;
     put (UpdateRoleBinding binding) (i_UpdateRoleBinding c binding)
   }"

definition createOrUpdateRoleBinding :: "'w setup_client \<Rightarrow> string \<Rightarrow> ('w, error option) start" where
  "createOrUpdateRoleBinding c namespace = do {
     r \<leftarrow> ask (i_GetRoleBinding c roleName);
     case r of
       Inl e \<Rightarrow>
         if IsNotFound e then createRoleBinding c namespace
         else State_Monad.return (Some (Errorf (''failed to get cluster role binding: '' @ error_msg e)))
     | Inr binding \<Rightarrow> updateRoleBinding c namespace binding
   }"

definition CreateOrUpdateAggregation :: "'w setup_client \<Rightarrow> string \<Rightarrow> ('w, error option) start" where
  "CreateOrUpdateAggregation c namespace = do {
     e \<leftarrow> createOrUpdateRole c namespace;
     case e of Some e \<Rightarrow> State_Monad.return (Some e) | None \<Rightarrow> createOrUpdateRoleBinding c namespace
   }"

subsection \<open>Console plugin\<close>

definition PluginName :: string where "PluginName = ''node-remediation-console-plugin''"
definition PluginServiceName :: string where "PluginServiceName = ''node-healthcheck-node-remediation-console-plugin''"
definition PluginServicePort :: int where "PluginServicePort = 9443"

definition getConsolePlugin :: "string \<Rightarrow> ConsolePlugin" where
  "getConsolePlugin namespace =
     \<lparr>cp_Name = PluginName, cp_OwnerReferences = [],
      cp_Spec = \<lparr>cp_DisplayName = ''Node Remediation'', cp_BackendType = ''Service'',
        cp_Service = Some \<lparr>cps_Name = PluginServiceName, cps_Namespace = namespace, cps_Port = PluginServicePort, cps_BasePath = ''/''\<rparr>\<rparr>\<rparr>"

definition createOrUpdateConsolePlugin :: "'w setup_client \<Rightarrow> string \<Rightarrow> ('w, error option) start" where
  "createOrUpdateConsolePlugin c namespace = do {
     let cp = getConsolePlugin namespace;
     r \<leftarrow> ask (i_GetPlugin c (cp_Name cp));
     case r of
       Inl e \<Rightarrow>
         if IsNotFound e then do {
           x \<leftarrow> put (CreatePlugin cp) (i_CreatePlugin c cp);
           State_Monad.return (map_option (Wrapped ''could not create console plugin'') x)
         } else State_Monad.return (Some (Wrapped ''could not check for existing console plugin'' e))
     | Inr oldCP \<Rightarrow> do {
         let new = oldCP\<lparr>cp_OwnerReferences := cp_OwnerReferences cp, cp_Spec := cp_Spec cp\<rparr>;
         x \<leftarrow> put (UpdatePlugin new) (i_UpdatePlugin c new);
         State_Monad.return (map_option (Wrapped ''could not update console plugin'') x)
       }
   }"

definition CreateOrUpdatePlugin :: "'w setup_client \<Rightarrow> Capabilities \<Rightarrow> string \<Rightarrow> ('w, error option) start" where
  "CreateOrUpdatePlugin c caps namespace =
     (if \<not> IsOnOpenshift caps then State_Monad.return None else createOrUpdateConsolePlugin c namespace)"

subsection \<open>The operator's deployment\<close>

definition GetControllerOf :: "Workload \<Rightarrow> OwnerReference option" where
  "GetControllerOf w = find (\<lambda>ref. ow_Controller ref = Some True) (wl_OwnerReferences w)"

definition GetOwningDeployment :: "'w setup_client \<Rightarrow> string \<Rightarrow> string \<Rightarrow> ('w, error + Workload) start" where
  "GetOwningDeployment c namespace podName = do {
     p \<leftarrow> ask (i_GetPod c namespace podName);
     case p of
       Inl e \<Rightarrow> State_Monad.return (Inl (Wrapped (''failed to get pod '' @ namespace @ ''/'' @ podName) e))
     | Inr pod \<Rightarrow>
         (case GetControllerOf pod of
            None \<Rightarrow> State_Monad.return (Inl (Errorf (''pod '' @ namespace @ ''/'' @ podName @ '' has no controller owner reference'')))
          | Some podController \<Rightarrow>
              if ow_Kind podController \<noteq> ''ReplicaSet'' then
                State_Monad.return (Inl (Errorf (''pod '' @ namespace @ ''/'' @ podName @ '' is owned by '' @ ow_Kind podController @ '' (expected ReplicaSet)'')))
              else do {
                r \<leftarrow> ask (i_GetReplicaSet c namespace (ow_Name podController));
                case r of
                  Inl e \<Rightarrow> State_Monad.return (Inl (Wrapped (''failed to get replicaset '' @ namespace @ ''/'' @ ow_Name podController) e))
                | Inr replicaSet \<Rightarrow>
                    (case GetControllerOf replicaSet of
                       None \<Rightarrow> State_Monad.return (Inl (Errorf (''replicaset '' @ namespace @ ''/'' @ ow_Name podController @ '' has no controller owner reference'')))
                     | Some rsController \<Rightarrow>
                         if ow_Kind rsController \<noteq> ''Deployment'' then
                           State_Monad.return (Inl (Errorf (''replicaset '' @ namespace @ ''/'' @ ow_Name podController @ '' is owned by '' @ ow_Kind rsController @ '' (expected Deployment)'')))
                         else do {
                           d \<leftarrow> ask (i_GetDeployment c namespace (ow_Name rsController));
                           State_Monad.return
                             (case d of
                                Inl e \<Rightarrow> Inl (Wrapped (''failed to get deployment '' @ namespace @ ''/'' @ ow_Name rsController) e)
                              | Inr deployment \<Rightarrow> Inr deployment)
                         })
              })
   }"

subsection \<open>Service monitor\<close>

definition MetricsServiceName :: string where "MetricsServiceName = ''node-healthcheck-controller-manager-metrics-service''"
definition CAConfigMapName :: string where "CAConfigMapName = ''node-healthcheck-ca-bundle''"
definition CAConfigMapKey :: string where "CAConfigMapKey = ''service-ca.crt''"
definition MetricsPort :: string where "MetricsPort = ''https''"
definition MetricsScheme :: string where "MetricsScheme = ''https''"
definition ScrapeInterval :: string where "ScrapeInterval = ''15s''"
definition ScrapeClass :: string where "ScrapeClass = ''tls-client-certificate-auth''"
definition ServiceMonitorName :: string where "ServiceMonitorName = ''node-healthcheck-controller-manager-metrics-monitor''"
definition ClusterMonitoringLabel :: string where "ClusterMonitoringLabel = ''openshift.io/cluster-monitoring''"
definition ClusterMonitoringValue :: string where "ClusterMonitoringValue = ''true''"

definition getServiceMonitor :: "string \<Rightarrow> Workload option \<Rightarrow> Unstructured" where
  "getServiceMonitor namespace deployment =
     empty_unstructured
       \<lparr>u_APIVersion := ''monitoring.coreos.com/v1'', u_Kind := ''ServiceMonitor'', u_Name := ServiceMonitorName, u_Namespace := namespace,
        u_Labels := Some [''app.kubernetes.io/component'' \<mapsto> ''controller-manager''],
        u_OwnerReferences :=
          (case deployment of
             None \<Rightarrow> []
           | Some d \<Rightarrow> [\<lparr>ow_APIVersion = ''apps/v1'', ow_Kind = ''Deployment'', ow_Name = wl_Name d, ow_UID = wl_UID d, ow_Controller = Some True\<rparr>]),
        u_Spec :=
          JObj [(''scrapeClass'', JStr ScrapeClass),
            (''selector'', JObj [(''matchLabels'', JObj
               [(''app.kubernetes.io/component'', JStr ''controller-manager''), (''app.kubernetes.io/name'', JStr ''node-healthcheck-operator''),
                (''app.kubernetes.io/instance'', JStr ''metrics'')])]),
            (''endpoints'', JArr [JObj
               [(''port'', JStr MetricsPort), (''scheme'', JStr MetricsScheme), (''interval'', JStr ScrapeInterval),
                (''tlsConfig'', JObj
                  [(''ca'', JObj [(''configMap'', JObj [(''name'', JStr CAConfigMapName), (''key'', JStr CAConfigMapKey)])]),
                   (''serverName'', JStr (MetricsServiceName @ ''.'' @ namespace @ ''.svc''))])]])]\<rparr>"

definition labelNamespace :: "'w setup_client \<Rightarrow> string \<Rightarrow> ('w, error option) start" where
  "labelNamespace c namespace = do {
     r \<leftarrow> ask (i_GetNamespace c namespace);
     case r of
       Inl e \<Rightarrow> State_Monad.return (Some (Wrapped ''could not fetch namespace'' e))
     | Inr ns \<Rightarrow>
         (let labels = (case ns_Labels ns of None \<Rightarrow> Map.empty | Some ls \<Rightarrow> ls);
              base = ns\<lparr>ns_Labels := Some labels\<rparr>
          in if lookup1 (Some labels) ClusterMonitoringLabel = ClusterMonitoringValue then State_Monad.return None
             else do {
               let new = ns\<lparr>ns_Labels := Some (labels(ClusterMonitoringLabel \<mapsto> ClusterMonitoringValue))\<rparr>;
               x \<leftarrow> put (PatchNamespace new) (i_PatchNamespace c base new);
               State_Monad.return (map_option (Wrapped ''could not patch namespace with cluster-monitoring label'') x)
             })
   }"

definition createOrUpdateServiceMonitor :: "'w setup_client \<Rightarrow> string \<Rightarrow> Workload option \<Rightarrow> ('w, error option) start" where
  "createOrUpdateServiceMonitor c namespace deployment = do {
     let sm = getServiceMonitor namespace deployment;
     r \<leftarrow> ask (i_GetMonitor c sm);
     case r of
       Inl e \<Rightarrow>
         if IsNotFound e then do {
           x \<leftarrow> put (CreateMonitor sm) (i_CreateMonitor c sm);
           State_Monad.return
             (case x of
                None \<Rightarrow> None
              | Some e \<Rightarrow>
                  if IsNoMatchError e then None
                  else if IsAlreadyExists e then None
                  else Some (Wrapped ''could not create ServiceMonitor'' e))
         } else
           State_Monad.return (if IsNoMatchError e then None else Some (Wrapped ''could not check for existing ServiceMonitor'' e))
     | Inr oldSM \<Rightarrow> do {
         let sm' = sm\<lparr>u_ResourceVersion := u_ResourceVersion oldSM\<rparr>;
         x \<leftarrow> put (UpdateMonitor sm') (i_UpdateMonitor c sm');
         State_Monad.return (map_option (Wrapped ''could not update ServiceMonitor'') x)
       }
   }"

text \<open>\<open>servicemonitor.CreateOrUpdate\<close>: neither a missing deployment nor a missing label is an error.\<close>

definition CreateOrUpdate :: "'w setup_client \<Rightarrow> Capabilities \<Rightarrow> string \<Rightarrow> ('w, error option) start" where
  "CreateOrUpdate c caps namespace =
     (if \<not> IsOnOpenshift caps then State_Monad.return None
      else do {
        deployment \<leftarrow> (case GetPodName (i_Env c) of
                        Inl e \<Rightarrow> State_Monad.return None
                      | Inr podName \<Rightarrow> do {
                          r \<leftarrow> GetOwningDeployment c namespace podName;
                          State_Monad.return (case r of Inl e \<Rightarrow> None | Inr d \<Rightarrow> Some d)
                        });
        _ \<leftarrow> labelNamespace c namespace;
        createOrUpdateServiceMonitor c namespace deployment
      })"

subsection \<open>Start\<close>

definition Start :: "'w setup_client \<Rightarrow> Capabilities \<Rightarrow> ('w, error option) start" where
  "Start c caps =
     (case GetDeploymentNamespace (i_Env c) of
        Inl e \<Rightarrow> State_Monad.return (Some (Wrapped ''unable to get the deployment namespace'' e))
      | Inr ns \<Rightarrow> do {
          e1 \<leftarrow> CreateOrUpdateAggregation c ns;
          case e1 of
            Some e \<Rightarrow> State_Monad.return (Some (Wrapped ''failed to create or update RBAC aggregation role'' e))
          | None \<Rightarrow> do {
              e2 \<leftarrow> CreateOrUpdatePlugin c caps ns;
              case e2 of
                Some e \<Rightarrow> State_Monad.return (Some (Wrapped ''failed to create or update the console plugin'' e))
              | None \<Rightarrow> do {
                  e3 \<leftarrow> CreateOrUpdate c caps ns;
                  State_Monad.return (map_option (Wrapped ''failed to create or update service monitor'') e3)
                }
            }
        })"

subsection \<open>Specification\<close>

text \<open>What a start may write in a namespace.\<close>

fun rbac_effect :: "string \<Rightarrow> setup_effect \<Rightarrow> bool" where
  "rbac_effect ns (CreateRole r) =
     (role_Name r = roleName \<and> role_Rules r = [] \<and>
      role_AggregationRule r = Some [\<lparr>ls_MatchLabels = [(aggregationLabelKey, ''true'')], ls_MatchExpressions = []\<rparr>])"
| "rbac_effect ns (UpdateRole r) =
     (role_Rules r = [] \<and>
      role_AggregationRule r = Some [\<lparr>ls_MatchLabels = [(aggregationLabelKey, ''true'')], ls_MatchExpressions = []\<rparr>])"
| "rbac_effect ns (CreateRoleBinding b) =
     (rb_Name b = roleName \<and> rr_Name (rb_RoleRef b) = roleName \<and>
      rb_Subjects b = [\<lparr>sub_Kind = ''ServiceAccount'', sub_Name = saName, sub_Namespace = ns\<rparr>])"
| "rbac_effect ns (UpdateRoleBinding b) =
     (rr_Name (rb_RoleRef b) = roleName \<and>
      rb_Subjects b = [\<lparr>sub_Kind = ''ServiceAccount'', sub_Name = saName, sub_Namespace = ns\<rparr>])"
| "rbac_effect ns e = False"

fun openshift_effect :: "string \<Rightarrow> setup_effect \<Rightarrow> bool" where
  "openshift_effect ns (CreatePlugin p) = (p = getConsolePlugin ns)"
| "openshift_effect ns (UpdatePlugin p) = (cp_Spec p = cp_Spec (getConsolePlugin ns))"
| "openshift_effect ns (PatchNamespace x) = (lookup2 (ns_Labels x) ClusterMonitoringLabel = Some ClusterMonitoringValue)"
| "openshift_effect ns (CreateMonitor u) = (u_Name u = ServiceMonitorName \<and> u_Namespace u = ns \<and> u_Spec u = u_Spec (getServiceMonitor ns None))"
| "openshift_effect ns (UpdateMonitor u) = (u_Name u = ServiceMonitorName \<and> u_Namespace u = ns \<and> u_Spec u = u_Spec (getServiceMonitor ns None))"
| "openshift_effect ns e = False"

section \<open>Lemmas\<close>

lemma emits_put [emits_intros]: "P e \<Longrightarrow> emits P (put e f)"
  unfolding put_def by (intro emits_intros)

lemma run_put [simp]:
  "run_state (put e f) s = (case f (world s) of (r, w) \<Rightarrow> (r, s\<lparr>trace := trace s @ [e], world := w\<rparr>))"
  by (simp add: put_def split: prod.splits)

lemma emits_CreateOrUpdateAggregation: "emits (rbac_effect ns) (CreateOrUpdateAggregation c ns)"
  unfolding CreateOrUpdateAggregation_def createOrUpdateRole_def createRole_def updateRole_def getRole_def getOwnerRefs_def
    createOrUpdateRoleBinding_def createRoleBinding_def updateRoleBinding_def getRoleBinding_def Let_def bind_assoc bind_left_identity
  by (auto intro!: emits_intros)

lemma emits_CreateOrUpdatePlugin: "emits (openshift_effect ns) (CreateOrUpdatePlugin c caps ns)"
  unfolding CreateOrUpdatePlugin_def createOrUpdateConsolePlugin_def Let_def by (auto intro!: emits_intros)

lemma emits_GetOwningDeployment [emits_intros]: "emits P (GetOwningDeployment c ns pod)"
  unfolding GetOwningDeployment_def by (auto intro!: emits_intros split: option.splits)

lemma emits_labelNamespace: "emits (openshift_effect ns) (labelNamespace c namespace)"
  unfolding labelNamespace_def Let_def by (auto intro!: emits_intros)

lemma emits_createOrUpdateServiceMonitor: "emits (openshift_effect ns) (createOrUpdateServiceMonitor c ns d)"
  unfolding createOrUpdateServiceMonitor_def Let_def by (auto intro!: emits_intros simp: getServiceMonitor_def)

lemma emits_CreateOrUpdate: "emits (openshift_effect ns) (CreateOrUpdate c caps ns)"
  unfolding CreateOrUpdate_def
  by (auto intro!: emits_intros emits_labelNamespace emits_createOrUpdateServiceMonitor split: sum.splits)

lemma emits_Start:
  assumes "GetDeploymentNamespace (i_Env c) = Inr ns"
  shows "emits (\<lambda>e. rbac_effect ns e \<or> IsOnOpenshift caps \<and> openshift_effect ns e) (Start c caps)"
proof -
  have "emits P (CreateOrUpdatePlugin c caps ns)" "emits P (CreateOrUpdate c caps ns)" if "\<not> IsOnOpenshift caps" for P
    using that by (auto simp: CreateOrUpdatePlugin_def CreateOrUpdate_def intro!: emits_intros)
  moreover have "emits (\<lambda>e. rbac_effect ns e \<or> openshift_effect ns e) (CreateOrUpdatePlugin c caps ns)"
    "emits (\<lambda>e. rbac_effect ns e \<or> openshift_effect ns e) (CreateOrUpdate c caps ns)"
    by (auto intro: emits_mono[OF emits_CreateOrUpdatePlugin] emits_mono[OF emits_CreateOrUpdate])
  ultimately show ?thesis unfolding Start_def assms
    by (cases "IsOnOpenshift caps")
      (auto intro!: emits_intros emits_mono[OF emits_CreateOrUpdateAggregation] split: option.splits)
qed

text \<open>The label is patched once: a namespace that has it is left alone.\<close>

lemma labelNamespace_idempotent:
  assumes "i_GetNamespace c namespace (world s) = (Inr ns, w)" "lookup1 (ns_Labels ns) ClusterMonitoringLabel = ClusterMonitoringValue"
  shows "run_state (labelNamespace c namespace) s = (None, s\<lparr>world := w\<rparr>)"
  using assms by (auto simp: labelNamespace_def Let_def ClusterMonitoringValue_def split: option.splits)

text \<open>Neither the search for the deployment nor the label can make the service monitor fail.\<close>

lemma CreateOrUpdate_error:
  assumes "run_state (CreateOrUpdate c caps ns) s = (Some e, s')"
  shows "\<exists>e'. e = Wrapped ''could not create ServiceMonitor'' e' \<or> e = Wrapped ''could not check for existing ServiceMonitor'' e' \<or>
    e = Wrapped ''could not update ServiceMonitor'' e'"
  using assms
  by (auto simp: CreateOrUpdate_def createOrUpdateServiceMonitor_def Let_def
      split: if_splits prod.splits sum.splits option.splits)

text \<open>The deployment that is found is the one at the end of the chain of controllers.\<close>

lemma GetOwningDeployment_chain:
  assumes "run_state (GetOwningDeployment c ns pod) s = (Inr d, s')"
  shows "\<exists>p rs pref rref w1 w2 w3. i_GetPod c ns pod (world s) = (Inr p, w1) \<and> GetControllerOf p = Some pref \<and> ow_Kind pref = ''ReplicaSet'' \<and>
    i_GetReplicaSet c ns (ow_Name pref) w1 = (Inr rs, w2) \<and> GetControllerOf rs = Some rref \<and> ow_Kind rref = ''Deployment'' \<and>
    i_GetDeployment c ns (ow_Name rref) w2 = (Inr d, w3)"
  using assms by (auto simp: GetOwningDeployment_def split: prod.splits sum.splits option.splits if_splits)

text \<open>The operations of a start, for running it.\<close>

lemmas setup_defs = Start_def GetDeploymentNamespace_def CreateOrUpdateAggregation_def createOrUpdateRole_def createRole_def
  updateRole_def getRole_def getOwnerRefs_def createOrUpdateRoleBinding_def createRoleBinding_def updateRoleBinding_def
  getRoleBinding_def CreateOrUpdatePlugin_def createOrUpdateConsolePlugin_def CreateOrUpdate_def GetPodName_def
  GetOwningDeployment_def labelNamespace_def createOrUpdateServiceMonitor_def

end
