(* ===== verification/Mapper.thy ===== *)
theory Mapper
  imports Manager Checkers
begin

text \<open>
  Which health checks an event of a watched object concerns (\<open>internal/controller/utils/mapper.go\<close>,
  and the machine index of \<open>machinehealthcheck_controller.go\<close>): one function per kind of watched object,
  from the object to the requests that are put into the work queue. A mapper cannot fail; when a call
  fails it logs the error and returns what the source returns there. Logging is left out.

  The lemmas say exactly which requests come out, that a mapper changes nothing, and that the CR a
  health check creates leads back to this health check.
\<close>

section \<open>Definitions\<close>

text \<open>\<open>reconcile.Request\<close>.\<close>

record Request =
  req_Namespace :: string
  req_Name :: string

definition nhcRequest :: "NodeHealthCheck \<Rightarrow> Request" where
  "nhcRequest nhc = \<lparr>req_Namespace = [], req_Name = nhc_Name nhc\<rparr>"

definition mhcRequest :: "MachineHealthCheck \<Rightarrow> Request" where
  "mhcRequest mhc = \<lparr>req_Namespace = mhc_Namespace mhc, req_Name = mhc_Name mhc\<rparr>"

datatype WatchType = WatchNHC | WatchMHC

text \<open>\<open>Empty\<close> of the selector that \<open>LabelSelectorAsSelector\<close> returns: no requirement.\<close>

definition selector_Empty :: "LabelSelector \<Rightarrow> bool" where
  "selector_Empty sel \<longleftrightarrow> ls_MatchLabels sel = [] \<and> ls_MatchExpressions sel = []"

subsection \<open>To node health checks\<close>

text \<open>A deleted node, or one that cannot be read, concerns all of them.\<close>

definition NHCByNodeMapperFunc :: "'w client \<Rightarrow> string \<Rightarrow> ('w, Request list) m" where
  "NHCByNodeMapperFunc c name = do {
     g \<leftarrow> ask (c_GetNode c name);
     let node = (case g of Inl e \<Rightarrow> None | Inr n \<Rightarrow> Some n);
     l \<leftarrow> ask (c_ListNHC c);
     State_Monad.return
       (case l of
          Inl e \<Rightarrow> []
        | Inr nhcs \<Rightarrow>
            map nhcRequest
              (filter (\<lambda>nhc. case node of
                          None \<Rightarrow> True
                        | Some n \<Rightarrow>
                            (case c_Selector c (Selector (nhc_Spec nhc)) of
                               Some e \<Rightarrow> False
                             | None \<Rightarrow> c_Matches c (Selector (nhc_Spec nhc)) (n_Labels n)))
                 nhcs))
   }"

definition NHCByMHCEventMapperFunc :: "'w client \<Rightarrow> ('w, Request list) m" where
  "NHCByMHCEventMapperFunc c = do {
     l \<leftarrow> ask (c_ListNHC c);
     State_Monad.return (case l of Inl e \<Rightarrow> [] | Inr nhcs \<Rightarrow> map nhcRequest nhcs)
   }"

definition isCrNeedWatching :: "OwnerReference \<Rightarrow> WatchType \<Rightarrow> bool" where
  "isCrNeedWatching owner watchType =
     (if watchType = WatchNHC
      then ow_Kind owner = ''NodeHealthCheck'' \<and> ow_APIVersion owner = ''remediation.medik8s.io/v1alpha1''
      else ow_Kind owner = ''MachineHealthCheck'' \<and> ow_APIVersion owner = ''machine.openshift.io/v1beta1'')"

text \<open>The first owner of the wanted kind counts.\<close>

definition RemediationCRMapperFunc :: "WatchType \<Rightarrow> Unstructured \<Rightarrow> Request list" where
  "RemediationCRMapperFunc watchType cr =
     (case find (\<lambda>owner. isCrNeedWatching owner watchType) (u_OwnerReferences cr) of
        None \<Rightarrow> []
      | Some owner \<Rightarrow>
          [\<lparr>req_Namespace = (if watchType = WatchMHC then u_Namespace cr else []), req_Name = ow_Name owner\<rparr>])"

definition templateMatches :: "Unstructured \<Rightarrow> ObjectReference \<Rightarrow> bool" where
  "templateMatches template ref \<longleftrightarrow> or_Kind ref = gvk_Kind (u_GVK template) \<and> or_Name ref = u_Name template"

definition NHCByRemediationTemplateCRMapperFunc :: "'w client \<Rightarrow> Unstructured \<Rightarrow> ('w, Request list) m" where
  "NHCByRemediationTemplateCRMapperFunc c template = do {
     l \<leftarrow> ask (c_ListNHC c);
     State_Monad.return
       (case l of
          Inl e \<Rightarrow> []
        | Inr nhcs \<Rightarrow>
            map nhcRequest
              (filter (\<lambda>nhc. case RemediationTemplate (nhc_Spec nhc) of
                          Some ref \<Rightarrow> templateMatches template ref
                        | None \<Rightarrow>
                            list_ex (\<lambda>er. templateMatches template (er_RemediationTemplate er)) (EscalatingRemediations (nhc_Spec nhc)))
                 nhcs))
   }"

subsection \<open>To machine health checks\<close>

text \<open>The requests carry no namespace, although machine health checks are namespaced.\<close>

definition MHCByRemediationTemplateCRMapperFunc :: "'w client \<Rightarrow> Unstructured \<Rightarrow> ('w, Request list) m" where
  "MHCByRemediationTemplateCRMapperFunc c template = do {
     l \<leftarrow> ask (c_ListMHC c);
     State_Monad.return
       (case l of
          Inl e \<Rightarrow> []
        | Inr mhcs \<Rightarrow>
            map (\<lambda>mhc. \<lparr>req_Namespace = [], req_Name = mhc_Name mhc\<rparr>)
              (filter (\<lambda>mhc. case mhc_RemediationTemplate mhc of
                          Some ref \<Rightarrow> templateMatches template ref
                        | None \<Rightarrow> False)
                 mhcs))
   }"

text \<open>The index function of the machine cache; \<open>None\<close> is an object that is no machine.\<close>

definition indexMachineByNodeName :: "Machine option \<Rightarrow> string list" where
  "indexMachineByNodeName object =
     (case object of
        None \<Rightarrow> []
      | Some machine \<Rightarrow> (case m_NodeRef machine of Some name \<Rightarrow> [name] | None \<Rightarrow> []))"

text \<open>The message of the second error leaves out the printed machines.\<close>

definition getMachineFromNode :: "'w client \<Rightarrow> string \<Rightarrow> ('w, error + Machine) m" where
  "getMachineFromNode c nodeName = do {
     l \<leftarrow> ask (c_ListMachinesByNode c nodeName);
     State_Monad.return
       (case l of
          Inl e \<Rightarrow> Inl (Errorf (''failed getting machine list: '' @ error_msg e))
        | Inr machines \<Rightarrow>
            (if length machines \<noteq> 1 then Inl (Errorf (''expecting one machine for node '' @ nodeName @ '', got:''))
             else Inr (machines ! 0)))
   }"

text \<open>The part that the mappers of nodes and of machines share: the health checks of a machine.\<close>

definition mhcsOfMachine :: "'w client \<Rightarrow> Machine \<Rightarrow> ('w, Request list) m" where
  "mhcsOfMachine c machine = do {
     l \<leftarrow> ask (c_ListMHC c);
     State_Monad.return
       (case l of
          Inl e \<Rightarrow> []
        | Inr mhcs \<Rightarrow>
            map mhcRequest
              (filter (\<lambda>mhc. case c_Selector c (mhc_Selector mhc) of
                          Some e \<Rightarrow> False
                        | None \<Rightarrow> selector_Empty (mhc_Selector mhc) \<or> c_Matches c (mhc_Selector mhc) (m_Labels machine))
                 mhcs))
   }"

definition MHCByNodeMapperFunc :: "'w client \<Rightarrow> accessor \<Rightarrow> string \<Rightarrow> ('w, Request list) m" where
  "MHCByNodeMapperFunc c fga name =
     (if \<not> IsMachineAPIOperatorMHCDisabled fga then State_Monad.return []
      else do {
        g \<leftarrow> ask (c_GetNode c name);
        case (case g of Inr node \<Rightarrow> Some (n_Name node) | Inl e \<Rightarrow> if IsNotFound e then Some name else None) of
          None \<Rightarrow> State_Monad.return []
        | Some nodeName \<Rightarrow> do {
            r \<leftarrow> getMachineFromNode c nodeName;
            case r of
              Inl e \<Rightarrow> State_Monad.return []
            | Inr machine \<Rightarrow> mhcsOfMachine c machine
          }
      })"

definition MHCByMachineMapperFunc :: "'w client \<Rightarrow> accessor \<Rightarrow> string \<Rightarrow> string \<Rightarrow> ('w, Request list) m" where
  "MHCByMachineMapperFunc c fga namespace name =
     (if \<not> IsMachineAPIOperatorMHCDisabled fga then State_Monad.return []
      else do {
        g \<leftarrow> ask (c_GetMachine c namespace name);
        case g of
          Inl e \<Rightarrow> State_Monad.return []
        | Inr machine \<Rightarrow> mhcsOfMachine c machine
      })"

definition MHCByFeatureGateEventMapperFunc :: "'w client \<Rightarrow> accessor \<Rightarrow> ('w, Request list) m" where
  "MHCByFeatureGateEventMapperFunc c fga =
     (if \<not> IsMachineAPIOperatorMHCDisabled fga then State_Monad.return []
      else do {
        l \<leftarrow> ask (c_ListMHC c);
        State_Monad.return (case l of Inl e \<Rightarrow> [] | Inr mhcs \<Rightarrow> map mhcRequest mhcs)
      })"

subsection \<open>Specification\<close>

text \<open>Owners as the API server presents them, and the watch type of their kind.\<close>

definition standard_owner :: "health_check \<Rightarrow> bool" where
  "standard_owner owner =
     (case owner of
        NHC nhc \<Rightarrow> nhc_APIVersion nhc = ''remediation.medik8s.io/v1alpha1'' \<and> nhc_Kind nhc = ''NodeHealthCheck''
      | MHC mhc \<Rightarrow> mhc_APIVersion mhc = ''machine.openshift.io/v1beta1'' \<and> mhc_Kind mhc = ''MachineHealthCheck'')"

fun watchTypeOf :: "health_check \<Rightarrow> WatchType" where
  "watchTypeOf (NHC nhc) = WatchNHC"
| "watchTypeOf (MHC mhc) = WatchMHC"

section \<open>Lemmas\<close>

text \<open>Mappers change nothing.\<close>

lemma emits_mappers:
  "emits P (NHCByNodeMapperFunc c n)" "emits P (NHCByMHCEventMapperFunc c)"
  "emits P (NHCByRemediationTemplateCRMapperFunc c t)" "emits P (MHCByRemediationTemplateCRMapperFunc c t)"
  "emits P (MHCByNodeMapperFunc c fga n)" "emits P (MHCByMachineMapperFunc c fga ns n)"
  "emits P (MHCByFeatureGateEventMapperFunc c fga)"
  unfolding NHCByNodeMapperFunc_def NHCByMHCEventMapperFunc_def NHCByRemediationTemplateCRMapperFunc_def
    MHCByRemediationTemplateCRMapperFunc_def MHCByNodeMapperFunc_def MHCByMachineMapperFunc_def
    MHCByFeatureGateEventMapperFunc_def getMachineFromNode_def mhcsOfMachine_def
  by (auto intro!: emits_intros split: sum.splits option.splits)

lemma nhcRequest_inject: "nhcRequest a = nhcRequest b \<longleftrightarrow> nhc_Name a = nhc_Name b"
  by (simp add: nhcRequest_def)

lemma mhcRequest_inject: "mhcRequest a = mhcRequest b \<longleftrightarrow> mhc_Namespace a = mhc_Namespace b \<and> mhc_Name a = mhc_Name b"
  by (simp add: mhcRequest_def)

text \<open>A node event reaches the health checks that select the node, and every one when the node is gone.\<close>

lemma NHCByNodeMapperFunc_selects:
  assumes "c_GetNode c name (world s) = (Inr node, w)" and "c_ListNHC c w = (Inr nhcs, w')"
  shows "set (fst (run_state (NHCByNodeMapperFunc c name) s)) =
    nhcRequest ` {nhc \<in> set nhcs. c_Selector c (Selector (nhc_Spec nhc)) = None \<and> c_Matches c (Selector (nhc_Spec nhc)) (n_Labels node)}"
  using assms by (auto simp: NHCByNodeMapperFunc_def Let_def split: option.splits)

lemma NHCByNodeMapperFunc_gone:
  assumes "c_GetNode c name (world s) = (Inl e, w)" and "c_ListNHC c w = (Inr nhcs, w')"
  shows "fst (run_state (NHCByNodeMapperFunc c name) s) = map nhcRequest nhcs"
  using assms by (simp add: NHCByNodeMapperFunc_def Let_def)

text \<open>The owner reference a health check writes is the one the mapper of its kind looks for, first.\<close>

lemma isCrNeedWatching_hcOwnerRef:
  assumes "standard_owner owner"
  shows "isCrNeedWatching (hcOwnerRef owner) (watchTypeOf owner)"
  using assms
  by (cases owner)
    (simp_all add: standard_owner_def isCrNeedWatching_def hcOwnerRef_def createOwnerRef_def
      FromAPIVersionAndKind_def ParseGroupVersion_def ToAPIVersionAndKind_def GroupVersion_String_def)

lemma generated_owners:
  assumes "run_state (generateRemediationCR mgr name nodeName (Some ow) mref template) s = (cr, s')"
  shows "u_OwnerReferences cr = ow # (case mref of None \<Rightarrow> [] | Some r \<Rightarrow> [r])"
  using assms by (auto simp: generateRemediationCR_def Let_def split: prod.splits option.splits)

lemma RemediationCRMapperFunc_generated:
  assumes "standard_owner owner"
    and "run_state (generateRemediationCR mgr name nodeName (Some (hcOwnerRef owner)) mref template) s = (cr, s')"
  shows "RemediationCRMapperFunc (watchTypeOf owner) cr =
    [\<lparr>req_Namespace = (if watchTypeOf owner = WatchMHC then u_Namespace template else []), req_Name = hc_Name owner\<rparr>]"
  using isCrNeedWatching_hcOwnerRef[OF assms(1)] generated_owners[OF assms(2)] generateRemediationCR_props(5)[OF assms(2)]
  by (simp add: RemediationCRMapperFunc_def) (simp add: hcOwnerRef_def createOwnerRef_def split: prod.splits)

text \<open>The index finds the machines that refer to a node.\<close>

lemma indexMachineByNodeName_iff: "name \<in> set (indexMachineByNodeName (Some machine)) \<longleftrightarrow> m_NodeRef machine = Some name"
  by (auto simp: indexMachineByNodeName_def split: option.splits)

text \<open>While the machine API operator runs its own controller, no machine health check is queued.\<close>

lemma mhc_mappers_gated:
  assumes "\<not> IsMachineAPIOperatorMHCDisabled fga"
  shows "run_state (MHCByNodeMapperFunc c fga name) s = ([], s)" "run_state (MHCByMachineMapperFunc c fga ns name) s = ([], s)"
    "run_state (MHCByFeatureGateEventMapperFunc c fga) s = ([], s)"
  using assms by (simp_all add: MHCByNodeMapperFunc_def MHCByMachineMapperFunc_def MHCByFeatureGateEventMapperFunc_def)

lemma mhcsOfMachine_run:
  assumes "c_ListMHC c (world s) = (Inr mhcs, w)"
  shows "set (fst (run_state (mhcsOfMachine c machine) s)) =
    mhcRequest ` {mhc \<in> set mhcs. c_Selector c (mhc_Selector mhc) = None \<and>
      (selector_Empty (mhc_Selector mhc) \<or> c_Matches c (mhc_Selector mhc) (m_Labels machine))}"
  using assms by (auto simp: mhcsOfMachine_def split: option.splits)

text \<open>A machine event reaches the same health checks as an event of the machine's node.\<close>

lemma MHCByNode_as_machine:
  assumes "IsMachineAPIOperatorMHCDisabled fga"
    and "c_GetNode c name (world s) = (Inr node, w)" and "c_ListMachinesByNode c (n_Name node) w = (Inr [machine], w')"
  shows "fst (run_state (MHCByNodeMapperFunc c fga name) s) = fst (run_state (mhcsOfMachine c machine) (s\<lparr>world := w'\<rparr>))"
  using assms by (simp add: MHCByNodeMapperFunc_def getMachineFromNode_def)

text \<open>A template event reaches no machine health check outside the empty namespace.\<close>

lemma template_requests_no_namespace:
  "\<forall>req\<in>set (fst (run_state (MHCByRemediationTemplateCRMapperFunc c template) s)). req_Namespace req = []"
  by (auto simp: MHCByRemediationTemplateCRMapperFunc_def split: prod.splits sum.splits)

end
