(* ===== verification/Node_Events.thy ===== *)
theory Node_Events
  imports Manager
begin

text \<open>
  The predicate on node update events (\<open>internal/controller/shared.go\<close>): whether an update of a node
  is worth a reconcile. The lemmas show what an update that is filtered out cannot have changed: the
  label that excludes a node from remediation, whether any health check selects the node, the status of
  any condition, and the confirmation that the node is healthy.
\<close>

section \<open>Definitions\<close>

definition labelWasModified :: "gomap \<Rightarrow> gomap \<Rightarrow> string \<Rightarrow> bool" where
  "labelWasModified oldLabels newLabels labelKey =
     (let inOld = (lookup2 oldLabels labelKey \<noteq> None);
          inNew = (lookup2 newLabels labelKey \<noteq> None)
      in if inOld \<noteq> inNew then True
         else if inOld \<and> inNew then lookup1 oldLabels labelKey \<noteq> lookup1 newLabels labelKey
         else False)"

text \<open>The keys a selector looks at.\<close>

definition selectorKeys :: "LabelSelector \<Rightarrow> string list" where
  "selectorKeys sel = map fst (ls_MatchLabels sel) @ map lsr_Key (ls_MatchExpressions sel)"

definition labelsNeedReconcile :: "'w client \<Rightarrow> gomap \<Rightarrow> gomap \<Rightarrow> ('w, bool) m" where
  "labelsNeedReconcile c oldLabels newLabels =
     (if (lookup2 oldLabels ExcludeFromRemediation \<noteq> None) \<noteq> (lookup2 newLabels ExcludeFromRemediation \<noteq> None) \<or>
         lookup1 oldLabels ExcludeFromRemediation \<noteq> lookup1 newLabels ExcludeFromRemediation
      then State_Monad.return True
      else do {
        l \<leftarrow> ask (c_ListNHC c);
        State_Monad.return
          (case l of
             Inl e \<Rightarrow> True
           | Inr nhcs \<Rightarrow>
               list_ex (\<lambda>nhc. list_ex (labelWasModified oldLabels newLabels) (selectorKeys (Selector (nhc_Spec nhc)))) nhcs)
      })"

text \<open>The inner loop: \<open>None\<close> is the early return on a changed status, otherwise whether the type was found.\<close>

fun conditionFound :: "NodeCondition \<Rightarrow> NodeCondition list \<Rightarrow> bool \<Rightarrow> bool option" where
  "conditionFound condOld [] found = Some found"
| "conditionFound condOld (condNew # rest) found =
     (if nc_Type condOld = nc_Type condNew then
        (if nc_Status condOld \<noteq> nc_Status condNew then None else conditionFound condOld rest True)
      else conditionFound condOld rest found)"

fun conditionsChanged :: "NodeCondition list \<Rightarrow> NodeCondition list \<Rightarrow> bool" where
  "conditionsChanged [] newConditions = False"
| "conditionsChanged (condOld # rest) newConditions =
     (case conditionFound condOld newConditions False of
        None \<Rightarrow> True
      | Some found \<Rightarrow> if \<not> found then True else conditionsChanged rest newConditions)"

definition conditionsNeedReconcile :: "NodeCondition list \<Rightarrow> NodeCondition list \<Rightarrow> bool" where
  "conditionsNeedReconcile oldConditions newConditions =
     (if \<not> list_ex (\<lambda>cond. nc_Type cond = NodeReady) newConditions then False
      else if length oldConditions \<noteq> length newConditions then True
      else conditionsChanged oldConditions newConditions)"

definition annotationsNeedReconcile :: "gomap \<Rightarrow> gomap \<Rightarrow> bool" where
  "annotationsNeedReconcile oldAnnotations newAnnotations =
     ((lookup2 oldAnnotations RemediationManuallyConfirmedHealthyAnnotationKey \<noteq> None) \<noteq>
      (lookup2 newAnnotations RemediationManuallyConfirmedHealthyAnnotationKey \<noteq> None))"

text \<open>An object of an event that is no node is \<open>None\<close>.\<close>

definition nodeUpdateNeedsReconcile :: "'w client \<Rightarrow> Node option \<Rightarrow> Node option \<Rightarrow> ('w, bool) m" where
  "nodeUpdateNeedsReconcile c objectOld objectNew =
     (case objectOld of
        None \<Rightarrow> State_Monad.return False
      | Some oldNode \<Rightarrow>
          (case objectNew of
             None \<Rightarrow> State_Monad.return False
           | Some newNode \<Rightarrow> do {
               b \<leftarrow> labelsNeedReconcile c (n_Labels oldNode) (n_Labels newNode);
               State_Monad.return
                 (b \<or> conditionsNeedReconcile (n_Conditions oldNode) (n_Conditions newNode) \<or>
                  annotationsNeedReconcile (n_Annotations oldNode) (n_Annotations newNode))
             }))"

subsection \<open>Specification\<close>

text \<open>A list of conditions as a map from types to status.\<close>

definition statusOf :: "NodeCondition list \<Rightarrow> string \<Rightarrow> string option" where
  "statusOf conds = map_of (map (\<lambda>cond. (nc_Type cond, nc_Status cond)) conds)"

text \<open>A selector that looks at nothing but its keys.\<close>

definition reads_keys :: "(LabelSelector \<Rightarrow> gomap \<Rightarrow> bool) \<Rightarrow> LabelSelector \<Rightarrow> bool" where
  "reads_keys match sel \<longleftrightarrow>
     (\<forall>old new. (\<forall>k\<in>set (selectorKeys sel). lookup2 old k = lookup2 new k) \<longrightarrow> match sel old = match sel new)"

section \<open>Lemmas\<close>

lemma labelWasModified_iff: "labelWasModified old new k \<longleftrightarrow> lookup2 old k \<noteq> lookup2 new k"
  by (auto simp: labelWasModified_def Let_def lookup1_def split: option.splits)

lemma conditionFound_None:
  "conditionFound cond conds found = None \<longleftrightarrow> (\<exists>c\<in>set conds. nc_Type c = nc_Type cond \<and> nc_Status c \<noteq> nc_Status cond)"
  by (induction conds arbitrary: found) auto

lemma conditionFound_Some:
  "conditionFound cond conds found = Some b \<Longrightarrow> b = (found \<or> nc_Type cond \<in> nc_Type ` set conds)"
  by (induction conds arbitrary: found) (auto split: if_splits)

lemma conditionsChanged_iff:
  "conditionsChanged old new \<longleftrightarrow>
    (\<exists>a\<in>set old. nc_Type a \<notin> nc_Type ` set new \<or> (\<exists>b\<in>set new. nc_Type b = nc_Type a \<and> nc_Status b \<noteq> nc_Status a))"
proof (induction old)
  case (Cons a old)
  show ?case
  proof (cases "conditionFound a new False")
    case None
    then show ?thesis using conditionFound_None[of a new False] by auto
  next
    case (Some b)
    then have "\<not> (\<exists>c\<in>set new. nc_Type c = nc_Type a \<and> nc_Status c \<noteq> nc_Status a)"
      using conditionFound_None[of a new False] by auto
    with Some Cons.IH conditionFound_Some[OF Some] show ?thesis by auto
  qed
qed simp

lemma statusOf_eq: "statusOf conds ty = map_option nc_Status (find (\<lambda>cond. nc_Type cond = ty) conds)"
  by (induction conds) (auto simp: statusOf_def)

lemma statusOf_in:
  assumes "distinct (map nc_Type conds)"
  shows "statusOf conds ty = Some st \<longleftrightarrow> (\<exists>cond\<in>set conds. nc_Type cond = ty \<and> nc_Status cond = st)"
  using find_key[OF assms, of ty] by (force simp: statusOf_eq)

text \<open>With one condition per type, the comparison decides whether the maps differ.\<close>

lemma conditionsNeedReconcile_iff:
  assumes "distinct (map nc_Type old)" and "distinct (map nc_Type new)" and "statusOf new NodeReady \<noteq> None"
  shows "conditionsNeedReconcile old new \<longleftrightarrow> statusOf old \<noteq> statusOf new"
proof -
  have ready: "list_ex (\<lambda>cond. nc_Type cond = NodeReady) new"
    using assms(3) by (auto simp: statusOf_eq list_ex_iff find_None_iff)
  have lens: "length cs = card (nc_Type ` set cs)" if "distinct (map nc_Type cs)" for cs
    using distinct_card[OF that] by simp
  have doms: "nc_Type ` set cs = dom (statusOf cs)" for cs
    by (force simp: statusOf_def dom_map_of_conv_image_fst)
  have "statusOf old = statusOf new" if len: "length old = length new" and ch: "\<not> conditionsChanged old new"
  proof (rule map_le_antisym)
    have sub: "statusOf old ty = Some st \<Longrightarrow> statusOf new ty = Some st" for ty st
      using ch by (force simp: conditionsChanged_iff statusOf_in[OF assms(1)] statusOf_in[OF assms(2)])
    then show le: "statusOf old \<subseteq>\<^sub>m statusOf new" by (force simp: map_le_def)
    then have "nc_Type ` set old \<subseteq> nc_Type ` set new" unfolding doms by (rule map_le_implies_dom_le)
    then have "nc_Type ` set old = nc_Type ` set new"
      using len lens[OF assms(1)] lens[OF assms(2)] by (intro card_subset_eq) auto
    with le show "statusOf new \<subseteq>\<^sub>m statusOf old" unfolding doms by (simp add: map_le_def)
  qed
  moreover have "length old = length new \<and> \<not> conditionsChanged old new" if eq: "statusOf old = statusOf new"
  proof
    show "length old = length new" using eq lens[OF assms(1)] lens[OF assms(2)] by (simp add: doms)
    have "nc_Type ` set old = nc_Type ` set new" using eq by (simp add: doms)
    moreover have "b \<in> set new \<Longrightarrow> a \<in> set old \<Longrightarrow> nc_Type b = nc_Type a \<Longrightarrow> nc_Status b = nc_Status a" for a b
      using statusOf_in[OF assms(1), of "nc_Type a"] statusOf_in[OF assms(2), of "nc_Type a"] eq by (metis option.inject)
    ultimately show "\<not> conditionsChanged old new" by (auto simp: conditionsChanged_iff)
  qed
  ultimately show ?thesis using ready by (auto simp: conditionsNeedReconcile_def)
qed

lemma labelsNeedReconcile_False:
  assumes "run_state (labelsNeedReconcile c old new) s = (False, s')"
  obtains nhcs w where "c_ListNHC c (world s) = (Inr nhcs, w)"
    and "lookup2 old ExcludeFromRemediation = lookup2 new ExcludeFromRemediation"
    and "\<And>nhc k. nhc \<in> set nhcs \<Longrightarrow> k \<in> set (selectorKeys (Selector (nhc_Spec nhc))) \<Longrightarrow> lookup2 old k = lookup2 new k"
  using assms
  by (auto simp: labelsNeedReconcile_def lookup1_def list_ex_iff labelWasModified_iff
      split: if_splits prod.splits sum.splits option.splits)

lemma emits_nodeUpdateNeedsReconcile: "emits P (nodeUpdateNeedsReconcile c old new)"
  unfolding nodeUpdateNeedsReconcile_def labelsNeedReconcile_def
  by (auto intro!: emits_intros split: option.splits sum.splits)

text \<open>What an update that is filtered out has left unchanged.\<close>

lemma nodeUpdate_ignored:
  assumes "run_state (nodeUpdateNeedsReconcile c (Some old) (Some new)) s = (False, s')"
    and "distinct (map nc_Type (n_Conditions old))" and "distinct (map nc_Type (n_Conditions new))"
    and "statusOf (n_Conditions new) NodeReady \<noteq> None"
    and "\<And>sel. reads_keys (c_Matches c) sel"
  shows "\<exists>nhcs w. c_ListNHC c (world s) = (Inr nhcs, w) \<and>
    lookup2 (n_Labels old) ExcludeFromRemediation = lookup2 (n_Labels new) ExcludeFromRemediation \<and>
    (\<forall>nhc\<in>set nhcs. c_Matches c (Selector (nhc_Spec nhc)) (n_Labels old) = c_Matches c (Selector (nhc_Spec nhc)) (n_Labels new)) \<and>
    statusOf (n_Conditions old) = statusOf (n_Conditions new) \<and>
    (lookup2 (n_Annotations old) RemediationManuallyConfirmedHealthyAnnotationKey = None \<longleftrightarrow>
     lookup2 (n_Annotations new) RemediationManuallyConfirmedHealthyAnnotationKey = None)"
proof -
  from assms(1) have lab: "run_state (labelsNeedReconcile c (n_Labels old) (n_Labels new)) s = (False, s')"
    and cond: "\<not> conditionsNeedReconcile (n_Conditions old) (n_Conditions new)"
    and ann: "\<not> annotationsNeedReconcile (n_Annotations old) (n_Annotations new)"
    by (auto simp: nodeUpdateNeedsReconcile_def split: prod.splits)
  from lab obtain nhcs w where list: "c_ListNHC c (world s) = (Inr nhcs, w)"
    and excl: "lookup2 (n_Labels old) ExcludeFromRemediation = lookup2 (n_Labels new) ExcludeFromRemediation"
    and keys: "\<And>nhc k. nhc \<in> set nhcs \<Longrightarrow> k \<in> set (selectorKeys (Selector (nhc_Spec nhc))) \<Longrightarrow> lookup2 (n_Labels old) k = lookup2 (n_Labels new) k"
    by (erule labelsNeedReconcile_False)
  have "c_Matches c (Selector (nhc_Spec nhc)) (n_Labels old) = c_Matches c (Selector (nhc_Spec nhc)) (n_Labels new)"
    if "nhc \<in> set nhcs" for nhc
    using assms(5)[of "Selector (nhc_Spec nhc)"] keys[OF that] unfolding reads_keys_def by blast
  moreover have "statusOf (n_Conditions old) = statusOf (n_Conditions new)"
    using cond conditionsNeedReconcile_iff[OF assms(2-4)] by simp
  ultimately show ?thesis using list excl ann by (auto simp: annotationsNeedReconcile_def)
qed

end
