(* ===== verification/Routing.thy ===== *)
theory Routing
  imports Mapper Node_Events Watches
begin

text \<open>
  From an event of the cluster to the work queue: what \<open>SetupWithManager\<close> of both controllers
  (\<open>nodehealthcheck_controller.go\<close>, \<open>machinehealthcheck_controller.go\<close>) and the watch manager
  (\<open>resources/watch.go\<close>) register, that is a predicate and a mapper per watched kind, together with the
  event handlers of the controller runtime that run them. A computation here returns the requests that
  are added to the queue of the controller, in their order.

  The lemmas compose the node filter of \<open>Node_Events\<close> with the mappers of \<open>Mapper\<close>: which health checks
  an event reaches, and that handling an event changes nothing.
\<close>

section \<open>Definitions\<close>

subsection \<open>Events and handlers of the controller runtime\<close>

datatype 'a obj_event = Created 'a | Updated 'a 'a | Deleted 'a | Generic 'a

text \<open>\<open>mapAndEnqueue\<close>: a request is added once per event; the requests added so far are the keys of \<open>reqs\<close>.\<close>

fun mapAndEnqueue :: "Request list \<Rightarrow> Request list \<Rightarrow> Request list" where
  "mapAndEnqueue [] reqs = reqs"
| "mapAndEnqueue (req # rest) reqs = mapAndEnqueue rest (if req \<in> set reqs then reqs else reqs @ [req])"

text \<open>The mapper of an update runs on both objects.\<close>

definition EnqueueRequestsFromMapFunc :: "('a \<Rightarrow> ('w, Request list) m) \<Rightarrow> 'a obj_event \<Rightarrow> ('w, Request list) m" where
  "EnqueueRequestsFromMapFunc toRequests ev =
     (case ev of
        Updated objectOld objectNew \<Rightarrow> do {
          r1 \<leftarrow> toRequests objectOld;
          let reqs = mapAndEnqueue r1 [];
          r2 \<leftarrow> toRequests objectNew;
          State_Monad.return (mapAndEnqueue r2 reqs)
        }
      | Created object \<Rightarrow> do { r \<leftarrow> toRequests object; State_Monad.return (mapAndEnqueue r []) }
      | Deleted object \<Rightarrow> do { r \<leftarrow> toRequests object; State_Monad.return (mapAndEnqueue r []) }
      | Generic object \<Rightarrow> do { r \<leftarrow> toRequests object; State_Monad.return (mapAndEnqueue r []) })"

definition EnqueueRequestForObject :: "('a \<Rightarrow> Request) \<Rightarrow> 'a obj_event \<Rightarrow> Request list" where
  "EnqueueRequestForObject request ev =
     [request (case ev of Created object \<Rightarrow> object | Updated objectOld objectNew \<Rightarrow> objectNew | Deleted object \<Rightarrow> object | Generic object \<Rightarrow> object)]"

text \<open>\<open>predicate.Funcs\<close>, and an event source: the handler runs on the events that pass.\<close>

record ('w, 'a) Funcs =
  CreateFunc :: "'a \<Rightarrow> ('w, bool) m"
  UpdateFunc :: "'a \<Rightarrow> 'a \<Rightarrow> ('w, bool) m"
  DeleteFunc :: "'a \<Rightarrow> ('w, bool) m"
  GenericFunc :: "'a \<Rightarrow> ('w, bool) m"

definition passes :: "('w, 'a) Funcs \<Rightarrow> 'a obj_event \<Rightarrow> ('w, bool) m" where
  "passes p ev =
     (case ev of
        Created object \<Rightarrow> CreateFunc p object
      | Updated objectOld objectNew \<Rightarrow> UpdateFunc p objectOld objectNew
      | Deleted object \<Rightarrow> DeleteFunc p object
      | Generic object \<Rightarrow> GenericFunc p object)"

definition handleEvent :: "('w, 'a) Funcs \<Rightarrow> ('a obj_event \<Rightarrow> ('w, Request list) m) \<Rightarrow> 'a obj_event \<Rightarrow> ('w, Request list) m" where
  "handleEvent p handler ev = do {
     b \<leftarrow> passes p ev;
     if b then handler ev else State_Monad.return []
   }"

text \<open>A function that is not given lets the event pass.\<close>

definition allEvents :: "('w, 'a) Funcs" where
  "allEvents =
     \<lparr>CreateFunc = (\<lambda>_. State_Monad.return True), UpdateFunc = (\<lambda>_ _. State_Monad.return True),
      DeleteFunc = (\<lambda>_. State_Monad.return True), GenericFunc = (\<lambda>_. State_Monad.return True)\<rparr>"

definition GenerationChangedPredicate :: "('a \<Rightarrow> int) \<Rightarrow> ('w, 'a) Funcs" where
  "GenerationChangedPredicate generation =
     allEvents\<lparr>UpdateFunc := (\<lambda>old new. State_Monad.return (generation new \<noteq> generation old))\<rparr>"

subsection \<open>The controllers\<close>

text \<open>The predicates of the node watches of both controllers.\<close>

definition nodePredicates :: "'w client \<Rightarrow> ('w, Node) Funcs" where
  "nodePredicates c =
     \<lparr>CreateFunc = (\<lambda>_. State_Monad.return False),
      UpdateFunc = (\<lambda>old new. nodeUpdateNeedsReconcile c (Some old) (Some new)),
      DeleteFunc = (\<lambda>_. State_Monad.return True),
      GenericFunc = (\<lambda>_. State_Monad.return False)\<rparr>"

text \<open>
  What the controller of node health checks listens to: the health checks themselves, each with its
  generation, the nodes, and the channel of the machine health check checker.
\<close>

datatype nhc_source =
    NHCEvent "(int \<times> NodeHealthCheck) obj_event"
  | NodeEvent "Node obj_event"
  | MHCChannel

fun SetupWithManager :: "'w client \<Rightarrow> nhc_source \<Rightarrow> ('w, Request list) m" where
  "SetupWithManager c (NHCEvent ev) =
     handleEvent (GenerationChangedPredicate fst) (\<lambda>ev. State_Monad.return (EnqueueRequestForObject (nhcRequest \<circ> snd) ev)) ev"
| "SetupWithManager c (NodeEvent ev) =
     handleEvent (nodePredicates c) (EnqueueRequestsFromMapFunc (\<lambda>node. NHCByNodeMapperFunc c (n_Name node))) ev"
| "SetupWithManager c MHCChannel = EnqueueRequestsFromMapFunc (\<lambda>_. NHCByMHCEventMapperFunc c) (Generic ())"

text \<open>
  What the controller of machine health checks listens to. The event of a machine carries its namespace
  and name.
\<close>

datatype mhc_source =
    MHCEvent "MachineHealthCheck obj_event"
  | MHCNodeEvent "Node obj_event"
  | MachineEvent "Machine obj_event"
  | FeatureGateChannel

fun SetupWithManager_MHC :: "'w client \<Rightarrow> accessor \<Rightarrow> mhc_source \<Rightarrow> ('w, Request list) m" where
  "SetupWithManager_MHC c fga (MHCEvent ev) =
     handleEvent allEvents (\<lambda>ev. State_Monad.return (EnqueueRequestForObject mhcRequest ev)) ev"
| "SetupWithManager_MHC c fga (MHCNodeEvent ev) =
     handleEvent (nodePredicates c) (EnqueueRequestsFromMapFunc (\<lambda>node. MHCByNodeMapperFunc c fga (n_Name node))) ev"
| "SetupWithManager_MHC c fga (MachineEvent ev) =
     handleEvent allEvents (EnqueueRequestsFromMapFunc (\<lambda>machine. MHCByMachineMapperFunc c fga (m_Namespace machine) (m_Name machine))) ev"
| "SetupWithManager_MHC c fga FeatureGateChannel =
     EnqueueRequestsFromMapFunc (\<lambda>_. MHCByFeatureGateEventMapperFunc c fga) (Generic ())"

subsection \<open>The watches that are added later\<close>

definition crPredicates :: "('w, Unstructured) Funcs" where
  "crPredicates = allEvents\<lparr>CreateFunc := (\<lambda>_. State_Monad.return False), GenericFunc := (\<lambda>_. State_Monad.return False)\<rparr>"

definition templateCRHandler :: "'w client \<Rightarrow> WatchType \<Rightarrow> Unstructured obj_event \<Rightarrow> ('w, Request list) m" where
  "templateCRHandler c watchType =
     handleEvent crPredicates
       (EnqueueRequestsFromMapFunc
         (if watchType = WatchNHC then NHCByRemediationTemplateCRMapperFunc c else MHCByRemediationTemplateCRMapperFunc c))"

definition remediationCRHandler :: "WatchType \<Rightarrow> Unstructured obj_event \<Rightarrow> ('w, Request list) m" where
  "remediationCRHandler watchType =
     handleEvent crPredicates (EnqueueRequestsFromMapFunc (\<lambda>cr. State_Monad.return (RemediationCRMapperFunc watchType cr)))"

subsection \<open>Specification\<close>

text \<open>What the node filter lets pass, for a server that lists the same health checks at every call.\<close>

definition relevantUpdate :: "NodeHealthCheck list \<Rightarrow> Node \<Rightarrow> Node \<Rightarrow> bool" where
  "relevantUpdate nhcs old new \<longleftrightarrow>
     lookup2 (n_Labels old) ExcludeFromRemediation \<noteq> lookup2 (n_Labels new) ExcludeFromRemediation \<or>
     (\<exists>nhc\<in>set nhcs. \<exists>k\<in>set (selectorKeys (Selector (nhc_Spec nhc))). lookup2 (n_Labels old) k \<noteq> lookup2 (n_Labels new) k) \<or>
     statusOf (n_Conditions new) NodeReady \<noteq> None \<and> statusOf (n_Conditions old) \<noteq> statusOf (n_Conditions new) \<or>
     (lookup2 (n_Annotations old) RemediationManuallyConfirmedHealthyAnnotationKey = None) \<noteq>
     (lookup2 (n_Annotations new) RemediationManuallyConfirmedHealthyAnnotationKey = None)"

section \<open>Lemmas\<close>

subsection \<open>The queue\<close>

lemma mapAndEnqueue_set [simp]: "set (mapAndEnqueue rs reqs) = set rs \<union> set reqs"
  by (induction rs reqs rule: mapAndEnqueue.induct) auto

lemma mapAndEnqueue_distinct: "distinct reqs \<Longrightarrow> distinct (mapAndEnqueue rs reqs)"
  by (induction rs reqs rule: mapAndEnqueue.induct) auto

text \<open>No handler puts a request into the queue twice for one event.\<close>

lemma EnqueueRequestsFromMapFunc_distinct:
  "run_state (EnqueueRequestsFromMapFunc f ev) s = (reqs, s') \<Longrightarrow> distinct reqs"
  by (auto simp: EnqueueRequestsFromMapFunc_def Let_def mapAndEnqueue_distinct split: obj_event.splits prod.splits)

lemma handleEvent_distinct:
  assumes "\<And>s reqs s'. run_state (h ev) s = (reqs, s') \<Longrightarrow> distinct reqs"
    and "run_state (handleEvent p h ev) s = (reqs, s')"
  shows "distinct reqs"
  using assms by (auto simp: handleEvent_def split: prod.splits if_splits)

lemma SetupWithManager_distinct:
  "run_state (SetupWithManager c src) s = (reqs, s') \<Longrightarrow> distinct reqs"
  by (cases src)
    (auto intro: EnqueueRequestsFromMapFunc_distinct elim!: handleEvent_distinct[rotated] simp: EnqueueRequestForObject_def)

text \<open>Routing an event changes nothing.\<close>

lemma emits_EnqueueRequestsFromMapFunc [emits_intros]:
  "(\<And>x. emits P (f x)) \<Longrightarrow> emits P (EnqueueRequestsFromMapFunc f ev)"
  unfolding EnqueueRequestsFromMapFunc_def Let_def by (cases ev) (auto intro!: emits_intros)

lemma emits_handleEvent [emits_intros]:
  "emits P (passes p ev) \<Longrightarrow> emits P (h ev) \<Longrightarrow> emits P (handleEvent p h ev)"
  unfolding handleEvent_def by (auto intro!: emits_intros)

lemma emits_passes:
  "emits P (passes (nodePredicates c) nev)" "emits P (passes allEvents aev)"
  "emits P (passes (GenerationChangedPredicate g) bev)" "emits P (passes crPredicates cev)"
  unfolding passes_def nodePredicates_def allEvents_def GenerationChangedPredicate_def crPredicates_def
  by (auto intro!: emits_intros emits_nodeUpdateNeedsReconcile split: obj_event.splits)

lemma emits_SetupWithManager: "emits P (SetupWithManager c src)"
  by (cases src) (auto intro!: emits_intros emits_passes emits_mappers)

lemma emits_SetupWithManager_MHC: "emits P (SetupWithManager_MHC c fga src)"
  by (cases src) (auto intro!: emits_intros emits_passes emits_mappers)

subsection \<open>Nodes\<close>

lemma excluded_label_changed:
  "((lookup2 old k \<noteq> None) \<noteq> (lookup2 new k \<noteq> None) \<or> lookup1 old k \<noteq> lookup1 new k) \<longleftrightarrow> lookup2 old k \<noteq> lookup2 new k"
  by (auto simp: lookup1_def split: option.splits)

lemma labelsNeedReconcile_run:
  assumes "\<And>w. fst (c_ListNHC c w) = Inr nhcs"
  shows "fst (run_state (labelsNeedReconcile c old new) s) \<longleftrightarrow>
    lookup2 old ExcludeFromRemediation \<noteq> lookup2 new ExcludeFromRemediation \<or>
    (\<exists>nhc\<in>set nhcs. \<exists>k\<in>set (selectorKeys (Selector (nhc_Spec nhc))). lookup2 old k \<noteq> lookup2 new k)"
proof -
  obtain w where "c_ListNHC c (world s) = (Inr nhcs, w)" using assms by (metis prod.collapse)
  then show ?thesis
    unfolding labelsNeedReconcile_def excluded_label_changed by (simp add: list_ex_iff labelWasModified_iff)
qed

lemma conditionsNeedReconcile_not_ready:
  "statusOf new NodeReady = None \<Longrightarrow> \<not> conditionsNeedReconcile old new"
  by (auto simp: conditionsNeedReconcile_def statusOf_eq find_None_iff list_ex_iff)

lemma nodeUpdateNeedsReconcile_run:
  assumes "\<And>w. fst (c_ListNHC c w) = Inr nhcs"
    and "distinct (map nc_Type (n_Conditions old))" "distinct (map nc_Type (n_Conditions new))"
  shows "fst (run_state (nodeUpdateNeedsReconcile c (Some old) (Some new)) s) \<longleftrightarrow> relevantUpdate nhcs old new"
proof -
  have "conditionsNeedReconcile (n_Conditions old) (n_Conditions new) \<longleftrightarrow>
      statusOf (n_Conditions new) NodeReady \<noteq> None \<and> statusOf (n_Conditions old) \<noteq> statusOf (n_Conditions new)"
    using conditionsNeedReconcile_iff[OF assms(2,3)] conditionsNeedReconcile_not_ready by blast
  moreover obtain b s1 where run: "run_state (labelsNeedReconcile c (n_Labels old) (n_Labels new)) s = (b, s1)" by fastforce
  moreover have "annotationsNeedReconcile (n_Annotations old) (n_Annotations new) \<longleftrightarrow>
      (lookup2 (n_Annotations old) RemediationManuallyConfirmedHealthyAnnotationKey = None) \<noteq>
      (lookup2 (n_Annotations new) RemediationManuallyConfirmedHealthyAnnotationKey = None)"
    by (auto simp: annotationsNeedReconcile_def)
  ultimately show ?thesis
    using labelsNeedReconcile_run[OF assms(1), of "n_Labels old" "n_Labels new" s]
    by (simp add: nodeUpdateNeedsReconcile_def relevantUpdate_def)
qed

lemma NHCByNodeMapperFunc_stable:
  assumes "\<And>w. fst (c_ListNHC c w) = Inr nhcs" and "\<And>w. fst (c_GetNode c name w) = Inr node"
  shows "set (fst (run_state (NHCByNodeMapperFunc c name) s)) =
    nhcRequest ` {nhc \<in> set nhcs. c_Selector c (Selector (nhc_Spec nhc)) = None \<and> c_Matches c (Selector (nhc_Spec nhc)) (n_Labels node)}"
proof -
  obtain w where get: "c_GetNode c name (world s) = (Inr node, w)" using assms(2) by (metis prod.collapse)
  obtain w' where "c_ListNHC c w = (Inr nhcs, w')" using assms(1) by (metis prod.collapse)
  from NHCByNodeMapperFunc_selects[OF get this] show ?thesis .
qed

text \<open>
  The requests of a node update: the health checks that select the node as it is now, provided the
  update is relevant.
\<close>

lemma node_update_requests:
  assumes list: "\<And>w. fst (c_ListNHC c w) = Inr nhcs" and get: "\<And>w. fst (c_GetNode c (n_Name new) w) = Inr new"
    and "n_Name old = n_Name new"
    and "distinct (map nc_Type (n_Conditions old))" "distinct (map nc_Type (n_Conditions new))"
  shows "set (fst (run_state (SetupWithManager c (NodeEvent (Updated old new))) s)) =
    (if relevantUpdate nhcs old new
     then nhcRequest ` {nhc \<in> set nhcs. c_Selector c (Selector (nhc_Spec nhc)) = None \<and> c_Matches c (Selector (nhc_Spec nhc)) (n_Labels new)}
     else {})"
proof -
  obtain b s1 where run: "run_state (nodeUpdateNeedsReconcile c (Some old) (Some new)) s = (b, s1)" by fastforce
  with nodeUpdateNeedsReconcile_run[OF list assms(4,5), of s] have b: "b \<longleftrightarrow> relevantUpdate nhcs old new" by simp
  obtain r1 s2 where r1: "run_state (NHCByNodeMapperFunc c (n_Name new)) s1 = (r1, s2)" by fastforce
  obtain r2 s3 where r2: "run_state (NHCByNodeMapperFunc c (n_Name new)) s2 = (r2, s3)" by fastforce
  from NHCByNodeMapperFunc_stable[OF list get, of s1] NHCByNodeMapperFunc_stable[OF list get, of s2] run b r1 r2 assms(3)
  show ?thesis by (simp add: handleEvent_def passes_def nodePredicates_def EnqueueRequestsFromMapFunc_def Let_def)
qed

text \<open>A node that is gone reaches every health check.\<close>

lemma node_deletion_requests:
  assumes "c_GetNode c (n_Name node) (world s) = (Inl e, w)" and "c_ListNHC c w = (Inr nhcs, w')"
  shows "set (fst (run_state (SetupWithManager c (NodeEvent (Deleted node))) s)) = nhcRequest ` set nhcs"
proof -
  obtain r s1 where r: "run_state (NHCByNodeMapperFunc c (n_Name node)) s = (r, s1)" by fastforce
  with NHCByNodeMapperFunc_gone[OF assms] show ?thesis
    by (simp add: handleEvent_def passes_def nodePredicates_def EnqueueRequestsFromMapFunc_def)
qed

subsection \<open>Health checks and templates\<close>

text \<open>A status patch leaves the generation alone, so it does not lead to another reconcile.\<close>

lemma status_patch_not_routed:
  "fst (run_state (SetupWithManager c (NHCEvent (Updated (g, nhc) (g, nhc')))) s) = []"
  by (simp add: handleEvent_def passes_def GenerationChangedPredicate_def allEvents_def)

lemma MHCChannel_requests:
  assumes "c_ListNHC c (world s) = (Inr nhcs, w)"
  shows "set (fst (run_state (SetupWithManager c MHCChannel) s)) = nhcRequest ` set nhcs"
  using assms by (simp add: EnqueueRequestsFromMapFunc_def NHCByMHCEventMapperFunc_def)

text \<open>
  An update or a deletion of a template reaches the health checks that refer to it; the simple template
  comes before the escalating ones, which admission excludes anyway.
\<close>

lemma NHCByRemediationTemplateCRMapperFunc_refers:
  assumes "fst (c_ListNHC c (world s)) = Inr nhcs" and "nhc \<in> set nhcs"
    and "RemediationTemplate (nhc_Spec nhc) = Some ref \<or>
      RemediationTemplate (nhc_Spec nhc) = None \<and> ref \<in> er_RemediationTemplate ` set (EscalatingRemediations (nhc_Spec nhc))"
    and "templateMatches template ref"
  shows "nhcRequest nhc \<in> set (fst (run_state (NHCByRemediationTemplateCRMapperFunc c template) s))"
  using assms
  by (auto simp: NHCByRemediationTemplateCRMapperFunc_def list_ex_iff split: prod.splits option.splits sum.splits
      intro!: image_eqI[where x = nhc])

lemma templateCRHandler_reaches:
  assumes "\<And>w. fst (c_ListNHC c w) = Inr nhcs" and "nhc \<in> set nhcs"
    and "RemediationTemplate (nhc_Spec nhc) = Some ref \<or>
      RemediationTemplate (nhc_Spec nhc) = None \<and> ref \<in> er_RemediationTemplate ` set (EscalatingRemediations (nhc_Spec nhc))"
    and "templateMatches template ref"
  shows "nhcRequest nhc \<in> set (fst (run_state (templateCRHandler c WatchNHC (Updated old template)) s))"
    and "nhcRequest nhc \<in> set (fst (run_state (templateCRHandler c WatchNHC (Deleted template)) s))"
  using NHCByRemediationTemplateCRMapperFunc_refers[OF assms]
  by (auto simp: templateCRHandler_def handleEvent_def passes_def crPredicates_def allEvents_def
      EnqueueRequestsFromMapFunc_def Let_def split: prod.splits) (metis fst_conv)+

text \<open>A change or deletion of a CR is routed by its mapper alone.\<close>

lemma remediationCRHandler_deleted:
  "run_state (remediationCRHandler watchType (Deleted cr)) s = (mapAndEnqueue (RemediationCRMapperFunc watchType cr) [], s)"
  by (simp add: remediationCRHandler_def handleEvent_def passes_def crPredicates_def allEvents_def EnqueueRequestsFromMapFunc_def)

lemma remediationCRHandler_updated:
  "run_state (remediationCRHandler watchType (Updated old cr)) s =
    (mapAndEnqueue (RemediationCRMapperFunc watchType cr) (mapAndEnqueue (RemediationCRMapperFunc watchType old) []), s)"
  by (simp add: remediationCRHandler_def handleEvent_def passes_def crPredicates_def allEvents_def EnqueueRequestsFromMapFunc_def Let_def)

end
