(* ===== verification/Entry_Point.thy ===== *)
theory Entry_Point
  imports Initializer Routing
begin

text \<open>
  The start of the process: \<open>cmd/main.go\<close> and the client certificates of the metrics server
  (\<open>internal/metrics/tls/configure.go\<close>). What the process asks of its surroundings (files, the API
  server, the controller manager) is a record of functions over a world, as everywhere in this
  development; the calls that register something with the manager are effects. \<open>os.Exit(1)\<close> is the error
  that was logged before it.

  A function that changes a \<open>tls.Config\<close> is a function on configurations. The only callback the operator
  installs in one is represented by a constructor, with its body in \<open>GetConfigForClient_body\<close>.
\<close>

section \<open>Definitions\<close>

subsection \<open>TLS\<close>

datatype ClientAuthType = NoClientCert | RequireAndVerifyClientCert

datatype ClientCallback = VerifyWithClientCA

record tls_Config =
  NextProtos :: "string list"
  MinVersion :: int
  CipherSuites :: "int list"
  ClientAuth :: ClientAuthType
  ClientCAs :: "string option"
  GetConfigForClient :: "ClientCallback option"

text \<open>
  The callback, which clones the configuration it was installed in. The roots are what \<open>VerifyOptions\<close>
  of the CA controller returns when a client connects, if it has any.
\<close>

definition GetConfigForClient_body :: "tls_Config \<Rightarrow> string option \<Rightarrow> error + tls_Config" where
  "GetConfigForClient_body c roots =
     (let cfg = c\<lparr>ClientAuth := RequireAndVerifyClientCert\<rparr>
      in case roots of
           None \<Rightarrow> Inl (Errorf ''client CA bundle not yet available'')
         | Some r \<Rightarrow> Inr (cfg\<lparr>ClientCAs := Some r\<rparr>))"

text \<open>The configuration of one connection, as \<open>crypto/tls\<close> determines it: without callback the one of the server.\<close>

definition configForClient :: "tls_Config \<Rightarrow> string option \<Rightarrow> error + tls_Config" where
  "configForClient c roots =
     (case GetConfigForClient c of None \<Rightarrow> Inr c | Some VerifyWithClientCA \<Rightarrow> GetConfigForClient_body c roots)"

text \<open>The servers apply the options in their order.\<close>

definition applyOpts :: "(tls_Config \<Rightarrow> tls_Config) list \<Rightarrow> tls_Config \<Rightarrow> tls_Config" where
  "applyOpts opts c = foldl (\<lambda>c f. f c) c opts"

subsection \<open>Options of the manager\<close>

datatype FilterProvider = WithAuthenticationAndAuthorization

record metrics_Options =
  mo_BindAddress :: string
  mo_SecureServing :: bool
  mo_CertDir :: string
  mo_CertName :: string
  mo_KeyName :: string
  mo_TLSOpts :: "(tls_Config \<Rightarrow> tls_Config) list"
  mo_FilterProvider :: "FilterProvider option"

record webhook_Options =
  wo_Port :: int
  wo_TLSOpts :: "(tls_Config \<Rightarrow> tls_Config) list"
  wo_CertDir :: string
  wo_CertName :: string
  wo_KeyName :: string

record manager_Options =
  DisableCacheFor :: "string list"
  Metrics :: metrics_Options
  HealthProbeBindAddress :: string
  LeaderElection :: bool
  LeaderElectionID :: string
  WebhookServer :: webhook_Options

subsection \<open>The surroundings\<close>

datatype runnable = CheckerRunnable Checker | AccessorRunnable | InitializerRunnable Capabilities | ClientCARunnable

text \<open>The two reconcilers with what they are given.\<close>

datatype reconciler =
    NHCReconciler bool Checker Capabilities
  | MHCReconciler bool Checker

datatype main_effect =
    NewManagerWith manager_Options
  | AddRunnable runnable
  | SetupController reconciler
  | SetupWebhook Capabilities
  | SetupTLSProfileWatcher
  | AddHealthzCheck
  | AddReadyzCheck
  | RegisterNHCMetrics
  | StartManager

record ('w, 'p) platform =
  p_Stat :: "string \<Rightarrow> 'w \<Rightarrow> error option \<times> 'w"
  p_NewSetupClient :: "'w \<Rightarrow> error option \<times> 'w"
  p_FetchTLSProfile :: "'w \<Rightarrow> (error + 'p) \<times> 'w"
  p_TLSConfigFromProfile :: "'p \<Rightarrow> tls_Config \<Rightarrow> tls_Config"
  p_NewKubeClient :: "'w \<Rightarrow> error option \<times> 'w"
  p_NewDynamicCA :: "'w \<Rightarrow> error option \<times> 'w"
  p_NewManager :: "manager_Options \<Rightarrow> 'w \<Rightarrow> error option \<times> 'w"
  p_ServerGroups :: "'w \<Rightarrow> (error + string list list) \<times> 'w"
  p_GetInfrastructure :: "'w \<Rightarrow> (error + string) \<times> 'w"
  p_NewClusterVersionClient :: "'w \<Rightarrow> error option \<times> 'w"
  p_Register :: "main_effect \<Rightarrow> 'w \<Rightarrow> error option \<times> 'w"

type_synonym ('w, 'a) startup = "('w, main_effect, 'a) io"

text \<open>A failed call is logged with a message, and the process exits.\<close>

definition orExit :: "string \<Rightarrow> ('w, error option) startup \<Rightarrow> ('w, error + unit) startup" where
  "orExit msg call = do {
     e \<leftarrow> call;
     State_Monad.return (case e of Some err \<Rightarrow> Inl (Wrapped msg err) | None \<Rightarrow> Inr ())
   }"

definition register :: "('w, 'p) platform \<Rightarrow> string \<Rightarrow> main_effect \<Rightarrow> ('w, error + unit) startup" where
  "register p msg eff = orExit msg (do { emit eff; ask (p_Register p eff) })"

subsection \<open>Metrics TLS\<close>

definition metricsTLSCertDir :: string where "metricsTLSCertDir = ''/etc/tls/private''"
definition metricsTLSCertName :: string where "metricsTLSCertName = ''tls.crt''"
definition metricsTLSKeyName :: string where "metricsTLSKeyName = ''tls.key''"

text \<open>\<open>filepath.Join\<close> of a clean directory and a file name.\<close>

definition filepath_Join :: "string \<Rightarrow> string \<Rightarrow> string" where
  "filepath_Join dir name = dir @ ''/'' @ name"

text \<open>The flag of the result tells whether there is a CA controller.\<close>

definition ConfigureMTLS ::
  "('w, 'p) platform \<Rightarrow> metrics_Options \<Rightarrow> string \<Rightarrow> string \<Rightarrow> string \<Rightarrow> ('w, (error + bool) \<times> metrics_Options) startup" where
  "ConfigureMTLS p metricsOpts certDir certName keyName = do {
     let certFile = filepath_Join certDir certName;
     let keyFile = filepath_Join certDir keyName;
     e1 \<leftarrow> ask (p_Stat p certFile);
     if e1 \<noteq> None then State_Monad.return (Inr False, metricsOpts)
     else do {
       e2 \<leftarrow> ask (p_Stat p keyFile);
       if e2 \<noteq> None then State_Monad.return (Inr False, metricsOpts)
       else do {
         e3 \<leftarrow> ask (p_NewDynamicCA p);
         State_Monad.return
           (case e3 of
              Some err \<Rightarrow> (Inl (Wrapped ''unable to create client CA controller'' err), metricsOpts)
            | None \<Rightarrow>
                (Inr True,
                 metricsOpts\<lparr>mo_SecureServing := True, mo_CertDir := certDir, mo_CertName := certName, mo_KeyName := keyName,
                   mo_TLSOpts := mo_TLSOpts metricsOpts @ [\<lambda>c. c\<lparr>GetConfigForClient := Some VerifyWithClientCA\<rparr>]\<rparr>))
       }
     }
   }"

subsection \<open>The servers\<close>

definition WebhookCertDir :: string where "WebhookCertDir = ''/apiserver.local.config/certificates''"
definition WebhookCertName :: string where "WebhookCertName = ''apiserver.crt''"
definition WebhookKeyName :: string where "WebhookKeyName = ''apiserver.key''"

fun certsInjected :: "('w, 'p) platform \<Rightarrow> string list \<Rightarrow> ('w, bool) startup" where
  "certsInjected p [] = State_Monad.return True"
| "certsInjected p (fname # rest) = do {
     e \<leftarrow> ask (p_Stat p fname);
     if e \<noteq> None then State_Monad.return False else certsInjected p rest
   }"

definition getWebhookServer :: "('w, 'p) platform \<Rightarrow> (tls_Config \<Rightarrow> tls_Config) list \<Rightarrow> ('w, webhook_Options) startup" where
  "getWebhookServer p tlsOpts = do {
     let options = \<lparr>wo_Port = 9443, wo_TLSOpts = tlsOpts, wo_CertDir = [], wo_CertName = [], wo_KeyName = []\<rparr>;
     injected \<leftarrow> certsInjected p [filepath_Join WebhookCertDir WebhookCertName, filepath_Join WebhookCertDir WebhookKeyName];
     State_Monad.return
       (if injected then options\<lparr>wo_CertDir := WebhookCertDir, wo_CertName := WebhookCertName, wo_KeyName := WebhookKeyName\<rparr>
        else options)
   }"

text \<open>The options that do not depend on the cluster, and those of the TLS profile of OpenShift.\<close>

definition http2Opts :: "bool \<Rightarrow> (tls_Config \<Rightarrow> tls_Config) list" where
  "http2Opts enableHTTP2 = (if \<not> enableHTTP2 then [\<lambda>c. c\<lparr>NextProtos := [''http/1.1'']\<rparr>] else [])"

definition serverTLSOpts :: "('w, 'p) platform \<Rightarrow> bool \<Rightarrow> ('w, error + bool \<times> (tls_Config \<Rightarrow> tls_Config) list) startup" where
  "serverTLSOpts p enableHTTP2 =
     bindE (orExit ''unable to create setup client'' (ask (p_NewSetupClient p))) (\<lambda>_. do {
       r \<leftarrow> ask (p_FetchTLSProfile p);
       State_Monad.return
         (case r of
            Inl err \<Rightarrow>
              if IsNoMatchError err \<or> IsNotFound err then Inr (False, http2Opts enableHTTP2)
              else Inl (Wrapped ''failed to fetch TLS profile'' err)
          | Inr tlsProfile \<Rightarrow> Inr (True, http2Opts enableHTTP2 @ [p_TLSConfigFromProfile p tlsProfile]))
     })"

text \<open>The options of the metrics server, and whether there is a CA controller.\<close>

definition metricsServer ::
  "('w, 'p) platform \<Rightarrow> string \<Rightarrow> (tls_Config \<Rightarrow> tls_Config) list \<Rightarrow> ('w, error + bool \<times> metrics_Options) startup" where
  "metricsServer p metricsAddr tlsOpts =
     (let metricsOpts = \<lparr>mo_BindAddress = metricsAddr, mo_SecureServing = False, mo_CertDir = [], mo_CertName = [],
            mo_KeyName = [], mo_TLSOpts = tlsOpts, mo_FilterProvider = None\<rparr>
      in bindE (orExit ''unable to create kubernetes clientset'' (ask (p_NewKubeClient p))) (\<lambda>_. do {
           (r, metricsOpts) \<leftarrow> ConfigureMTLS p metricsOpts metricsTLSCertDir metricsTLSCertName metricsTLSKeyName;
           State_Monad.return
             (case r of
                Inl err \<Rightarrow> Inl (Wrapped ''unable to configure metrics mTLS'' err)
              | Inr clientCA \<Rightarrow>
                  Inr (clientCA,
                    if \<not> clientCA
                    then metricsOpts\<lparr>mo_SecureServing := True, mo_FilterProvider := Some WithAuthenticationAndAuthorization\<rparr>
                    else metricsOpts))
         }))"

subsection \<open>The manager\<close>

definition newManager ::
  "('w, 'p) platform \<Rightarrow> string \<Rightarrow> bool \<Rightarrow> (tls_Config \<Rightarrow> tls_Config) list \<Rightarrow> metrics_Options \<Rightarrow> ('w, error + unit) startup" where
  "newManager p probeAddr enableLeaderElection tlsOpts metricsOpts = do {
     webhookServer \<leftarrow> getWebhookServer p tlsOpts;
     let options = \<lparr>DisableCacheFor = [''Namespace''], Metrics = metricsOpts, HealthProbeBindAddress = probeAddr,
       LeaderElection = enableLeaderElection, LeaderElectionID = ''e1f13584.medik8s.io'', WebhookServer = webhookServer\<rparr>;
     orExit ''unable to start manager'' (do { emit (NewManagerWith options); ask (p_NewManager p options) })
   }"

text \<open>The topology is read only on OpenShift.\<close>

definition clusterCapabilities :: "('w, 'p) platform \<Rightarrow> ('w, error + Capabilities) startup" where
  "clusterCapabilities p = do {
     groups \<leftarrow> ask (p_ServerGroups p);
     infra \<leftarrow> (case NewCapabilities groups (Inr []) of
                Inl err \<Rightarrow> State_Monad.return (Inr [])
              | Inr caps \<Rightarrow> if IsOnOpenshift caps then ask (p_GetInfrastructure p) else State_Monad.return (Inr []));
     State_Monad.return
       (case NewCapabilities groups infra of
          Inl err \<Rightarrow> Inl (Wrapped ''unable to determine cluster capabilities'' err)
        | Inr caps \<Rightarrow> Inr caps)
   }"

text \<open>The upgrade checker needs a client on OpenShift only; the result tells which one it is.\<close>

definition newOpenshiftClusterUpgradeChecker :: "('w, 'p) platform \<Rightarrow> ('w, error option) startup" where
  "newOpenshiftClusterUpgradeChecker p = do {
     e \<leftarrow> ask (p_NewClusterVersionClient p);
     State_Monad.return (map_option (Wrapped ''failed to create a client to Openshift ClusterVersion objects'') e)
   }"

definition upgradeChecker :: "('w, 'p) platform \<Rightarrow> Capabilities \<Rightarrow> ('w, error + bool) startup" where
  "upgradeChecker p caps =
     (if \<not> IsOnOpenshift caps then State_Monad.return (Inr False)
      else bindE (orExit ''unable initialize cluster upgrade checker'' (newOpenshiftClusterUpgradeChecker p))
             (\<lambda>_. State_Monad.return (Inr True)))"

subsection \<open>The registrations\<close>

text \<open>What is registered with the manager before it starts, with the message of a failure.\<close>

definition registrations :: "bool \<Rightarrow> bool \<Rightarrow> Capabilities \<Rightarrow> (string \<times> main_effect) list" where
  "registrations isOpenShift upgrades caps =
     (let mhcChecker = NewMHCChecker (HasMachineAPI caps)
      in [(''failed to add MHC checker to the manager'', AddRunnable (CheckerRunnable mhcChecker)),
          (''unable to create controller'', SetupController (NHCReconciler upgrades mhcChecker caps))] @
         (if HasMachineAPI caps
          then [(''failed to add feature gate accessor to the manager'', AddRunnable AccessorRunnable),
                (''unable to create controller'', SetupController (MHCReconciler upgrades mhcChecker))]
          else []) @
         [(''unable to create webhook'', SetupWebhook caps)] @
         (if isOpenShift then [(''unable to set up TLS profile watcher'', SetupTLSProfileWatcher)] else []) @
         [(''failed to add initializer to the manager'', AddRunnable (InitializerRunnable caps)),
          (''unable to set up health check'', AddHealthzCheck),
          (''unable to set up ready check'', AddReadyzCheck)])"

fun registerAll :: "('w, 'p) platform \<Rightarrow> (string \<times> main_effect) list \<Rightarrow> ('w, error + unit) startup" where
  "registerAll p [] = State_Monad.return (Inr ())"
| "registerAll p ((msg, eff) # rest) = bindE (register p msg eff) (\<lambda>_. registerAll p rest)"

definition startManager :: "('w, 'p) platform \<Rightarrow> bool \<Rightarrow> ('w, error + unit) startup" where
  "startManager p clientCA = do {
     emit RegisterNHCMetrics;
     bindE
       (if clientCA then register p ''failed to add client CA controller to the manager'' (AddRunnable ClientCARunnable)
        else State_Monad.return (Inr ()))
       (\<lambda>_. register p ''problem running manager'' StartManager)
   }"

definition main :: "('w, 'p) platform \<Rightarrow> string \<Rightarrow> string \<Rightarrow> bool \<Rightarrow> bool \<Rightarrow> ('w, error + unit) startup" where
  "main p metricsAddr probeAddr enableLeaderElection enableHTTP2 =
     bindE (serverTLSOpts p enableHTTP2) (\<lambda>(isOpenShift, tlsOpts).
     bindE (metricsServer p metricsAddr tlsOpts) (\<lambda>(clientCA, metricsOpts).
     bindE (newManager p probeAddr enableLeaderElection tlsOpts metricsOpts) (\<lambda>_.
     bindE (clusterCapabilities p) (\<lambda>caps.
     bindE (upgradeChecker p caps) (\<lambda>upgrades.
     bindE (registerAll p (registrations isOpenShift upgrades caps)) (\<lambda>_.
     startManager p clientCA))))))"

text \<open>The runnables that wait for the leader election: all but the wrapped CA controller.\<close>

definition NeedLeaderElection :: "runnable \<Rightarrow> bool" where
  "NeedLeaderElection r = (case r of ClientCARunnable \<Rightarrow> False | _ \<Rightarrow> True)"

subsection \<open>Specification\<close>

text \<open>
  Metrics are served over TLS, and either requests are authenticated and authorised by the API server or
  every connection needs a certificate signed by the current client CA.
\<close>

definition protectedMetrics :: "metrics_Options \<Rightarrow> bool" where
  "protectedMetrics opts \<longleftrightarrow>
     mo_SecureServing opts \<and>
     (mo_FilterProvider opts = Some WithAuthenticationAndAuthorization \<or>
      (\<forall>base roots. case configForClient (applyOpts (mo_TLSOpts opts) base) roots of
         Inl e \<Rightarrow> roots = None
       | Inr cfg \<Rightarrow> ClientAuth cfg = RequireAndVerifyClientCert \<and> roots \<noteq> None \<and> ClientCAs cfg = roots))"

definition http1Only :: "(tls_Config \<Rightarrow> tls_Config) list \<Rightarrow> bool" where
  "http1Only opts \<longleftrightarrow> (\<forall>base. NextProtos (applyOpts opts base) = [''http/1.1''])"

text \<open>Every manager is created with protected metrics, and without HTTP/2 unless it is enabled.\<close>

definition protectedEffect :: "bool \<Rightarrow> main_effect \<Rightarrow> bool" where
  "protectedEffect http2 e \<longleftrightarrow>
     (\<forall>options. e = NewManagerWith options \<longrightarrow> protectedMetrics (Metrics options) \<and>
        (http2 \<or> http1Only (mo_TLSOpts (Metrics options)) \<and> http1Only (wo_TLSOpts (WebhookServer options))))"

section \<open>Lemmas\<close>

lemma applyOpts_append: "applyOpts (fs @ gs) c = applyOpts gs (applyOpts fs c)"
  by (simp add: applyOpts_def)

lemma run_orExit:
  "run_state (orExit msg m) s =
    (case run_state m s of (e, s') \<Rightarrow> (case e of Some err \<Rightarrow> Inl (Wrapped msg err) | None \<Rightarrow> Inr (), s'))"
  by (simp add: orExit_def split: prod.splits option.splits)

lemma run_register:
  "run_state (register p msg eff) s =
    (case p_Register p eff (world s) of (e, w) \<Rightarrow>
       (case e of Some err \<Rightarrow> Inl (Wrapped msg err) | None \<Rightarrow> Inr (), s\<lparr>trace := trace s @ [eff], world := w\<rparr>))"
  by (simp add: register_def run_orExit split: prod.splits option.splits)

subsection \<open>What the servers are given\<close>

lemma emits_orExit [emits_intros]: "emits P m \<Longrightarrow> emits P (orExit msg m)"
  unfolding orExit_def by (auto intro!: emits_intros split: option.splits)

lemma emits_register [emits_intros]: "P eff \<Longrightarrow> emits P (register p msg eff)"
  unfolding register_def by (intro emits_intros)

lemma emits_ConfigureMTLS [emits_intros]: "emits P (ConfigureMTLS p opts d c k)"
  unfolding ConfigureMTLS_def Let_def by (auto intro!: emits_intros split: option.splits)

lemma emits_certsInjected [emits_intros]: "emits P (certsInjected p fs)"
  by (induction fs) (auto intro!: emits_intros)

lemma emits_getWebhookServer [emits_intros]: "emits P (getWebhookServer p opts)"
  unfolding getWebhookServer_def Let_def by (auto intro!: emits_intros)

lemma emits_serverTLSOpts [emits_intros]: "emits P (serverTLSOpts p h)"
  unfolding serverTLSOpts_def by (auto intro!: emits_intros split: sum.splits)

lemma emits_metricsServer [emits_intros]: "emits P (metricsServer p addr opts)"
  unfolding metricsServer_def Let_def by (auto intro!: emits_intros split: sum.splits)

lemma emits_clusterCapabilities [emits_intros]: "emits P (clusterCapabilities p)"
  unfolding clusterCapabilities_def by (auto intro!: emits_intros split: sum.splits)

lemma emits_upgradeChecker [emits_intros]: "emits P (upgradeChecker p caps)"
  unfolding upgradeChecker_def newOpenshiftClusterUpgradeChecker_def by (auto intro!: emits_intros)

lemma emits_registerAll: "(\<And>eff. eff \<in> snd ` set rs \<Longrightarrow> P eff) \<Longrightarrow> emits P (registerAll p rs)"
proof (induction rs)
  case (Cons r rs)
  then show ?case by (cases r) (auto intro!: emits_intros)
qed (auto intro!: emits_intros)

lemma ConfigureMTLS_run:
  assumes "run_state (ConfigureMTLS p opts d c k) s = ((r, opts'), s')"
  shows "r = Inr False \<Longrightarrow> opts' = opts"
    and "r = Inr True \<Longrightarrow> opts' = opts\<lparr>mo_SecureServing := True, mo_CertDir := d, mo_CertName := c, mo_KeyName := k,
      mo_TLSOpts := mo_TLSOpts opts @ [\<lambda>c. c\<lparr>GetConfigForClient := Some VerifyWithClientCA\<rparr>]\<rparr>"
  using assms by (auto simp: ConfigureMTLS_def Let_def split: prod.splits if_splits option.splits)

lemma serverTLSOpts_http1:
  assumes "\<And>prof c. NextProtos (p_TLSConfigFromProfile p prof c) = NextProtos c"
  shows "returns (\<lambda>r. \<forall>onOCP opts. r = Inr (onOCP, opts) \<longrightarrow> http2 \<or> http1Only opts) (serverTLSOpts p http2)"
  using assms
  by (auto simp: returns_def serverTLSOpts_def orExit_def http2Opts_def http1Only_def applyOpts_def split: prod.splits option.splits sum.splits if_splits)

lemma client_certificates:
  assumes "mo_SecureServing opts" and "mo_TLSOpts opts = fs @ [\<lambda>c. c\<lparr>GetConfigForClient := Some VerifyWithClientCA\<rparr>]"
  shows "protectedMetrics opts"
proof -
  have "configForClient (applyOpts (mo_TLSOpts opts) base) roots =
      GetConfigForClient_body ((applyOpts fs base)\<lparr>GetConfigForClient := Some VerifyWithClientCA\<rparr>) roots" for base roots
    by (simp add: assms applyOpts_def configForClient_def)
  with assms(1) show ?thesis by (simp add: protectedMetrics_def GetConfigForClient_body_def Let_def split: option.splits)
qed

lemma metricsServer_protected:
  assumes "http2 \<or> http1Only opts" and run: "run_state (metricsServer p addr opts) s = (Inr (ca, mopts), s')"
  shows "protectedMetrics mopts" and "http2 \<or> http1Only (mo_TLSOpts mopts)" and "ca \<longleftrightarrow> mo_FilterProvider mopts = None"
proof -
  let ?m = "\<lparr>mo_BindAddress = addr, mo_SecureServing = False, mo_CertDir = [], mo_CertName = [], mo_KeyName = [],
    mo_TLSOpts = opts, mo_FilterProvider = None\<rparr>"
  from run obtain w opts' where
    c: "run_state (ConfigureMTLS p ?m metricsTLSCertDir metricsTLSCertName metricsTLSKeyName) (s\<lparr>world := w\<rparr>) = ((Inr ca, opts'), s')" and
    m: "mopts = (if \<not> ca then opts'\<lparr>mo_SecureServing := True, mo_FilterProvider := Some WithAuthenticationAndAuthorization\<rparr> else opts')"
    by (auto simp: metricsServer_def orExit_def split: prod.splits option.splits sum.splits)
  have http: "http1Only opts \<Longrightarrow> http1Only (opts @ [\<lambda>c. c\<lparr>GetConfigForClient := Some VerifyWithClientCA\<rparr>])"
    by (simp add: http1Only_def applyOpts_def)
  show "protectedMetrics mopts"
  proof (cases ca)
    case True
    with ConfigureMTLS_run(2)[OF c] m show ?thesis by (intro client_certificates[of _ opts]) simp_all
  qed (simp add: m protectedMetrics_def)
  show "http2 \<or> http1Only (mo_TLSOpts mopts)" using ConfigureMTLS_run[OF c] m assms(1) http by (cases ca) auto
  show "ca \<longleftrightarrow> mo_FilterProvider mopts = None" using ConfigureMTLS_run[OF c] m by (cases ca) auto
qed

lemma newManager_protected:
  assumes "protectedMetrics mopts" "http2 \<or> http1Only (mo_TLSOpts mopts)" "http2 \<or> http1Only opts"
  shows "emits (protectedEffect http2) (newManager p probe le opts mopts)"
proof -
  have "returns (\<lambda>w. wo_TLSOpts w = opts) (getWebhookServer p opts)"
    unfolding getWebhookServer_def Let_def by (auto intro!: returns_intros)
  then have wo: "wo_TLSOpts w = opts" if "run_state (getWebhookServer p opts) s = (w, s')" for w s s'
    using that by (rule returnsD)
  show ?thesis unfolding newManager_def Let_def
    by (rule emits_bind_dep, rule emits_intros, intro emits_intros) (use assms in \<open>auto simp: wo protectedEffect_def\<close>)
qed

lemma registrations_protected:
  "emits (protectedEffect http2) (registerAll p (registrations onOCP up caps))" "emits (protectedEffect http2) (startManager p ca)"
  unfolding startManager_def
  by (auto intro!: emits_registerAll emits_intros simp: registrations_def Let_def protectedEffect_def split: if_splits)

lemma servers_protected:
  assumes opts: "http2 \<or> http1Only opts" and rest: "\<And>ca. emits (protectedEffect http2) (rest ca)"
  shows "emits (protectedEffect http2)
    (bindE (metricsServer p addr opts) (\<lambda>(ca, mopts). bindE (newManager p probe le opts mopts) (\<lambda>_. rest ca)))"
proof (rule emits_bindE_dep)
  fix q s s' assume run: "run_state (metricsServer p addr opts) s = (Inr q, s')"
  obtain ca mopts where q: "q = (ca, mopts)" by (cases q)
  note mo = metricsServer_protected[OF opts run[unfolded q]]
  show "emits (protectedEffect http2) (case q of (ca, mopts) \<Rightarrow> bindE (newManager p probe le opts mopts) (\<lambda>_. rest ca))"
    unfolding q prod.case by (intro emits_bindE newManager_protected mo opts rest)
qed (rule emits_intros)

lemma main_effects_protected:
  assumes "\<And>prof c. NextProtos (p_TLSConfigFromProfile p prof c) = NextProtos c"
  shows "emits (protectedEffect http2) (main p addr probe le http2)"
  unfolding main_def
proof (rule emits_bindE_dep)
  fix r s s' assume "run_state (serverTLSOpts p http2) s = (Inr r, s')"
  then have "http2 \<or> http1Only (snd r)" using returnsD[OF serverTLSOpts_http1[OF assms]] by (cases r) fastforce
  then show "emits (protectedEffect http2) (case r of (onOCP, opts) \<Rightarrow>
      bindE (metricsServer p addr opts) (\<lambda>(ca, mopts). bindE (newManager p probe le opts mopts) (\<lambda>_.
      bindE (clusterCapabilities p) (\<lambda>caps. bindE (upgradeChecker p caps) (\<lambda>up.
      bindE (registerAll p (registrations onOCP up caps)) (\<lambda>_. startManager p ca))))))"
  proof (cases r)
    case (Pair onOCP opts)
    with \<open>http2 \<or> http1Only (snd r)\<close> show ?thesis unfolding Pair prod.case
      by (intro servers_protected emits_bindE emits_clusterCapabilities emits_upgradeChecker registrations_protected) simp
  qed
qed (rule emits_intros)

subsection \<open>What is started\<close>

text \<open>Once the manager starts, everything was registered, in this order.\<close>

lemma registerAll_effects:
  "run_state (registerAll p rs) s = (Inr u, s') \<Longrightarrow> trace s' = trace s @ map snd rs"
proof (induction rs arbitrary: s)
  case (Cons r rs)
  obtain msg eff where r: "r = (msg, eff)" by (cases r)
  from Cons.prems obtain w where "run_state (registerAll p rs) (s\<lparr>trace := trace s @ [eff], world := w\<rparr>) = (Inr u, s')"
    by (auto simp: r register_def orExit_def split: prod.splits option.splits)
  from Cons.IH[OF this] show ?case by (simp add: r)
qed simp

lemma startManager_effects:
  assumes "StartManager \<in> set (effects_of (startManager p ca) s)"
  shows "effects_of (startManager p ca) s = RegisterNHCMetrics # (if ca then [AddRunnable ClientCARunnable] else []) @ [StartManager]"
  using assms by (auto simp: startManager_def register_def orExit_def effects_of_def split: prod.splits option.splits if_splits)

lemma emits_registrations: "emits (\<lambda>x. x \<noteq> StartManager) (registerAll p (registrations onOCP up caps))"
  by (rule emits_registerAll) (auto simp: registrations_def Let_def split: if_splits)

lemma newManager_effects:
  assumes "run_state (newManager p probe le opts mopts) s = (Inr u, s')"
  obtains options where "trace s' = trace s @ [NewManagerWith options]" and "Metrics options = mopts"
    and "LeaderElection options = le"
proof -
  obtain wo s1 where wo: "run_state (getWebhookServer p opts) s = (wo, s1)" by fastforce
  from emits_none[OF emits_getWebhookServer wo] have "trace s1 = trace s" .
  with assms wo that show thesis by (auto simp: newManager_def orExit_def Let_def split: prod.splits option.splits)
qed

lemma clusterCapabilities_run:
  assumes "run_state (clusterCapabilities p) s = (Inr caps, s')"
  shows "\<exists>w infra. NewCapabilities (fst (p_ServerGroups p w)) infra = Inr caps"
  using assms by (auto simp: clusterCapabilities_def split: prod.splits sum.splits if_splits) (metis fst_conv)+

lemma upgradeChecker_run: "run_state (upgradeChecker p caps) s = (Inr up, s') \<Longrightarrow> up = IsOnOpenshift caps"
  by (auto simp: upgradeChecker_def orExit_def split: if_splits prod.splits option.splits)

lemma emits_any_tail:
  "emits (\<lambda>_. True) (newManager p probe le opts mopts)" "emits (\<lambda>_. True) (registerAll p rs)" "emits (\<lambda>_. True) (startManager p ca)"
  unfolding newManager_def startManager_def Let_def by (auto intro!: emits_intros emits_registerAll)

lemma effects_of_run: "run_state m s = (r, s') \<Longrightarrow> trace s' = trace s @ es \<Longrightarrow> effects_of m s = es"
  by (simp add: effects_of_def)

lemma effects_of_reads: "(\<And>P. emits P m) \<Longrightarrow> effects_of m s = []"
  using emits_none[of m s] by (cases "run_state m s") (simp add: effects_of_def)

lemma newManager_not_start: "emits (\<lambda>x. x \<noteq> StartManager) (newManager p probe le opts mopts)"
  unfolding newManager_def Let_def by (auto intro!: emits_intros)

lemmas reads_effects =
  effects_of_reads[OF emits_serverTLSOpts] effects_of_reads[OF emits_metricsServer]
  effects_of_reads[OF emits_clusterCapabilities] effects_of_reads[OF emits_upgradeChecker]

text \<open>The steps after the manager was created.\<close>

lemma registered_and_started:
  assumes "StartManager \<in> set (effects_of (bindE (clusterCapabilities p) (\<lambda>caps. bindE (upgradeChecker p caps) (\<lambda>up.
      bindE (registerAll p (registrations onOCP up caps)) (\<lambda>_. startManager p ca)))) s)"
  obtains caps w infra where "NewCapabilities (fst (p_ServerGroups p w)) infra = Inr caps"
    and "effects_of (bindE (clusterCapabilities p) (\<lambda>caps. bindE (upgradeChecker p caps) (\<lambda>up.
      bindE (registerAll p (registrations onOCP up caps)) (\<lambda>_. startManager p ca)))) s =
     map snd (registrations onOCP (IsOnOpenshift caps) caps) @
     RegisterNHCMetrics # (if ca then [AddRunnable ClientCARunnable] else []) @ [StartManager]"
proof -
  from assms obtain caps s1 where caps: "run_state (clusterCapabilities p) s = (Inr caps, s1)"
    and 1: "StartManager \<in> set (effects_of (bindE (upgradeChecker p caps) (\<lambda>up.
      bindE (registerAll p (registrations onOCP up caps)) (\<lambda>_. startManager p ca))) s1)"
    and e1: "effects_of (bindE (clusterCapabilities p) (\<lambda>caps. bindE (upgradeChecker p caps) (\<lambda>up.
      bindE (registerAll p (registrations onOCP up caps)) (\<lambda>_. startManager p ca)))) s =
      effects_of (clusterCapabilities p) s @ effects_of (bindE (upgradeChecker p caps) (\<lambda>up.
      bindE (registerAll p (registrations onOCP up caps)) (\<lambda>_. startManager p ca))) s1"
    by (rule effects_bindE_member) (intro emits_intros emits_any_tail)+
  from 1 obtain up s2 where up: "run_state (upgradeChecker p caps) s1 = (Inr up, s2)"
    and 2: "StartManager \<in> set (effects_of (bindE (registerAll p (registrations onOCP up caps)) (\<lambda>_. startManager p ca)) s2)"
    and e2: "effects_of (bindE (upgradeChecker p caps) (\<lambda>up. bindE (registerAll p (registrations onOCP up caps)) (\<lambda>_. startManager p ca))) s1 =
      effects_of (upgradeChecker p caps) s1 @ effects_of (bindE (registerAll p (registrations onOCP up caps)) (\<lambda>_. startManager p ca)) s2"
    by (rule effects_bindE_member) (intro emits_intros emits_any_tail)+
  from 2 obtain u s3 where reg: "run_state (registerAll p (registrations onOCP up caps)) s2 = (Inr u, s3)"
    and 3: "StartManager \<in> set (effects_of (startManager p ca) s3)"
    and e3: "effects_of (bindE (registerAll p (registrations onOCP up caps)) (\<lambda>_. startManager p ca)) s2 =
      effects_of (registerAll p (registrations onOCP up caps)) s2 @ effects_of (startManager p ca) s3"
    by (rule effects_bindE_member) (intro emits_registrations emits_any_tail)+
  from clusterCapabilities_run[OF caps] obtain w infra where "NewCapabilities (fst (p_ServerGroups p w)) infra = Inr caps" by blast
  then show thesis
    by (rule that)
      (simp only: e1 e2 e3 reads_effects effects_of_run[OF reg registerAll_effects[OF reg]] startManager_effects[OF 3] append.simps,
        simp only: upgradeChecker_run[OF up])
qed

lemma main_started:
  assumes "StartManager \<in> set (effects_of (main p addr probe le http2) s)"
  shows "\<exists>options onOCP caps w infra. NewCapabilities (fst (p_ServerGroups p w)) infra = Inr caps \<and> LeaderElection options = le \<and>
    effects_of (main p addr probe le http2) s =
      NewManagerWith options # map snd (registrations onOCP (IsOnOpenshift caps) caps) @
      RegisterNHCMetrics # (if mo_FilterProvider (Metrics options) = None then [AddRunnable ClientCARunnable] else []) @ [StartManager]"
proof -
  let ?rest = "\<lambda>onOCP ca. bindE (clusterCapabilities p) (\<lambda>caps. bindE (upgradeChecker p caps) (\<lambda>up.
      bindE (registerAll p (registrations onOCP up caps)) (\<lambda>_. startManager p ca)))"
  have rest: "emits (\<lambda>_. True) (?rest onOCP ca)" for onOCP ca by (intro emits_intros emits_any_tail)
  from assms obtain r s1 where "run_state (serverTLSOpts p http2) s = (Inr r, s1)"
    and 1: "StartManager \<in> set (effects_of (case r of (onOCP, opts) \<Rightarrow> bindE (metricsServer p addr opts) (\<lambda>(ca, mopts).
      bindE (newManager p probe le opts mopts) (\<lambda>_. ?rest onOCP ca))) s1)"
    and e1: "effects_of (main p addr probe le http2) s = effects_of (serverTLSOpts p http2) s @
      effects_of (case r of (onOCP, opts) \<Rightarrow> bindE (metricsServer p addr opts) (\<lambda>(ca, mopts).
      bindE (newManager p probe le opts mopts) (\<lambda>_. ?rest onOCP ca))) s1"
    unfolding main_def by (rule effects_bindE_member) (intro emits_intros emits_any_tail)+
  obtain onOCP opts where r: "r = (onOCP, opts)" by (cases r)
  from 1[unfolded r prod.case] obtain q s2 where ms: "run_state (metricsServer p addr opts) s1 = (Inr q, s2)"
    and 2: "StartManager \<in> set (effects_of (case q of (ca, mopts) \<Rightarrow> bindE (newManager p probe le opts mopts) (\<lambda>_. ?rest onOCP ca)) s2)"
    and e2: "effects_of (bindE (metricsServer p addr opts) (\<lambda>(ca, mopts). bindE (newManager p probe le opts mopts) (\<lambda>_. ?rest onOCP ca))) s1 =
      effects_of (metricsServer p addr opts) s1 @
      effects_of (case q of (ca, mopts) \<Rightarrow> bindE (newManager p probe le opts mopts) (\<lambda>_. ?rest onOCP ca)) s2"
    by (rule effects_bindE_member) (intro emits_intros emits_any_tail)+
  obtain ca mopts where q: "q = (ca, mopts)" by (cases q)
  have ca: "ca \<longleftrightarrow> mo_FilterProvider mopts = None" by (rule metricsServer_protected(3)[OF _ ms[unfolded q], of True]) simp
  from 2[unfolded q prod.case] obtain u s3 where mgr: "run_state (newManager p probe le opts mopts) s2 = (Inr u, s3)"
    and 3: "StartManager \<in> set (effects_of (?rest onOCP ca) s3)"
    and e3: "effects_of (bindE (newManager p probe le opts mopts) (\<lambda>_. ?rest onOCP ca)) s2 =
      effects_of (newManager p probe le opts mopts) s2 @ effects_of (?rest onOCP ca) s3"
    by (rule effects_bindE_member) (intro newManager_not_start rest)+
  from mgr obtain options where t: "trace s3 = trace s2 @ [NewManagerWith options]" "Metrics options = mopts" "LeaderElection options = le"
    by (rule newManager_effects)
  from 3 obtain caps w infra where caps: "NewCapabilities (fst (p_ServerGroups p w)) infra = Inr caps"
    and e4: "effects_of (?rest onOCP ca) s3 = map snd (registrations onOCP (IsOnOpenshift caps) caps) @
      RegisterNHCMetrics # (if ca then [AddRunnable ClientCARunnable] else []) @ [StartManager]"
    by (rule registered_and_started)
  have "effects_of (main p addr probe le http2) s = NewManagerWith options # map snd (registrations onOCP (IsOnOpenshift caps) caps) @
      RegisterNHCMetrics # (if ca then [AddRunnable ClientCARunnable] else []) @ [StartManager]"
    by (simp only: e1 r prod.case e2 q e3 e4 effects_of_run[OF mgr t(1)] reads_effects append.simps)
  with caps t ca show ?thesis by (intro exI[of _ options] exI[of _ onOCP] exI[of _ caps] exI[of _ w] exI[of _ infra] conjI) simp_all
qed

end
