(* ===== verification/Lease_System.thy ===== *)
theory Lease_System
  imports Lease
begin

text \<open>
  Several health checks and other participants that compete for the lease of one node. The API server is
  a client whose lease of the node and whose clock can be observed (\<open>lease_server\<close>): reads return what is
  stored, a write that succeeds is stored, one that fails is not, and time does not run backwards. A step
  of the system is one whole lease operation of one holder (\<open>ObtainNodeLease\<close>, \<open>ManageLease\<close>,
  \<open>InvalidateLease\<close> of \<open>Lease\<close>), or anything else that leaves a valid lease alone. That operations do not
  overlap stands for the optimistic locking of the server, which rejects an update that rests on a stale
  read.

  The state carries what every holder was promised: the instant until which it may count on the lease.
  The invariant shows that promises that have not run out are backed by the stored lease, so that no two
  holders have one at the same time.
\<close>

section \<open>Definitions\<close>

definition lease_server :: "'w client \<Rightarrow> string \<Rightarrow> ('w \<Rightarrow> Lease option) \<Rightarrow> ('w \<Rightarrow> time) \<Rightarrow> bool" where
  "lease_server c n leaseOf clock \<longleftrightarrow>
     (\<forall>w r w'. c_GetNode c n w = (r, w') \<longrightarrow>
        leaseOf w' = leaseOf w \<and> clock w \<le> clock w' \<and> (\<forall>node. r = Inr node \<longrightarrow> n_Name node = n)) \<and>
     (\<forall>w r w'. c_GetLease c (generateLeaseName n) w = (r, w') \<longrightarrow>
        leaseOf w' = leaseOf w \<and> clock w \<le> clock w' \<and> (\<forall>l. r = Inr l \<longrightarrow> leaseOf w = Some l) \<and>
        (\<forall>e. r = Inl e \<longrightarrow> IsNotFound e \<longrightarrow> leaseOf w = None)) \<and>
     (\<forall>w t w'. c_Now c w = (t, w') \<longrightarrow> leaseOf w' = leaseOf w \<and> clock w \<le> t \<and> t \<le> clock w') \<and>
     (\<forall>l w r w'. c_CreateLease c (generateLeaseName n) l w = (r, w') \<longrightarrow>
        clock w \<le> clock w' \<and> leaseOf w' = (if r = None then Some l else leaseOf w)) \<and>
     (\<forall>l w r w'. c_UpdateLease c (generateLeaseName n) l w = (r, w') \<longrightarrow>
        clock w \<le> clock w' \<and> leaseOf w' = (if r = None then Some l else leaseOf w)) \<and>
     (\<forall>w r w'. c_DeleteLease c (generateLeaseName n) w = (r, w') \<longrightarrow>
        clock w \<le> clock w' \<and> leaseOf w' = (if r = None then None else leaseOf w))"

text \<open>Durations of whole seconds that fit with the buffer.\<close>

definition lease_duration :: "duration \<Rightarrow> bool" where
  "lease_duration cur \<longleftrightarrow> 0 < cur \<and> cur mod second = 0 \<and> in64 (cur + LeaseBuffer)"

text \<open>No lease was renewed in the future.\<close>

definition not_future :: "('w \<Rightarrow> Lease option) \<Rightarrow> ('w \<Rightarrow> time) \<Rightarrow> 'w \<Rightarrow> bool" where
  "not_future leaseOf clock w \<longleftrightarrow> (\<forall>l r. leaseOf w = Some l \<longrightarrow> l_RenewTime l = Some r \<longrightarrow> r \<le> clock w)"

text \<open>What is left of the promises after an operation.\<close>

definition obtained :: "string \<Rightarrow> time \<Rightarrow> duration option \<times> error option \<Rightarrow> (string \<rightharpoonup> time) \<Rightarrow> (string \<rightharpoonup> time)" where
  "obtained h til res g = (if snd res = None then g(h \<mapsto> til) else g)"

definition managed :: "string \<Rightarrow> time \<Rightarrow> duration \<times> error option \<Rightarrow> (string \<rightharpoonup> time) \<Rightarrow> (string \<rightharpoonup> time)" where
  "managed h til res g =
     (case snd res of
        None \<Rightarrow> if 0 < fst res then g(h \<mapsto> til) else g
      | Some e \<Rightarrow> (case e of LeaseOverDueError m \<Rightarrow> g(h := None) | _ \<Rightarrow> g))"

inductive lease_step :: "'w client \<Rightarrow> string \<Rightarrow> ('w \<Rightarrow> Lease option) \<Rightarrow> ('w \<Rightarrow> time) \<Rightarrow> 'w \<times> (string \<rightharpoonup> time) \<Rightarrow> 'w \<times> (string \<rightharpoonup> time) \<Rightarrow> bool"
  for c n leaseOf clock where
  obtain_lease: "lease_duration cur \<Longrightarrow> run_state (ObtainNodeLease c h n cur) \<lparr>world = w, trace = tr\<rparr> = (res, s') \<Longrightarrow>
    lease_step c n leaseOf clock (w, g) (world s', obtained h (clock w + cur) res g)"
| manage_lease: "lease_duration cur \<Longrightarrow> run_state (ManageLease c h n cur prev) \<lparr>world = w, trace = tr\<rparr> = (res, s') \<Longrightarrow>
    lease_step c n leaseOf clock (w, g) (world s', managed h (clock w + cur) res g)"
| release_lease: "run_state (InvalidateLease c h n) \<lparr>world = w, trace = tr\<rparr> = (e, s') \<Longrightarrow>
    lease_step c n leaseOf clock (w, g) (world s', g(h := None))"
| others: "clock w \<le> clock w' \<Longrightarrow>
    leaseOf w' = leaseOf w \<or> not_future leaseOf clock w' \<and> (\<forall>l. leaseOf w = Some l \<longrightarrow> \<not> isValidLease l (clock w)) \<Longrightarrow>
    lease_step c n leaseOf clock (w, g) (w', g)"

subsection \<open>The invariant\<close>

definition held_until :: "Lease option \<Rightarrow> string \<Rightarrow> time \<Rightarrow> bool" where
  "held_until lo h t \<longleftrightarrow>
     (\<exists>l r secs. lo = Some l \<and> l_HolderIdentity l = Some h \<and> l_RenewTime l = Some r \<and> l_LeaseDurationSeconds l = Some secs \<and>
        t \<le> leaseDueTime r secs)"

definition lease_inv :: "('w \<Rightarrow> Lease option) \<Rightarrow> ('w \<Rightarrow> time) \<Rightarrow> 'w \<times> (string \<rightharpoonup> time) \<Rightarrow> bool" where
  "lease_inv leaseOf clock x \<longleftrightarrow>
     (case x of (w, g) \<Rightarrow>
        not_future leaseOf clock w \<and> (\<forall>h t. g h = Some t \<longrightarrow> clock w \<le> t \<longrightarrow> held_until (leaseOf w) h t))"

text \<open>What an operation does to the lease: it keeps the promises made to the holders in \<open>keep\<close>.\<close>

definition lease_effect :: "('w \<Rightarrow> Lease option) \<Rightarrow> ('w \<Rightarrow> time) \<Rightarrow> (string \<Rightarrow> bool) \<Rightarrow> 'w \<Rightarrow> 'w \<Rightarrow> bool" where
  "lease_effect leaseOf clock keep w w' \<longleftrightarrow>
     clock w \<le> clock w' \<and> (not_future leaseOf clock w \<longrightarrow> not_future leaseOf clock w') \<and>
     (\<forall>i t. keep i \<longrightarrow> clock w' \<le> t \<longrightarrow> not_future leaseOf clock w \<longrightarrow> held_until (leaseOf w) i t \<longrightarrow> held_until (leaseOf w') i t)"

section \<open>Lemmas\<close>

subsection \<open>The server\<close>

lemma lease_serverD:
  assumes "lease_server c n leaseOf clock"
  shows "c_GetNode c n w = (r, w') \<Longrightarrow> leaseOf w' = leaseOf w \<and> clock w \<le> clock w' \<and> (\<forall>node. r = Inr node \<longrightarrow> n_Name node = n)"
    and "c_GetLease c (generateLeaseName n) w = (r1, w') \<Longrightarrow> leaseOf w' = leaseOf w \<and> clock w \<le> clock w' \<and>
      (\<forall>l. r1 = Inr l \<longrightarrow> leaseOf w = Some l) \<and> (\<forall>e. r1 = Inl e \<longrightarrow> IsNotFound e \<longrightarrow> leaseOf w = None)"
    and "c_Now c w = (t, w') \<Longrightarrow> leaseOf w' = leaseOf w \<and> clock w \<le> t \<and> t \<le> clock w'"
    and "c_CreateLease c (generateLeaseName n) l w = (r2, w') \<Longrightarrow> clock w \<le> clock w' \<and> leaseOf w' = (if r2 = None then Some l else leaseOf w)"
    and "c_UpdateLease c (generateLeaseName n) l w = (r2, w') \<Longrightarrow> clock w \<le> clock w' \<and> leaseOf w' = (if r2 = None then Some l else leaseOf w)"
    and "c_DeleteLease c (generateLeaseName n) w = (r2, w') \<Longrightarrow> clock w \<le> clock w' \<and> leaseOf w' = (if r2 = None then None else leaseOf w)"
proof -
  note S = assms[unfolded lease_server_def]
  show "c_GetNode c n w = (r, w') \<Longrightarrow> leaseOf w' = leaseOf w \<and> clock w \<le> clock w' \<and> (\<forall>node. r = Inr node \<longrightarrow> n_Name node = n)"
    by (rule S[THEN conjunct1, rule_format])
  show "c_GetLease c (generateLeaseName n) w = (r1, w') \<Longrightarrow> leaseOf w' = leaseOf w \<and> clock w \<le> clock w' \<and>
      (\<forall>l. r1 = Inr l \<longrightarrow> leaseOf w = Some l) \<and> (\<forall>e. r1 = Inl e \<longrightarrow> IsNotFound e \<longrightarrow> leaseOf w = None)"
    using S[THEN conjunct2, THEN conjunct1] by blast
  show "c_Now c w = (t, w') \<Longrightarrow> leaseOf w' = leaseOf w \<and> clock w \<le> t \<and> t \<le> clock w'"
    using S[THEN conjunct2, THEN conjunct2, THEN conjunct1] by blast
  show "c_CreateLease c (generateLeaseName n) l w = (r2, w') \<Longrightarrow> clock w \<le> clock w' \<and> leaseOf w' = (if r2 = None then Some l else leaseOf w)"
    using S[THEN conjunct2, THEN conjunct2, THEN conjunct2, THEN conjunct1] by blast
  show "c_UpdateLease c (generateLeaseName n) l w = (r2, w') \<Longrightarrow> clock w \<le> clock w' \<and> leaseOf w' = (if r2 = None then Some l else leaseOf w)"
    using S[THEN conjunct2, THEN conjunct2, THEN conjunct2, THEN conjunct2, THEN conjunct1] by blast
  show "c_DeleteLease c (generateLeaseName n) w = (r2, w') \<Longrightarrow> clock w \<le> clock w' \<and> leaseOf w' = (if r2 = None then None else leaseOf w)"
    using S[THEN conjunct2, THEN conjunct2, THEN conjunct2, THEN conjunct2, THEN conjunct2] by blast
qed

lemma lease_duration_seconds:
  assumes "lease_duration cur"
  shows "dur_add cur LeaseBuffer = cur + LeaseBuffer" and "dur_mul (dur_seconds (cur + LeaseBuffer)) second = cur + LeaseBuffer"
proof -
  from assms have cur: "0 < cur" "cur mod second = 0" "in64 (cur + LeaseBuffer)" by (auto simp: lease_duration_def)
  show "dur_add cur LeaseBuffer = cur + LeaseBuffer" using cur(3) by (simp add: dur_add_def)
  from cur(2) obtain k where k: "cur = second * k" by (auto simp: mod_eq_0_iff_dvd elim: dvdE)
  then have sum: "cur + LeaseBuffer = second * (k + 60)" by (simp add: LeaseBuffer_def minute_def second_def)
  have "0 \<le> k" using cur(1) k by (simp add: second_def zero_less_mult_iff)
  then have "dur_seconds (second * (k + 60)) = k + 60" by (simp add: dur_seconds_def second_def)
  then have "dur_seconds (cur + LeaseBuffer) * second = cur + LeaseBuffer" by (simp only: sum mult.commute)
  with cur(3) show "dur_mul (dur_seconds (cur + LeaseBuffer)) second = cur + LeaseBuffer" by (simp add: dur_mul_def)
qed

subsection \<open>One operation\<close>

lemma held_until_valid:
  assumes "held_until (leaseOf w) h t" "not_future leaseOf clock w" "clock w \<le> now" "now \<le> t" "leaseOf w = Some l"
  shows "isValidLease l now" and "l_HolderIdentity l = Some h"
  using assms by (auto simp: held_until_def not_future_def isValidLease_def time_Before_def time_After_def)

lemma lease_effect_refl: "leaseOf w' = leaseOf w \<Longrightarrow> clock w \<le> clock w' \<Longrightarrow> lease_effect leaseOf clock keep w w'"
  by (force simp: lease_effect_def not_future_def)

lemma lease_effect_trans:
  "lease_effect leaseOf clock keep w w' \<Longrightarrow> lease_effect leaseOf clock keep w' w'' \<Longrightarrow> lease_effect leaseOf clock keep w w''"
  unfolding lease_effect_def by (meson order_trans)

text \<open>Writing a lease of one's own over no lease, an older one of one's own, or one that is not valid.\<close>

lemma lease_effect_write:
  assumes "clock w \<le> now" "now \<le> clock w'" "leaseOf w' = Some l'" "l_HolderIdentity l' = Some h" "l_RenewTime l' = Some now"
    and "l_LeaseDurationSeconds l' = Some secs"
    and "leaseOf w = None \<or> (\<exists>l. leaseOf w = Some l \<and> l_HolderIdentity l = Some h \<and>
        (\<forall>r s. l_RenewTime l = Some r \<longrightarrow> l_LeaseDurationSeconds l = Some s \<longrightarrow> leaseDueTime r s \<le> leaseDueTime now secs \<or> leaseDueTime r s < now)) \<or>
      (\<exists>l. leaseOf w = Some l \<and> \<not> isValidLease l now)"
  shows "lease_effect leaseOf clock keep w w'"
  unfolding lease_effect_def
proof (intro conjI allI impI)
  show "clock w \<le> clock w'" using assms by simp
  show "not_future leaseOf clock w'" using assms by (simp add: not_future_def)
  fix i t assume "keep i" and t: "clock w' \<le> t" and fut: "not_future leaseOf clock w" and held: "held_until (leaseOf w) i t"
  from held obtain l r s where l: "leaseOf w = Some l" "l_HolderIdentity l = Some i" "l_RenewTime l = Some r"
    "l_LeaseDurationSeconds l = Some s" "t \<le> leaseDueTime r s" by (auto simp: held_until_def)
  have "isValidLease l now" using held_until_valid(1)[OF held fut assms(1) _ l(1)] t assms(2) by simp
  with assms(7) l have "i = h" and "leaseDueTime r s \<le> leaseDueTime now secs \<or> leaseDueTime r s < now" by auto
  with l(5) t assms(2) have "t \<le> leaseDueTime now secs" by auto
  with assms(3-6) \<open>i = h\<close> show "held_until (leaseOf w') i t" by (auto simp: held_until_def)
qed

text \<open>A lease that is written now for a duration and the buffer.\<close>

lemma written_until:
  assumes "lease_duration cur" "l_HolderIdentity l = Some h" "l_RenewTime l = Some now"
    and "l_LeaseDurationSeconds l = Some (dur_seconds (cur + LeaseBuffer))" "t \<le> now"
  shows "held_until (Some l) h (t + cur)"
  using assms lease_duration_seconds(2)[OF assms(1)]
  by (auto simp: held_until_def leaseDueTime_def time_Add_def LeaseBuffer_def minute_def)

lemma renewedLease_fields:
  "l_HolderIdentity (renewedLease h now d a l) = Some h" "l_RenewTime (renewedLease h now d a l) = Some now"
  "l_LeaseDurationSeconds (renewedLease h now d a l) = Some (dur_seconds d)"
  by (simp_all add: renewedLease_def Let_def)

lemma createLease_step:
  assumes srv: "lease_server c n leaseOf clock" and "lease_duration cur" and "leaseOf (world s) = None"
    and run: "run_state (createLease c h n (cur + LeaseBuffer)) s = (e, s')"
  shows "lease_effect leaseOf clock keep (world s) (world s') \<and> (e = None \<longrightarrow> held_until (leaseOf (world s')) h (clock (world s) + cur))"
proof -
  obtain now w1 where now: "c_Now c (world s) = (now, w1)" by fastforce
  let ?l = "\<lparr>l_HolderIdentity = Some h, l_LeaseDurationSeconds = Some (dur_seconds (cur + LeaseBuffer)), l_AcquireTime = Some now,
    l_RenewTime = Some now, l_LeaseTransitions = Some 0\<rparr>"
  obtain r w2 where create: "c_CreateLease c (generateLeaseName n) ?l w1 = (r, w2)" by fastforce
  from run now create have res: "e = r" "world s' = w2" by (auto simp: createLease_def Let_def)
  note n = lease_serverD(3)[OF srv now] and cr = lease_serverD(4)[OF srv create]
  show ?thesis
  proof (cases r)
    case None
    with n cr assms(3) res have "lease_effect leaseOf clock keep (world s) (world s')"
      by (intro lease_effect_write[of clock _ now _ leaseOf ?l h "dur_seconds (cur + LeaseBuffer)"]) auto
    with n cr res None written_until[OF assms(2), of ?l h now] show ?thesis by auto
  qed (use n cr res in \<open>auto intro: lease_effect_refl\<close>)
qed

lemma updateLease_step:
  assumes srv: "lease_server c n leaseOf clock" and dur: "lease_duration cur" and "leaseOf w = Some l" "clock w \<le> now" "now \<le> clock w1" "leaseOf w1 = Some l"
    and "c_UpdateLease c (generateLeaseName n) (renewedLease h now (cur + LeaseBuffer) a l) w1 = (r, w2)"
    and "l_HolderIdentity l = Some h \<and> (fst (needUpdateOwnedLease l now (cur + LeaseBuffer))) \<or> \<not> isValidLease l now"
  shows "lease_effect leaseOf clock keep w w2 \<and> (r = None \<longrightarrow> held_until (leaseOf w2) h (clock w + cur))"
proof (cases r)
  case None
  note up = lease_serverD(5)[OF srv assms(7)]
  let ?l = "renewedLease h now (cur + LeaseBuffer) a l"
  have due: "leaseDueTime now (dur_seconds (cur + LeaseBuffer)) = now + (cur + LeaseBuffer)"
    by (simp add: leaseDueTime_def time_Add_def lease_duration_seconds(2)[OF dur])
  have "leaseDueTime r s \<le> leaseDueTime now (dur_seconds (cur + LeaseBuffer)) \<or> leaseDueTime r s < now"
    if "fst (needUpdateOwnedLease l now (cur + LeaseBuffer))" "l_RenewTime l = Some r" "l_LeaseDurationSeconds l = Some s" for r s
    using that unfolding due by (auto simp: needUpdateOwnedLease_def Let_def time_Before_def time_Add_def split: if_splits)
  with assms(3-5,8) up None have "lease_effect leaseOf clock keep w w2"
    by (intro lease_effect_write[of clock _ now _ leaseOf ?l h "dur_seconds (cur + LeaseBuffer)"]) (auto simp: renewedLease_fields)
  moreover have "held_until (leaseOf w2) h (clock w + cur)"
    using up None written_until[OF dur renewedLease_fields] assms(4) by auto
  ultimately show ?thesis by simp
next
  case (Some e)
  with lease_serverD(5)[OF srv assms(7)] assms(3-6) show ?thesis by (auto intro: lease_effect_refl)
qed

lemma requestLease_step:
  assumes srv: "lease_server c n leaseOf clock" and dur: "lease_duration cur"
    and run: "run_state (requestLease c h n (cur + LeaseBuffer)) s = (e, s')"
  shows "lease_effect leaseOf clock keep (world s) (world s') \<and> (e = None \<longrightarrow> held_until (leaseOf (world s')) h (clock (world s) + cur))"
proof -
  obtain r w1 where get: "c_GetLease c (generateLeaseName n) (world s) = (r, w1)" by fastforce
  note g = lease_serverD(2)[OF srv get]
  then have eff1: "lease_effect leaseOf clock keep (world s) w1" by (auto intro: lease_effect_refl)
  show ?thesis
  proof (cases r)
    case (Inl err)
    show ?thesis
    proof (cases "IsNotFound err")
      case True
      from run get Inl True have "run_state (createLease c h n (cur + LeaseBuffer)) (s\<lparr>world := w1\<rparr>) = (e, s')"
        by (simp add: requestLease_def)
      from createLease_step[OF srv dur _ this] g Inl True
      have "lease_effect leaseOf clock keep w1 (world s')" "e = None \<longrightarrow> held_until (leaseOf (world s')) h (clock w1 + cur)" by auto
      with eff1 g show ?thesis by (auto intro: lease_effect_trans simp: held_until_def)
    next
      case False
      with run get Inl eff1 show ?thesis by (auto simp: requestLease_def)
    qed
  next
    case (Inr l)
    obtain now w2 where now: "c_Now c w1 = (now, w2)" by fastforce
    note nw = lease_serverD(3)[OF srv now]
    have l: "leaseOf (world s) = Some l" "clock (world s) \<le> now" "now \<le> clock w2" "leaseOf w2 = Some l" using g nw Inr by auto
    have eff2: "lease_effect leaseOf clock keep (world s) w2" using g nw by (intro lease_effect_refl) auto
    have owned: ?thesis if "l_HolderIdentity l = Some h" "\<not> fst (needUpdateOwnedLease l now (cur + LeaseBuffer))"
    proof -
      from run get now Inr that have "e = None" "world s' = w2" by (auto simp: requestLease_def split: prod.splits)
      moreover have "held_until (Some l) h (clock (world s) + cur)"
        using that l(2) by (auto simp: needUpdateOwnedLease_def held_until_def Let_def time_Before_def time_Add_def LeaseBuffer_def
            minute_def split: option.splits if_splits)
      ultimately show ?thesis using eff2 l by simp
    qed
    have held: ?thesis if "l_HolderIdentity l \<noteq> Some h" "isValidLease l now"
      using run get now Inr that eff2 by (auto simp: requestLease_def)
    have written: ?thesis if "l_HolderIdentity l = Some h \<and> fst (needUpdateOwnedLease l now (cur + LeaseBuffer)) \<or>
      l_HolderIdentity l \<noteq> Some h \<and> \<not> isValidLease l now"
    proof -
      from run get now Inr that obtain a where
        "c_UpdateLease c (generateLeaseName n) (renewedLease h now (cur + LeaseBuffer) a l) w2 = (e, world s')"
        by (auto simp: requestLease_def Let_def split: prod.splits if_splits)
      from updateLease_step[OF srv dur l this] that show ?thesis by auto
    qed
    show ?thesis using owned held written by blast
  qed
qed

lemma invalidateLease_step:
  assumes srv: "lease_server c n leaseOf clock" and run: "run_state (invalidateLease c h n) s = (e, s')"
  shows "lease_effect leaseOf clock (\<lambda>i. i \<noteq> h) (world s) (world s') \<and>
    (e \<noteq> None \<longrightarrow> leaseOf (world s') = leaseOf (world s) \<and> clock (world s) \<le> clock (world s'))"
proof -
  obtain r w1 where get: "c_GetLease c (generateLeaseName n) (world s) = (r, w1)" by fastforce
  note g = lease_serverD(2)[OF srv get]
  obtain r' w2 where del: "c_DeleteLease c (generateLeaseName n) w1 = (r', w2)" by fastforce
  note d = lease_serverD(6)[OF srv del]
  have gone: "lease_effect leaseOf clock (\<lambda>i. i \<noteq> h) (world s) w2"
    if "r = Inr l" "l_HolderIdentity l = None \<or> l_HolderIdentity l = Some h" for l
    using that g d by (auto simp: lease_effect_def not_future_def held_until_def split: if_splits)
  have stay: "lease_effect leaseOf clock (\<lambda>i. i \<noteq> h) (world s) w1" using g by (auto intro: lease_effect_refl)
  show ?thesis
  proof (cases r)
    case (Inl err)
    with run get stay g show ?thesis by (auto simp: invalidateLease_def split: if_splits)
  next
    case (Inr l)
    with run get del stay gone g d show ?thesis
      by (auto simp: invalidateLease_def split: option.splits if_splits)
  qed
qed

lemma extendLease_step:
  assumes srv: "lease_server c n leaseOf clock" and dur: "lease_duration cur"
    and l: "leaseOf (world s) = Some l" "l_HolderIdentity l = Some h"
    and run: "run_state (extendLease c h n l cur) s = ((d, e), s')"
  shows "lease_effect leaseOf clock keep (world s) (world s') \<and>
    (e = None \<longrightarrow> held_until (leaseOf (world s')) h (clock (world s) + cur))"
proof -
  obtain now w1 where now: "c_Now c (world s) = (now, w1)" by fastforce
  note nw = lease_serverD(3)[OF srv now]
  have stay: "lease_effect leaseOf clock keep (world s) w1" using nw by (auto intro: lease_effect_refl)
  show ?thesis
  proof (cases "\<exists>renew secs. l_RenewTime l = Some renew \<and> l_LeaseDurationSeconds l = Some secs")
    case False
    with run now stay show ?thesis by (auto simp: extendLease_def split: option.splits)
  next
    case True
    then obtain renew secs where rs: "l_RenewTime l = Some renew" "l_LeaseDurationSeconds l = Some secs" by blast
    show ?thesis
    proof (cases "time_Before (time_Add renew (dur_mul secs second)) (time_Add now cur)")
      case True
      with run now rs obtain e' where req: "run_state (requestLease c h n (cur + LeaseBuffer)) (s\<lparr>world := w1\<rparr>) = (e', s')"
        and "e = None \<longleftrightarrow> e' = None"
        by (auto simp: extendLease_def lease_duration_seconds(1)[OF dur] split: prod.splits option.splits)
      with requestLease_step[OF srv dur req, of keep] stay nw show ?thesis
        by (auto intro: lease_effect_trans simp: held_until_def)
    next
      case False
      with run now rs have "e = None" "world s' = w1" by (auto simp: extendLease_def)
      with False rs l nw stay show ?thesis
        by (auto simp: held_until_def leaseDueTime_def time_Before_def time_Add_def)
    qed
  qed
qed

lemma ObtainNodeLease_step:
  assumes srv: "lease_server c n leaseOf clock" and dur: "lease_duration cur"
    and run: "run_state (ObtainNodeLease c h n cur) s = ((d, e), s')"
  shows "lease_effect leaseOf clock keep (world s) (world s') \<and>
    (e = None \<longrightarrow> held_until (leaseOf (world s')) h (clock (world s) + cur))"
proof -
  obtain r w1 where get: "c_GetNode c n (world s) = (r, w1)" by fastforce
  note g = lease_serverD(1)[OF srv get]
  have stay: "lease_effect leaseOf clock keep (world s) w1" using g by (auto intro: lease_effect_refl)
  show ?thesis
  proof (cases r)
    case (Inl err)
    with run get stay show ?thesis by (auto simp: ObtainNodeLease_def)
  next
    case (Inr node)
    with run get g obtain e' where req: "run_state (requestLease c h n (cur + LeaseBuffer)) (s\<lparr>world := w1\<rparr>) = (e', s')"
      and "e = None \<longleftrightarrow> e' = None"
      by (auto simp: ObtainNodeLease_def lease_duration_seconds(1)[OF dur] split: prod.splits option.splits error.splits)
    with requestLease_step[OF srv dur req, of keep] stay g show ?thesis
      by (auto intro: lease_effect_trans simp: held_until_def)
  qed
qed

lemma ManageLease_step:
  assumes srv: "lease_server c n leaseOf clock" and dur: "lease_duration cur"
    and run: "run_state (ManageLease c h n cur prev) s = ((d, e), s')"
  shows "lease_effect leaseOf clock (\<lambda>i. i \<noteq> h \<or> (\<forall>m. e \<noteq> Some (LeaseOverDueError m))) (world s) (world s') \<and>
    (e = None \<longrightarrow> 0 < d \<longrightarrow> held_until (leaseOf (world s')) h (clock (world s) + cur))"
    (is "lease_effect _ _ ?keep _ _ \<and> _")
proof -
  obtain r w1 where node: "c_GetNode c n (world s) = (r, w1)" by fastforce
  obtain r1 w2 where get: "c_GetLease c (generateLeaseName n) w1 = (r1, w2)" by fastforce
  obtain now w3 where now: "c_Now c w2 = (now, w3)" by fastforce
  note g = lease_serverD(1)[OF srv node] lease_serverD(2)[OF srv get] lease_serverD(3)[OF srv now]
  have stay: "lease_effect leaseOf clock ?keep (world s) w1" "lease_effect leaseOf clock ?keep (world s) w2"
    "lease_effect leaseOf clock ?keep (world s) w3" using g by (auto intro!: lease_effect_refl)
  show ?thesis
  proof (cases "\<exists>nd l acquire. r = Inr nd \<and> r1 = Inr l \<and> isLeaseOwner h l \<and> l_AcquireTime l = Some acquire")
    case False
    with run node get g stay show ?thesis
      by (auto simp: ManageLease_def isLeaseOverdue_def split: sum.splits if_splits option.splits)
  next
    case True
    then obtain nd l acquire where l: "r = Inr nd" "r1 = Inr l" "isLeaseOwner h l" "l_AcquireTime l = Some acquire" by blast
    show ?thesis
    proof (cases "time_After now (calcLeaseExpiration acquire cur prev)")
      case True
      with run node get now l g obtain e' where inv: "run_state (invalidateLease c h n) (s\<lparr>world := w3\<rparr>) = (e', s')"
        and e: "e = (case e' of Some x \<Rightarrow> Some x | None \<Rightarrow> Some (LeaseOverDueError (''failed to extend lease, it is overdue. node name: '' @ n)))"
        by (auto simp: ManageLease_def isLeaseOverdue_def split: prod.splits option.splits)
      note i = invalidateLease_step[OF srv inv]
      have "lease_effect leaseOf clock ?keep w3 (world s')"
      proof (cases e')
        case None
        with i e show ?thesis by (simp add: lease_effect_def)
      next
        case (Some x)
        with i show ?thesis by (intro lease_effect_refl) auto
      qed
      with stay(3) e show ?thesis by (auto intro: lease_effect_trans split: option.splits)
    next
      case False
      with run node get now l g have ext: "run_state (extendLease c h n l cur) (s\<lparr>world := w3\<rparr>) = ((d, e), s')"
        by (auto simp: ManageLease_def isLeaseOverdue_def)
      have "leaseOf w3 = Some l" "l_HolderIdentity l = Some h" using g l by (auto simp: isLeaseOwner_def)
      with extendLease_step[OF srv dur _ _ ext, of ?keep] stay(3) g show ?thesis
        by (auto intro: lease_effect_trans simp: held_until_def)
    qed
  qed
qed

lemma InvalidateLease_step:
  assumes srv: "lease_server c n leaseOf clock" and run: "run_state (InvalidateLease c h n) s = (e, s')"
  shows "lease_effect leaseOf clock (\<lambda>i. i \<noteq> h) (world s) (world s')"
proof -
  obtain e' where "run_state (invalidateLease c h n) s = (e', s')" using run by (auto simp: InvalidateLease_def split: prod.splits)
  from invalidateLease_step[OF srv this] show ?thesis ..
qed

subsection \<open>The system\<close>

text \<open>Promises survive an operation that keeps them, and the operation may add one that is backed.\<close>

lemma lease_inv_effect:
  assumes "lease_inv leaseOf clock (w, g)" and "lease_effect leaseOf clock keep w w'"
    and "\<And>i t. g' i = Some t \<Longrightarrow> g i = Some t \<and> keep i \<or> held_until (leaseOf w') i t"
  shows "lease_inv leaseOf clock (w', g')"
  using assms unfolding lease_inv_def lease_effect_def prod.case by (meson order_trans)

lemma others_effect:
  assumes "clock w \<le> clock w'"
    and "leaseOf w' = leaseOf w \<or> not_future leaseOf clock w' \<and> (\<forall>l. leaseOf w = Some l \<longrightarrow> \<not> isValidLease l (clock w))"
  shows "lease_effect leaseOf clock keep w w'"
proof (cases "leaseOf w' = leaseOf w")
  case True
  then show ?thesis using assms(1) by (rule lease_effect_refl)
next
  case False
  with assms(2) have fut: "not_future leaseOf clock w'" and inv: "\<And>l. leaseOf w = Some l \<Longrightarrow> \<not> isValidLease l (clock w)" by auto
  have False if "clock w' \<le> t" "not_future leaseOf clock w" "held_until (leaseOf w) i t" for i t
  proof -
    from that(3) obtain l where "leaseOf w = Some l" by (auto simp: held_until_def)
    with held_until_valid(1)[OF that(3,2) order_refl _ this] inv[OF this] that(1) assms(1) show False by simp
  qed
  with assms(1) fut show ?thesis unfolding lease_effect_def by blast
qed

lemma lease_step_inv:
  assumes srv: "lease_server c n leaseOf clock" and "lease_step c n leaseOf clock x y" and "lease_inv leaseOf clock x"
  shows "lease_inv leaseOf clock y"
  using assms(2,3)
proof cases
  case (obtain_lease cur h w tr res s' g)
  obtain d e where res: "res = (d, e)" by (cases res)
  from ObtainNodeLease_step[OF srv obtain_lease(3) obtain_lease(4)[unfolded res], of "\<lambda>_. True"] obtain_lease(1,2) res assms(3)
  show ?thesis by (auto intro!: lease_inv_effect[of leaseOf clock w g "\<lambda>_. True"] simp: obtained_def split: if_splits)
next
  case (manage_lease cur h prev w tr res s' g)
  obtain d e where res: "res = (d, e)" by (cases res)
  note st = ManageLease_step[OF srv manage_lease(3) manage_lease(4)[unfolded res]]
  show ?thesis unfolding manage_lease(2)
  proof (rule lease_inv_effect[of leaseOf clock w g])
    show "lease_inv leaseOf clock (w, g)" using assms(3) manage_lease(1) by simp
    show "lease_effect leaseOf clock (\<lambda>i. i \<noteq> h \<or> (\<forall>m. e \<noteq> Some (LeaseOverDueError m))) w (world s')"
      using st res by auto
    fix i t assume "managed h (clock w + cur) res g i = Some t"
    then show "g i = Some t \<and> (i \<noteq> h \<or> (\<forall>m. e \<noteq> Some (LeaseOverDueError m))) \<or> held_until (leaseOf (world s')) i t"
      using st res by (auto simp: managed_def split: option.splits if_splits error.splits)
  qed
next
  case (release_lease h w tr e s' g)
  with InvalidateLease_step[OF srv release_lease(3)] assms(3) show ?thesis
    by (auto intro!: lease_inv_effect[of leaseOf clock w g "\<lambda>i. i \<noteq> h"] split: if_splits)
next
  case (others w w' g)
  with others_effect[of clock w w' leaseOf "\<lambda>_. True"] assms(3) show ?thesis
    by (auto intro!: lease_inv_effect[of leaseOf clock w g "\<lambda>_. True"])
qed

lemma lease_reachable_inv:
  assumes "lease_server c n leaseOf clock" "not_future leaseOf clock w0"
    and "(lease_step c n leaseOf clock)\<^sup>*\<^sup>* (w0, \<lambda>_. None) x"
  shows "lease_inv leaseOf clock x"
  using assms(3)
proof (induction rule: rtranclp_induct)
  case base
  show ?case using assms(2) by (simp add: lease_inv_def)
next
  case (step y z)
  then show ?case using lease_step_inv[OF assms(1)] by blast
qed

lemma leases_exclusive:
  assumes "lease_inv leaseOf clock (w, g)" and "g h = Some t" "clock w \<le> t" and "g h' = Some t'" "clock w \<le> t'"
  shows "h = h' \<and> (\<exists>l. leaseOf w = Some l \<and> l_HolderIdentity l = Some h \<and> isValidLease l (clock w))"
proof -
  from assms have fut: "not_future leaseOf clock w" and 1: "held_until (leaseOf w) h t" and 2: "held_until (leaseOf w) h' t'"
    by (auto simp: lease_inv_def)
  from 1 obtain l where l: "leaseOf w = Some l" by (auto simp: held_until_def)
  from held_until_valid[OF 1 fut order_refl assms(3) l] held_until_valid(2)[OF 2 fut order_refl assms(5) l] l show ?thesis by auto
qed

end
