(* ===== verification/Simulation.thy ===== *)
theory Simulation
  imports Reconcile_Progress Recovery Gauges MHC_Reconciler Webhook Entry_Point Lease_System
begin

text \<open>
  A small in-memory API server, for running the model on concrete inputs: it keeps lists of
  objects, looks them up by name, and lets time stand still. It is one possible client, used to show
  that the hypotheses of properties can hold; no property is proved about it alone.
\<close>

section \<open>Definitions\<close>

record sim =
  s_Time :: time
  s_NHCs :: "NodeHealthCheck list"
  s_MHCs :: "MachineHealthCheck list"
  s_Nodes :: "Node list"
  s_Machines :: "Machine list"
  s_Templates :: "Unstructured list"
  s_CRs :: "Unstructured list"
  s_Leases :: "(string \<times> Lease) list"

definition found :: "'a option \<Rightarrow> error + 'a" where
  "found r = (case r of None \<Rightarrow> Inl (NotFound ''not found'') | Some x \<Rightarrow> Inr x)"

definition sim_get :: "Unstructured \<Rightarrow> sim \<Rightarrow> error + Unstructured" where
  "sim_get u w =
     found (find (\<lambda>x. u_Kind x = u_Kind u \<and> u_Namespace x = u_Namespace u \<and> u_Name x = u_Name u) (s_Templates w @ s_CRs w))"

definition sim_create :: "Unstructured \<Rightarrow> sim \<Rightarrow> (error + Unstructured) \<times> sim" where
  "sim_create u w =
     (let u' = u\<lparr>u_Name := (if u_Name u = [] then u_GenerateName u @ ''x'' else u_Name u), u_UID := ''uid'',
                u_CreationTimestamp := s_Time w\<rparr>
      in (Inr u', w\<lparr>s_CRs := s_CRs w @ [u']\<rparr>))"

definition sim_client :: "sim client" where
  "sim_client =
     \<lparr>c_Env = (\<lambda>n. None),
      c_Now = (\<lambda>w. (s_Time w, w)),
      c_ZoneOffset = (\<lambda>t. 0),
      c_Selector = (\<lambda>sel. None),
      c_Matches = (\<lambda>sel ls. True),
      c_GetNHC = (\<lambda>n w. (found (find (\<lambda>x. nhc_Name x = n) (s_NHCs w)), w)),
      c_ListNHC = (\<lambda>w. (Inr (s_NHCs w), w)),
      c_MergePatchEmpty = (\<lambda>old new. Inr False),
      c_PatchNHCStatus = (\<lambda>old new w. (Inr new, w\<lparr>s_NHCs := update_first (\<lambda>x. nhc_Name x = nhc_Name new) (\<lambda>_. new) (s_NHCs w)\<rparr>)),
      c_PollTick = (\<lambda>w. (Tick, w)),
      c_GetMHC = (\<lambda>ns n w. (found (find (\<lambda>x. mhc_Name x = n \<and> mhc_Namespace x = ns) (s_MHCs w)), w)),
      c_ListMHC = (\<lambda>w. (Inr (s_MHCs w), w)),
      c_MergePatchEmptyMHC = (\<lambda>old new. Inr False),
      c_ToUnstructured = (\<lambda>mhc. Inr (JObj [(''status'', JObj [])])),
      c_PatchMHCStatus = (\<lambda>old new w. (None, w)),
      c_GetNode = (\<lambda>n w. (found (find (\<lambda>x. n_Name x = n) (s_Nodes w)), w)),
      c_ListNodes = (\<lambda>sel w. (Inr (s_Nodes w), w)),
      c_PatchNode = (\<lambda>n w. (None, w\<lparr>s_Nodes := update_first (\<lambda>x. n_Name x = n_Name n) (\<lambda>_. n) (s_Nodes w)\<rparr>)),
      c_GetMachine = (\<lambda>ns n w. (found (find (\<lambda>x. m_Name x = n \<and> m_Namespace x = ns) (s_Machines w)), w)),
      c_ListMachines = (\<lambda>ns sel w. (Inr (filter (\<lambda>x. m_Namespace x = ns) (s_Machines w)), w)),
      c_ListMachinesByNode = (\<lambda>n w. (Inr (filter (\<lambda>x. m_NodeRef x = Some n) (s_Machines w)), w)),
      c_IsObjectNamespaced = (\<lambda>u w. (Inr True, w)),
      c_Get = (\<lambda>u w. (sim_get u w, w)),
      c_List = (\<lambda>g w. (Inr (filter (\<lambda>x. u_GVK x = g) (s_CRs w)), w)),
      c_Create = sim_create,
      c_Update = (\<lambda>u w. (None, w\<lparr>s_CRs := update_first (\<lambda>x. u_Kind x = u_Kind u \<and> u_Name x = u_Name u) (\<lambda>_. u) (s_CRs w)\<rparr>)),
      c_Delete = (\<lambda>u w. (None, w\<lparr>s_CRs := filter (\<lambda>x. \<not> (u_Kind x = u_Kind u \<and> u_Name x = u_Name u)) (s_CRs w)\<rparr>)),
      c_GetLease = (\<lambda>n w. (found (map_of (s_Leases w) n), w)),
      c_CreateLease = (\<lambda>n l w. (None, w\<lparr>s_Leases := (n, l) # s_Leases w\<rparr>)),
      c_UpdateLease = (\<lambda>n l w. (None, w\<lparr>s_Leases := (n, l) # s_Leases w\<rparr>)),
      c_DeleteLease = (\<lambda>n w. (None, w\<lparr>s_Leases := filter (\<lambda>x. fst x \<noteq> n) (s_Leases w)\<rparr>)),
      c_GetNamespace = (\<lambda>n w. (None, w)),
      c_CreateNamespace = (\<lambda>n w. (None, w)),
      c_IsEtcdDisruptionAllowed = (\<lambda>n w. (Inr True, w)),
      c_ListClusterVersions = (\<lambda>w. (Inr [], w)),
      c_Watch = (\<lambda>k w. (None, w))\<rparr>"

subsection \<open>Concrete objects\<close>

definition ex_ref :: "string \<Rightarrow> string \<Rightarrow> ObjectReference" where
  "ex_ref kind name = \<lparr>or_Kind = kind, or_Namespace = ''ns'', or_Name = name, or_UID = [], or_APIVersion = ''medik8s.io/v1''\<rparr>"

definition ex_template :: "string \<Rightarrow> string \<Rightarrow> Unstructured" where
  "ex_template kind name =
     empty_unstructured\<lparr>u_APIVersion := ''medik8s.io/v1'', u_Kind := kind, u_Name := name, u_Namespace := ''ns'',
       u_Spec := JObj [(''template'', JObj [(''spec'', JObj [])])]\<rparr>"

definition ex_node :: "string \<Rightarrow> string \<Rightarrow> Node" where
  "ex_node name ready =
     \<lparr>n_Name = name, n_UID = name, n_ResourceVersion = ''1'', n_Labels = None, n_Annotations = None,
      n_Conditions = [\<lparr>nc_Type = NodeReady, nc_Status = ready, nc_LastTransitionTime = 0\<rparr>]\<rparr>"

definition ex_spec :: NodeHealthCheckSpec where
  "ex_spec =
     \<lparr>Selector = \<lparr>ls_MatchLabels = [(''app'', ''x'')], ls_MatchExpressions = []\<rparr>,
      UnhealthyConditions = [\<lparr>uc_Type = NodeReady, uc_Status = ConditionFalse, uc_Duration = minute\<rparr>],
      MinHealthy = Some (StrVal ''51%''), MaxUnhealthy = None, StormCooldownDuration = None,
      RemediationTemplate = Some (ex_ref ''RTemplate'' ''t''), EscalatingRemediations = [],
      PauseRequests = [], HealthyDelay = None\<rparr>"

definition ex_status :: NodeHealthCheckStatus where
  "ex_status =
     \<lparr>ObservedNodes = None, HealthyNodes = None, UnhealthyNodes = [], InFlightRemediations = [], Conditions = [],
      Phase = [], Reason = [], LastUpdateTime = None\<rparr>"

definition ex_nhc :: NodeHealthCheck where
  "ex_nhc =
     \<lparr>nhc_Name = ''nhc'', nhc_UID = ''u'', nhc_APIVersion = ''remediation.medik8s.io/v1alpha1'', nhc_Kind = ''NodeHealthCheck'',
      nhc_Spec = ex_spec, nhc_Status = ex_status\<rparr>"

definition ex_sim :: sim where
  "ex_sim =
     \<lparr>s_Time = hour, s_NHCs = [ex_nhc], s_MHCs = [],
      s_Nodes = [ex_node ''n1'' ConditionTrue, ex_node ''n2'' ConditionFalse, ex_node ''n3'' ConditionTrue],
      s_Machines = [], s_Templates = [ex_template ''RTemplate'' ''t''], s_CRs = [], s_Leases = []\<rparr>"

definition ex_state :: "sim \<Rightarrow> (sim, effect) st" where
  "ex_state w = \<lparr>world = w, trace = []\<rparr>"

definition ex_caps :: Capabilities where
  "ex_caps = \<lparr>IsOnOpenshift = False, HasMachineAPI = False, IsSupportedControlPlaneTopology = True\<rparr>"

definition ex_reconciler :: "sim NodeHealthCheckReconciler" where
  "ex_reconciler = newReconciler sim_client (\<lambda>w. DummyChecker) ex_caps"

definition ex_manager :: "sim manager" where
  "ex_manager = NewManager sim_client None False (nhcLeaseManager sim_client ''NodeHealthCheck-nhc'')"

definition ex_rm :: "sim Manager" where
  "ex_rm = as_Manager (NewManager sim_client None False (nhcLeaseManager sim_client ''NodeHealthCheck-nhc''))"

definition ex_storm :: NodeHealthCheck where
  "ex_storm =
     map_conditions (SetStatusCondition 0 (mkCondition ConditionTypeStormActive ConditionTrue ConditionReasonStormThresholdChange ''''))
       (map_spec (\<lambda>sp. sp\<lparr>StormCooldownDuration := Some minute\<rparr>) ex_nhc)"

definition ex_paused :: NodeHealthCheck where
  "ex_paused = map_spec (\<lambda>sp. sp\<lparr>PauseRequests := [''upgrade'']\<rparr>) ex_nhc"

text \<open>The same server with a clock that advances by an hour at every reading.\<close>

definition ticking_client :: "sim client" where
  "ticking_client = sim_client\<lparr>c_Now := (\<lambda>w. (s_Time w, w\<lparr>s_Time := s_Time w + hour\<rparr>))\<rparr>"

subsection \<open>Escalating remediations\<close>

definition ex_er :: "string \<Rightarrow> string \<Rightarrow> int \<Rightarrow> duration \<Rightarrow> EscalatingRemediation" where
  "ex_er kind name order timeout =
     \<lparr>er_RemediationTemplate = ex_ref kind name, er_Order = order, er_Timeout = timeout\<rparr>"

definition ex_remediation :: "string \<Rightarrow> string \<Rightarrow> time option \<Rightarrow> Remediation" where
  "ex_remediation kind template timedOut =
     \<lparr>rem_Resource = (ex_ref kind ''n2'')\<lparr>or_UID := ''uid''\<rparr>, rem_Started = 0, rem_TimedOut = timedOut, rem_TemplateName = template\<rparr>"

definition ex_escalating :: "EscalatingRemediation list \<Rightarrow> Remediation list \<Rightarrow> NodeHealthCheck" where
  "ex_escalating ers rems =
     map_unhealthy (\<lambda>_. [(newUnhealthyNode ''n2'')\<lparr>un_Remediations := rems\<rparr>])
       (map_spec (\<lambda>sp. sp\<lparr>RemediationTemplate := None, EscalatingRemediations := ers\<rparr>) ex_nhc)"

definition ex_two :: "time option \<Rightarrow> NodeHealthCheck" where
  "ex_two timedOut =
     ex_escalating [ex_er ''BTemplate'' ''b'' 2 (5 * minute), ex_er ''ATemplate'' ''a'' 1 minute] [ex_remediation ''A'' ''a'' timedOut]"

text \<open>Metrics that say what a status records.\<close>

definition ex_gauge :: "NodeHealthCheck \<Rightarrow> nhc_metrics" where
  "ex_gauge nhc =
     \<lparr>nodeHealthCheckOldRemediationCR = (\<lambda>_. None),
      nodeHealthCheckOngoingRemediation = (\<lambda>l. if l \<in> recorded nhc then Some 1 else None),
      nodehealtCheckRemediationDuration = (\<lambda>_. None)\<rparr>"

definition ex_cr :: "string \<Rightarrow> string \<Rightarrow> Unstructured" where
  "ex_cr kind template =
     empty_unstructured\<lparr>u_APIVersion := ''medik8s.io/v1'', u_Kind := kind, u_Name := ''n2'', u_Namespace := ''ns'',
       u_Annotations := crAnnotations ''n2'' template, u_OwnerReferences := [hcOwnerRef (NHC ex_nhc)]\<rparr>"

definition ex_sim_two :: sim where
  "ex_sim_two = ex_sim\<lparr>s_Templates := [ex_template ''ATemplate'' ''a'', ex_template ''BTemplate'' ''b'']\<rparr>"

subsection \<open>Clients with constant answers\<close>

definition held_client :: "sim client" where
  "held_client = sim_client\<lparr>c_Now := (\<lambda>w. (hour, w)), c_GetNode := (\<lambda>n w. (Inr (ex_node n ConditionFalse), w)),
     c_GetLease := (\<lambda>n w. (Inr \<lparr>l_HolderIdentity = Some ''other'', l_LeaseDurationSeconds = Some 60, l_AcquireTime = Some hour,
       l_RenewTime = Some hour, l_LeaseTransitions = None\<rparr>, w))\<rparr>"

definition listing_client :: "sim client" where
  "listing_client = held_client\<lparr>c_List := (\<lambda>g w. (Inr [ex_cr ''R'' ''t''], w))\<rparr>"

subsection \<open>Machine health checks\<close>

definition ex_machine :: "string \<Rightarrow> string option \<Rightarrow> Machine" where
  "ex_machine name node =
     \<lparr>m_Name = name, m_Namespace = ''mns'', m_UID = name, m_APIVersion = ''machine.openshift.io/v1beta1'', m_Kind = ''Machine'',
      m_Labels = None, m_DeletionTimestamp = None, m_Phase = Some ''Running'', m_NodeRef = node, m_LastUpdated = Some 0\<rparr>"

definition ex_mhc :: MachineHealthCheck where
  "ex_mhc =
     \<lparr>mhc_Name = ''mhc'', mhc_Namespace = ''mns'', mhc_UID = ''mu'', mhc_APIVersion = ''machine.openshift.io/v1beta1'',
      mhc_Kind = ''MachineHealthCheck'', mhc_Annotations = None,
      mhc_Selector = \<lparr>ls_MatchLabels = [], ls_MatchExpressions = []\<rparr>,
      mhc_UnhealthyConditions = [\<lparr>uc_Type = NodeReady, uc_Status = ConditionFalse, uc_Duration = minute\<rparr>],
      mhc_MaxUnhealthy = Some (StrVal ''40%''), mhc_NodeStartupTimeout = None,
      mhc_RemediationTemplate = Some (ex_ref ''RTemplate'' ''t''), mhc_ExpectedMachines = None, mhc_CurrentHealthy = None,
      mhc_RemediationsAllowed = 0, mhc_Conditions = []\<rparr>"

definition ex_sim_mhc :: sim where
  "ex_sim_mhc = ex_sim\<lparr>s_MHCs := [ex_mhc],
     s_Machines := [ex_machine ''m1'' (Some ''n1''), ex_machine ''m2'' (Some ''n2''), ex_machine ''m3'' (Some ''n3'')]\<rparr>"

definition ex_target :: "string \<Rightarrow> Node option \<Rightarrow> Target" where
  "ex_target name node = \<lparr>tg_Machine = ex_machine name (map_option n_Name node), tg_Node = node, tg_MHC = ex_mhc\<rparr>"

definition ex_targets :: "Target list" where
  "ex_targets = [ex_target ''m1'' (Some (ex_node ''n1'' ConditionTrue)), ex_target ''m2'' (Some (ex_node ''n2'' ConditionFalse)),
     ex_target ''m3'' (Some (ex_node ''n3'' ConditionTrue))]"

definition ex_mhc_rm :: "sim Manager" where
  "ex_mhc_rm = as_Manager (NewManager sim_client None True (nhcLeaseManager sim_client ''MachineHealthCheck-mhc''))"

definition ex_fga :: "bool \<Rightarrow> accessor" where
  "ex_fga b = \<lparr>isMaoMhcDisabled = b, registry = nhcCollectors @ (if b then mhcCollectors else [])\<rparr>"

subsection \<open>The webhook\<close>

definition ex_validator :: "sim customValidator" where
  "ex_validator = \<lparr>v_Client = sim_client, v_caps = ex_caps\<rparr>"

subsection \<open>Starting\<close>

definition ex_setup :: "unit setup_client" where
  "ex_setup =
     \<lparr>i_Env = [''DEPLOYMENT_NAMESPACE'' \<mapsto> ''ns'', ''POD_NAME'' \<mapsto> ''pod''],
      i_GetRole = (\<lambda>n w. (Inl (NotFound n), w)), i_CreateRole = (\<lambda>r w. (None, w)), i_UpdateRole = (\<lambda>r w. (None, w)),
      i_GetRoleBinding = (\<lambda>n w. (Inl (NotFound n), w)), i_CreateRoleBinding = (\<lambda>r w. (None, w)), i_UpdateRoleBinding = (\<lambda>r w. (None, w)),
      i_GetPod = (\<lambda>ns n w. (Inl (NotFound n), w)), i_GetReplicaSet = (\<lambda>ns n w. (Inl (NotFound n), w)),
      i_GetDeployment = (\<lambda>ns n w. (Inl (NotFound n), w)),
      i_GetPlugin = (\<lambda>n w. (Inl (NotFound n), w)), i_CreatePlugin = (\<lambda>r w. (None, w)), i_UpdatePlugin = (\<lambda>r w. (None, w)),
      i_GetNamespace = (\<lambda>n w. (Inr \<lparr>ns_Name = n, ns_Labels = None\<rparr>, w)), i_PatchNamespace = (\<lambda>old new w. (None, w)),
      i_GetMonitor = (\<lambda>u w. (Inl (NotFound ''monitor''), w)), i_CreateMonitor = (\<lambda>r w. (None, w)), i_UpdateMonitor = (\<lambda>r w. (None, w))\<rparr>"

subsection \<open>Events\<close>

text \<open>A server with the same health checks and the same node at every call, and selectors of labels.\<close>

definition fixed_client :: "NodeHealthCheck list \<Rightarrow> Node \<Rightarrow> sim client" where
  "fixed_client nhcs node = sim_client\<lparr>c_ListNHC := (\<lambda>w. (Inr nhcs, w)), c_GetNode := (\<lambda>n w. (Inr node, w)),
     c_Matches := (\<lambda>sel ls. list_all (\<lambda>(k, v). lookup2 ls k = Some v) (ls_MatchLabels sel))\<rparr>"

definition ex_labelled :: "string \<Rightarrow> Node" where
  "ex_labelled v = (ex_node ''n2'' ConditionTrue)\<lparr>n_Labels := Some [''app'' \<mapsto> v]\<rparr>"

definition ex_other :: NodeHealthCheck where
  "ex_other = map_spec (\<lambda>sp. sp\<lparr>Selector := \<lparr>ls_MatchLabels = [(''app'', ''y'')], ls_MatchExpressions = []\<rparr>\<rparr>) (ex_nhc\<lparr>nhc_Name := ''other''\<rparr>)"

subsection \<open>The process\<close>

definition ex_platform :: "(unit, unit) platform" where
  "ex_platform =
     \<lparr>p_Stat = (\<lambda>f w. (None, w)), p_NewSetupClient = (\<lambda>w. (None, w)), p_FetchTLSProfile = (\<lambda>w. (Inr (), w)),
      p_TLSConfigFromProfile = (\<lambda>prof c. c\<lparr>MinVersion := 771\<rparr>), p_NewKubeClient = (\<lambda>w. (None, w)),
      p_NewDynamicCA = (\<lambda>w. (None, w)), p_NewManager = (\<lambda>opts w. (None, w)),
      p_ServerGroups = (\<lambda>w. (Inr [[''config.openshift.io/v1''], [''machine.openshift.io/v1'']], w)),
      p_GetInfrastructure = (\<lambda>w. (Inr ''HighlyAvailable'', w)), p_NewClusterVersionClient = (\<lambda>w. (None, w)),
      p_Register = (\<lambda>eff w. (None, w))\<rparr>"

definition ex_main :: "(unit, main_effect) st" where
  "ex_main = \<lparr>world = (), trace = []\<rparr>"

subsection \<open>Leases\<close>

definition sim_lease :: "string \<Rightarrow> sim \<Rightarrow> Lease option" where
  "sim_lease n w = map_of (s_Leases w) (generateLeaseName n)"

subsection \<open>Nodes without remediation\<close>

definition fresh :: "string set \<Rightarrow> sim \<Rightarrow> bool" where
  "fresh ns w \<longleftrightarrow>
     ns \<subseteq> n_Name ` set (s_Nodes ex_sim) \<and> s_Nodes w = s_Nodes ex_sim \<and> s_Templates w = [ex_template ''RTemplate'' ''t''] \<and>
     hour \<le> s_Time w \<and> (\<forall>n\<in>ns. map_of (s_Leases w) (generateLeaseName n) = None) \<and>
     (\<forall>x\<in>set (s_CRs w). settled ex_nhc (s_Nodes ex_sim) (ex_template ''RTemplate'' ''t'') ns x)"

text \<open>The CR of the node \<open>n2\<close>, as long as it is there.\<close>

definition present :: "Unstructured set \<Rightarrow> sim \<Rightarrow> bool" where
  "present crs w \<longleftrightarrow>
     crs \<subseteq> {ex_cr ''R'' ''t''} \<and> s_CRs w = (if crs = {} then [] else [ex_cr ''R'' ''t'']) \<and>
     s_Templates w = [ex_template ''RTemplate'' ''t''] \<and> s_Nodes w = s_Nodes ex_sim"

section \<open>Lemmas\<close>

lemma map_of_filter_fst: "map_of (filter (\<lambda>x. fst x \<noteq> k) xs) k = None"
  by (induction xs) auto

lemma sim_lease_server: "lease_server sim_client n (sim_lease n) s_Time"
  unfolding lease_server_def sim_lease_def
  by (auto simp: sim_client_def found_def map_of_filter_fst find_Some_iff split: option.splits)

lemma ex_main_run:
  "StartManager \<in> set (effects_of (main ex_platform '':8443'' '':8081'' True False) ex_main)"
  "\<exists>options. NewManagerWith options \<in> set (effects_of (main ex_platform '':8443'' '':8081'' True False) ex_main)"
  by (simp_all add: effects_of_def main_def serverTLSOpts_def metricsServer_def ConfigureMTLS_def newManager_def getWebhookServer_def
      clusterCapabilities_def upgradeChecker_def newOpenshiftClusterUpgradeChecker_def startManager_def registrations_def run_orExit run_register
      NewCapabilities_def supportedTopologies_def ex_platform_def ex_main_def Let_def)

lemma ex_nodes: "s_Nodes ex_sim = [ex_node ''n1'' ConditionTrue, ex_node ''n2'' ConditionFalse, ex_node ''n3'' ConditionTrue]"
  "n_Name ` set (s_Nodes ex_sim) = {''n1'', ''n2'', ''n3''}"
  by (auto simp: ex_sim_def ex_node_def)

lemma ex_leases_inj: "inj_on generateLeaseName (n_Name ` set (s_Nodes ex_sim))"
proof -
  have "generateLeaseName ''n1'' = ''node-n1''" "generateLeaseName ''n2'' = ''node-n2''" "generateLeaseName ''n3'' = ''node-n3''"
    by code_simp+
  then show ?thesis unfolding ex_nodes(2) by (simp add: inj_on_def)
qed

lemma set_update_first: "set (update_first P f xs) \<subseteq> set xs \<union> f ` set xs"
  by (induction xs) auto

lemma settled_mono: "settled nhc nodes t ns x \<Longrightarrow> settled nhc nodes t (ns - {n}) x"
  by (auto simp: settled_def)

lemma settled_new:
  assumes "u_Annotations x = crAnnotations n (u_Name t)" and "n \<in> n_Name ` set nodes"
  shows "settled nhc nodes t (ns - {n}) x"
  using assms by (auto simp: settled_def isMatchNodeTemplate_def crAnnotations_def lookup1_def GetNodeNameFromCR_def
      NodeNameAnnotation_def TemplateNameAnnotation_def)

lemma sim_serving:
  "serving sim_client ex_nhc (s_Nodes ex_sim) (ex_ref ''RTemplate'' ''t'') (ex_template ''RTemplate'' ''t'') hour fresh"
  unfolding serving_def
proof (intro conjI allI impI ballI)
  show "validTemplate (ex_template ''RTemplate'' ''t'')" by code_simp
next
  fix ns w assume fresh: "fresh ns w"
  let ?t = "ex_template ''RTemplate'' ''t''" and ?ref = "ex_ref ''RTemplate'' ''t''"
  note sim = sim_client_def answers_def found_def fresh_def
  have gen: "u_Kind (GenerateTemplate ?ref) = u_Kind ?t" "u_Namespace (GenerateTemplate ?ref) = u_Namespace ?t"
      "u_Name (GenerateTemplate ?ref) = u_Name ?t"
    by code_simp+
  show "ns \<subseteq> n_Name ` set (s_Nodes ex_sim)" using fresh by (simp add: fresh_def)
  show "answers (c_Now sim_client) (\<lambda>now w'. fresh ns w' \<and> hour \<le> now) w" using fresh by (simp add: sim)
  show "answers (c_IsObjectNamespaced sim_client (GenerateTemplate ?ref))
      (\<lambda>r w'. fresh ns w' \<and> (r = Inr False \<or> r = Inr True \<and> or_Namespace ?ref \<noteq> '''')) w"
    using fresh by (simp add: sim_client_def answers_def ex_ref_def)
  show "answers (c_Get sim_client (GenerateTemplate ?ref)) (\<lambda>r w'. fresh ns w' \<and> r = Inr ?t) w"
    using fresh gen by (simp add: sim sim_get_def)
  show "answers (c_List sim_client g) (\<lambda>r w'. fresh ns w' \<and>
      (\<exists>items. r = Inr items \<and> list_all (settled ex_nhc (s_Nodes ex_sim) ?t ns) items)) w" for g
    using fresh by (simp add: sim list_all_iff)
  show "answers (c_GetNode sim_client n) (\<lambda>r w'. fresh ns w' \<and> (\<exists>node. r = Inr node \<and> unconfirmed n node)) w" if "n \<in> ns" for n
  proof -
    have "n \<in> {''n1'', ''n2'', ''n3''}" using fresh that ex_nodes(2) by (auto simp: fresh_def)
    with fresh show ?thesis by (auto simp: sim ex_nodes(1) ex_node_def unconfirmed_def)
  qed
  show "answers (c_GetLease sim_client (generateLeaseName n)) (\<lambda>r w'. fresh ns w' \<and> (\<exists>msg. r = Inl (NotFound msg))) w" if "n \<in> ns" for n
    using fresh that by (simp add: sim)
  show "answers (c_CreateLease sim_client (generateLeaseName n) l) (\<lambda>r w'. fresh (ns - {n}) w' \<and> r = None) w" if "n \<in> ns" for n l
    using fresh that inj_onD[OF ex_leases_inj] by (auto simp: sim settled_mono subset_iff)
  show "answers (c_Create sim_client cr) (\<lambda>r w'. fresh (ns - {n}) w' \<and> (\<exists>x. r = Inr x)) w"
    if "n \<in> n_Name ` set (s_Nodes ex_sim) \<and> u_Annotations cr = crAnnotations n (u_Name ?t)" for n cr
    using fresh that by (auto simp: sim sim_create_def Let_def settled_mono intro!: settled_new)
  show "answers (c_Update sim_client cr) (\<lambda>_. fresh ns) w" if "settled ex_nhc (s_Nodes ex_sim) ?t ns cr" for cr
    using fresh that set_update_first[of "\<lambda>x. u_Kind x = u_Kind cr \<and> u_Name x = u_Name cr" "\<lambda>_. cr" "s_CRs w"]
    by (auto simp: sim dest!: subsetD)
  show "answers (c_ListNodes sim_client (Selector (nhc_Spec ex_nhc))) (\<lambda>r w'. fresh ns w' \<and> r = Inr (s_Nodes ex_sim)) w"
    using fresh by (simp add: sim)
  show "answers (c_Watch sim_client key) (\<lambda>r w'. fresh ns w' \<and> r = None) w" for key using fresh by (simp add: sim)
  show "answers (c_GetNamespace sim_client leaseNs) (\<lambda>r w'. fresh ns w' \<and> r = None) w" for leaseNs using fresh by (simp add: sim)
qed

lemma sim_holding:
  "holding sim_client (u_GVK (GenerateRemediationCRBase (or_GVK (ex_ref ''RTemplate'' ''t'')))) [ex_cr ''R'' ''t''] ''n2'' present"
  unfolding holding_def
proof (intro conjI allI impI ballI)
  fix crs w assume present: "present crs w"
  let ?x = "ex_cr ''R'' ''t''" and ?g = "u_GVK (GenerateRemediationCRBase (or_GVK (ex_ref ''RTemplate'' ''t'')))"
  note sim = sim_client_def answers_def found_def present_def
  have gvk: "u_GVK ?x = ?g" by code_simp
  have kind: "u_Kind (ex_template ''RTemplate'' ''t'') \<noteq> u_Kind ?x" by code_simp
  show "answers (c_List sim_client ?g) (\<lambda>r w'. present crs w' \<and> (crs = set [?x] \<longrightarrow> r = Inr [?x])) w"
    using present gvk by (auto simp: sim)
  show "answers (c_GetNode sim_client ''n2'') (\<lambda>r w'. present crs w' \<and> (\<exists>node. r = Inr node \<and> unconfirmed ''n2'' node)) w"
    using present by (simp add: sim ex_nodes(1) ex_node_def unconfirmed_def)
  show "answers (c_Get sim_client x) (\<lambda>r w'. present crs w' \<and> r = Inr x) w" if "x \<in> crs" for x
    using present that kind by (auto simp: sim sim_get_def)
  show "answers (c_Delete sim_client x) (\<lambda>r w'. present (crs - {x}) w' \<and> r = None) w" if "x \<in> crs" for x
    using present that by (auto simp: sim)
qed simp

end
